(* ===== verification/TG_Prelude.thy ===== *)
theory TG_Prelude
  imports Main "HOL-Library.AList" "HOL-Library.List_Lexorder" "HOL-Library.Char_ord"
begin

text \<open>
  Shared vocabulary of the development: thrown values, the computations of an async
  function (a state transformer that returns or throws), Hoare triples over them, the
  \<open>for ... of\<close> loop, and the JavaScript \<open>Map\<close> with its insertion order.
\<close>

section \<open>Thrown values\<close>

text \<open>
  The error classes the services declare, \<open>Error\<close> itself, the \<open>AbortError\<close> of
  \<open>fetch\<close>, and a thrown value that is no \<open>Error\<close> (given by its \<open>String(...)\<close>).
\<close>

datatype exn =
    JsError string
  | NonError string
  | AbortError string
  | TaskNotFoundError string
  | TaskNotOpenError string
  | NoBidsError string
  | ExecutorNotAllowedError string
  | InsufficientBalanceError string
  | ChargeNetworkError string
  | WebhookHttpError string int string "int option"

text \<open>\<open>(err as Error).message\<close>, which is undefined for a value that is no \<open>Error\<close>.\<close>

fun err_message :: "exn \<Rightarrow> string option" where
  "err_message (JsError m) = Some m"
| "err_message (NonError s) = None"
| "err_message (AbortError m) = Some m"
| "err_message (TaskNotFoundError m) = Some m"
| "err_message (TaskNotOpenError m) = Some m"
| "err_message (NoBidsError m) = Some m"
| "err_message (ExecutorNotAllowedError m) = Some m"
| "err_message (InsufficientBalanceError m) = Some m"
| "err_message (ChargeNetworkError m) = Some m"
| "err_message (WebhookHttpError m st body ra) = Some m"

text \<open>\<open>err instanceof Error ? err.message : String(err)\<close>.\<close>

definition err_text :: "exn \<Rightarrow> string" where
  "err_text e = (case e of NonError s \<Rightarrow> s | _ \<Rightarrow> the (err_message e))"

section \<open>Computations\<close>

text \<open>
  The body of an async function over a world \<open>'w\<close>: it changes the world and then
  either returns a value (\<open>Inr\<close>) or throws (\<open>Inl\<close>). A throw keeps the effects
  made before it.
\<close>

type_synonym ('w, 'a) prog = "'w \<Rightarrow> (exn + 'a) \<times> 'w"

named_theorems prog_defs "definitions of the computation combinators"

definition ret :: "'a \<Rightarrow> ('w, 'a) prog" where
  [prog_defs]: "ret x = (\<lambda>w. (Inr x, w))"

definition throw :: "exn \<Rightarrow> ('w, 'a) prog" where
  [prog_defs]: "throw e = (\<lambda>w. (Inl e, w))"

definition bindE :: "('w, 'a) prog \<Rightarrow> ('a \<Rightarrow> ('w, 'b) prog) \<Rightarrow> ('w, 'b) prog" where
  [prog_defs]: "bindE m f = (\<lambda>w. case m w of
      (Inl e, w') \<Rightarrow> (Inl e, w')
    | (Inr x, w') \<Rightarrow> f x w')"

definition catchE :: "('w, 'a) prog \<Rightarrow> (exn \<Rightarrow> ('w, 'a) prog) \<Rightarrow> ('w, 'a) prog" where
  [prog_defs]: "catchE m h = (\<lambda>w. case m w of
      (Inl e, w') \<Rightarrow> h e w'
    | (Inr x, w') \<Rightarrow> (Inr x, w'))"

text \<open>\<open>try { x = await m } catch (err) { h } ... f x\<close>, where \<open>h\<close> leaves the function.\<close>

definition tryE ::
  "('w, 'a) prog \<Rightarrow> ('a \<Rightarrow> ('w, 'b) prog) \<Rightarrow> (exn \<Rightarrow> ('w, 'b) prog) \<Rightarrow> ('w, 'b) prog" where
  [prog_defs]: "tryE m f h = (\<lambda>w. case m w of
      (Inl e, w') \<Rightarrow> h e w'
    | (Inr x, w') \<Rightarrow> f x w')"

definition getsE :: "('w \<Rightarrow> 'a) \<Rightarrow> ('w, 'a) prog" where
  [prog_defs]: "getsE g = (\<lambda>w. (Inr (g w), w))"

definition modifyE :: "('w \<Rightarrow> 'w) \<Rightarrow> ('w, unit) prog" where
  [prog_defs]: "modifyE g = (\<lambda>w. (Inr (), g w))"

text \<open>A value computed without effects that may throw.\<close>

definition liftE :: "exn + 'a \<Rightarrow> ('w, 'a) prog" where
  [prog_defs]: "liftE r = (\<lambda>w. (r, w))"

text \<open>\<open>for (const x of xs) { await body(x) }\<close>: the first throw leaves the loop.\<close>

fun forE :: "'a list \<Rightarrow> ('a \<Rightarrow> ('w, unit) prog) \<Rightarrow> ('w, unit) prog" where
  "forE [] body = ret ()"
| "forE (x # xs) body = bindE (body x) (\<lambda>_. forE xs body)"

text \<open>The same loop with a local variable that the body may change.\<close>

fun foldE :: "'a list \<Rightarrow> 'b \<Rightarrow> ('a \<Rightarrow> 'b \<Rightarrow> ('w, 'b) prog) \<Rightarrow> ('w, 'b) prog" where
  "foldE [] acc body = ret acc"
| "foldE (x # xs) acc body = bindE (body x acc) (\<lambda>acc'. foldE xs acc' body)"

lemma ret_apply: "ret x w = (Inr x, w)"
  by (simp add: ret_def)

lemma throw_apply: "throw e w = (Inl e, w)"
  by (simp add: throw_def)

lemma getsE_apply: "getsE g w = (Inr (g w), w)"
  by (simp add: getsE_def)

lemma modifyE_apply: "modifyE g w = (Inr (), g w)"
  by (simp add: modifyE_def)

lemma liftE_apply: "liftE r w = (r, w)"
  by (simp add: liftE_def)

lemma bindE_apply: "bindE m f w =
    (case m w of (Inl e, w') \<Rightarrow> (Inl e, w') | (Inr x, w') \<Rightarrow> f x w')"
  by (simp add: bindE_def)

lemma tryE_apply: "tryE m f h w =
    (case m w of (Inl e, w') \<Rightarrow> h e w' | (Inr x, w') \<Rightarrow> f x w')"
  by (simp add: tryE_def)

lemma catchE_apply: "catchE m h w =
    (case m w of (Inl e, w') \<Rightarrow> h e w' | (Inr x, w') \<Rightarrow> (Inr x, w'))"
  by (simp add: catchE_def)

text \<open>Evaluation of a computation on a world.\<close>

lemmas prog_apply = bindE_apply tryE_apply catchE_apply
lemmas prog_run = ret_apply throw_apply getsE_apply modifyE_apply liftE_apply prog_apply

lemma bindE_assoc: "bindE (bindE m f) g = bindE m (\<lambda>x. bindE (f x) g)"
  by (auto simp: bindE_def fun_eq_iff split: prod.splits sum.splits)

lemma bindE_ret [simp]: "bindE (ret x) f = f x"
  by (simp add: bindE_def ret_def fun_eq_iff)

lemma bindE_throw [simp]: "bindE (throw e) f = throw e"
  by (simp add: bindE_def throw_def fun_eq_iff)

lemma forE_append:
  "forE (xs @ ys) body = bindE (forE xs body) (\<lambda>_. forE ys body)"
  by (induction xs) (simp_all add: bindE_assoc)

section \<open>Hoare triples\<close>

text \<open>
  \<open>hoare P m Q E\<close>: from a world with \<open>P\<close>, \<open>m\<close> either returns \<open>x\<close> with \<open>Q x\<close> or
  throws \<open>e\<close> with \<open>E e\<close>. There is no third outcome, so a triple is total correctness.
\<close>

definition hoare ::
  "('w \<Rightarrow> bool) \<Rightarrow> ('w, 'a) prog \<Rightarrow> ('a \<Rightarrow> 'w \<Rightarrow> bool) \<Rightarrow> (exn \<Rightarrow> 'w \<Rightarrow> bool) \<Rightarrow> bool" where
  "hoare P m Q E \<longleftrightarrow>
     (\<forall>w r w'. P w \<longrightarrow> m w = (r, w') \<longrightarrow> (case r of Inr x \<Rightarrow> Q x w' | Inl e \<Rightarrow> E e w'))"

named_theorems hoare_rules "compositional rules for Hoare triples"

lemma hoareI:
  assumes "\<And>w x w'. P w \<Longrightarrow> m w = (Inr x, w') \<Longrightarrow> Q x w'"
    and "\<And>w e w'. P w \<Longrightarrow> m w = (Inl e, w') \<Longrightarrow> E e w'"
  shows "hoare P m Q E"
  using assms by (auto simp: hoare_def split: sum.splits)

lemma hoareD_Inr: "hoare P m Q E \<Longrightarrow> P w \<Longrightarrow> m w = (Inr x, w') \<Longrightarrow> Q x w'"
  by (fastforce simp: hoare_def)

lemma hoareD_Inl: "hoare P m Q E \<Longrightarrow> P w \<Longrightarrow> m w = (Inl e, w') \<Longrightarrow> E e w'"
  by (fastforce simp: hoare_def)

lemma hoare_weaken:
  assumes "hoare P m Q E"
    and "\<And>w. P' w \<Longrightarrow> P w" and "\<And>x w. Q x w \<Longrightarrow> Q' x w" and "\<And>e w. E e w \<Longrightarrow> E' e w"
  shows "hoare P' m Q' E'"
  using assms by (fastforce simp: hoare_def split: sum.splits)

lemma hoare_ret [hoare_rules]: "(\<And>w. P w \<Longrightarrow> Q x w) \<Longrightarrow> hoare P (ret x) Q E"
  by (simp add: hoare_def ret_def)

lemma hoare_throw [hoare_rules]: "(\<And>w. P w \<Longrightarrow> E e w) \<Longrightarrow> hoare P (throw e) Q E"
  by (simp add: hoare_def throw_def)

lemma hoare_gets [hoare_rules]: "(\<And>w. P w \<Longrightarrow> Q (g w) w) \<Longrightarrow> hoare P (getsE g) Q E"
  by (simp add: hoare_def getsE_def)

lemma hoare_modify [hoare_rules]: "(\<And>w. P w \<Longrightarrow> Q () (g w)) \<Longrightarrow> hoare P (modifyE g) Q E"
  by (simp add: hoare_def modifyE_def)

lemma hoare_bind [hoare_rules]:
  assumes "hoare P m R E" and "\<And>x. hoare (R x) (f x) Q E"
  shows "hoare P (bindE m f) Q E"
  by (rule hoareI)
    (auto simp: bindE_apply split: prod.splits sum.splits
      dest: hoareD_Inr [OF assms(1)] hoareD_Inl [OF assms(1)]
        hoareD_Inr [OF assms(2)] hoareD_Inl [OF assms(2)])

text \<open>The rule for a call with a triple of its own.\<close>

lemma hoare_seq:
  assumes "hoare P m R E'" and "\<And>x. hoare (R x) (f x) Q E" and "\<And>e w. E' e w \<Longrightarrow> E e w"
  shows "hoare P (bindE m f) Q E"
  by (rule hoare_bind [OF _ assms(2)]) (rule hoare_weaken [OF assms(1)]; simp add: assms(3))

lemma hoare_try [hoare_rules]:
  assumes "hoare P m R E'" and "\<And>x. hoare (R x) (f x) Q E" and "\<And>e. hoare (E' e) (h e) Q E"
  shows "hoare P (tryE m f h) Q E"
  by (rule hoareI)
    (auto simp: tryE_apply split: prod.splits sum.splits
      dest: hoareD_Inr [OF assms(1)] hoareD_Inl [OF assms(1)]
        hoareD_Inr [OF assms(2)] hoareD_Inl [OF assms(2)]
        hoareD_Inr [OF assms(3)] hoareD_Inl [OF assms(3)])

lemma hoare_catch [hoare_rules]:
  assumes "hoare P m Q E'" and "\<And>e. hoare (E' e) (h e) Q E"
  shows "hoare P (catchE m h) Q E"
  by (rule hoareI)
    (auto simp: catchE_apply split: prod.splits sum.splits
      dest: hoareD_Inr [OF assms(1)] hoareD_Inl [OF assms(1)]
        hoareD_Inr [OF assms(2)] hoareD_Inl [OF assms(2)])

lemma hoare_if [hoare_rules]:
  assumes "b \<Longrightarrow> hoare P m Q E" and "\<not> b \<Longrightarrow> hoare P m' Q E"
  shows "hoare P (if b then m else m') Q E"
  using assms by simp

lemma hoare_case_option [hoare_rules]:
  assumes "x = None \<Longrightarrow> hoare P m Q E" and "\<And>y. x = Some y \<Longrightarrow> hoare P (f y) Q E"
  shows "hoare P (case x of None \<Rightarrow> m | Some y \<Rightarrow> f y) Q E"
  using assms by (cases x) simp_all

lemma hoare_case_list [hoare_rules]:
  assumes "xs = [] \<Longrightarrow> hoare P m Q E" and "\<And>y ys. xs = y # ys \<Longrightarrow> hoare P (f y ys) Q E"
  shows "hoare P (case xs of [] \<Rightarrow> m | y # ys \<Rightarrow> f y ys) Q E"
  using assms by (cases xs) simp_all

lemma hoare_for:
  assumes "\<And>x. x \<in> set xs \<Longrightarrow> hoare I (body x) (\<lambda>_. I) (\<lambda>_. I)"
  shows "hoare I (forE xs body) (\<lambda>_. I) (\<lambda>_. I)"
  using assms
proof (induction xs)
  case Nil
  show ?case by (simp add: hoare_ret)
next
  case (Cons x xs)
  then have "hoare I (body x) (\<lambda>_. I) (\<lambda>_. I)" and "hoare I (forE xs body) (\<lambda>_. I) (\<lambda>_. I)"
    by simp_all
  then show ?case by (simp add: hoare_bind)
qed

lemma hoare_fold:
  assumes "\<And>x acc. x \<in> set xs \<Longrightarrow> hoare (I acc) (body x acc) I (\<lambda>_. J)"
    and "\<And>acc w. I acc w \<Longrightarrow> J w"
  shows "hoare (I acc) (foldE xs acc body) I (\<lambda>_. J)"
  using assms(1)
proof (induction xs arbitrary: acc)
  case Nil
  show ?case by (simp add: hoare_ret)
next
  case (Cons x xs)
  have "hoare (I acc) (body x acc) I (\<lambda>_. J)" using Cons.prems by simp
  moreover have "\<And>acc'. hoare (I acc') (foldE xs acc' body) I (\<lambda>_. J)"
    using Cons by simp
  ultimately show ?case by (auto intro: hoare_bind)
qed

subsection \<open>Operations that move the world along a relation\<close>

text \<open>
  \<open>evolves R m\<close>: whatever \<open>m\<close> does, the world it leaves is \<open>R\<close>-related to the one it
  was given. For a preorder \<open>R\<close> this composes over every combinator.
\<close>

definition evolves :: "('w \<Rightarrow> 'w \<Rightarrow> bool) \<Rightarrow> ('w, 'a) prog \<Rightarrow> bool" where
  "evolves R m \<longleftrightarrow> (\<forall>w. R w (snd (m w)))"

lemma evolvesI: "(\<And>w r w'. m w = (r, w') \<Longrightarrow> R w w') \<Longrightarrow> evolves R m"
  by (simp add: evolves_def) (metis prod.collapse)

lemma evolvesD: "evolves R m \<Longrightarrow> m w = (r, w') \<Longrightarrow> R w w'"
  by (metis evolves_def snd_conv)

lemma evolves_hoare:
  "evolves R m \<longleftrightarrow> (\<forall>w0. hoare (\<lambda>w. w = w0) m (\<lambda>_. R w0) (\<lambda>_. R w0))"
proof
  assume "evolves R m"
  then show "\<forall>w0. hoare (\<lambda>w. w = w0) m (\<lambda>_. R w0) (\<lambda>_. R w0)"
    by (auto intro!: hoareI dest: evolvesD)
next
  assume h: "\<forall>w0. hoare (\<lambda>w. w = w0) m (\<lambda>_. R w0) (\<lambda>_. R w0)"
  show "evolves R m"
  proof (rule evolvesI)
    fix w r w' assume "m w = (r, w')"
    moreover have "hoare (\<lambda>v. v = w) m (\<lambda>_. R w) (\<lambda>_. R w)" using h by blast
    ultimately show "R w w'"
      by (cases r) (auto dest: hoareD_Inr hoareD_Inl)
  qed
qed

locale world_order =
  fixes R :: "'w \<Rightarrow> 'w \<Rightarrow> bool"
  assumes refl: "R w w"
    and trans: "R w1 w2 \<Longrightarrow> R w2 w3 \<Longrightarrow> R w1 w3"
begin

lemma evolves_ret: "evolves R (ret x)"
  by (simp add: evolves_def refl ret_def)

lemma evolves_throw: "evolves R (throw e)"
  by (simp add: evolves_def refl throw_def)

lemma evolves_gets: "evolves R (getsE g)"
  by (simp add: evolves_def refl getsE_def)

lemma evolves_lift: "evolves R (liftE r)"
  by (simp add: evolves_def refl liftE_def)

lemma evolves_bind:
  assumes "evolves R m" and "\<And>x. evolves R (f x)"
  shows "evolves R (bindE m f)"
proof (rule evolvesI)
  fix w r w' assume run: "bindE m f w = (r, w')"
  obtain r1 w1 where m: "m w = (r1, w1)" by fastforce
  have "R w w1" using assms(1) m by (rule evolvesD)
  moreover have "R w1 w'" using run m assms(2-)
    by (cases r1) (auto simp: bindE_apply refl dest: evolvesD)
  ultimately show "R w w'" by (rule trans)
qed

lemma evolves_try:
  assumes "evolves R m" and "\<And>x. evolves R (f x)" and "\<And>e. evolves R (h e)"
  shows "evolves R (tryE m f h)"
proof (rule evolvesI)
  fix w r w' assume run: "tryE m f h w = (r, w')"
  obtain r1 w1 where m: "m w = (r1, w1)" by fastforce
  have "R w w1" using assms(1) m by (rule evolvesD)
  moreover have "R w1 w'" using run m assms(2-)
    by (cases r1) (auto simp: tryE_apply refl dest: evolvesD)
  ultimately show "R w w'" by (rule trans)
qed

lemma evolves_catch:
  assumes "evolves R m" and "\<And>e. evolves R (h e)"
  shows "evolves R (catchE m h)"
proof (rule evolvesI)
  fix w r w' assume run: "catchE m h w = (r, w')"
  obtain r1 w1 where m: "m w = (r1, w1)" by fastforce
  have "R w w1" using assms(1) m by (rule evolvesD)
  moreover have "R w1 w'" using run m assms(2-)
    by (cases r1) (auto simp: catchE_apply refl dest: evolvesD)
  ultimately show "R w w'" by (rule trans)
qed

lemma evolves_for:
  assumes "\<And>x. x \<in> set xs \<Longrightarrow> evolves R (body x)"
  shows "evolves R (forE xs body)"
  using assms by (induction xs) (auto intro: evolves_ret evolves_bind)

lemma evolves_fold:
  assumes "\<And>x acc. x \<in> set xs \<Longrightarrow> evolves R (body x acc)"
  shows "evolves R (foldE xs acc body)"
  using assms by (induction xs arbitrary: acc) (auto intro: evolves_ret evolves_bind)

lemma evolves_option:
  assumes "evolves R m" and "\<And>y. evolves R (f y)"
  shows "evolves R (case x of None \<Rightarrow> m | Some y \<Rightarrow> f y)"
  using assms by (cases x) simp_all

lemmas evolves_intros = evolves_ret evolves_throw evolves_gets evolves_lift evolves_bind
  evolves_try evolves_catch evolves_for evolves_fold evolves_option

end

subsection \<open>Operations that never throw\<close>

definition returns :: "('w, 'a) prog \<Rightarrow> bool" where
  "returns m \<longleftrightarrow> (\<forall>w. \<exists>x w'. m w = (Inr x, w'))"

lemma returnsD: "returns m \<Longrightarrow> \<exists>x w'. m w = (Inr x, w')"
  by (simp add: returns_def)

lemma returns_ret: "returns (ret x)"
  and returns_gets: "returns (getsE g)"
  and returns_modify: "returns (modifyE f)"
  by (simp_all add: returns_def ret_apply getsE_apply modifyE_apply)

lemma returns_bind: "returns m \<Longrightarrow> (\<And>x. returns (f x)) \<Longrightarrow> returns (bindE m f)"
  unfolding returns_def bindE_apply by (metis (no_types, lifting) case_prod_conv sum.case(2))

lemma returns_if: "(b \<Longrightarrow> returns m) \<Longrightarrow> (\<not> b \<Longrightarrow> returns m') \<Longrightarrow> returns (if b then m else m')"
  by simp

lemma returns_for: "(\<And>x. returns (body x)) \<Longrightarrow> returns (forE xs body)"
  by (induction xs) (auto intro: returns_ret returns_bind)

lemmas returns_intros = returns_ret returns_gets returns_modify returns_bind returns_if returns_for

section \<open>The JavaScript Map\<close>

text \<open>
  A \<open>Map\<close> iterates in insertion order, and setting a present key keeps its place:
  that is \<open>AList.update\<close> on the list of its entries.
\<close>

type_synonym ('k, 'v) jsmap = "('k \<times> 'v) list"

definition jsmap_set :: "'k \<Rightarrow> 'v \<Rightarrow> ('k, 'v) jsmap \<Rightarrow> ('k, 'v) jsmap" where
  "jsmap_set k v m = AList.update k v m"

definition jsmap_get :: "('k, 'v) jsmap \<Rightarrow> 'k \<Rightarrow> 'v option" where
  "jsmap_get m k = map_of m k"

definition jsmap_values :: "('k, 'v) jsmap \<Rightarrow> 'v list" where
  "jsmap_values m = map snd m"

text \<open>Every entry is stored under the key \<open>f\<close> gives it, and no key twice.\<close>

definition keyed :: "('v \<Rightarrow> 'k) \<Rightarrow> ('k, 'v) jsmap \<Rightarrow> bool" where
  "keyed f m \<longleftrightarrow> distinct (map fst m) \<and> (\<forall>(k, v) \<in> set m. f v = k)"

lemma jsmap_get_set [simp]:
  "jsmap_get (jsmap_set k v m) = (jsmap_get m)(k \<mapsto> v)"
  by (auto simp: jsmap_get_def jsmap_set_def AList.update_conv' fun_eq_iff)

lemma jsmap_get_Nil [simp]: "jsmap_get [] = Map.empty"
  by (simp add: jsmap_get_def fun_eq_iff)

lemma keyed_Nil [simp]: "keyed f []"
  by (simp add: keyed_def)

lemma set_AList_update:
  "distinct (map fst m) \<Longrightarrow>
   set (AList.update k v m) = insert (k, v) {e \<in> set m. fst e \<noteq> k}"
  by (induction m) (auto simp: image_iff)

lemma keyed_set [simp]: "keyed f m \<Longrightarrow> keyed f (jsmap_set (f v) v m)"
  unfolding keyed_def jsmap_set_def
  by (auto simp: set_AList_update AList.distinct_update)

lemma keyed_get: "keyed f m \<Longrightarrow> jsmap_get m k = Some v \<Longrightarrow> f v = k"
  by (auto simp: keyed_def jsmap_get_def dest: map_of_SomeD)

lemma jsmap_values_ran: "keyed f m \<Longrightarrow> set (jsmap_values m) = ran (jsmap_get m)"
  unfolding jsmap_values_def jsmap_get_def keyed_def
  by (metis list.set_map ran_distinct)

lemma keyed_values_distinct: "keyed f m \<Longrightarrow> distinct (map f (jsmap_values m))"
proof -
  assume k: "keyed f m"
  have "map f (map snd m) = map fst m"
    using k by (induction m) (auto simp: keyed_def)
  with k show ?thesis unfolding keyed_def jsmap_values_def by metis
qed

section \<open>Lists\<close>

lemma find_SomeD: "List.find p xs = Some x \<Longrightarrow> p x \<and> x \<in> set xs"
  by (auto simp: find_Some_iff)

lemma find_NoneD: "List.find p xs = None \<Longrightarrow> x \<in> set xs \<Longrightarrow> \<not> p x"
  by (auto simp: find_None_iff)

lemma find_NoneI: "(\<And>x. x \<in> set xs \<Longrightarrow> \<not> p x) \<Longrightarrow> List.find p xs = None"
  by (auto simp: find_None_iff)

end
