(* ===== verification/JsString.thy ===== *)
theory JsString
  imports TG_Prelude
begin

text \<open>
  The string operations the program uses, on strings as lists of code units. A \<open>char\<close>
  is a code unit below 256: strings with larger code units are not modelled.
\<close>

section \<open>Characters\<close>

definition is_digit :: "char \<Rightarrow> bool" where
  "is_digit c \<longleftrightarrow> CHR ''0'' \<le> c \<and> c \<le> CHR ''9''"

definition digit_val :: "char \<Rightarrow> nat" where
  "digit_val c = of_char c - 48"

definition digit_char :: "nat \<Rightarrow> char" where
  "digit_char d = char_of (48 + d)"

text \<open>The white space and line terminators of ECMAScript that are below 256.\<close>

definition js_space :: "char \<Rightarrow> bool" where
  "js_space c \<longleftrightarrow> of_char c \<in> {9, 10, 11, 12, 13, 32, 160::nat}"

lemma less_eq_char_nat: "(c \<le> d) = ((of_char c :: nat) \<le> of_char d)"
  by (simp add: less_eq_char_def)

lemma of_char_0 [simp]: "(of_char CHR ''0'' :: nat) = 48"
  by (simp add: of_char_Char)

lemma of_char_9 [simp]: "(of_char CHR ''9'' :: nat) = 57"
  by (simp add: of_char_Char)

lemma is_digit_iff: "is_digit c \<longleftrightarrow> (48::nat) \<le> of_char c \<and> (of_char c :: nat) \<le> 57"
  by (simp add: is_digit_def less_eq_char_nat)

lemma is_digit_digit_char [simp]: "d < 10 \<Longrightarrow> is_digit (digit_char d)"
  by (simp add: is_digit_iff digit_char_def)

lemma digit_val_char [simp]: "d < 10 \<Longrightarrow> digit_val (digit_char d) = d"
  by (simp add: digit_val_def digit_char_def)

lemma digit_char_val [simp]: "is_digit c \<Longrightarrow> digit_char (digit_val c) = c"
  by (simp add: is_digit_iff digit_val_def digit_char_def)

lemma digit_val_less [simp]: "is_digit c \<Longrightarrow> digit_val c < 10"
  by (auto simp: is_digit_iff digit_val_def)

lemma digit_char_0 [simp]: "digit_char 0 = CHR ''0''"
  using digit_char_val [of "CHR ''0''"] by (simp add: digit_val_def is_digit_def less_eq_char_nat)

lemma digit_val_0 [simp]: "digit_val CHR ''0'' = 0"
  by (simp add: digit_val_def)

lemma digit_val_eq_0: "is_digit c \<Longrightarrow> digit_val c = 0 \<longleftrightarrow> c = CHR ''0''"
  by (metis digit_char_0 digit_char_val digit_val_0)

lemma not_digit_dot [simp]: "\<not> is_digit CHR ''.''"
  by (simp add: is_digit_iff of_char_Char)

lemma not_space_digit [simp]: "is_digit c \<Longrightarrow> \<not> js_space c"
  by (auto simp: is_digit_iff js_space_def)

lemma not_space_dot [simp]: "\<not> js_space CHR ''.''"
  by (simp add: js_space_def of_char_Char)

section \<open>Operations on strings\<close>

definition js_trim :: "string \<Rightarrow> string" where
  "js_trim s = rev (dropWhile js_space (rev (dropWhile js_space s)))"

text \<open>\<open>s.split(c)\<close> for a one-character separator: always at least one part.\<close>

fun js_split :: "char \<Rightarrow> string \<Rightarrow> string list" where
  "js_split c [] = [[]]"
| "js_split c (x # xs) =
     (if x = c then [] # js_split c xs
      else (case js_split c xs of [] \<Rightarrow> [[x]] | p # ps \<Rightarrow> (x # p) # ps))"

definition js_padStart :: "nat \<Rightarrow> char \<Rightarrow> string \<Rightarrow> string" where
  "js_padStart n c s = replicate (n - length s) c @ s"

definition js_padEnd :: "nat \<Rightarrow> char \<Rightarrow> string \<Rightarrow> string" where
  "js_padEnd n c s = s @ replicate (n - length s) c"

text \<open>\<open>s.slice(0, -n)\<close> and \<open>s.slice(-n)\<close> for a positive \<open>n\<close>.\<close>

definition js_slice_front :: "nat \<Rightarrow> string \<Rightarrow> string" where
  "js_slice_front n s = take (length s - n) s"

definition js_slice_back :: "nat \<Rightarrow> string \<Rightarrow> string" where
  "js_slice_back n s = drop (length s - n) s"

text \<open>The numerals of \<open>BigInt(s)\<close> and \<open>n.toString()\<close>.\<close>

definition digits_value :: "string \<Rightarrow> nat" where
  "digits_value s = foldl (\<lambda>n c. 10 * n + digit_val c) 0 s"

fun nat_string :: "nat \<Rightarrow> string" where
  "nat_string n = (if n < 10 then [digit_char n] else nat_string (n div 10) @ [digit_char (n mod 10)])"

declare nat_string.simps [simp del]

definition int_string :: "int \<Rightarrow> string" where
  "int_string n = (if n < 0 then ''-'' @ nat_string (nat (- n)) else nat_string (nat n))"

subsection \<open>Trimming\<close>

lemma js_trim_id:
  "s = [] \<or> (\<not> js_space (hd s) \<and> \<not> js_space (last s)) \<Longrightarrow> js_trim s = s"
  using dropWhile_eq_self_iff [of js_space s] dropWhile_eq_self_iff [of js_space "rev s"]
  by (auto simp: js_trim_def hd_rev)

lemma js_trim_no_space: "(\<forall>c \<in> set s. \<not> js_space c) \<Longrightarrow> js_trim s = s"
  by (rule js_trim_id) (cases s, auto)

subsection \<open>Splitting\<close>

lemma js_split_absent [simp]: "c \<notin> set s \<Longrightarrow> js_split c s = [s]"
  by (induction s) auto

lemma js_split_first [simp]: "c \<notin> set s \<Longrightarrow> js_split c (s @ c # t) = s # js_split c t"
  by (induction s) auto

subsection \<open>Numerals\<close>

lemma digits_value_Nil [simp]: "digits_value [] = 0"
  by (simp add: digits_value_def)

lemma digits_value_snoc [simp]: "digits_value (s @ [c]) = 10 * digits_value s + digit_val c"
  by (simp add: digits_value_def)

lemma digits_value_append: "digits_value (s @ t) = digits_value s * 10 ^ length t + digits_value t"
proof (induction t rule: rev_induct)
  case Nil
  show ?case by simp
next
  case (snoc c t)
  have "digits_value (s @ t @ [c]) = 10 * digits_value (s @ t) + digit_val c"
    by (simp flip: append_assoc)
  then show ?case using snoc by (simp add: algebra_simps)
qed

lemma digits_value_singleton [simp]: "digits_value [c] = digit_val c"
  using digits_value_snoc [of "[]" c] by simp

lemma digits_value_Cons: "digits_value (c # t) = digit_val c * 10 ^ length t + digits_value t"
  using digits_value_append [of "[c]" t] by simp

lemma digits_value_zeros [simp]: "digits_value (replicate n CHR ''0'') = 0"
  by (induction n) (simp_all add: digits_value_Cons)

lemma digits_value_less: "list_all is_digit s \<Longrightarrow> digits_value s < 10 ^ length s"
proof (induction s rule: rev_induct)
  case Nil
  show ?case by simp
next
  case (snoc c s)
  then have "digits_value s < 10 ^ length s" and "digit_val c < 10" by simp_all
  then show ?case by simp
qed

lemma digits_value_dropZeros:
  "digits_value (dropWhile (\<lambda>c. c = CHR ''0'') s) = digits_value s"
  by (induction s) (auto simp: digits_value_Cons)

lemma nat_string_digits: "list_all is_digit (nat_string n)"
proof (induction n rule: nat_string.induct)
  case (1 n)
  then show ?case by (subst nat_string.simps) auto
qed

lemma nat_string_nonempty [simp]: "nat_string n \<noteq> []"
  by (subst nat_string.simps) simp

lemma digits_value_nat_string [simp]: "digits_value (nat_string n) = n"
proof (induction n rule: nat_string.induct)
  case (1 n)
  then show ?case by (subst nat_string.simps) (auto simp: digits_value_snoc)
qed

lemma nat_string_digit: "n \<in> set s \<Longrightarrow> s = nat_string m \<Longrightarrow> is_digit n"
  using nat_string_digits [of m] by (auto simp: list_all_iff)

text \<open>A numeral has no leading zero unless it is \<open>0\<close> itself.\<close>

lemma nat_string_hd: "hd (nat_string n) = CHR ''0'' \<longleftrightarrow> n = 0"
proof (induction n rule: nat_string.induct)
  case (1 n)
  show ?case
  proof (cases "n < 10")
    case True
    then show ?thesis
      by (subst nat_string.simps) (simp, metis digit_val_char digit_val_0 digit_char_0)
  next
    case False
    have "hd (nat_string n) = hd (nat_string (n div 10))"
      using False by (subst nat_string.simps) (simp add: hd_append)
    with False 1 show ?thesis by auto
  qed
qed

text \<open>Numerals are determined by their value: the only reading of the digits.\<close>

lemma nat_string_value:
  assumes "list_all is_digit s" and "s \<noteq> []" and "hd s = CHR ''0'' \<Longrightarrow> length s = 1"
  shows "nat_string (digits_value s) = s"
  using assms
proof (induction s rule: rev_induct)
  case Nil
  then show ?case by simp
next
  case (snoc c s)
  show ?case
  proof (cases "s = []")
    case True
    with snoc.prems show ?thesis by (subst nat_string.simps) simp
  next
    case False
    with snoc.prems have hd: "hd s \<noteq> CHR ''0''" and ds: "list_all is_digit s" and dc: "is_digit c"
      by auto
    then have IH: "nat_string (digits_value s) = s" using snoc.IH False by auto
    have pos: "0 < digits_value s"
      using IH hd nat_string_hd [of "digits_value s"] by (metis gr0I)
    have "nat_string (10 * digits_value s + digit_val c) = nat_string (digits_value s) @ [c]"
      using pos dc digit_val_less [OF dc] by (subst nat_string.simps) simp
    with IH show ?thesis by simp
  qed
qed

end
