(* ===== verification/Money.thy ===== *)
theory Money
  imports JsString
begin

text \<open>
  \<open>utils/money.ts\<close> (USDC amounts as decimal strings and as stroops, seven decimals) and
  \<open>services/listingFee.ts\<close>. A \<open>bigint\<close> is an \<open>int\<close>.
\<close>

section \<open>Decimal strings and stroops\<close>

definition USDC_DECIMALS :: nat where
  "USDC_DECIMALS = 7"

text \<open>The regular expression \<^verbatim>\<open>/^\d+(\.\d+)?$/\<close>.\<close>

definition decimal_syntax :: "string \<Rightarrow> bool" where
  "decimal_syntax s =
     (let r = dropWhile is_digit s
      in takeWhile is_digit s \<noteq> [] \<and>
         (r = [] \<or> (hd r = CHR ''.'' \<and> tl r \<noteq> [] \<and> list_all is_digit (tl r))))"

text \<open>\<^verbatim>\<open>s.replace(/^0+(?=\d)/, '')\<close>: drop leading zeros, but never the last digit.\<close>

definition strip_leading_zeros :: "string \<Rightarrow> string" where
  "strip_leading_zeros s =
     (let z = takeWhile (\<lambda>c. c = CHR ''0'') s; r = dropWhile (\<lambda>c. c = CHR ''0'') s
      in if z = [] then s
         else if r \<noteq> [] \<and> is_digit (hd r) then r
         else CHR ''0'' # r)"

text \<open>\<^verbatim>\<open>s.replace(/0+$/, '')\<close>.\<close>

definition strip_trailing_zeros :: "string \<Rightarrow> string" where
  "strip_trailing_zeros s = rev (dropWhile (\<lambda>c. c = CHR ''0'') (rev s))"

definition parseUsdcDecimalToStroops :: "string \<Rightarrow> exn + int" where
  "parseUsdcDecimalToStroops value =
     (let trimmed = js_trim value
      in if \<not> decimal_syntax trimmed then Inl (JsError ''invalid decimal'')
         else let parts = js_split (CHR ''.'') trimmed;
                  whole = hd parts;
                  frac = (case tl parts of [] \<Rightarrow> [] | f # _ \<Rightarrow> f)
              in if USDC_DECIMALS < length frac
                 then Inl (JsError (''too many decimal places (max '' @ nat_string USDC_DECIMALS @ '')''))
                 else let paddedFrac = js_padEnd USDC_DECIMALS (CHR ''0'') frac;
                          units = strip_leading_zeros (whole @ paddedFrac)
                      in Inr (int (digits_value units)))"

definition formatUsdcStroopsToDecimal :: "int \<Rightarrow> string" where
  "formatUsdcStroopsToDecimal stroops =
     (let sign = (if stroops < 0 then ''-'' else []);
          abs = (if stroops < 0 then - stroops else stroops);
          s = js_padStart (USDC_DECIMALS + 1) (CHR ''0'') (int_string abs);
          whole = js_slice_front USDC_DECIMALS s;
          frac = strip_trailing_zeros (js_slice_back USDC_DECIMALS s)
      in if length frac = 0 then sign @ whole else sign @ whole @ ''.'' @ frac)"

section \<open>Listing fee\<close>

text \<open>\<open>a / b\<close> on \<open>bigint\<close>: the quotient truncated towards zero.\<close>

definition bigint_div :: "int \<Rightarrow> int \<Rightarrow> int" where
  "bigint_div a b = sgn a * sgn b * (\<bar>a\<bar> div \<bar>b\<bar>)"

definition calculateListingFeeStroops :: "int \<Rightarrow> int" where
  "calculateListingFeeStroops reservePriceStroops = bigint_div (reservePriceStroops * 5 + 500) 1000"

section \<open>The decimal syntax\<close>

lemma decimal_syntax_cases:
  assumes "decimal_syntax s"
  obtains (whole) w where "s = w" and "w \<noteq> []" and "list_all is_digit w"
  | (frac) w f where "s = w @ CHR ''.'' # f" and "w \<noteq> []" and "f \<noteq> []"
      and "list_all is_digit w" and "list_all is_digit f"
proof -
  define w where "w = takeWhile is_digit s"
  define r where "r = dropWhile is_digit s"
  have s: "s = w @ r" by (simp add: w_def r_def)
  have w: "list_all is_digit w" by (auto simp: w_def list_all_iff dest: set_takeWhileD)
  from assms have "w \<noteq> []" and r: "r = [] \<or> (hd r = CHR ''.'' \<and> tl r \<noteq> [] \<and> list_all is_digit (tl r))"
    by (auto simp: decimal_syntax_def Let_def w_def r_def)
  show ?thesis
  proof (cases r)
    case Nil
    with s w \<open>w \<noteq> []\<close> show ?thesis by (auto intro: whole)
  next
    case (Cons c f)
    with r s w \<open>w \<noteq> []\<close> show ?thesis by (auto intro: frac)
  qed
qed

lemma decimal_syntax_whole: "list_all is_digit w \<Longrightarrow> w \<noteq> [] \<Longrightarrow> decimal_syntax w"
  by (cases w) (simp_all add: decimal_syntax_def list_all_iff)

lemma decimal_syntax_frac:
  assumes "list_all is_digit w" "w \<noteq> []" "list_all is_digit f" "f \<noteq> []"
  shows "decimal_syntax (w @ CHR ''.'' # f)"
proof -
  have "dropWhile is_digit (w @ CHR ''.'' # f) = CHR ''.'' # f"
    using assms(1) by (simp add: dropWhile_append list_all_iff)
  moreover have "takeWhile is_digit (w @ CHR ''.'' # f) = w"
    using assms(1) by (simp add: takeWhile_append list_all_iff)
  ultimately show ?thesis using assms by (simp add: decimal_syntax_def)
qed

lemma digits_no_dot: "list_all is_digit w \<Longrightarrow> CHR ''.'' \<notin> set w"
  by (auto simp: list_all_iff)

lemma digits_trim: "list_all is_digit w \<Longrightarrow> js_trim w = w"
  by (rule js_trim_no_space) (auto simp: list_all_iff)

lemma digits_dot_trim:
  "list_all is_digit w \<Longrightarrow> list_all is_digit f \<Longrightarrow> js_trim (w @ CHR ''.'' # f) = w @ CHR ''.'' # f"
  by (rule js_trim_no_space) (auto simp: list_all_iff)

section \<open>Parsing\<close>

lemma digits_value_strip [simp]: "digits_value (strip_leading_zeros s) = digits_value s"
proof -
  have "digits_value (CHR ''0'' # dropWhile (\<lambda>c. c = CHR ''0'') s) = digits_value s"
    by (simp add: digits_value_Cons digits_value_dropZeros)
  then show ?thesis by (simp add: strip_leading_zeros_def Let_def digits_value_dropZeros)
qed

lemma digits_value_padEnd:
  "length f \<le> n \<Longrightarrow>
   digits_value (w @ js_padEnd n (CHR ''0'') f) = digits_value w * 10 ^ n + digits_value f * 10 ^ (n - length f)"
  by (simp add: js_padEnd_def digits_value_append algebra_simps flip: power_add)

lemma parse_whole:
  assumes "list_all is_digit w" and "w \<noteq> []" and "js_trim s = w"
  shows "parseUsdcDecimalToStroops s = Inr (int (digits_value w * 10 ^ 7))"
  using assms decimal_syntax_whole [of w] digits_no_dot [of w] digits_value_padEnd [of "[]" 7 w]
  by (simp add: parseUsdcDecimalToStroops_def Let_def USDC_DECIMALS_def)

lemma parse_frac:
  assumes "list_all is_digit w" and "w \<noteq> []" and "list_all is_digit f" and "f \<noteq> []"
    and "js_trim s = w @ CHR ''.'' # f"
  shows "parseUsdcDecimalToStroops s =
    (if 7 < length f then Inl (JsError ''too many decimal places (max 7)'')
     else Inr (int (digits_value w * 10 ^ 7 + digits_value f * 10 ^ (7 - length f))))"
proof -
  have "nat_string 7 = ''7''"
    by (subst nat_string.simps) (simp add: digit_char_def, code_simp)
  with assms decimal_syntax_frac [of w f] digits_no_dot [of w] digits_no_dot [of f]
    digits_value_padEnd [of f 7 w]
  show ?thesis
    by (simp add: parseUsdcDecimalToStroops_def Let_def USDC_DECIMALS_def)
qed

lemma parse_invalid:
  "\<not> decimal_syntax (js_trim s) \<Longrightarrow> parseUsdcDecimalToStroops s = Inl (JsError ''invalid decimal'')"
  by (simp add: parseUsdcDecimalToStroops_def Let_def)

lemma parse_nonneg: "parseUsdcDecimalToStroops s = Inr n \<Longrightarrow> 0 \<le> n"
  by (auto simp: parseUsdcDecimalToStroops_def Let_def split: if_splits)

section \<open>Formatting\<close>

lemma rev_dropWhile_decomp:
  "\<exists>k. s = strip_trailing_zeros s @ replicate k (CHR ''0'')"
proof -
  let ?p = "\<lambda>c. c = CHR ''0''"
  have "rev s = takeWhile ?p (rev s) @ dropWhile ?p (rev s)" by simp
  moreover have "takeWhile ?p (rev s) = replicate (length (takeWhile ?p (rev s))) (CHR ''0'')"
    by (rule replicate_eqI) (auto dest: set_takeWhileD)
  ultimately have "rev s = replicate (length (takeWhile ?p (rev s))) (CHR ''0'') @ dropWhile ?p (rev s)"
    by metis
  then have "s = strip_trailing_zeros s @ replicate (length (takeWhile ?p (rev s))) (CHR ''0'')"
    unfolding strip_trailing_zeros_def by (metis rev_append rev_replicate rev_rev_ident)
  then show ?thesis by blast
qed

text \<open>The two halves of a formatted amount: at least one digit, and exactly seven.\<close>

lemma padded_halves:
  fixes n :: nat
  defines "s \<equiv> js_padStart 8 (CHR ''0'') (nat_string n)"
  shows "list_all is_digit (take (length s - 7) s)" "take (length s - 7) s \<noteq> []"
    "list_all is_digit (drop (length s - 7) s)" "length (drop (length s - 7) s) = 7"
    "digits_value (take (length s - 7) s) * 10 ^ 7 + digits_value (drop (length s - 7) s) = n"
proof -
  have ds: "list_all is_digit s"
    using nat_string_digits [of n]
    by (auto simp: s_def js_padStart_def list_all_iff is_digit_iff)
  have len: "8 \<le> length s" by (simp add: s_def js_padStart_def)
  from ds show "list_all is_digit (take (length s - 7) s)" "list_all is_digit (drop (length s - 7) s)"
    by (auto simp: list_all_iff dest: in_set_takeD in_set_dropD)
  from len show "take (length s - 7) s \<noteq> []" "length (drop (length s - 7) s) = 7" by auto
  have "digits_value s = n" by (simp add: s_def js_padStart_def digits_value_append)
  moreover have "digits_value s =
      digits_value (take (length s - 7) s) * 10 ^ length (drop (length s - 7) s)
      + digits_value (drop (length s - 7) s)"
    by (metis append_take_drop_id digits_value_append)
  ultimately show "digits_value (take (length s - 7) s) * 10 ^ 7 + digits_value (drop (length s - 7) s) = n"
    using \<open>length (drop (length s - 7) s) = 7\<close> by simp
qed

lemma format_nonneg:
  fixes n :: nat
  defines "s \<equiv> js_padStart 8 (CHR ''0'') (nat_string n)"
  shows "formatUsdcStroopsToDecimal (int n) =
    (let f = strip_trailing_zeros (drop (length s - 7) s); w = take (length s - 7) s
     in if f = [] then w else w @ CHR ''.'' # f)"
  by (simp add: formatUsdcStroopsToDecimal_def s_def Let_def USDC_DECIMALS_def
      js_slice_front_def js_slice_back_def int_string_def)

lemma parse_format_nat: "parseUsdcDecimalToStroops (formatUsdcStroopsToDecimal (int n)) = Inr (int n)"
proof -
  define s where "s = js_padStart 8 (CHR ''0'') (nat_string n)"
  define w where "w = take (length s - 7) s"
  define b where "b = drop (length s - 7) s"
  define f where "f = strip_trailing_zeros b"
  note halves = padded_halves [of n, folded s_def, folded w_def b_def]
  obtain k where k: "b = f @ replicate k (CHR ''0'')"
    using rev_dropWhile_decomp [of b] by (auto simp: f_def)
  have len: "length f + k = 7" using halves(4) k by simp
  have df: "list_all is_digit f" using halves(3) k by (simp add: list_all_iff)
  have val: "digits_value b = digits_value f * 10 ^ (7 - length f)"
    using k len by (simp add: digits_value_append flip: len)
  have fmt: "formatUsdcStroopsToDecimal (int n) = (if f = [] then w else w @ CHR ''.'' # f)"
    by (simp add: format_nonneg Let_def f_def b_def w_def s_def)
  show ?thesis
  proof (cases "f = []")
    case True
    then have "digits_value b = 0" using val by simp
    with True fmt halves(5) show ?thesis
      using parse_whole [OF halves(1,2) digits_trim [OF halves(1)]] by simp
  next
    case False
    have "parseUsdcDecimalToStroops (w @ CHR ''.'' # f) =
        Inr (int (digits_value w * 10 ^ 7 + digits_value f * 10 ^ (7 - length f)))"
      using parse_frac [OF halves(1,2) df False digits_dot_trim [OF halves(1) df]] len by simp
    with False fmt val halves(5) show ?thesis by simp
  qed
qed

section \<open>Properties\<close>

text \<open>
  C20. Formatting an amount and parsing it back gives the amount: no stroop is lost
  between the API's decimal strings and the stored integers.
\<close>

theorem parse_format_roundtrip:
  assumes "0 \<le> n"
  shows "parseUsdcDecimalToStroops (formatUsdcStroopsToDecimal n) = Inr n"
  using assms parse_format_nat [of "nat n"] by simp

theorem parse_format_roundtrip_witness:
  "parseUsdcDecimalToStroops (formatUsdcStroopsToDecimal 105000000) = Inr 105000000"
  using parse_format_roundtrip [of 105000000] by simp

text \<open>
  C21. What the parser accepts and what it returns: it succeeds exactly on (trimmed)
  digits with at most seven decimals, and then the stroops are the exact decimal value
  times ten million. Everything else throws one of the two documented errors.
\<close>

theorem parse_spec:
  "parseUsdcDecimalToStroops s = Inr n \<longleftrightarrow>
     (\<exists>w f. list_all is_digit w \<and> w \<noteq> [] \<and> list_all is_digit f \<and> length f \<le> 7 \<and>
        js_trim s = (if f = [] then w else w @ CHR ''.'' # f) \<and>
        n = int (digits_value w * 10 ^ 7 + digits_value f * 10 ^ (7 - length f)))"
  (is "?L \<longleftrightarrow> ?R")
proof
  assume L: ?L
  then have "decimal_syntax (js_trim s)" by (rule_tac ccontr) (simp add: parse_invalid)
  then show ?R
  proof (cases rule: decimal_syntax_cases)
    case (whole w)
    have "n = int (digits_value w * 10 ^ 7)" using L parse_whole [OF whole(3,2,1)] by simp
    with whole show ?thesis by - (rule exI [where x = w], rule exI [where x = "[]"], simp)
  next
    case (frac w f)
    have "length f \<le> 7" and "n = int (digits_value w * 10 ^ 7 + digits_value f * 10 ^ (7 - length f))"
      using L parse_frac [OF frac(4,2,5,3,1)] by (simp_all split: if_splits)
    with frac show ?thesis by - (rule exI [where x = w], rule exI [where x = f], simp)
  qed
next
  assume ?R
  then obtain w f where R: "list_all is_digit w" "w \<noteq> []" "list_all is_digit f" "length f \<le> 7"
    "js_trim s = (if f = [] then w else w @ CHR ''.'' # f)"
    "n = int (digits_value w * 10 ^ 7 + digits_value f * 10 ^ (7 - length f))" by blast
  show ?L
  proof (cases "f = []")
    case True
    with R parse_whole [of w s] show ?thesis by simp
  next
    case False
    with R have "js_trim s = w @ CHR ''.'' # f" by simp
    with R False show ?thesis using parse_frac [of w f s] by simp
  qed
qed

text \<open>
  The listing fee is half a percent of the reserve price rounded half up to a whole
  stroop: it differs from the exact fee by at most half a stroop, and is never negative.
\<close>

theorem listing_fee_rounds:
  assumes "0 \<le> p"
  shows "2 * \<bar>200 * calculateListingFeeStroops p - p\<bar> \<le> 200 \<and>
    0 \<le> calculateListingFeeStroops p \<and>
    (calculateListingFeeStroops p = 0 \<longleftrightarrow> p < 100)"
proof -
  define q where "q = calculateListingFeeStroops p"
  have "q = (p * 5 + 500) div 1000"
    using assms by (simp add: q_def calculateListingFeeStroops_def bigint_div_def)
  then have "1000 * q \<le> p * 5 + 500" and "p * 5 + 500 < 1000 * q + 1000" by simp_all
  with assms show ?thesis unfolding q_def [symmetric] by auto
qed

theorem listing_fee_rounds_witness:
  "2 * \<bar>200 * calculateListingFeeStroops 100000000 - 100000000\<bar> \<le> (200::int) \<and>
   calculateListingFeeStroops 100000000 = 500000"
proof -
  have h: "(0::int) \<le> 100000000" by simp
  have "calculateListingFeeStroops 100000000 = 500000"
    by (simp add: calculateListingFeeStroops_def bigint_div_def)
  with listing_fee_rounds [OF h] show ?thesis by simp
qed

lemma listing_fee_mono: "0 \<le> p \<Longrightarrow> p \<le> q \<Longrightarrow> calculateListingFeeStroops p \<le> calculateListingFeeStroops q"
  by (simp add: calculateListingFeeStroops_def bigint_div_def zdiv_mono1)

end
