(* ===== verification/JsNumber.thy ===== *)
theory JsNumber
  imports Complex_Main "HOL-Library.Log_Nat" JsString Money
begin

text \<open>
  The numbers and dates of JavaScript the program computes with: finite binary64 values as
  exact rationals with every arithmetic result rounded to nearest, ties to even; and the
  ISO text of a time value. Overflow to \<open>Infinity\<close> and \<open>NaN\<close> are not modelled: the
  program only computes with USDC amounts.
\<close>

section \<open>Binary64 rounding\<close>

text \<open>The exponent \<open>e\<close> with \<open>2^e \<le> x < 2^(e+1)\<close> of a positive rational.\<close>

definition ilog2 :: "rat \<Rightarrow> int" where
  "ilog2 x = (let (p, q) = quotient_of x; k = bitlen p - bitlen q
     in if 2 powi k \<le> x then k else k - 1)"

text \<open>The nearest integer, the even one on a tie.\<close>

definition round_even :: "rat \<Rightarrow> int" where
  "round_even x = (let f = \<lfloor>x\<rfloor>; d = x - of_int f
     in if d < 1/2 then f else if d > 1/2 then f + 1 else if even f then f else f + 1)"

definition fl :: "rat \<Rightarrow> rat" where
  "fl x = (if x = 0 then 0
     else let e = max (ilog2 \<bar>x\<bar> - 52) (- 1074)
          in sgn x * of_int (round_even (\<bar>x\<bar> / 2 powi e)) * 2 powi e)"

definition js_mult :: "rat \<Rightarrow> rat \<Rightarrow> rat" where
  "js_mult x y = fl (x * y)"

definition js_minus :: "rat \<Rightarrow> rat \<Rightarrow> rat" where
  "js_minus x y = fl (x - y)"

definition js_divide :: "rat \<Rightarrow> rat \<Rightarrow> rat" where
  "js_divide x y = fl (x / y)"

text \<open>\<open>Math.round\<close>: the nearest integer, towards plus infinity on a tie.\<close>

definition math_round :: "rat \<Rightarrow> rat" where
  "math_round x = of_int \<lfloor>x + 1/2\<rfloor>"

text \<open>
  \<open>Number(s)\<close> for the decimal strings the request schemas let through: the exact decimal
  value, rounded. \<open>None\<close> is \<open>NaN\<close>; the other numeric literals of \<open>Number\<close> (exponents,
  hexadecimal, signs) never reach it.
\<close>

definition js_Number :: "string \<Rightarrow> rat option" where
  "js_Number s =
     (let t = js_trim s
      in if decimal_syntax t
         then let parts = js_split (CHR ''.'') t;
                  w = hd parts; f = (case tl parts of [] \<Rightarrow> [] | f # _ \<Rightarrow> f)
              in Some (fl (of_nat (digits_value w) + of_nat (digits_value f) / 10 ^ length f))
         else None)"

text \<open>
  \<open>Number(s)\<close> of an arbitrary string, for configuration and headers: decimal literals with
  sign and exponent, \<open>Infinity\<close>, hexadecimal, octal and binary integers; the empty string
  is 0. A decimal too large for binary64 is \<open>Infinity\<close>.
\<close>

datatype jsnum = NaN | Infinite bool | Fin rat

definition fin :: "rat \<Rightarrow> jsnum" where
  "fin x = (if \<bar>fl x\<bar> < 2 ^ 1024 then Fin (fl x) else Infinite (x < 0))"

definition digit_of :: "nat \<Rightarrow> char \<Rightarrow> nat option" where
  "digit_of radix c =
     (let n = (of_char c :: nat);
          d = (if 48 \<le> n \<and> n \<le> 57 then n - 48 else if 97 \<le> n \<and> n \<le> 122 then n - 87
               else if 65 \<le> n \<and> n \<le> 90 then n - 55 else 99)
      in if d < radix then Some d else None)"

fun radix_value :: "nat \<Rightarrow> nat \<Rightarrow> string \<Rightarrow> nat option" where
  "radix_value radix acc [] = Some acc"
| "radix_value radix acc (c # s) = (case digit_of radix c of
      None \<Rightarrow> None | Some d \<Rightarrow> radix_value radix (radix * acc + d) s)"

text \<open>The exponent part: nothing, or \<open>e\<close> with an optionally signed integer.\<close>

definition exponent_value :: "string \<Rightarrow> int option" where
  "exponent_value s = (case s of
      [] \<Rightarrow> Some 0
    | c # r \<Rightarrow>
        if c \<noteq> CHR ''e'' \<and> c \<noteq> CHR ''E'' then None
        else let (neg, ds) = (case r of
                 d # ds \<Rightarrow> if d = CHR ''-'' then (True, ds) else if d = CHR ''+'' then (False, ds) else (False, r)
               | [] \<Rightarrow> (False, []))
             in if ds = [] \<or> \<not> list_all is_digit ds then None
                else Some (if neg then - int (digits_value ds) else int (digits_value ds)))"

definition decimal_value :: "string \<Rightarrow> rat option" where
  "decimal_value s =
     (let i = takeWhile is_digit s; r = dropWhile is_digit s;
          (f, e) = (case r of
             c # r' \<Rightarrow> if c = CHR ''.'' then (takeWhile is_digit r', dropWhile is_digit r') else ([], r)
           | [] \<Rightarrow> ([], []))
      in if i @ f = [] then None
         else map_option (\<lambda>x. of_nat (digits_value (i @ f)) * 10 powi (x - int (length f))) (exponent_value e))"

definition unsigned_number :: "string \<Rightarrow> jsnum" where
  "unsigned_number s = (if s = ''Infinity'' then Infinite False
     else case decimal_value s of None \<Rightarrow> NaN | Some x \<Rightarrow> fin x)"

definition js_to_number :: "string \<Rightarrow> jsnum" where
  "js_to_number s =
     (let t = js_trim s;
          radix = (\<lambda>b. case radix_value b 0 (drop 2 t) of None \<Rightarrow> NaN | Some n \<Rightarrow> fin (of_nat n))
      in case t of
           [] \<Rightarrow> Fin 0
         | c # r \<Rightarrow>
             if c = CHR ''-'' then
               (case unsigned_number r of Fin x \<Rightarrow> Fin (- x) | Infinite n \<Rightarrow> Infinite True | NaN \<Rightarrow> NaN)
             else if c = CHR ''+'' then unsigned_number r
             else if length t > 2 \<and> (take 2 t = ''0x'' \<or> take 2 t = ''0X'') then radix 16
             else if length t > 2 \<and> (take 2 t = ''0o'' \<or> take 2 t = ''0O'') then radix 8
             else if length t > 2 \<and> (take 2 t = ''0b'' \<or> take 2 t = ''0B'') then radix 2
             else unsigned_number t)"

text \<open>\<open>Math.trunc\<close>.\<close>

definition math_trunc :: "rat \<Rightarrow> int" where
  "math_trunc x = (if 0 \<le> x then \<lfloor>x\<rfloor> else \<lceil>x\<rceil>)"

section \<open>Error of rounding\<close>

lemma round_even_error: "\<bar>of_int (round_even x) - x\<bar> \<le> 1/2"
proof -
  have "of_int \<lfloor>x\<rfloor> \<le> x" and "x < of_int \<lfloor>x\<rfloor> + 1" by linarith+
  then show ?thesis by (auto simp: round_even_def Let_def abs_le_iff)
qed

lemma round_even_of_int [simp]: "round_even (of_int n) = n"
  by (simp add: round_even_def)

text \<open>\<open>fl\<close> moves a value by at most half a unit in the last place.\<close>

lemma fl_error:
  "\<bar>fl x - x\<bar> \<le> 2 powi (max (ilog2 \<bar>x\<bar> - 52) (- 1074)) / 2"
proof (cases "x = 0")
  case True
  then show ?thesis by (simp add: fl_def)
next
  case False
  define e where "e = max (ilog2 \<bar>x\<bar> - 52) (- 1074)"
  define u :: rat where "u = 2 powi e"
  have u: "0 < u" by (simp add: u_def)
  define m :: rat where "m = of_int (round_even (\<bar>x\<bar> / u))"
  have m: "\<bar>m - \<bar>x\<bar> / u\<bar> \<le> 1/2" unfolding m_def by (rule round_even_error)
  have x: "x = sgn x * (\<bar>x\<bar> / u) * u" using u by (simp add: sgn_mult_abs)
  have "fl x - x = sgn x * (m - \<bar>x\<bar> / u) * u"
    using False x by (simp add: fl_def Let_def e_def [symmetric] u_def [symmetric] m_def [symmetric] algebra_simps)
  then have "\<bar>fl x - x\<bar> = \<bar>m - \<bar>x\<bar> / u\<bar> * u"
    using False u by (simp add: abs_mult abs_sgn_eq)
  also have "\<dots> \<le> 1/2 * u" using m u by (intro mult_right_mono) auto
  finally show ?thesis by (simp add: u_def e_def)
qed

lemma ilog2_le:
  assumes "0 < x"
  shows "2 powi ilog2 x \<le> x"
proof -
  obtain p q where pq: "quotient_of x = (p, q)" by fastforce
  then have x: "x = of_int p / of_int q" and q: "0 < q"
    by (simp_all add: quotient_of_div quotient_of_denom_pos)
  have p: "0 < p" using assms x q by (simp add: zero_less_divide_iff)
  have "bitlen p \<ge> 1" using p by (simp add: bitlen_ge_iff_power)
  have "(2::int) ^ nat (bitlen p - 1) \<le> p" using bitlen_bounds [OF p] by simp
  then have "of_int (2 ^ nat (bitlen p - 1)) \<le> (of_int p :: rat)" by (simp only: of_int_le_iff)
  then have lo: "(2::rat) powi (bitlen p - 1) \<le> of_int p"
    using \<open>bitlen p \<ge> 1\<close> by (simp add: power_int_def)
  have "q < (2::int) ^ nat (bitlen q)" using bitlen_bounds [OF q] by simp
  then have "of_int q < (of_int (2 ^ nat (bitlen q)) :: rat)" by (simp only: of_int_less_iff)
  then have hi: "of_int q \<le> (2::rat) powi bitlen q"
    using bitlen_nonneg [of q] by (simp add: power_int_def)
  have "(2::rat) powi (bitlen p - bitlen q - 1) = 2 powi (bitlen p - 1) / 2 powi bitlen q"
    by (simp add: power_int_diff [symmetric] algebra_simps)
  also have "\<dots> \<le> of_int p / of_int q"
    using lo hi p q by (intro frac_le) auto
  finally have "(2::rat) powi (bitlen p - bitlen q - 1) \<le> x" by (simp add: x)
  then show ?thesis by (auto simp: ilog2_def pq Let_def)
qed

lemma fl_error_below:
  assumes "\<bar>x\<bar> < 2 powi k" and "- 1000 \<le> k"
  shows "\<bar>fl x - x\<bar> \<le> 2 powi (k - 54)"
proof (cases "x = 0")
  case True
  then show ?thesis by (simp add: fl_def)
next
  case False
  then have "(2::rat) powi ilog2 \<bar>x\<bar> < 2 powi k" using ilog2_le [of "\<bar>x\<bar>"] assms(1) by simp
  then have "ilog2 \<bar>x\<bar> < k" using power_int_increasing [of k "ilog2 \<bar>x\<bar>" "2::rat"] by force
  then have "max (ilog2 \<bar>x\<bar> - 52) (- 1074) \<le> k - 53" using assms(2) by simp
  then have "(2::rat) powi (max (ilog2 \<bar>x\<bar> - 52) (- 1074)) \<le> 2 powi (k - 53)"
    by (rule power_int_increasing) simp
  moreover have "(2::rat) powi (k - 53) / 2 = 2 powi (k - 54)"
    by (simp add: power_int_diff)
  ultimately show ?thesis using fl_error [of x] by linarith
qed

text \<open>Integers of up to 53 bits are exact.\<close>

lemma fl_of_int:
  assumes "\<bar>n\<bar> < 2 ^ 53"
  shows "fl (of_int n) = of_int n"
proof (cases "n = 0")
  case True
  then show ?thesis by (simp add: fl_def)
next
  case False
  define e where "e = max (ilog2 \<bar>of_int n\<bar> - 52) (- 1074)"
  have n: "(of_int \<bar>n\<bar> :: rat) < 2 ^ 53" using assms by (metis of_int_less_iff of_int_numeral of_int_power)
  have "(2::rat) powi ilog2 \<bar>of_int n\<bar> \<le> \<bar>of_int n\<bar>" using False by (intro ilog2_le) simp
  also have "\<dots> < 2 powi 53" using n by simp
  finally have "ilog2 \<bar>of_int n\<bar> < 53"
    using power_int_increasing [of 53 "ilog2 \<bar>of_int n\<bar>" "2::rat"] by force
  then have e: "e \<le> 0" by (simp add: e_def)
  define k where "k = nat (- e)"
  have two: "(2::rat) powi e = inverse (2 ^ k)" using e by (auto simp: power_int_def k_def power_one_over inverse_eq_divide)
  have "\<bar>of_int n\<bar> / (2::rat) powi e = of_int (\<bar>n\<bar> * 2 ^ k)"
    unfolding two by (simp add: divide_inverse)
  then have "round_even (\<bar>of_int n\<bar> / (2::rat) powi e) = \<bar>n\<bar> * 2 ^ k"
    by (simp only: round_even_of_int)
  then have "fl (of_int n) = sgn (of_int n) * of_int (\<bar>n\<bar> * 2 ^ k) * 2 powi e"
    using False by (simp only: fl_def Let_def e_def [symmetric] of_int_eq_0_iff if_False)
  also have "\<dots> = sgn (of_int n) * \<bar>of_int n\<bar>" unfolding two by simp
  finally show ?thesis by (simp only: sgn_mult_abs)
qed

lemma round_even_nonneg: "0 \<le> x \<Longrightarrow> 0 \<le> round_even x"
  by (auto simp: round_even_def Let_def)

lemma fl_nonneg: "0 \<le> x \<Longrightarrow> 0 \<le> fl x"
  by (auto simp: fl_def Let_def intro!: mult_nonneg_nonneg round_even_nonneg)

lemma math_round_error: "\<bar>math_round x - x\<bar> \<le> 1/2"
proof -
  have "of_int \<lfloor>x + 1/2\<rfloor> \<le> x + 1/2" and "x + 1/2 < of_int \<lfloor>x + 1/2\<rfloor> + 1" by linarith+
  then show ?thesis unfolding math_round_def by linarith
qed

lemma math_round_nonneg: "0 \<le> x \<Longrightarrow> 0 \<le> math_round x"
  by (simp add: math_round_def)

section \<open>Dates\<close>

text \<open>The civil date (year, month, day) of a day counted from 1 January 1970.\<close>

definition civil_from_days :: "int \<Rightarrow> int \<times> int \<times> int" where
  "civil_from_days days =
     (let z = days + 719468;
          era = z div 146097;
          doe = z mod 146097;
          yoe = (doe - doe div 1460 + doe div 36524 - doe div 146096) div 365;
          doy = doe - (365 * yoe + yoe div 4 - yoe div 100);
          mp = (5 * doy + 2) div 153;
          d = doy - (153 * mp + 2) div 5 + 1;
          m = (if mp < 10 then mp + 3 else mp - 9);
          y = yoe + era * 400 + (if m \<le> 2 then 1 else 0)
      in (y, m, d))"

definition pad_int :: "nat \<Rightarrow> int \<Rightarrow> string" where
  "pad_int n i = js_padStart n (CHR ''0'') (nat_string (nat i))"

definition iso_year :: "int \<Rightarrow> string" where
  "iso_year y = (if 0 \<le> y \<and> y \<le> 9999 then pad_int 4 y
     else if y < 0 then ''-'' @ pad_int 6 (- y) else ''+'' @ pad_int 6 y)"

text \<open>\<open>new Date(ms).toISOString()\<close> for a time value in range.\<close>

definition toISOString :: "int \<Rightarrow> string" where
  "toISOString ms =
     (let (y, m, d) = civil_from_days (ms div 86400000); t = ms mod 86400000
      in iso_year y @ ''-'' @ pad_int 2 m @ ''-'' @ pad_int 2 d @ ''T''
         @ pad_int 2 (t div 3600000) @ '':'' @ pad_int 2 (t div 60000 mod 60) @ '':''
         @ pad_int 2 (t div 1000 mod 60) @ ''.'' @ pad_int 3 (t mod 1000) @ ''Z'')"

end
