(* ===== verification/Models.thy ===== *)
theory Models
  imports JsNumber
begin

text \<open>
  The data of the marketplace: \<open>models/\<close> (tasks, bids and the request schemas),
  \<open>presenters/\<close> (the DTOs sent to clients) and the JSON values that requests, responses
  and outbox payloads carry.
\<close>

section \<open>JSON\<close>

text \<open>A number is its exact (finite) value; an object keeps the order of its keys.\<close>

datatype json =
    JNull
  | JBool bool
  | JNum rat
  | JStr string
  | JArr "json list"
  | JObj "(string \<times> json) list"

text \<open>
  \<open>v.k\<close> on a parsed JSON value other than null: \<open>None\<close> is \<open>undefined\<close>. The keys the
  program reads are no properties of strings, numbers or arrays.
\<close>

fun jfield :: "json \<Rightarrow> string \<Rightarrow> json option" where
  "jfield (JObj fs) k = map_of fs k"
| "jfield _ k = None"

fun jstring :: "json option \<Rightarrow> string option" where
  "jstring (Some (JStr s)) = Some s"
| "jstring _ = None"

section \<open>Tasks and bids\<close>

datatype task_status = OPEN | ASSIGNED | COMPLETING | COMPLETED | EXPIRED

record task =
  task_id :: string
  task_requesterPublicKey :: string
  task_reservePriceStroops :: int
  task_description :: string
  task_deadline :: string
  task_status :: task_status

datatype bid_status = PENDING | SELECTED | REJECTED

record bid =
  bid_id :: string
  bid_taskId :: string
  bid_executorPublicKey :: string
  bid_amountStroops :: int
  bid_collateralStroops :: int
  bid_escrowId :: string
  bid_status :: bid_status
  bid_createdAt :: string

fun task_status_text :: "task_status \<Rightarrow> string" where
  "task_status_text OPEN = ''OPEN''"
| "task_status_text ASSIGNED = ''ASSIGNED''"
| "task_status_text COMPLETING = ''COMPLETING''"
| "task_status_text COMPLETED = ''COMPLETED''"
| "task_status_text EXPIRED = ''EXPIRED''"

fun bid_status_text :: "bid_status \<Rightarrow> string" where
  "bid_status_text PENDING = ''PENDING''"
| "bid_status_text SELECTED = ''SELECTED''"
| "bid_status_text REJECTED = ''REJECTED''"

text \<open>
  The order in which a task may move: from a status to a larger one. \<open>COMPLETED\<close> and
  \<open>EXPIRED\<close> are maximal and incomparable.
\<close>

instantiation task_status :: order
begin

definition less_eq_task_status :: "task_status \<Rightarrow> task_status \<Rightarrow> bool" where
  "less_eq_task_status s t \<longleftrightarrow>
     s = t \<or> s = OPEN \<or> (s = ASSIGNED \<and> t \<noteq> OPEN) \<or> (s = COMPLETING \<and> t = COMPLETED)"

definition less_task_status :: "task_status \<Rightarrow> task_status \<Rightarrow> bool" where
  "less_task_status s t \<longleftrightarrow> s \<le> t \<and> s \<noteq> (t :: task_status)"

instance
  by standard (auto simp: less_eq_task_status_def less_task_status_def)

end

lemma terminal_status: "COMPLETED \<le> s \<longleftrightarrow> s = COMPLETED" "EXPIRED \<le> s \<longleftrightarrow> s = EXPIRED"
  by (auto simp: less_eq_task_status_def)

lemma status_steps [simp]:
  "OPEN \<le> s" "ASSIGNED \<le> COMPLETING" "ASSIGNED \<le> COMPLETED" "ASSIGNED \<le> EXPIRED"
  "COMPLETING \<le> COMPLETED"
  by (simp_all add: less_eq_task_status_def)

text \<open>A bid's status moves from \<open>PENDING\<close> once.\<close>

instantiation bid_status :: order
begin

definition less_eq_bid_status :: "bid_status \<Rightarrow> bid_status \<Rightarrow> bool" where
  "less_eq_bid_status s t \<longleftrightarrow> s = t \<or> s = PENDING"

definition less_bid_status :: "bid_status \<Rightarrow> bid_status \<Rightarrow> bool" where
  "less_bid_status s t \<longleftrightarrow> s \<le> t \<and> s \<noteq> (t :: bid_status)"

instance
  by standard (auto simp: less_eq_bid_status_def less_bid_status_def)

end

lemma bid_status_steps [simp]: "PENDING \<le> s"
  by (simp add: less_eq_bid_status_def)

section \<open>DTOs\<close>

record task_dto =
  td_id :: string
  td_requesterPublicKey :: string
  td_reservePrice :: string
  td_reservePriceStroops :: string
  td_description :: string
  td_deadline :: string
  td_status :: task_status

definition toTaskDto :: "task \<Rightarrow> task_dto" where
  "toTaskDto t =
    \<lparr> td_id = task_id t,
      td_requesterPublicKey = task_requesterPublicKey t,
      td_reservePrice = formatUsdcStroopsToDecimal (task_reservePriceStroops t),
      td_reservePriceStroops = int_string (task_reservePriceStroops t),
      td_description = task_description t,
      td_deadline = task_deadline t,
      td_status = task_status t \<rparr>"

record bid_dto =
  bd_id :: string
  bd_taskId :: string
  bd_executorPublicKey :: string
  bd_amount :: string
  bd_amountStroops :: string
  bd_collateral :: string
  bd_collateralStroops :: string
  bd_escrowId :: string
  bd_status :: bid_status
  bd_createdAt :: string

definition toBidDto :: "bid \<Rightarrow> bid_dto" where
  "toBidDto b =
    \<lparr> bd_id = bid_id b,
      bd_taskId = bid_taskId b,
      bd_executorPublicKey = bid_executorPublicKey b,
      bd_amount = formatUsdcStroopsToDecimal (bid_amountStroops b),
      bd_amountStroops = int_string (bid_amountStroops b),
      bd_collateral = formatUsdcStroopsToDecimal (bid_collateralStroops b),
      bd_collateralStroops = int_string (bid_collateralStroops b),
      bd_escrowId = bid_escrowId b,
      bd_status = bid_status b,
      bd_createdAt = bid_createdAt b \<rparr>"

text \<open>The DTOs as the JSON values \<open>JSON.stringify\<close> sees.\<close>

definition task_dto_json :: "task_dto \<Rightarrow> json" where
  "task_dto_json d = JObj
    [(''id'', JStr (td_id d)),
     (''requesterPublicKey'', JStr (td_requesterPublicKey d)),
     (''reservePrice'', JStr (td_reservePrice d)),
     (''reservePriceStroops'', JStr (td_reservePriceStroops d)),
     (''description'', JStr (td_description d)),
     (''deadline'', JStr (td_deadline d)),
     (''status'', JStr (task_status_text (td_status d)))]"

definition bid_dto_json :: "bid_dto \<Rightarrow> json" where
  "bid_dto_json d = JObj
    [(''id'', JStr (bd_id d)),
     (''taskId'', JStr (bd_taskId d)),
     (''executorPublicKey'', JStr (bd_executorPublicKey d)),
     (''amount'', JStr (bd_amount d)),
     (''amountStroops'', JStr (bd_amountStroops d)),
     (''collateral'', JStr (bd_collateral d)),
     (''collateralStroops'', JStr (bd_collateralStroops d)),
     (''escrowId'', JStr (bd_escrowId d)),
     (''status'', JStr (bid_status_text (bd_status d))),
     (''createdAt'', JStr (bd_createdAt d))]"

section \<open>Request schemas\<close>

text \<open>\<^verbatim>\<open>/^G[A-Z2-7]{55}$/\<close> and \<^verbatim>\<open>/^S[A-Z2-7]{55}$/\<close>.\<close>

definition base32_char :: "char \<Rightarrow> bool" where
  "base32_char c \<longleftrightarrow> (CHR ''A'' \<le> c \<and> c \<le> CHR ''Z'') \<or> (CHR ''2'' \<le> c \<and> c \<le> CHR ''7'')"

definition strkey_syntax :: "char \<Rightarrow> string \<Rightarrow> bool" where
  "strkey_syntax k s \<longleftrightarrow> length s = 56 \<and> hd s = k \<and> list_all base32_char (tl s)"

abbreviation public_key_syntax :: "string \<Rightarrow> bool" where
  "public_key_syntax \<equiv> strkey_syntax (CHR ''G'')"

abbreviation secret_syntax :: "string \<Rightarrow> bool" where
  "secret_syntax \<equiv> strkey_syntax (CHR ''S'')"

text \<open>The refinement of the price fields: parses, and is positive.\<close>

definition positive_usdc :: "string \<Rightarrow> bool" where
  "positive_usdc value = (case parseUsdcDecimalToStroops value of Inr n \<Rightarrow> 0 < n | Inl _ \<Rightarrow> False)"

text \<open>A schema reads the string fields of an object; a body that is no object has none.\<close>

definition body_string :: "json option \<Rightarrow> string \<Rightarrow> string option" where
  "body_string body k = (case body of None \<Rightarrow> None | Some v \<Rightarrow> jstring (jfield v k))"

record create_task_input =
  cti_requester :: string
  cti_reservePrice :: string
  cti_description :: string
  cti_deadline :: string

text \<open>
  \<open>createTaskSchema.safeParse(body)\<close>, for the engine's \<open>Date.parse\<close> (\<open>None\<close> is \<open>NaN\<close>)
  and the time at which the refinement reads the clock.
\<close>

definition createTaskSchema ::
  "(string \<Rightarrow> int option) \<Rightarrow> int \<Rightarrow> json option \<Rightarrow> create_task_input option" where
  "createTaskSchema date_parse now body =
     (case (body_string body ''requester'', body_string body ''reservePrice'',
            body_string body ''description'', body_string body ''deadline'') of
        (Some r, Some p, Some d, Some dl) \<Rightarrow>
          (if public_key_syntax r \<and> 1 \<le> length p \<and> positive_usdc p \<and> 1 \<le> length d
              \<and> (case date_parse dl of None \<Rightarrow> False | Some t \<Rightarrow> now < t)
           then Some \<lparr> cti_requester = r, cti_reservePrice = p, cti_description = d, cti_deadline = dl \<rparr>
           else None)
      | _ \<Rightarrow> None)"

definition createTaskLocalRequestSchema ::
  "(string \<Rightarrow> int option) \<Rightarrow> int \<Rightarrow> json option \<Rightarrow> (create_task_input \<times> string) option" where
  "createTaskLocalRequestSchema date_parse now body =
     (case (createTaskSchema date_parse now body, body_string body ''secret'') of
        (Some i, Some s) \<Rightarrow> (if secret_syntax s then Some (i, s) else None)
      | _ \<Rightarrow> None)"

definition completeTaskSignedRequestSchema :: "json option \<Rightarrow> string option" where
  "completeTaskSignedRequestSchema body =
     (case body_string body ''requester'' of
        Some r \<Rightarrow> (if public_key_syntax r then Some r else None)
      | None \<Rightarrow> None)"

definition completeTaskLocalRequestSchema :: "json option \<Rightarrow> (string \<times> string) option" where
  "completeTaskLocalRequestSchema body =
     (case (completeTaskSignedRequestSchema body, body_string body ''secret'') of
        (Some r, Some s) \<Rightarrow> (if secret_syntax s then Some (r, s) else None)
      | _ \<Rightarrow> None)"

record create_bid_input =
  cbi_taskId :: string
  cbi_executor :: string
  cbi_amount :: string
  cbi_collateral :: string

definition createBidSignedSchema :: "json option \<Rightarrow> create_bid_input option" where
  "createBidSignedSchema body =
     (case (body_string body ''taskId'', body_string body ''executor'',
            body_string body ''amount'', body_string body ''collateral'') of
        (Some t, Some e, Some a, Some c) \<Rightarrow>
          (if 1 \<le> length t \<and> public_key_syntax e \<and> 1 \<le> length a \<and> positive_usdc a
              \<and> 1 \<le> length c \<and> positive_usdc c
           then Some \<lparr> cbi_taskId = t, cbi_executor = e, cbi_amount = a, cbi_collateral = c \<rparr>
           else None)
      | _ \<Rightarrow> None)"

definition createBidLocalSchema :: "json option \<Rightarrow> (create_bid_input \<times> string) option" where
  "createBidLocalSchema body =
     (case (createBidSignedSchema body, body_string body ''secret'') of
        (Some i, Some s) \<Rightarrow> (if secret_syntax s then Some (i, s) else None)
      | _ \<Rightarrow> None)"

lemma positive_usdcE:
  assumes "positive_usdc s"
  obtains n where "parseUsdcDecimalToStroops s = Inr n" and "0 < n"
  using assms by (auto simp: positive_usdc_def split: sum.splits)

lemma createBidSigned_parses:
  assumes "createBidSignedSchema body = Some i"
  shows "positive_usdc (cbi_amount i)" "positive_usdc (cbi_collateral i)"
    "public_key_syntax (cbi_executor i)" "cbi_taskId i \<noteq> []"
  using assms by (auto simp: createBidSignedSchema_def split: option.splits if_splits)

lemma createTask_parses:
  assumes "createTaskSchema dp now body = Some i"
  shows "positive_usdc (cti_reservePrice i)" "public_key_syntax (cti_requester i)"
    "\<exists>t. dp (cti_deadline i) = Some t \<and> now < t"
  using assms by (auto simp: createTaskSchema_def split: option.splits if_splits)

end
