(* ===== verification/Redis.thy ===== *)
theory Redis
  imports TG_Prelude
begin

text \<open>
  The keys of the Redis server the authentication uses, with the commands
  \<open>INCR\<close>, \<open>EXPIRE\<close>, \<open>SET key value NX EX ttl\<close> and \<open>GETDEL\<close>. The server is a parameter in
  two ways: which command fails (\<open>rd_fault\<close>; a failing command has no effect) and its
  clock in milliseconds at each command (\<open>rd_time\<close>). Counters are kept apart from
  texts: the program never uses a key as both.
\<close>

datatype redis_value = RCounter nat | RText string

record redis =
  rd_keys :: "string \<Rightarrow> (redis_value \<times> int option) option"
  rd_cmds :: nat
  rd_fault :: "nat \<Rightarrow> exn option"
  rd_time :: "nat \<Rightarrow> int"

text \<open>A key whose time to live has passed is gone.\<close>

definition rd_lookup :: "redis \<Rightarrow> string \<Rightarrow> (redis_value \<times> int option) option" where
  "rd_lookup r k = (case rd_keys r k of
      None \<Rightarrow> None
    | Some (v, None) \<Rightarrow> Some (v, None)
    | Some (v, Some t) \<Rightarrow> if rd_time r (rd_cmds r) < t then Some (v, Some t) else None)"

type_synonym 'b redis_cmd = "redis \<Rightarrow> exn + ('b \<times> redis)"

definition rd_run :: "'b redis_cmd \<Rightarrow> redis \<Rightarrow> (exn + 'b) \<times> redis" where
  "rd_run cmd r =
     (let next = (\<lambda>r'. r'\<lparr>rd_cmds := Suc (rd_cmds r')\<rparr>)
      in case rd_fault r (rd_cmds r) of
           Some e \<Rightarrow> (Inl e, next r)
         | None \<Rightarrow> (case cmd r of Inl e \<Rightarrow> (Inl e, next r) | Inr (x, r') \<Rightarrow> (Inr x, next r')))"

definition rd_INCR :: "string \<Rightarrow> nat redis_cmd" where
  "rd_INCR k r = (case rd_lookup r k of
      None \<Rightarrow> Inr (1, r\<lparr>rd_keys := (rd_keys r)(k := Some (RCounter 1, None))\<rparr>)
    | Some (RCounter n, t) \<Rightarrow> Inr (Suc n, r\<lparr>rd_keys := (rd_keys r)(k := Some (RCounter (Suc n), t))\<rparr>)
    | Some (RText s, t) \<Rightarrow> Inl (JsError ''ERR value is not an integer or out of range''))"

definition rd_EXPIRE :: "string \<Rightarrow> int \<Rightarrow> bool redis_cmd" where
  "rd_EXPIRE k secs r = (case rd_lookup r k of
      None \<Rightarrow> Inr (False, r)
    | Some (v, t) \<Rightarrow>
        Inr (True, r\<lparr>rd_keys := (rd_keys r)(k := Some (v, Some (rd_time r (rd_cmds r) + 1000 * secs)))\<rparr>))"

text \<open>The answer is whether the key was set (\<open>'OK'\<close>).\<close>

definition rd_SET_NX_EX :: "string \<Rightarrow> string \<Rightarrow> int \<Rightarrow> bool redis_cmd" where
  "rd_SET_NX_EX k v secs r = (case rd_lookup r k of
      Some x \<Rightarrow> Inr (False, r)
    | None \<Rightarrow>
        Inr (True, r\<lparr>rd_keys := (rd_keys r)(k := Some (RText v, Some (rd_time r (rd_cmds r) + 1000 * secs)))\<rparr>))"

definition rd_GETDEL :: "string \<Rightarrow> string option redis_cmd" where
  "rd_GETDEL k r = (case rd_lookup r k of
      None \<Rightarrow> Inr (None, r\<lparr>rd_keys := (rd_keys r)(k := None)\<rparr>)
    | Some (RText s, t) \<Rightarrow> Inr (Some s, r\<lparr>rd_keys := (rd_keys r)(k := None)\<rparr>)
    | Some (RCounter n, t) \<Rightarrow>
        Inl (JsError ''WRONGTYPE Operation against a key holding the wrong kind of value''))"

end
