(* ===== verification/World.thy ===== *)
theory World
  imports Models Redis
begin

text \<open>
  What every part of the server shares: the clock, the source of UUIDs, the third-party
  services as parameters, and the log of the calls made to them. The services of one
  process are given by the functions of \<open>ext\<close>; each answer may depend on every call made
  before, so nothing is assumed of them unless a theorem says so.
\<close>

section \<open>Requests\<close>

text \<open>
  A request as the handlers see it: \<open>rq_url\<close> is \<open>originalUrl\<close>, header names are in lower case,
  \<open>rq_route\<close> the pattern of the matched route, \<open>rq_rawBody\<close> what the JSON parser kept of the body
  and \<open>rq_authPublicKey\<close> what \<open>signatureAuth\<close> sets.
\<close>

record http_request =
  rq_method :: string
  rq_url :: string
  rq_route :: "string option"
  rq_header :: "string \<Rightarrow> string option"
  rq_ip :: string
  rq_body :: "json option"
  rq_rawBody :: "string option"
  rq_authPublicKey :: "string option"

text \<open>
  A response is a status and a body: an error with an optional \<open>detail\<close> text, the
  validation error whose detail is zod's flattened issue list, or a JSON value.
\<close>

datatype body =
    ErrorBody string "string option"
  | InvalidRequest
  | JsonBody json

type_synonym response = "nat \<times> body"

definition error_response :: "nat \<Rightarrow> string \<Rightarrow> response" where
  "error_response st e = (st, ErrorBody e None)"

definition error_detail :: "nat \<Rightarrow> string \<Rightarrow> exn \<Rightarrow> response" where
  "error_detail st e err = (st, ErrorBody e (err_message err))"

section \<open>Third-party services\<close>

record create_single_release =
  csr_engagementId :: string
  csr_title :: string
  csr_description :: string
  csr_approver :: string
  csr_serviceProvider :: string
  csr_releaseSigner :: string
  csr_platformAddress :: string
  csr_disputeResolver :: string
  csr_amount :: rat
  csr_milestone :: string
  csr_trustline_address :: string
  csr_trustline_code :: string

record release_result =
  rr_success :: bool
  rr_transactionHash :: string
  rr_amountReleased :: rat
  rr_receiver :: string

record dispute_result =
  dr_success :: bool
  dr_disputeId :: string
  dr_status :: string

text \<open>The calls that leave the process, in the order they are made.\<close>

datatype call =
    TwCreate create_single_release
  | TwRelease string
  | TwDispute string string string
  | TwLoad
  | RegistryIsRegistered string
  | RegistryRegister string string
  | UsdcClient
  | UsdcTransfer string string int
  | UsdcSend
  | FeedTick nat string string string
  | WebhookPost string json
  | Sleep int
  | MetricInc string "string list"
  | MetricAdd string nat
  | MetricSet string "string list" rat
  | RedisStream "string list"
  | HttpGet string
  | LoadAccount string
  | MppLoad
  | MppCharge string string
  | X402Init
  | X402Gate
  | RpcHealth

text \<open>The answer to a Redis command, and a balance line of a Stellar account.\<close>

datatype reply = NilReply | IntReply int | TextReply string | ArrayReply "reply list"

record horizon_balance =
  hb_asset_type :: string
  hb_asset_code :: "string option"
  hb_asset_issuer :: "string option"
  hb_balance :: string

text \<open>
  \<^item> \<open>x_date_parse\<close>, \<open>x_num_string\<close>: \<open>Date.parse\<close> (implementation-defined outside ISO text,
    \<open>None\<close> for \<open>NaN\<close>) and the shortest decimal text of a number;
  \<^item> \<open>x_public_key_of\<close>: \<open>Keypair.fromSecret(s).publicKey()\<close> (\<open>None\<close> where it throws);
    \<open>x_key_ok\<close>: whether \<open>Keypair.fromPublicKey\<close> accepts a key; \<open>x_verify\<close>, \<open>x_sign\<close>,
    \<open>x_sha256\<close>: Ed25519 (a verification may throw) and the hexadecimal SHA-256; \<open>x_locale_le a b\<close>: \<open>a.localeCompare(b) <= 0\<close>;
  \<^item> \<open>x_tw_*\<close>: loading the Trustless Work client, and its operations; \<open>x_registry_*\<close>: the on-chain Registry;
    \<open>x_usdc_*\<close>: reaching the USDC contract, building a transfer and sending it (with the
    hash of the sent transaction, if any); \<open>x_fetch\<close>: an HTTP POST, which
    answers with a status, a body (reading it may throw) and the \<open>Retry-After\<close> header, or throws;
    \<open>x_http_get\<close>: the same for a GET, without the header;
  \<^item> \<open>x_stream\<close>: the answer of Redis to a command on its stream; \<open>x_json_parse\<close>: \<open>JSON.parse\<close>
    (\<open>None\<close> where it throws); \<open>x_load_account\<close>: the balances Horizon reports for an account;
  \<^item> \<open>x_mpp_*\<close>: loading \<open>mppx\<close>, and its payment gate for an amount and a description; \<open>x_x402_*\<close>: the
    synchronisation with the facilitator, and its gate (a gate answers, or passes the request on:
    \<open>None\<close>); \<open>x_rpc_health\<close>: the status of the Stellar RPC.
\<close>

record ext =
  x_date_parse :: "string \<Rightarrow> int option"
  x_num_string :: "rat \<Rightarrow> string"
  x_public_key_of :: "string \<Rightarrow> string option"
  x_key_ok :: "string \<Rightarrow> bool"
  x_verify :: "string \<Rightarrow> string \<Rightarrow> string \<Rightarrow> exn + bool"
  x_sign :: "string \<Rightarrow> string"
  x_sha256 :: "string \<Rightarrow> string"
  x_locale_le :: "string \<Rightarrow> string \<Rightarrow> bool"
  x_tw_load :: "call list \<Rightarrow> exn + unit"
  x_tw_create :: "call list \<Rightarrow> create_single_release \<Rightarrow> exn + string"
  x_tw_release :: "call list \<Rightarrow> string \<Rightarrow> exn + release_result"
  x_tw_dispute :: "call list \<Rightarrow> string \<Rightarrow> string \<Rightarrow> string \<Rightarrow> exn + dispute_result"
  x_registry_is_registered :: "call list \<Rightarrow> string \<Rightarrow> exn + bool"
  x_registry_register :: "call list \<Rightarrow> string \<Rightarrow> string \<Rightarrow> exn + unit"
  x_usdc_client :: "call list \<Rightarrow> exn + unit"
  x_usdc_transfer :: "call list \<Rightarrow> string \<Rightarrow> string \<Rightarrow> int \<Rightarrow> exn + unit"
  x_usdc_send :: "call list \<Rightarrow> exn + string option"
  x_fetch :: "call list \<Rightarrow> string \<Rightarrow> json \<Rightarrow> exn + (int \<times> (exn + string) \<times> string option)"
  x_http_get :: "call list \<Rightarrow> string \<Rightarrow> exn + (int \<times> (exn + string))"
  x_stream :: "call list \<Rightarrow> string list \<Rightarrow> exn + reply"
  x_json_parse :: "string \<Rightarrow> json option"
  x_load_account :: "call list \<Rightarrow> string \<Rightarrow> exn + horizon_balance list"
  x_mpp_load :: "call list \<Rightarrow> exn + unit"
  x_mpp_gate :: "call list \<Rightarrow> string \<Rightarrow> string \<Rightarrow> http_request \<Rightarrow> exn + response option"
  x_x402_init :: "call list \<Rightarrow> exn + unit"
  x_x402_gate :: "call list \<Rightarrow> http_request \<Rightarrow> exn + response option"
  x_rpc_health :: "call list \<Rightarrow> exn + string"

section \<open>The world\<close>

text \<open>
  \<open>w_now n\<close> is the \<open>n\<close>-th reading of the clock (milliseconds), \<open>w_uuid n\<close> the \<open>n\<close>-th
  random UUID and \<open>w_random n\<close> the \<open>n\<close>-th \<open>Math.random()\<close>; \<open>w_feed_seq\<close> is the counter of the
  task feed, \<open>w_redis\<close> the Redis server; \<open>w_tw_client\<close> is the settled
  \<open>clientPromise\<close> of the escrow service, \<open>w_mpp\<close> that of \<open>mppxPromise\<close>; \<open>w_redis_client\<close> says whether
  the Redis client of the process was created, \<open>w_x402\<close> whether \<open>initPromise\<close> is fulfilled.
\<close>

record env =
  w_ext :: ext
  w_now :: "nat \<Rightarrow> int"
  w_reads :: nat
  w_uuid :: "nat \<Rightarrow> string"
  w_uuids :: nat
  w_log :: "call list"
  w_feed_seq :: nat
  w_random :: "nat \<Rightarrow> rat"
  w_randoms :: nat
  w_redis :: redis
  w_tw_client :: "(exn + unit) option"
  w_mpp :: "(exn + unit) option"
  w_x402 :: bool
  w_redis_client :: bool

definition date_now :: "('a env_scheme, int) prog" where
  "date_now = (\<lambda>w. (Inr (w_now w (w_reads w)), w\<lparr>w_reads := Suc (w_reads w)\<rparr>))"

definition randomUUID :: "('a env_scheme, string) prog" where
  "randomUUID = (\<lambda>w. (Inr (w_uuid w (w_uuids w)), w\<lparr>w_uuids := Suc (w_uuids w)\<rparr>))"

definition math_random :: "('a env_scheme, rat) prog" where
  "math_random = (\<lambda>w. (Inr (w_random w (w_randoms w)), w\<lparr>w_randoms := Suc (w_randoms w)\<rparr>))"

definition redis_cmd :: "'b redis_cmd \<Rightarrow> ('a env_scheme, 'b) prog" where
  "redis_cmd cmd = (\<lambda>w. case rd_run cmd (w_redis w) of (r, s) \<Rightarrow> (r, w\<lparr>w_redis := s\<rparr>))"

text \<open>A call to a service: it is logged, then the service answers.\<close>

definition call_ext :: "call \<Rightarrow> (ext \<Rightarrow> call list \<Rightarrow> exn + 'b) \<Rightarrow> ('a env_scheme, 'b) prog" where
  "call_ext c f = (\<lambda>w. (f (w_ext w) (w_log w), w\<lparr>w_log := w_log w @ [c]\<rparr>))"

section \<open>Computations that leave the stores alone\<close>

text \<open>
  \<open>env_only m\<close>: \<open>m\<close> reads and writes only this shared part, so the stores, which live in
  the extension \<open>env.more\<close>, are as before; and no UUID is drawn twice.
\<close>

definition env_step :: "'a env_scheme \<Rightarrow> 'a env_scheme \<Rightarrow> bool" where
  "env_step w w' \<longleftrightarrow> env.more w' = env.more w \<and> w_uuid w' = w_uuid w \<and> w_uuids w \<le> w_uuids w'"

interpretation env_order: world_order env_step
  by unfold_locales (auto simp: env_step_def)

definition env_only :: "('a env_scheme, 'b) prog \<Rightarrow> bool" where
  "env_only m \<longleftrightarrow> evolves env_step m"

lemma env_onlyD: "env_only m \<Longrightarrow> m w = (r, w') \<Longrightarrow> env_step w w'"
  by (simp add: env_only_def evolvesD)

lemma env_onlyD_more: "env_only m \<Longrightarrow> m w = (r, w') \<Longrightarrow> env.more w' = env.more w"
  by (drule (1) env_onlyD) (simp add: env_step_def)

named_theorems env_only_rules "computations that leave the stores alone"

lemma env_only_ret [env_only_rules]: "env_only (ret x)"
  and env_only_throw [env_only_rules]: "env_only (throw e)"
  and env_only_gets [env_only_rules]: "env_only (getsE g)"
  and env_only_lift [env_only_rules]: "env_only (liftE r)"
  by (auto simp: env_only_def intro: env_order.evolves_intros)

lemma env_only_modify [env_only_rules]: "(\<And>w. env_step w (f w)) \<Longrightarrow> env_only (modifyE f)"
  by (simp add: env_only_def evolves_def modifyE_apply)

lemma env_step_feed [env_only_rules]: "env_step w (w\<lparr>w_feed_seq := n\<rparr>)"
  by (simp add: env_step_def)

lemma env_only_bind [env_only_rules]:
  "env_only m \<Longrightarrow> (\<And>x. env_only (f x)) \<Longrightarrow> env_only (bindE m f)"
  by (auto simp: env_only_def intro: env_order.evolves_bind)

lemma env_only_try [env_only_rules]:
  "env_only m \<Longrightarrow> (\<And>x. env_only (f x)) \<Longrightarrow> (\<And>e. env_only (h e)) \<Longrightarrow> env_only (tryE m f h)"
  by (auto simp: env_only_def intro: env_order.evolves_try)

lemma env_only_catch [env_only_rules]:
  "env_only m \<Longrightarrow> (\<And>e. env_only (h e)) \<Longrightarrow> env_only (catchE m h)"
  by (auto simp: env_only_def intro: env_order.evolves_catch)

lemma env_only_now [env_only_rules]: "env_only date_now"
  and env_only_uuid [env_only_rules]: "env_only randomUUID"
  and env_only_random [env_only_rules]: "env_only math_random"
  and env_only_redis [env_only_rules]: "env_only (redis_cmd cmd)"
  and env_only_call [env_only_rules]: "env_only (call_ext c f)"
  by (simp_all add: env_only_def env_step_def evolves_def date_now_def randomUUID_def math_random_def
      redis_cmd_def call_ext_def split: prod.split)

lemma env_only_if [env_only_rules]:
  "env_only m \<Longrightarrow> env_only m' \<Longrightarrow> env_only (if b then m else m')"
  by simp

end
