(* ===== verification/Store.thy ===== *)
theory Store
  imports World
begin

text \<open>
  The repository interfaces the controllers and services are given
  (\<open>TaskRepositoryLike\<close>, \<open>BidRepositoryLike\<close>) as records of operations, the abstract
  market they store, and the contract of a repository as a locale. The in-memory and the
  PostgreSQL repositories are proved to meet the contract in their own theories.
\<close>

section \<open>Interfaces\<close>

record 'w task_repo =
  tr_save :: "task \<Rightarrow> ('w, unit) prog"
  tr_findById :: "string \<Rightarrow> ('w, task option) prog"
  tr_list :: "('w, task list) prog"

record 'w bid_repo =
  br_save :: "bid \<Rightarrow> ('w, unit) prog"
  br_findById :: "string \<Rightarrow> ('w, bid option) prog"
  br_findByTaskId :: "string \<Rightarrow> ('w, bid list) prog"
  br_list :: "('w, bid list) prog"

text \<open>Published results and registered executors, with their own repositories.\<close>

record task_result =
  res_taskId :: string
  res_payload :: json
  res_payloadHash :: string
  res_createdAt :: string

record 'w result_repo =
  rr_upsert :: "string \<Rightarrow> json \<Rightarrow> string \<Rightarrow> ('w, unit) prog"
  rr_findByTaskId :: "string \<Rightarrow> ('w, task_result option) prog"

record executor_record =
  ex_publicKey :: string
  ex_metadataUri :: string
  ex_registeredAt :: string

record 'w executor_repo =
  er_save :: "executor_record \<Rightarrow> ('w, unit) prog"
  er_findByPublicKey :: "string \<Rightarrow> ('w, executor_record option) prog"
  er_list :: "('w, executor_record list) prog"

section \<open>The abstract market\<close>

text \<open>\<open>mk_key\<close> is how the store reads an identifier it is given.\<close>

record market =
  mk_key :: "string \<Rightarrow> string"
  mk_tasks :: "string \<rightharpoonup> task"
  mk_bids :: "string \<rightharpoonup> bid"

text \<open>
  What may happen to a stored task: everything but its status is fixed, and the status
  moves up.
\<close>

definition task_le :: "task \<Rightarrow> task \<Rightarrow> bool" where
  "task_le t t' \<longleftrightarrow> (\<exists>s. t' = t\<lparr>task_status := s\<rparr> \<and> task_status t \<le> s)"

text \<open>And to a stored bid.\<close>

definition bid_le :: "bid \<Rightarrow> bid \<Rightarrow> bool" where
  "bid_le b b' \<longleftrightarrow> (\<exists>s. b' = b\<lparr>bid_status := s\<rparr> \<and> bid_status b \<le> s)"

definition market_le :: "market \<Rightarrow> market \<Rightarrow> bool" where
  "market_le M M' \<longleftrightarrow>
     (\<forall>i t. mk_tasks M i = Some t \<longrightarrow> (\<exists>t'. mk_tasks M' i = Some t' \<and> task_le t t')) \<and>
     (\<forall>i b. mk_bids M i = Some b \<longrightarrow> (\<exists>b'. mk_bids M' i = Some b' \<and> bid_le b b'))"

lemma task_le_refl [simp, intro]: "task_le t t"
  by (auto simp: task_le_def intro: exI [where x = "task_status t"])

lemma task_le_trans: "task_le t1 t2 \<Longrightarrow> task_le t2 t3 \<Longrightarrow> task_le t1 t3"
  by (auto simp: task_le_def)

lemma bid_le_refl [simp, intro]: "bid_le b b"
  by (auto simp: bid_le_def intro: exI [where x = "bid_status b"])

lemma bid_le_trans: "bid_le b1 b2 \<Longrightarrow> bid_le b2 b3 \<Longrightarrow> bid_le b1 b3"
  by (auto simp: bid_le_def)

lemma market_le_refl [simp, intro]: "market_le M M"
  by (auto simp: market_le_def)

lemma market_le_trans: "market_le M1 M2 \<Longrightarrow> market_le M2 M3 \<Longrightarrow> market_le M1 M3"
  unfolding market_le_def by (meson bid_le_trans task_le_trans)

lemma task_le_status: "task_status t \<le> s \<Longrightarrow> task_le t (t\<lparr>task_status := s\<rparr>)"
  by (auto simp: task_le_def)

lemma bid_le_status: "bid_status b \<le> s \<Longrightarrow> bid_le b (b\<lparr>bid_status := s\<rparr>)"
  by (auto simp: bid_le_def)

lemma market_le_task_update:
  assumes "\<And>t0. mk_tasks M i = Some t0 \<Longrightarrow> task_le t0 t"
  shows "market_le M (M\<lparr>mk_tasks := (mk_tasks M)(i \<mapsto> t)\<rparr>)"
  using assms by (auto simp: market_le_def)

lemma market_le_bid_update:
  assumes "\<And>b0. mk_bids M i = Some b0 \<Longrightarrow> bid_le b0 b"
  shows "market_le M (M\<lparr>mk_bids := (mk_bids M)(i \<mapsto> b)\<rparr>)"
  using assms by (auto simp: market_le_def)

lemma market_le_status:
  assumes "market_le M M'" and "mk_tasks M i = Some t"
  obtains t' where "mk_tasks M' i = Some t'" and "task_status t \<le> task_status t'"
    and "t' = t\<lparr>task_status := task_status t'\<rparr>"
  using assms unfolding market_le_def task_le_def by fastforce

text \<open>A step that adds no identifier: only statuses change.\<close>

definition status_step :: "market \<Rightarrow> market \<Rightarrow> bool" where
  "status_step M M' \<longleftrightarrow> market_le M M' \<and> mk_key M' = mk_key M \<and>
     dom (mk_tasks M') = dom (mk_tasks M) \<and> dom (mk_bids M') = dom (mk_bids M)"

lemma status_step_refl [simp, intro]: "status_step M M"
  by (simp add: status_step_def)

lemma status_step_trans: "status_step M1 M2 \<Longrightarrow> status_step M2 M3 \<Longrightarrow> status_step M1 M3"
  unfolding status_step_def using market_le_trans by metis

lemma status_step_le: "status_step M M' \<Longrightarrow> market_le M M'"
  by (simp add: status_step_def)

lemma status_step_task:
  assumes "mk_tasks M i = Some t" and "task_status t \<le> s"
  shows "status_step M (M\<lparr>mk_tasks := (mk_tasks M)(i \<mapsto> t\<lparr>task_status := s\<rparr>)\<rparr>)"
  using assms market_le_task_update [of M i "t\<lparr>task_status := s\<rparr>"]
  by (auto simp: status_step_def task_le_status)

lemma status_step_bid:
  assumes "mk_bids M i = Some b" and "bid_status b \<le> s"
  shows "status_step M (M\<lparr>mk_bids := (mk_bids M)(i \<mapsto> b\<lparr>bid_status := s\<rparr>)\<rparr>)"
  using assms market_le_bid_update [of M i "b\<lparr>bid_status := s\<rparr>"]
  by (auto simp: status_step_def bid_le_status)

section \<open>Contracts\<close>

text \<open>
  A view of the world as a market, with the invariant of its representation: both depend
  on the stores only.
\<close>

locale world_view =
  fixes abs :: "'a env_scheme \<Rightarrow> market"
    and inv :: "'a env_scheme \<Rightarrow> bool"
  assumes abs_more: "env.more w' = env.more w \<Longrightarrow> abs w' = abs w"
    and inv_more: "env.more w' = env.more w \<Longrightarrow> inv w' = inv w"
    and tasks_keyed: "inv w \<Longrightarrow> mk_tasks (abs w) i = Some t \<Longrightarrow> task_id t = i"
    and bids_keyed: "inv w \<Longrightarrow> mk_bids (abs w) i = Some b \<Longrightarrow> bid_id b = i"
begin

text \<open>The UUIDs still to be drawn name nothing in the store, and no two name the same.\<close>

definition fresh :: "'a env_scheme \<Rightarrow> bool" where
  "fresh w \<longleftrightarrow>
     (\<forall>m n. mk_key (abs w) (w_uuid w m) = mk_key (abs w) (w_uuid w n) \<longrightarrow> m = n) \<and>
     (\<forall>n \<ge> w_uuids w. mk_tasks (abs w) (mk_key (abs w) (w_uuid w n)) = None \<and>
        mk_bids (abs w) (mk_key (abs w) (w_uuid w n)) = None)"

text \<open>The relation every operation of the server is proved to respect.\<close>

definition lifecycle :: "'a env_scheme \<Rightarrow> 'a env_scheme \<Rightarrow> bool" where
  "lifecycle w w' \<longleftrightarrow>
     (inv w \<and> fresh w \<longrightarrow> inv w' \<and> fresh w' \<and> market_le (abs w) (abs w'))"

lemma fresh_env_step: "env_step w w' \<Longrightarrow> fresh w \<Longrightarrow> fresh w'"
  using abs_more [of w' w] by (simp add: fresh_def env_step_def)

text \<open>An update of the store that adds no identifier.\<close>

lemma fresh_update:
  assumes "fresh w" and "env.truncate w' = env.truncate w" and "mk_key (abs w') = mk_key (abs w)"
    and "dom (mk_tasks (abs w')) \<subseteq> dom (mk_tasks (abs w))" and "dom (mk_bids (abs w')) \<subseteq> dom (mk_bids (abs w))"
  shows "fresh w'"
proof -
  have "w_uuid w' = w_uuid w" "w_uuids w' = w_uuids w"
    using arg_cong [OF assms(2), of w_uuid] arg_cong [OF assms(2), of w_uuids] by (simp_all add: env.truncate_def)
  moreover have "mk_tasks (abs w) i = None \<Longrightarrow> mk_tasks (abs w') i = None"
    "mk_bids (abs w) i = None \<Longrightarrow> mk_bids (abs w') i = None" for i
    using assms(4,5) by (meson domIff subsetD)+
  ultimately show ?thesis using assms(1) by (simp add: fresh_def assms(3))
qed

lemma fresh_status_step:
  assumes "fresh w" and "env.truncate w' = env.truncate w" and "status_step (abs w) (abs w')"
  shows "fresh w'"
  using assms(3) by (intro fresh_update [OF assms(1,2)]) (auto simp: status_step_def)

lemma lifecycle_refl: "lifecycle w w"
  by (simp add: lifecycle_def)

lemma lifecycle_trans: "lifecycle w1 w2 \<Longrightarrow> lifecycle w2 w3 \<Longrightarrow> lifecycle w1 w3"
  by (auto simp: lifecycle_def intro: market_le_trans)

lemma env_only_view:
  assumes "env_only m" and "m w = (r, w')"
  shows "abs w' = abs w" and "inv w' = inv w" and "fresh w \<Longrightarrow> fresh w'"
  using env_onlyD [OF assms] fresh_env_step by (auto simp: env_step_def dest: abs_more inv_more)

lemma env_only_lifecycle: "env_only m \<Longrightarrow> evolves lifecycle m"
  by (intro evolvesI) (auto simp: lifecycle_def env_only_view)

end

sublocale world_view \<subseteq> life: world_order lifecycle
  by unfold_locales (rule lifecycle_refl, erule (1) lifecycle_trans)

text \<open>
  A task repository. \<open>tnorm\<close> is what the store makes of the fields it is given (PostgreSQL normalises the time stamp); a save that throws has
  stored nothing.
\<close>

locale task_store = world_view abs inv
  for abs :: "'a env_scheme \<Rightarrow> market" and inv :: "'a env_scheme \<Rightarrow> bool" +
  fixes tr :: "'a env_scheme task_repo"
    and tnorm :: "'a env_scheme \<Rightarrow> task \<Rightarrow> task"
  assumes t_find: "inv w \<Longrightarrow> tr_findById tr i w = (r, w') \<Longrightarrow>
        inv w' \<and> abs w' = abs w \<and> env.truncate w' = env.truncate w \<and>
        (\<forall>x. r = Inr x \<longrightarrow> x = mk_tasks (abs w) (mk_key (abs w) i))"
    and t_list: "inv w \<Longrightarrow> tr_list tr w = (rl, w') \<Longrightarrow>
        inv w' \<and> abs w' = abs w \<and> env.truncate w' = env.truncate w \<and>
        (\<forall>xs. rl = Inr xs \<longrightarrow> set xs = ran (mk_tasks (abs w)) \<and> distinct (map task_id xs))"
    and t_save: "inv w \<Longrightarrow> tr_save tr t w = (ru, w') \<Longrightarrow>
        inv w' \<and> env.truncate w' = env.truncate w \<and>
        abs w' = (case ru of
          Inr u \<Rightarrow> (abs w)\<lparr>mk_tasks := (mk_tasks (abs w))(mk_key (abs w) (task_id t) \<mapsto> tnorm w t)\<rparr>
        | Inl e \<Rightarrow> abs w)"
    and tnorm_fields: "task_requesterPublicKey (tnorm w t) = task_requesterPublicKey t \<and>
        task_reservePriceStroops (tnorm w t) = task_reservePriceStroops t \<and>
        task_description (tnorm w t) = task_description t \<and> task_status (tnorm w t) = task_status t"
    and tnorm_stored: "inv w \<Longrightarrow> mk_tasks (abs w) i = Some t \<Longrightarrow>
        mk_key (abs w) i = i \<and> tnorm w (t\<lparr>task_status := s\<rparr>) = t\<lparr>task_status := s\<rparr>"
begin

text \<open>Writing back a stored task with a later status.\<close>

lemma save_status:
  assumes "inv w" and "mk_tasks (abs w) i = Some t"
    and "tr_save tr (t\<lparr>task_status := s\<rparr>) w = (r, w')"
  shows "inv w'" and "env.truncate w' = env.truncate w"
    and "r = Inr u \<Longrightarrow> abs w' = (abs w)\<lparr>mk_tasks := (mk_tasks (abs w))(i \<mapsto> t\<lparr>task_status := s\<rparr>)\<rparr>"
    and "r = Inl e \<Longrightarrow> abs w' = abs w"
  using t_save [OF assms(1,3)] tnorm_stored [OF assms(1,2)] tasks_keyed [OF assms(1,2)]
  by (auto split: sum.splits)

lemma save_status_le:
  assumes "inv w" and "mk_tasks (abs w) i = Some t" and "task_status t \<le> s"
    and "tr_save tr (t\<lparr>task_status := s\<rparr>) w = (r, w')"
  shows "status_step (abs w) (abs w')"
proof (cases r)
  case (Inl e)
  then show ?thesis using save_status(4) [OF assms(1,2,4)] by simp
next
  case (Inr u)
  then have "abs w' = (abs w)\<lparr>mk_tasks := (mk_tasks (abs w))(i \<mapsto> t\<lparr>task_status := s\<rparr>)\<rparr>"
    using save_status(3) [OF assms(1,2,4)] by simp
  moreover have "status_step (abs w) \<dots>" using assms(2,3) by (rule status_step_task)
  ultimately show ?thesis by simp
qed

end

text \<open>A bid repository; an update keeps the creation time the row was inserted with.\<close>

locale bid_store = world_view abs inv
  for abs :: "'a env_scheme \<Rightarrow> market" and inv :: "'a env_scheme \<Rightarrow> bool" +
  fixes br :: "'a env_scheme bid_repo"
    and bnorm :: "'a env_scheme \<Rightarrow> bid \<Rightarrow> bid"
  assumes b_find: "inv w \<Longrightarrow> br_findByTaskId br i w = (rl, w') \<Longrightarrow>
        inv w' \<and> abs w' = abs w \<and> env.truncate w' = env.truncate w \<and>
        (\<forall>xs. rl = Inr xs \<longrightarrow>
           set xs = {b \<in> ran (mk_bids (abs w)). bid_taskId b = mk_key (abs w) i} \<and> distinct (map bid_id xs))"
    and b_save: "inv w \<Longrightarrow> br_save br b w = (r, w') \<Longrightarrow>
        inv w' \<and> env.truncate w' = env.truncate w \<and>
        abs w' = (case r of
          Inr u \<Rightarrow> (abs w)\<lparr>mk_bids := (mk_bids (abs w))(mk_key (abs w) (bid_id b) \<mapsto> bnorm w b)\<rparr>
        | Inl e \<Rightarrow> abs w)"
    and bnorm_fields: "bid_executorPublicKey (bnorm w b) = bid_executorPublicKey b \<and>
        bid_amountStroops (bnorm w b) = bid_amountStroops b \<and>
        bid_collateralStroops (bnorm w b) = bid_collateralStroops b \<and>
        bid_escrowId (bnorm w b) = bid_escrowId b \<and> bid_status (bnorm w b) = bid_status b \<and>
        bid_taskId (bnorm w b) = mk_key (abs w) (bid_taskId b)"
    and bnorm_stored: "inv w \<Longrightarrow> mk_bids (abs w) i = Some b \<Longrightarrow>
        mk_key (abs w) i = i \<and> mk_key (abs w) (bid_taskId b) = bid_taskId b \<and>
        bnorm w (b\<lparr>bid_status := s\<rparr>) = b\<lparr>bid_status := s\<rparr>"
begin

lemma save_bid_status:
  assumes "inv w" and "mk_bids (abs w) i = Some b"
    and "br_save br (b\<lparr>bid_status := s\<rparr>) w = (r, w')"
  shows "inv w'" and "env.truncate w' = env.truncate w"
    and "r = Inr u \<Longrightarrow> abs w' = (abs w)\<lparr>mk_bids := (mk_bids (abs w))(i \<mapsto> b\<lparr>bid_status := s\<rparr>)\<rparr>"
    and "r = Inl e \<Longrightarrow> abs w' = abs w"
  using b_save [OF assms(1,3)] bnorm_stored [OF assms(1,2)] bids_keyed [OF assms(1,2)]
  by (auto split: sum.splits)

lemma save_bid_status_le:
  assumes "inv w" and "mk_bids (abs w) i = Some b" and "bid_status b \<le> s"
    and "br_save br (b\<lparr>bid_status := s\<rparr>) w = (r, w')"
  shows "status_step (abs w) (abs w')"
proof (cases r)
  case (Inl e)
  then show ?thesis using save_bid_status(4) [OF assms(1,2,4)] by simp
next
  case (Inr u)
  then have "abs w' = (abs w)\<lparr>mk_bids := (mk_bids (abs w))(i \<mapsto> b\<lparr>bid_status := s\<rparr>)\<rparr>"
    using save_bid_status(3) [OF assms(1,2,4)] by simp
  moreover have "status_step (abs w) \<dots>" using assms(2,3) by (rule status_step_bid)
  ultimately show ?thesis by simp
qed

lemma found_bid:
  assumes "inv w" and "br_findByTaskId br i w = (Inr xs, w')" and "b \<in> set xs"
  shows "mk_bids (abs w) (bid_id b) = Some b" and "bid_taskId b = mk_key (abs w) i"
proof -
  from b_find [OF assms(1,2)] assms(3) obtain j where "mk_bids (abs w) j = Some b" "bid_taskId b = mk_key (abs w) i"
    by (auto simp: ran_def)
  with bids_keyed [OF assms(1)] show "mk_bids (abs w) (bid_id b) = Some b" "bid_taskId b = mk_key (abs w) i"
    by auto
qed

end

locale market_store =
  task_store abs inv tr tnorm + bid_store abs inv br bnorm
  for abs :: "'a env_scheme \<Rightarrow> market" and inv :: "'a env_scheme \<Rightarrow> bool"
    and tr :: "'a env_scheme task_repo"
    and tnorm :: "'a env_scheme \<Rightarrow> task \<Rightarrow> task"
    and br :: "'a env_scheme bid_repo" and bnorm :: "'a env_scheme \<Rightarrow> bid \<Rightarrow> bid"

end
