(* ===== verification/MemStore.thy ===== *)
theory MemStore
  imports Store
begin

text \<open>
  The in-memory repositories (\<open>InMemoryTaskRepository\<close>, \<open>InMemoryBidRepository\<close>,
  \<open>InMemoryTaskResultRepository\<close>, \<open>InMemoryExecutorRepository\<close>) that a local server
  without \<open>DATABASE_URL\<close> runs on, and the proof that they meet the contracts of \<open>Store\<close>.
  The program never mutates a stored object: it saves copies, so the maps hold values.
\<close>

record mem_world = env +
  m_tasks :: "(string, task) jsmap"
  m_bids :: "(string, bid) jsmap"
  m_results :: "(string, task_result) jsmap"
  m_executors :: "(string, executor_record) jsmap"

lemma mem_truncate [simp]:
  "env.truncate (w\<lparr>m_tasks := ts\<rparr>) = env.truncate w" "env.truncate (w\<lparr>m_bids := bs\<rparr>) = env.truncate w"
  "env.truncate (w\<lparr>m_results := rs\<rparr>) = env.truncate w" "env.truncate (w\<lparr>m_executors := es\<rparr>) = env.truncate w"
  by (simp_all add: env.truncate_def)

section \<open>Tasks\<close>

definition mem_task_save :: "task \<Rightarrow> (mem_world, unit) prog" where
  "mem_task_save t = modifyE (\<lambda>w. w\<lparr>m_tasks := jsmap_set (task_id t) t (m_tasks w)\<rparr>)"

definition mem_task_findById :: "string \<Rightarrow> (mem_world, task option) prog" where
  "mem_task_findById i = getsE (\<lambda>w. jsmap_get (m_tasks w) i)"

definition mem_task_list :: "(mem_world, task list) prog" where
  "mem_task_list = getsE (\<lambda>w. jsmap_values (m_tasks w))"

definition mem_task_repo :: "mem_world task_repo" where
  "mem_task_repo =
     \<lparr> tr_save = mem_task_save, tr_findById = mem_task_findById, tr_list = mem_task_list \<rparr>"

section \<open>Bids\<close>

definition mem_bid_save :: "bid \<Rightarrow> (mem_world, unit) prog" where
  "mem_bid_save b = modifyE (\<lambda>w. w\<lparr>m_bids := jsmap_set (bid_id b) b (m_bids w)\<rparr>)"

definition mem_bid_findById :: "string \<Rightarrow> (mem_world, bid option) prog" where
  "mem_bid_findById i = getsE (\<lambda>w. jsmap_get (m_bids w) i)"

definition mem_bid_list :: "(mem_world, bid list) prog" where
  "mem_bid_list = getsE (\<lambda>w. jsmap_values (m_bids w))"

definition mem_bid_findByTaskId :: "string \<Rightarrow> (mem_world, bid list) prog" where
  "mem_bid_findByTaskId i =
     bindE mem_bid_list (\<lambda>bs. ret (filter (\<lambda>b. bid_taskId b = i) bs))"

definition mem_bid_repo :: "mem_world bid_repo" where
  "mem_bid_repo =
     \<lparr> br_save = mem_bid_save, br_findById = mem_bid_findById,
       br_findByTaskId = mem_bid_findByTaskId, br_list = mem_bid_list \<rparr>"

section \<open>Results and executors\<close>

definition mem_result_upsert :: "string \<Rightarrow> json \<Rightarrow> string \<Rightarrow> (mem_world, unit) prog" where
  "mem_result_upsert i payload hash =
     bindE date_now (\<lambda>now. modifyE (\<lambda>w. w\<lparr>m_results :=
       jsmap_set i \<lparr> res_taskId = i, res_payload = payload, res_payloadHash = hash,
                     res_createdAt = toISOString now \<rparr> (m_results w)\<rparr>))"

definition mem_result_findByTaskId :: "string \<Rightarrow> (mem_world, task_result option) prog" where
  "mem_result_findByTaskId i = getsE (\<lambda>w. jsmap_get (m_results w) i)"

definition mem_result_repo :: "mem_world result_repo" where
  "mem_result_repo =
     \<lparr> rr_upsert = mem_result_upsert, rr_findByTaskId = mem_result_findByTaskId \<rparr>"

definition mem_executor_save :: "executor_record \<Rightarrow> (mem_world, unit) prog" where
  "mem_executor_save e =
     modifyE (\<lambda>w. w\<lparr>m_executors := jsmap_set (ex_publicKey e) e (m_executors w)\<rparr>)"

definition mem_executor_findByPublicKey :: "string \<Rightarrow> (mem_world, executor_record option) prog" where
  "mem_executor_findByPublicKey k = getsE (\<lambda>w. jsmap_get (m_executors w) k)"

definition mem_executor_list :: "(mem_world, executor_record list) prog" where
  "mem_executor_list = getsE (\<lambda>w. jsmap_values (m_executors w))"

definition mem_executor_repo :: "mem_world executor_repo" where
  "mem_executor_repo =
     \<lparr> er_save = mem_executor_save, er_findByPublicKey = mem_executor_findByPublicKey,
       er_list = mem_executor_list \<rparr>"

lemmas mem_repo_defs = mem_task_repo_def mem_task_save_def mem_task_findById_def mem_task_list_def
  mem_bid_repo_def mem_bid_save_def mem_bid_findById_def mem_bid_findByTaskId_def mem_bid_list_def
  mem_result_repo_def mem_result_upsert_def mem_result_findByTaskId_def
  mem_executor_repo_def mem_executor_save_def mem_executor_findByPublicKey_def mem_executor_list_def

lemma mem_repo_sel [simp]:
  "tr_save mem_task_repo = mem_task_save" "tr_findById mem_task_repo = mem_task_findById"
  "tr_list mem_task_repo = mem_task_list"
  "br_save mem_bid_repo = mem_bid_save" "br_findById mem_bid_repo = mem_bid_findById"
  "br_findByTaskId mem_bid_repo = mem_bid_findByTaskId" "br_list mem_bid_repo = mem_bid_list"
  "rr_upsert mem_result_repo = mem_result_upsert" "rr_findByTaskId mem_result_repo = mem_result_findByTaskId"
  "er_save mem_executor_repo = mem_executor_save"
  "er_findByPublicKey mem_executor_repo = mem_executor_findByPublicKey"
  "er_list mem_executor_repo = mem_executor_list"
  by (simp_all add: mem_task_repo_def mem_bid_repo_def mem_result_repo_def mem_executor_repo_def)

section \<open>The contracts\<close>

definition mem_market :: "mem_world \<Rightarrow> market" where
  "mem_market w = \<lparr> mk_key = (\<lambda>i. i), mk_tasks = jsmap_get (m_tasks w), mk_bids = jsmap_get (m_bids w) \<rparr>"

definition mem_inv :: "mem_world \<Rightarrow> bool" where
  "mem_inv w \<longleftrightarrow> keyed task_id (m_tasks w) \<and> keyed bid_id (m_bids w)"

lemma mem_more: "env.more w' = env.more w \<Longrightarrow> m_tasks w' = m_tasks w \<and> m_bids w' = m_bids w \<and>
    m_results w' = m_results w \<and> m_executors w' = m_executors w"
  by (cases w; cases w') simp

lemma mem_view: "world_view mem_market mem_inv"
proof
  fix w w' :: mem_world
  assume more: "env.more w' = env.more w"
  show "mem_market w' = mem_market w" "mem_inv w' = mem_inv w"
    using mem_more [OF more] by (simp_all add: mem_market_def mem_inv_def)
next
  fix w i t assume "mem_inv w" "mk_tasks (mem_market w) i = Some t"
  then show "task_id t = i" by (auto simp: mem_market_def mem_inv_def dest: keyed_get)
next
  fix w i b assume "mem_inv w" "mk_bids (mem_market w) i = Some b"
  then show "bid_id b = i" by (auto simp: mem_market_def mem_inv_def dest: keyed_get)
qed

text \<open>The bids of a task, in the order they were first placed.\<close>

definition bids_of_task :: "mem_world \<Rightarrow> string \<Rightarrow> bid list" where
  "bids_of_task w i = filter (\<lambda>b. bid_taskId b = i) (jsmap_values (m_bids w))"

lemma mem_bid_findByTaskId_run:
  "mem_bid_findByTaskId i w = (Inr (bids_of_task w i), w)"
  by (simp add: mem_bid_findByTaskId_def mem_bid_list_def bids_of_task_def prog_run)

lemma mem_task_findById_run: "mem_task_findById i w = (Inr (jsmap_get (m_tasks w) i), w)"
  by (simp add: mem_task_findById_def getsE_apply)

lemma mem_task_save_run: "mem_task_save t w = (Inr (), w\<lparr>m_tasks := jsmap_set (task_id t) t (m_tasks w)\<rparr>)"
  by (simp add: mem_task_save_def modifyE_apply)

lemma mem_bid_save_run: "mem_bid_save b w = (Inr (), w\<lparr>m_bids := jsmap_set (bid_id b) b (m_bids w)\<rparr>)"
  by (simp add: mem_bid_save_def modifyE_apply)

lemmas mem_run = mem_task_findById_run mem_task_save_run mem_bid_save_run mem_bid_findByTaskId_run

interpretation mem: market_store mem_market mem_inv mem_task_repo "\<lambda>w t. t" mem_bid_repo "\<lambda>w b. b"
proof (intro market_store.intro task_store.intro bid_store.intro mem_view)
  show "task_store_axioms mem_market mem_inv mem_task_repo (\<lambda>w t. t)"
  proof
    fix i w r w'
    assume "mem_inv w" "tr_findById mem_task_repo i w = (r, w')"
    then show "mem_inv w' \<and> mem_market w' = mem_market w \<and> env.truncate w' = env.truncate w \<and>
        (\<forall>x. r = Inr x \<longrightarrow> x = mk_tasks (mem_market w) (mk_key (mem_market w) i))"
      by (auto simp: mem_repo_defs prog_run mem_market_def)
  next
    fix w rl w'
    assume "mem_inv w" "tr_list mem_task_repo w = (rl, w')"
    then show "mem_inv w' \<and> mem_market w' = mem_market w \<and> env.truncate w' = env.truncate w \<and>
        (\<forall>xs. rl = Inr xs \<longrightarrow> set xs = ran (mk_tasks (mem_market w)) \<and> distinct (map task_id xs))"
      by (auto simp: mem_repo_defs prog_run mem_market_def mem_inv_def jsmap_values_ran
          intro: keyed_values_distinct)
  next
    fix w t ru w'
    assume "mem_inv w" "tr_save mem_task_repo t w = (ru, w')"
    then show "mem_inv w' \<and> env.truncate w' = env.truncate w \<and>
        mem_market w' = (case ru of
          Inl e \<Rightarrow> mem_market w
        | Inr u \<Rightarrow> mem_market w\<lparr>mk_tasks := (mk_tasks (mem_market w))(mk_key (mem_market w) (task_id t) \<mapsto> t)\<rparr>)"
      by (auto simp: mem_repo_defs prog_run mem_market_def mem_inv_def)
  qed (simp_all add: mem_market_def)
  show "bid_store_axioms mem_market mem_inv mem_bid_repo (\<lambda>w b. b)"
  proof
    fix i w rl w'
    assume "mem_inv w" "br_findByTaskId mem_bid_repo i w = (rl, w')"
    then show "mem_inv w' \<and> mem_market w' = mem_market w \<and> env.truncate w' = env.truncate w \<and>
        (\<forall>xs. rl = Inr xs \<longrightarrow>
           set xs = {b \<in> ran (mk_bids (mem_market w)). bid_taskId b = mk_key (mem_market w) i} \<and>
           distinct (map bid_id xs))"
      by (auto simp: mem_repo_defs prog_run mem_market_def mem_inv_def jsmap_values_ran
          intro: distinct_map_filter keyed_values_distinct)
  next
    fix w b ru w'
    assume "mem_inv w" "br_save mem_bid_repo b w = (ru, w')"
    then show "mem_inv w' \<and> env.truncate w' = env.truncate w \<and>
        mem_market w' = (case ru of
          Inl e \<Rightarrow> mem_market w
        | Inr u \<Rightarrow> mem_market w\<lparr>mk_bids := (mk_bids (mem_market w))(mk_key (mem_market w) (bid_id b) \<mapsto> b)\<rparr>)"
      by (auto simp: mem_repo_defs prog_run mem_market_def mem_inv_def)
  qed (simp_all add: mem_market_def)
qed

end
