(* ===== verification/PgStore.thy ===== *)
theory PgStore
  imports Store
begin

text \<open>
  The PostgreSQL repositories of \<open>repositories/\<close> for tasks, bids, results and executors,
  over the tables of \<open>migrations/\<close>. A table is the list of its rows; each SQL statement of
  the source is a function on the tables. The database itself is a parameter: which query
  fails (\<open>pg_fault\<close>), how it reads a \<open>uuid\<close>, a \<open>timestamptz\<close> and (through the driver) a
  \<open>jsonb\<close> parameter (\<open>None\<close> is a syntax error; \<open>pg_body\<close> for the body of a response), and its clock. A failing query has no effect; the texts of database errors are
  abbreviated. Rows with equal sort keys come in table order.
\<close>

section \<open>Rows\<close>

record task_row =
  tk_id :: string
  tk_requester_public_key :: string
  tk_reserve_price_stroops :: int
  tk_description :: string
  tk_deadline :: int
  tk_status :: task_status
  tk_created_at :: int
  tk_updated_at :: int

record bid_row =
  bw_id :: string
  bw_task_id :: string
  bw_executor_public_key :: string
  bw_amount_stroops :: int
  bw_collateral_stroops :: int
  bw_escrow_id :: string
  bw_status :: bid_status
  bw_created_at :: int

record result_row =
  rw_task_id :: string
  rw_payload_json :: json
  rw_payload_hash :: string
  rw_created_at :: int

record executor_row =
  ew_public_key :: string
  ew_metadata_uri :: "string option"
  ew_registered_at :: int

record outbox_row =
  ob_id :: string
  ob_type :: string
  ob_aggregate_type :: string
  ob_aggregate_id :: string
  ob_payload_json :: json
  ob_created_at :: int
  ob_processed_at :: "int option"
  ob_attempts :: nat
  ob_last_error :: "string option"

datatype consumption_status = PROCESSING | SUCCEEDED | FAILED

record consumption_row =
  ec_handler_name :: string
  ec_event_id :: string
  ec_stream_entry_id :: "string option"
  ec_status :: consumption_status
  ec_attempts :: nat
  ec_last_error :: "string option"
  ec_next_retry_at :: "int option"
  ec_created_at :: int
  ec_updated_at :: int

record idempotency_row =
  ik_key :: string
  ik_scope :: string
  ik_public_key :: "string option"
  ik_request_hash :: string
  ik_response_code :: nat
  ik_response_body :: body
  ik_created_at :: int

record pg_world = env +
  pg_fault :: "nat \<Rightarrow> exn option"
  pg_queries :: nat
  pg_uuid :: "string \<Rightarrow> string option"
  pg_time :: "string \<Rightarrow> int option"
  pg_jsonb :: "json \<Rightarrow> json option"
  pg_body :: "body \<Rightarrow> body option"
  pg_now :: "nat \<Rightarrow> int"
  pg_tasks :: "task_row list"
  pg_bids :: "bid_row list"
  pg_results :: "result_row list"
  pg_executors :: "executor_row list"
  pg_outbox :: "outbox_row list"
  pg_consumptions :: "consumption_row list"
  pg_idempotency :: "idempotency_row list"

lemma pg_truncate [simp]:
  "env.truncate (w\<lparr>pg_queries := x0\<rparr>) = env.truncate w"
  "env.truncate (w\<lparr>pg_tasks := x1\<rparr>) = env.truncate w"
  "env.truncate (w\<lparr>pg_bids := x2\<rparr>) = env.truncate w"
  "env.truncate (w\<lparr>pg_results := x3\<rparr>) = env.truncate w"
  "env.truncate (w\<lparr>pg_executors := x4\<rparr>) = env.truncate w"
  "env.truncate (w\<lparr>pg_outbox := x5\<rparr>) = env.truncate w"
  "env.truncate (w\<lparr>pg_consumptions := x6\<rparr>) = env.truncate w"
  "env.truncate (w\<lparr>pg_idempotency := x7\<rparr>) = env.truncate w"
  by (simp_all add: env.truncate_def)

section \<open>Queries\<close>

type_synonym ('w, 'b) stmt = "'w \<Rightarrow> exn + ('b \<times> 'w)"

text \<open>\<open>pool.query\<close>: the connection may fail, the statement may be refused, or it runs.\<close>

definition pg_query :: "('a pg_world_scheme, 'b) stmt \<Rightarrow> ('a pg_world_scheme, 'b) prog" where
  "pg_query stmt = (\<lambda>w.
     let w1 = w\<lparr>pg_queries := Suc (pg_queries w)\<rparr>
     in case pg_fault w (pg_queries w) of
          Some e \<Rightarrow> (Inl e, w1)
        | None \<Rightarrow> (case stmt w1 of Inl e \<Rightarrow> (Inl e, w1) | Inr (x, w2) \<Rightarrow> (Inr x, w2)))"

text \<open>A statement that only reads.\<close>

definition pg_select :: "('a pg_world_scheme \<Rightarrow> exn + 'b) \<Rightarrow> ('a pg_world_scheme, 'b) prog" where
  "pg_select f = pg_query (\<lambda>w. case f w of Inl e \<Rightarrow> Inl e | Inr x \<Rightarrow> Inr (x, w))"

text \<open>The database's \<open>now()\<close> in the current query.\<close>

definition sql_now :: "'a pg_world_scheme \<Rightarrow> int" where
  "sql_now w = pg_now w (pg_queries w)"

definition sql_uuid :: "'a pg_world_scheme \<Rightarrow> string \<Rightarrow> exn + string" where
  "sql_uuid w s = (case pg_uuid w s of
     None \<Rightarrow> Inl (JsError ''invalid input syntax for type uuid'') | Some u \<Rightarrow> Inr u)"

definition sql_timestamptz :: "'a pg_world_scheme \<Rightarrow> string \<Rightarrow> exn + int" where
  "sql_timestamptz w s = (case pg_time w s of
     None \<Rightarrow> Inl (JsError ''invalid input syntax for type timestamp with time zone'') | Some t \<Rightarrow> Inr t)"

definition sql_jsonb :: "'a pg_world_scheme \<Rightarrow> json \<Rightarrow> exn + json" where
  "sql_jsonb w j = (case pg_jsonb w j of
     None \<Rightarrow> Inl (JsError ''invalid input syntax for type json'') | Some v \<Rightarrow> Inr v)"

definition sql_bigint :: "int \<Rightarrow> exn + int" where
  "sql_bigint n = (if - (2 ^ 63) \<le> n \<and> n < 2 ^ 63 then Inr n
     else Inl (JsError ''value out of range for type bigint''))"

definition sum_bind :: "exn + 'x \<Rightarrow> ('x \<Rightarrow> exn + 'y) \<Rightarrow> exn + 'y" where
  "sum_bind r f = (case r of Inl e \<Rightarrow> Inl e | Inr x \<Rightarrow> f x)"

lemma sum_bind_Inr [simp]:
  "sum_bind r f = Inr y \<longleftrightarrow> (\<exists>x. r = Inr x \<and> f x = Inr y)"
  "sum_bind (Inr x) f = f x" "sum_bind (Inl e) f = Inl e"
  by (auto simp: sum_bind_def split: sum.splits)

text \<open>
  \<open>insert ... on conflict (k) do update\<close>: the row with the same key is updated in place,
  otherwise the new row is appended.
\<close>

fun upsert :: "('r \<Rightarrow> bool) \<Rightarrow> ('r \<Rightarrow> 'r) \<Rightarrow> 'r \<Rightarrow> 'r list \<Rightarrow> 'r list" where
  "upsert same upd new [] = [new]"
| "upsert same upd new (r # rs) = (if same r then upd r # rs else r # upsert same upd new rs)"

text \<open>\<open>update ... where p\<close>.\<close>

definition update_where :: "('r \<Rightarrow> bool) \<Rightarrow> ('r \<Rightarrow> 'r) \<Rightarrow> 'r list \<Rightarrow> 'r list" where
  "update_where p upd = map (\<lambda>r. if p r then upd r else r)"

section \<open>Tasks\<close>

definition row_to_task :: "task_row \<Rightarrow> task" where
  "row_to_task r =
    \<lparr> task_id = tk_id r, task_requesterPublicKey = tk_requester_public_key r,
      task_reservePriceStroops = tk_reserve_price_stroops r, task_description = tk_description r,
      task_deadline = toISOString (tk_deadline r), task_status = tk_status r \<rparr>"

definition pg_task_save :: "task \<Rightarrow> ('a pg_world_scheme, unit) prog" where
  "pg_task_save t = pg_query (\<lambda>w.
     sum_bind (sql_uuid w (task_id t)) (\<lambda>i.
     sum_bind (sql_bigint (task_reservePriceStroops t)) (\<lambda>price.
     sum_bind (sql_timestamptz w (task_deadline t)) (\<lambda>dl.
       Inr ((), w\<lparr>pg_tasks := upsert (\<lambda>r. tk_id r = i)
         (\<lambda>r. r\<lparr> tk_requester_public_key := task_requesterPublicKey t,
                 tk_reserve_price_stroops := price, tk_description := task_description t,
                 tk_deadline := dl, tk_status := task_status t, tk_updated_at := sql_now w \<rparr>)
         \<lparr> tk_id = i, tk_requester_public_key = task_requesterPublicKey t,
           tk_reserve_price_stroops = price, tk_description = task_description t,
           tk_deadline = dl, tk_status = task_status t,
           tk_created_at = sql_now w, tk_updated_at = sql_now w \<rparr>
         (pg_tasks w)\<rparr>)))))"

definition pg_task_findById :: "string \<Rightarrow> ('a pg_world_scheme, task option) prog" where
  "pg_task_findById i = pg_select (\<lambda>w. sum_bind (sql_uuid w i) (\<lambda>u.
     Inr (map_option row_to_task (List.find (\<lambda>r. tk_id r = u) (pg_tasks w)))))"

definition pg_task_list :: "('a pg_world_scheme, task list) prog" where
  "pg_task_list = pg_select (\<lambda>w. Inr (map row_to_task (sort_key (\<lambda>r. - tk_created_at r) (pg_tasks w))))"

definition pg_task_repo :: "'a pg_world_scheme task_repo" where
  "pg_task_repo =
     \<lparr> tr_save = pg_task_save, tr_findById = pg_task_findById, tr_list = pg_task_list \<rparr>"

section \<open>Bids\<close>

definition row_to_bid :: "bid_row \<Rightarrow> bid" where
  "row_to_bid r =
    \<lparr> bid_id = bw_id r, bid_taskId = bw_task_id r, bid_executorPublicKey = bw_executor_public_key r,
      bid_amountStroops = bw_amount_stroops r, bid_collateralStroops = bw_collateral_stroops r,
      bid_escrowId = bw_escrow_id r, bid_status = bw_status r,
      bid_createdAt = toISOString (bw_created_at r) \<rparr>"

text \<open>The foreign key \<open>task_id references tasks(id)\<close>; an update keeps \<open>created_at\<close>.\<close>

definition pg_bid_save :: "bid \<Rightarrow> ('a pg_world_scheme, unit) prog" where
  "pg_bid_save b = pg_query (\<lambda>w.
     sum_bind (sql_uuid w (bid_id b)) (\<lambda>i.
     sum_bind (sql_uuid w (bid_taskId b)) (\<lambda>ti.
     sum_bind (sql_bigint (bid_amountStroops b)) (\<lambda>amount.
     sum_bind (sql_bigint (bid_collateralStroops b)) (\<lambda>collateral.
     sum_bind (sql_timestamptz w (bid_createdAt b)) (\<lambda>created.
     if \<forall>r \<in> set (pg_tasks w). tk_id r \<noteq> ti
     then Inl (JsError ''violates foreign key constraint bids_task_id_fkey'')
     else Inr ((), w\<lparr>pg_bids := upsert (\<lambda>r. bw_id r = i)
         (\<lambda>r. r\<lparr> bw_task_id := ti, bw_executor_public_key := bid_executorPublicKey b,
                 bw_amount_stroops := amount, bw_collateral_stroops := collateral,
                 bw_escrow_id := bid_escrowId b, bw_status := bid_status b \<rparr>)
         \<lparr> bw_id = i, bw_task_id = ti, bw_executor_public_key = bid_executorPublicKey b,
           bw_amount_stroops = amount, bw_collateral_stroops = collateral,
           bw_escrow_id = bid_escrowId b, bw_status = bid_status b, bw_created_at = created \<rparr>
         (pg_bids w)\<rparr>)))))))"

definition pg_bid_findById :: "string \<Rightarrow> ('a pg_world_scheme, bid option) prog" where
  "pg_bid_findById i = pg_select (\<lambda>w. sum_bind (sql_uuid w i) (\<lambda>u.
     Inr (map_option row_to_bid (List.find (\<lambda>r. bw_id r = u) (pg_bids w)))))"

definition pg_bid_findByTaskId :: "string \<Rightarrow> ('a pg_world_scheme, bid list) prog" where
  "pg_bid_findByTaskId i = pg_select (\<lambda>w. sum_bind (sql_uuid w i) (\<lambda>u.
     Inr (map row_to_bid (sort_key bw_created_at (filter (\<lambda>r. bw_task_id r = u) (pg_bids w))))))"

definition pg_bid_list :: "('a pg_world_scheme, bid list) prog" where
  "pg_bid_list = pg_select (\<lambda>w. Inr (map row_to_bid (sort_key (\<lambda>r. - bw_created_at r) (pg_bids w))))"

definition pg_bid_repo :: "'a pg_world_scheme bid_repo" where
  "pg_bid_repo =
     \<lparr> br_save = pg_bid_save, br_findById = pg_bid_findById,
       br_findByTaskId = pg_bid_findByTaskId, br_list = pg_bid_list \<rparr>"

section \<open>Results and executors\<close>

text \<open>The foreign key \<open>task_id references tasks(id)\<close>; an update keeps \<open>created_at\<close>.\<close>

definition pg_result_upsert :: "string \<Rightarrow> json \<Rightarrow> string \<Rightarrow> ('a pg_world_scheme, unit) prog" where
  "pg_result_upsert i payload hash = pg_query (\<lambda>w.
     sum_bind (sql_uuid w i) (\<lambda>u.
     sum_bind (sql_jsonb w payload) (\<lambda>stored.
     if \<forall>r \<in> set (pg_tasks w). tk_id r \<noteq> u
     then Inl (JsError ''violates foreign key constraint task_results_task_id_fkey'')
     else Inr ((), w\<lparr>pg_results := upsert (\<lambda>r. rw_task_id r = u)
         (\<lambda>r. r\<lparr> rw_payload_json := stored, rw_payload_hash := hash \<rparr>)
         \<lparr> rw_task_id = u, rw_payload_json = stored, rw_payload_hash = hash,
           rw_created_at = sql_now w \<rparr>
         (pg_results w)\<rparr>))))"

definition row_to_result :: "result_row \<Rightarrow> task_result" where
  "row_to_result r =
    \<lparr> res_taskId = rw_task_id r, res_payload = rw_payload_json r,
      res_payloadHash = rw_payload_hash r, res_createdAt = toISOString (rw_created_at r) \<rparr>"

definition pg_result_findByTaskId :: "string \<Rightarrow> ('a pg_world_scheme, task_result option) prog" where
  "pg_result_findByTaskId i = pg_select (\<lambda>w. sum_bind (sql_uuid w i) (\<lambda>u.
     Inr (map_option row_to_result (List.find (\<lambda>r. rw_task_id r = u) (pg_results w)))))"

definition pg_result_repo :: "'a pg_world_scheme result_repo" where
  "pg_result_repo =
     \<lparr> rr_upsert = pg_result_upsert, rr_findByTaskId = pg_result_findByTaskId \<rparr>"

definition pg_executor_save :: "executor_record \<Rightarrow> ('a pg_world_scheme, unit) prog" where
  "pg_executor_save e = pg_query (\<lambda>w.
     sum_bind (sql_timestamptz w (ex_registeredAt e)) (\<lambda>reg.
       Inr ((), w\<lparr>pg_executors := upsert (\<lambda>r. ew_public_key r = ex_publicKey e)
         (\<lambda>r. r\<lparr> ew_metadata_uri := Some (ex_metadataUri e) \<rparr>)
         \<lparr> ew_public_key = ex_publicKey e, ew_metadata_uri = Some (ex_metadataUri e),
           ew_registered_at = reg \<rparr>
         (pg_executors w)\<rparr>)))"

text \<open>A row without (or with an empty) \<open>metadata_uri\<close> is no executor.\<close>

definition row_to_executor :: "executor_row \<Rightarrow> executor_record option" where
  "row_to_executor r = (case ew_metadata_uri r of
      None \<Rightarrow> None
    | Some m \<Rightarrow> if m = [] then None
        else Some \<lparr> ex_publicKey = ew_public_key r, ex_metadataUri = m,
                    ex_registeredAt = toISOString (ew_registered_at r) \<rparr>)"

definition pg_executor_findByPublicKey :: "string \<Rightarrow> ('a pg_world_scheme, executor_record option) prog" where
  "pg_executor_findByPublicKey k = pg_select (\<lambda>w.
     Inr (case List.find (\<lambda>r. ew_public_key r = k) (pg_executors w) of
            None \<Rightarrow> None | Some r \<Rightarrow> row_to_executor r))"

definition pg_executor_list :: "('a pg_world_scheme, executor_record list) prog" where
  "pg_executor_list = pg_select (\<lambda>w.
     Inr (List.map_filter row_to_executor (sort_key (\<lambda>r. - ew_registered_at r) (pg_executors w))))"

definition pg_executor_repo :: "'a pg_world_scheme executor_repo" where
  "pg_executor_repo =
     \<lparr> er_save = pg_executor_save, er_findByPublicKey = pg_executor_findByPublicKey,
       er_list = pg_executor_list \<rparr>"

lemma pg_repo_sel [simp]:
  "tr_save pg_task_repo = pg_task_save" "tr_findById pg_task_repo = pg_task_findById"
  "tr_list pg_task_repo = pg_task_list"
  "br_save pg_bid_repo = pg_bid_save" "br_findById pg_bid_repo = pg_bid_findById"
  "br_findByTaskId pg_bid_repo = pg_bid_findByTaskId" "br_list pg_bid_repo = pg_bid_list"
  "rr_upsert pg_result_repo = pg_result_upsert" "rr_findByTaskId pg_result_repo = pg_result_findByTaskId"
  "er_save pg_executor_repo = pg_executor_save"
  "er_findByPublicKey pg_executor_repo = pg_executor_findByPublicKey"
  "er_list pg_executor_repo = pg_executor_list"
  by (simp_all add: pg_task_repo_def pg_bid_repo_def pg_result_repo_def pg_executor_repo_def)

section \<open>The contracts\<close>

definition pg_key :: "'a pg_world_scheme \<Rightarrow> string \<Rightarrow> string" where
  "pg_key w i = (case pg_uuid w i of None \<Rightarrow> i | Some u \<Rightarrow> u)"

definition pg_market :: "'a pg_world_scheme \<Rightarrow> market" where
  "pg_market w =
    \<lparr> mk_key = pg_key w,
      mk_tasks = (\<lambda>i. map_option row_to_task (List.find (\<lambda>r. tk_id r = i) (pg_tasks w))),
      mk_bids = (\<lambda>i. map_option row_to_bid (List.find (\<lambda>r. bw_id r = i) (pg_bids w))) \<rparr>"

text \<open>
  The primary keys, identifiers in canonical form, and the two facts of PostgreSQL the
  repositories rely on: a canonical UUID, and the ISO text of a time it has read, are read
  as themselves (so \<open>pg_time\<close> stands for the times ISO text with four-digit years can name).
\<close>

definition pg_inv :: "'a pg_world_scheme \<Rightarrow> bool" where
  "pg_inv w \<longleftrightarrow>
     distinct (map tk_id (pg_tasks w)) \<and> distinct (map bw_id (pg_bids w)) \<and>
     (\<forall>r \<in> set (pg_tasks w). pg_uuid w (tk_id r) = Some (tk_id r) \<and>
        pg_time w (toISOString (tk_deadline r)) = Some (tk_deadline r)) \<and>
     (\<forall>r \<in> set (pg_bids w). pg_uuid w (bw_id r) = Some (bw_id r) \<and>
        pg_uuid w (bw_task_id r) = Some (bw_task_id r)) \<and>
     (\<forall>s u. pg_uuid w s = Some u \<longrightarrow> pg_uuid w u = Some u) \<and>
     (\<forall>s ms. pg_time w s = Some ms \<longrightarrow> pg_time w (toISOString ms) = Some ms)"

definition pg_tnorm :: "'a pg_world_scheme \<Rightarrow> task \<Rightarrow> task" where
  "pg_tnorm w t = t\<lparr> task_id := pg_key w (task_id t),
     task_deadline := (case pg_time w (task_deadline t) of
        None \<Rightarrow> task_deadline t | Some ms \<Rightarrow> toISOString ms) \<rparr>"

definition pg_bnorm :: "'a pg_world_scheme \<Rightarrow> bid \<Rightarrow> bid" where
  "pg_bnorm w b = b\<lparr> bid_id := pg_key w (bid_id b), bid_taskId := pg_key w (bid_taskId b),
     bid_createdAt := (case List.find (\<lambda>r. bw_id r = pg_key w (bid_id b)) (pg_bids w) of
        Some r \<Rightarrow> toISOString (bw_created_at r)
      | None \<Rightarrow> (case pg_time w (bid_createdAt b) of
          None \<Rightarrow> bid_createdAt b | Some ms \<Rightarrow> toISOString ms)) \<rparr>"

subsection \<open>Tables\<close>

lemma find_upsert:
  assumes "\<And>r. f (upd r) = f r" and "f new = k"
  shows "List.find (\<lambda>r. f r = i) (upsert (\<lambda>r. f r = k) upd new rs) =
    (if i = k then Some (case List.find (\<lambda>r. f r = k) rs of None \<Rightarrow> new | Some r \<Rightarrow> upd r)
     else List.find (\<lambda>r. f r = i) rs)"
  using assms by (induction rs) auto

lemma map_upsert:
  assumes "\<And>r. f (upd r) = f r" and "f new = k"
  shows "map f (upsert (\<lambda>r. f r = k) upd new rs) =
    (if k \<in> f ` set rs then map f rs else map f rs @ [k])"
  using assms by (induction rs) auto

lemma distinct_upsert:
  assumes "\<And>r. f (upd r) = f r" and "f new = k" and "distinct (map f rs)"
  shows "distinct (map f (upsert (\<lambda>r. f r = k) upd new rs))"
  using assms(3) by (auto simp: map_upsert [OF assms(1,2)])

lemma set_upsert:
  "r \<in> set (upsert same upd new rs) \<Longrightarrow> r \<in> set rs \<or> r = new \<or> (\<exists>r0 \<in> set rs. same r0 \<and> r = upd r0)"
  by (induction rs) (auto split: if_splits)

lemma ran_find:
  assumes "distinct (map f rs)"
  shows "ran (\<lambda>i. map_option g (List.find (\<lambda>r. f r = i) rs)) = g ` set rs"
proof -
  have "List.find (\<lambda>r. f r = i) rs = Some r \<longleftrightarrow> r \<in> set rs \<and> f r = i" for i r
    using assms by (induction rs) (auto simp: image_iff)
  then show ?thesis by (auto simp: ran_def image_iff)
qed

lemma find_mem: "List.find (\<lambda>r. f r = i) rs = Some r \<Longrightarrow> r \<in> set rs \<and> f r = i"
  by (auto dest: find_SomeD)

subsection \<open>Queries and the view\<close>

lemma pg_query_cases:
  assumes "pg_query stmt w = (r, w')"
  obtains (fails) e where "r = Inl e" and "w' = w\<lparr>pg_queries := Suc (pg_queries w)\<rparr>"
  | (runs) x where "r = Inr x" and "stmt (w\<lparr>pg_queries := Suc (pg_queries w)\<rparr>) = Inr (x, w')"
  using assms by (auto simp: pg_query_def Let_def split: option.splits sum.splits prod.splits)

lemma pg_select_cases:
  assumes "pg_select f w = (r, w')"
  shows "w' = w\<lparr>pg_queries := Suc (pg_queries w)\<rparr>"
    and "r = Inr x \<Longrightarrow> f (w\<lparr>pg_queries := Suc (pg_queries w)\<rparr>) = Inr x"
  using assms unfolding pg_select_def by (auto elim!: pg_query_cases split: sum.splits)

lemma pg_view_queries [simp]:
  "pg_market (w\<lparr>pg_queries := n\<rparr>) = pg_market w" "pg_inv (w\<lparr>pg_queries := n\<rparr>) = pg_inv w"
  "pg_key (w\<lparr>pg_queries := n\<rparr>) = pg_key w"
  by (simp_all add: pg_market_def pg_inv_def pg_key_def fun_eq_iff)

lemma sql_uuid_Inr [simp]: "sql_uuid w s = Inr u \<longleftrightarrow> pg_uuid w s = Some u"
  by (auto simp: sql_uuid_def split: option.splits)

lemma sql_timestamptz_Inr [simp]: "sql_timestamptz w s = Inr t \<longleftrightarrow> pg_time w s = Some t"
  by (auto simp: sql_timestamptz_def split: option.splits)

lemma sql_jsonb_Inr [simp]: "sql_jsonb w j = Inr v \<longleftrightarrow> pg_jsonb w j = Some v"
  by (auto simp: sql_jsonb_def split: option.splits)

lemma sql_bigint_Inr [simp]: "sql_bigint n = Inr m \<longleftrightarrow> m = n \<and> - (2 ^ 63) \<le> n \<and> n < 2 ^ 63"
  by (auto simp: sql_bigint_def)

lemma pg_key_uuid [simp]: "pg_uuid w s = Some u \<Longrightarrow> pg_key w s = u"
  by (simp add: pg_key_def)

lemma pg_more:
  assumes "env.more w' = env.more w"
  shows "pg_uuid w' = pg_uuid w" "pg_time w' = pg_time w" "pg_tasks w' = pg_tasks w"
    "pg_bids w' = pg_bids w"
  using assms by (cases w; cases w'; simp)+

lemma pg_view: "world_view pg_market pg_inv"
proof
  fix w w' :: "'a pg_world_scheme"
  assume "env.more w' = env.more w"
  note pg_more [OF this]
  then show "pg_market w' = pg_market w" "pg_inv w' = pg_inv w"
    by (simp_all add: pg_market_def pg_inv_def pg_key_def fun_eq_iff)
next
  fix w :: "'a pg_world_scheme" and i t
  assume "mk_tasks (pg_market w) i = Some t"
  then show "task_id t = i" by (auto simp: pg_market_def row_to_task_def dest: find_mem)
next
  fix w :: "'a pg_world_scheme" and i b
  assume "mk_bids (pg_market w) i = Some b"
  then show "bid_id b = i" by (auto simp: pg_market_def row_to_bid_def dest: find_mem)
qed

subsection \<open>Task queries\<close>

lemma pg_task_find_view:
  assumes "pg_task_findById i w = (r, w')"
  shows "pg_market w' = pg_market w" "pg_inv w' = pg_inv w" "env.truncate w' = env.truncate w"
    "r = Inr x \<Longrightarrow> x = mk_tasks (pg_market w) (pg_key w i)"
  using pg_select_cases [OF assms [unfolded pg_task_findById_def]]
  by (auto simp: pg_market_def pg_inv_def pg_key_def)

lemma pg_task_list_view:
  assumes "pg_task_list w = (r, w')"
  shows "pg_market w' = pg_market w" "pg_inv w' = pg_inv w" "env.truncate w' = env.truncate w"
    "pg_inv w \<Longrightarrow> r = Inr xs \<Longrightarrow> set xs = ran (mk_tasks (pg_market w)) \<and> distinct (map task_id xs)"
proof -
  note sel = pg_select_cases [OF assms [unfolded pg_task_list_def]]
  from sel(1) show "pg_market w' = pg_market w" "pg_inv w' = pg_inv w" "env.truncate w' = env.truncate w" by simp_all
  assume inv: "pg_inv w" and "r = Inr xs"
  with sel(2) have xs: "xs = map row_to_task (sort_key (\<lambda>r. - tk_created_at r) (pg_tasks w))" by auto
  have "distinct (map tk_id (sort_key (\<lambda>r. - tk_created_at r) (pg_tasks w)))"
    using inv by (simp add: pg_inv_def distinct_map)
  moreover have "map task_id xs = map tk_id (sort_key (\<lambda>r. - tk_created_at r) (pg_tasks w))"
    by (simp add: xs row_to_task_def)
  ultimately have "distinct (map task_id xs)" by metis
  with inv show "set xs = ran (mk_tasks (pg_market w)) \<and> distinct (map task_id xs)"
    by (simp add: xs pg_market_def pg_inv_def ran_find)
qed

lemma pg_task_save_view:
  assumes "pg_inv w" and "pg_task_save t w = (r, w')"
  shows "pg_inv w'" "env.truncate w' = env.truncate w"
    "pg_market w' = (case r of
       Inl e \<Rightarrow> pg_market w
     | Inr u \<Rightarrow> (pg_market w)\<lparr>mk_tasks := (mk_tasks (pg_market w))(pg_key w (task_id t) \<mapsto> pg_tnorm w t)\<rparr>)"
proof -
  have "pg_inv w' \<and> env.truncate w' = env.truncate w \<and>
    pg_market w' = (case r of
       Inl e \<Rightarrow> pg_market w
     | Inr u \<Rightarrow> (pg_market w)\<lparr>mk_tasks := (mk_tasks (pg_market w))(pg_key w (task_id t) \<mapsto> pg_tnorm w t)\<rparr>)"
    using assms(2) unfolding pg_task_save_def
  proof (cases rule: pg_query_cases)
    case (fails e)
    then show ?thesis using assms(1) by simp
  next
    case (runs x)
    then have "pg_inv w'" using assms(1)
      by (auto simp: pg_inv_def distinct_upsert dest!: set_upsert)
    moreover have "env.truncate w' = env.truncate w" using runs by auto
    moreover have "pg_market w' =
        (pg_market w)\<lparr>mk_tasks := (mk_tasks (pg_market w))(pg_key w (task_id t) \<mapsto> pg_tnorm w t)\<rparr>"
      using runs
      by (cases t) (auto simp: pg_market_def pg_key_def pg_tnorm_def fun_eq_iff find_upsert row_to_task_def
          split: option.splits dest: find_mem)
    ultimately show ?thesis using runs(1) by simp
  qed
  then show "pg_inv w'" "env.truncate w' = env.truncate w"
    "pg_market w' = (case r of
       Inl e \<Rightarrow> pg_market w
     | Inr u \<Rightarrow> (pg_market w)\<lparr>mk_tasks := (mk_tasks (pg_market w))(pg_key w (task_id t) \<mapsto> pg_tnorm w t)\<rparr>)"
    by blast+
qed

subsection \<open>Bid queries\<close>

lemma pg_bid_findByTaskId_view:
  assumes "pg_bid_findByTaskId i w = (r, w')"
  shows "pg_market w' = pg_market w" "pg_inv w' = pg_inv w" "env.truncate w' = env.truncate w"
    "pg_inv w \<Longrightarrow> r = Inr xs \<Longrightarrow>
       set xs = {b \<in> ran (mk_bids (pg_market w)). bid_taskId b = pg_key w i} \<and> distinct (map bid_id xs)"
proof -
  note sel = pg_select_cases [OF assms [unfolded pg_bid_findByTaskId_def]]
  from sel(1) show "pg_market w' = pg_market w" "pg_inv w' = pg_inv w" "env.truncate w' = env.truncate w" by simp_all
  assume inv: "pg_inv w" and "r = Inr xs"
  with sel(2) obtain u where u: "pg_uuid w i = Some u"
    and xs: "xs = map row_to_bid (sort_key bw_created_at (filter (\<lambda>r. bw_task_id r = u) (pg_bids w)))"
    by auto
  have "distinct (map bw_id (sort_key bw_created_at (filter (\<lambda>r. bw_task_id r = u) (pg_bids w))))"
    using inv by (simp add: pg_inv_def distinct_map inj_on_def)
  moreover have "map bid_id xs = map bw_id (sort_key bw_created_at (filter (\<lambda>r. bw_task_id r = u) (pg_bids w)))"
    by (simp add: xs row_to_bid_def)
  ultimately have "distinct (map bid_id xs)" by metis
  moreover have "bid_taskId (row_to_bid r) = bw_task_id r" for r by (simp add: row_to_bid_def)
  ultimately show "set xs = {b \<in> ran (mk_bids (pg_market w)). bid_taskId b = pg_key w i} \<and>
      distinct (map bid_id xs)"
    using inv u by (auto simp: xs pg_market_def pg_inv_def ran_find)
qed

lemma pg_bid_save_view:
  assumes "pg_inv w" and "pg_bid_save b w = (r, w')"
  shows "pg_inv w'" "env.truncate w' = env.truncate w"
    "pg_market w' = (case r of
       Inl e \<Rightarrow> pg_market w
     | Inr u \<Rightarrow> (pg_market w)\<lparr>mk_bids := (mk_bids (pg_market w))(pg_key w (bid_id b) \<mapsto> pg_bnorm w b)\<rparr>)"
proof -
  have "pg_inv w' \<and> env.truncate w' = env.truncate w \<and>
    pg_market w' = (case r of
       Inl e \<Rightarrow> pg_market w
     | Inr u \<Rightarrow> (pg_market w)\<lparr>mk_bids := (mk_bids (pg_market w))(pg_key w (bid_id b) \<mapsto> pg_bnorm w b)\<rparr>)"
    using assms(2) unfolding pg_bid_save_def
  proof (cases rule: pg_query_cases)
    case (fails e)
    then show ?thesis using assms(1) by simp
  next
    case (runs x)
    then have "pg_inv w'" using assms(1)
      by (auto simp: pg_inv_def distinct_upsert dest!: set_upsert split: if_splits)
    moreover have "env.truncate w' = env.truncate w" using runs by (auto split: if_splits)
    moreover have "pg_market w' =
        (pg_market w)\<lparr>mk_bids := (mk_bids (pg_market w))(pg_key w (bid_id b) \<mapsto> pg_bnorm w b)\<rparr>"
      using runs
      by (cases b) (auto simp: pg_market_def pg_key_def pg_bnorm_def fun_eq_iff find_upsert row_to_bid_def
          split: option.splits if_splits dest: find_mem)
    ultimately show ?thesis using runs(1) by simp
  qed
  then show "pg_inv w'" "env.truncate w' = env.truncate w"
    "pg_market w' = (case r of
       Inl e \<Rightarrow> pg_market w
     | Inr u \<Rightarrow> (pg_market w)\<lparr>mk_bids := (mk_bids (pg_market w))(pg_key w (bid_id b) \<mapsto> pg_bnorm w b)\<rparr>)"
    by blast+
qed

subsection \<open>Interpretation\<close>

lemma pg_stored_task:
  assumes "pg_inv w" and "mk_tasks (pg_market w) i = Some t"
  shows "pg_key w i = i" and "pg_tnorm w (t\<lparr>task_status := s\<rparr>) = t\<lparr>task_status := s\<rparr>"
proof -
  obtain r where r: "r \<in> set (pg_tasks w)" "tk_id r = i" "t = row_to_task r"
    using assms(2) by (auto simp: pg_market_def dest: find_mem)
  with assms(1) have "pg_uuid w i = Some i" and "pg_time w (toISOString (tk_deadline r)) = Some (tk_deadline r)"
    by (auto simp: pg_inv_def)
  with r show "pg_key w i = i" "pg_tnorm w (t\<lparr>task_status := s\<rparr>) = t\<lparr>task_status := s\<rparr>"
    by (simp_all add: pg_tnorm_def row_to_task_def)
qed

lemma pg_stored_bid:
  assumes "pg_inv w" and "mk_bids (pg_market w) i = Some b"
  shows "pg_key w i = i" and "pg_key w (bid_taskId b) = bid_taskId b"
    and "pg_bnorm w (b\<lparr>bid_status := s\<rparr>) = b\<lparr>bid_status := s\<rparr>"
proof -
  obtain r where r: "List.find (\<lambda>r. bw_id r = i) (pg_bids w) = Some r" "b = row_to_bid r"
    using assms(2) by (auto simp: pg_market_def)
  then have "r \<in> set (pg_bids w)" "bw_id r = i" by (auto dest: find_mem)
  with assms(1) have "pg_uuid w i = Some i" "pg_uuid w (bw_task_id r) = Some (bw_task_id r)"
    by (auto simp: pg_inv_def)
  with r \<open>bw_id r = i\<close> show "pg_key w i = i" "pg_key w (bid_taskId b) = bid_taskId b"
    "pg_bnorm w (b\<lparr>bid_status := s\<rparr>) = b\<lparr>bid_status := s\<rparr>"
    by (simp_all add: pg_bnorm_def row_to_bid_def)
qed

lemma pg_tnorm_fields:
  "task_requesterPublicKey (pg_tnorm w t) = task_requesterPublicKey t"
  "task_reservePriceStroops (pg_tnorm w t) = task_reservePriceStroops t"
  "task_description (pg_tnorm w t) = task_description t"
  "task_status (pg_tnorm w t) = task_status t"
  by (simp_all add: pg_tnorm_def)

lemma pg_bnorm_fields:
  "bid_executorPublicKey (pg_bnorm w b) = bid_executorPublicKey b"
  "bid_amountStroops (pg_bnorm w b) = bid_amountStroops b"
  "bid_collateralStroops (pg_bnorm w b) = bid_collateralStroops b"
  "bid_escrowId (pg_bnorm w b) = bid_escrowId b"
  "bid_status (pg_bnorm w b) = bid_status b"
  "bid_taskId (pg_bnorm w b) = pg_key w (bid_taskId b)"
  by (simp_all add: pg_bnorm_def)

lemma pg_market_key [simp]: "mk_key (pg_market w) = pg_key w"
  by (simp add: pg_market_def)

interpretation pg: market_store pg_market pg_inv pg_task_repo pg_tnorm pg_bid_repo pg_bnorm
proof (intro market_store.intro task_store.intro bid_store.intro pg_view)
  show "task_store_axioms pg_market pg_inv pg_task_repo pg_tnorm"
  proof
    fix i w r w'
    assume "pg_inv w" "tr_findById pg_task_repo i w = (r, w')"
    then show "pg_inv w' \<and> pg_market w' = pg_market w \<and> env.truncate w' = env.truncate w \<and>
        (\<forall>x. r = Inr x \<longrightarrow> x = mk_tasks (pg_market w) (mk_key (pg_market w) i))"
      using pg_task_find_view [of i w r w'] by (simp add: pg_task_repo_def)
  next
    fix w rl w'
    assume "pg_inv w" "tr_list pg_task_repo w = (rl, w')"
    then show "pg_inv w' \<and> pg_market w' = pg_market w \<and> env.truncate w' = env.truncate w \<and>
        (\<forall>xs. rl = Inr xs \<longrightarrow> set xs = ran (mk_tasks (pg_market w)) \<and> distinct (map task_id xs))"
      using pg_task_list_view [of w rl w'] by (simp add: pg_task_repo_def)
  next
    fix w t ru w'
    assume "pg_inv w" "tr_save pg_task_repo t w = (ru, w')"
    then show "pg_inv w' \<and> env.truncate w' = env.truncate w \<and>
        pg_market w' = (case ru of
          Inl e \<Rightarrow> pg_market w
        | Inr u \<Rightarrow> pg_market w\<lparr>mk_tasks :=
            (mk_tasks (pg_market w))(mk_key (pg_market w) (task_id t) \<mapsto> pg_tnorm w t)\<rparr>)"
      using pg_task_save_view [of w t ru w'] by (simp add: pg_task_repo_def split: sum.splits)
  qed (auto simp: pg_tnorm_fields pg_stored_task)
  show "bid_store_axioms pg_market pg_inv pg_bid_repo pg_bnorm"
  proof
    fix i w rl w'
    assume "pg_inv w" "br_findByTaskId pg_bid_repo i w = (rl, w')"
    then show "pg_inv w' \<and> pg_market w' = pg_market w \<and> env.truncate w' = env.truncate w \<and>
        (\<forall>xs. rl = Inr xs \<longrightarrow>
           set xs = {b \<in> ran (mk_bids (pg_market w)). bid_taskId b = mk_key (pg_market w) i} \<and>
           distinct (map bid_id xs))"
      using pg_bid_findByTaskId_view [of i w rl w'] by (simp add: pg_bid_repo_def)
  next
    fix w b ru w'
    assume "pg_inv w" "br_save pg_bid_repo b w = (ru, w')"
    then show "pg_inv w' \<and> env.truncate w' = env.truncate w \<and>
        pg_market w' = (case ru of
          Inl e \<Rightarrow> pg_market w
        | Inr u \<Rightarrow> pg_market w\<lparr>mk_bids :=
            (mk_bids (pg_market w))(mk_key (pg_market w) (bid_id b) \<mapsto> pg_bnorm w b)\<rparr>)"
      using pg_bid_save_view [of w b ru w'] by (simp add: pg_bid_repo_def split: sum.splits)
  qed (auto simp: pg_bnorm_fields pg_stored_bid)
qed

end
