(* ===== verification/Samples.thy ===== *)
theory Samples
  imports MemStore PgStore
begin

text \<open>
  Concrete worlds for the witnesses: services that always succeed, an in-memory server and
  a PostgreSQL server with given rows, one of whose queries may be made to fail.
\<close>

definition sample_key :: "char \<Rightarrow> string" where
  "sample_key c = CHR ''G'' # replicate 55 c"

definition sample_ext :: ext where
  "sample_ext =
    \<lparr> x_date_parse = (\<lambda>s. if s = ''2030-01-01T00:00:00.000Z'' then Some 1893456000000 else None),
      x_num_string = (\<lambda>n. ''0''),
      x_public_key_of = (\<lambda>s. Some (CHR ''G'' # tl s)),
      x_key_ok = (\<lambda>k. True),
      x_verify = (\<lambda>k m s. Inr (s = m)),
      x_sign = (\<lambda>m. m),
      x_sha256 = (\<lambda>s. s), x_locale_le = (\<lambda>a b. a \<le> b),
      x_tw_load = (\<lambda>l. Inr ()), x_tw_create = (\<lambda>l c. Inr ''escrow''),
      x_tw_release = (\<lambda>l e. Inr \<lparr> rr_success = True, rr_transactionHash = ''tx'',
                            rr_amountReleased = 1, rr_receiver = ''r'' \<rparr>),
      x_tw_dispute = (\<lambda>l e a b. Inr \<lparr> dr_success = True, dr_disputeId = ''d'', dr_status = ''open'' \<rparr>),
      x_registry_is_registered = (\<lambda>l k. Inr True),
      x_registry_register = (\<lambda>l k m. Inr ()),
      x_usdc_client = (\<lambda>l. Inr ()), x_usdc_transfer = (\<lambda>l a b n. Inr ()),
      x_usdc_send = (\<lambda>l. Inr (Some ''tx'')),
      x_fetch = (\<lambda>l u j. Inr (200, Inr ''ok'', None)), x_http_get = (\<lambda>l u. Inr (200, Inr ''ok'')),
      x_stream = (\<lambda>l c. Inr NilReply), x_json_parse = (\<lambda>s. None), x_load_account = (\<lambda>l k. Inr []),
      x_mpp_load = (\<lambda>l. Inr ()), x_mpp_gate = (\<lambda>l a d r. Inr None),
      x_x402_init = (\<lambda>l. Inr ()), x_x402_gate = (\<lambda>l r. Inr None), x_rpc_health = (\<lambda>l. Inr ''healthy'') \<rparr>"

definition sample_redis :: redis where
  "sample_redis =
    \<lparr> rd_keys = (\<lambda>k. None), rd_cmds = 0, rd_fault = (\<lambda>n. None), rd_time = (\<lambda>n. 0) \<rparr>"

definition sample_mem :: "task list \<Rightarrow> bid list \<Rightarrow> mem_world" where
  "sample_mem ts bs =
    \<lparr> w_ext = sample_ext, w_now = (\<lambda>n. int n), w_reads = 0,
      w_uuid = (\<lambda>n. CHR ''u'' # replicate n (CHR ''x'')), w_uuids = 0,
      w_log = [], w_feed_seq = 0, w_random = (\<lambda>n. 1 / 2), w_randoms = 0, w_redis = sample_redis,
      w_tw_client = None, w_mpp = None, w_x402 = False, w_redis_client = False,
      m_tasks = map (\<lambda>t. (task_id t, t)) ts, m_bids = map (\<lambda>b. (bid_id b, b)) bs,
      m_results = [], m_executors = [] \<rparr>"

definition sample_time :: "string \<Rightarrow> int option" where
  "sample_time s = (if s = ''2030-01-01T00:00:00.000Z'' then Some 1893456000000 else Some 0)"

definition sample_pg :: "task_row list \<Rightarrow> bid_row list \<Rightarrow> (nat \<Rightarrow> exn option) \<Rightarrow> pg_world" where
  "sample_pg ts bs fault =
    \<lparr> w_ext = sample_ext, w_now = (\<lambda>n. int n), w_reads = 0,
      w_uuid = (\<lambda>n. CHR ''u'' # replicate n (CHR ''x'')), w_uuids = 0,
      w_log = [], w_feed_seq = 0, w_random = (\<lambda>n. 1 / 2), w_randoms = 0, w_redis = sample_redis,
      w_tw_client = None, w_mpp = None, w_x402 = False, w_redis_client = False,
      pg_fault = fault, pg_queries = 0, pg_uuid = Some, pg_time = sample_time, pg_jsonb = Some, pg_body = Some,
      pg_now = (\<lambda>n. int n), pg_tasks = ts, pg_bids = bs, pg_results = [], pg_executors = [],
      pg_outbox = [], pg_consumptions = [], pg_idempotency = [] \<rparr>"

definition sample_task :: "string \<Rightarrow> task_status \<Rightarrow> task" where
  "sample_task i s =
    \<lparr> task_id = i, task_requesterPublicKey = sample_key (CHR ''A''), task_reservePriceStroops = 100,
      task_description = ''work'', task_deadline = ''2030-01-01T00:00:00.000Z'', task_status = s \<rparr>"

definition sample_bid :: "string \<Rightarrow> string \<Rightarrow> int \<Rightarrow> bid_status \<Rightarrow> bid" where
  "sample_bid i ti amount s =
    \<lparr> bid_id = i, bid_taskId = ti, bid_executorPublicKey = sample_key (CHR ''B''),
      bid_amountStroops = amount, bid_collateralStroops = 50, bid_escrowId = ''escrow'',
      bid_status = s, bid_createdAt = ''1970-01-01T00:00:00.000Z'' \<rparr>"

definition sample_task_row :: "string \<Rightarrow> task_status \<Rightarrow> task_row" where
  "sample_task_row i s =
    \<lparr> tk_id = i, tk_requester_public_key = sample_key (CHR ''A''), tk_reserve_price_stroops = 100,
      tk_description = ''work'', tk_deadline = 1893456000000, tk_status = s,
      tk_created_at = 0, tk_updated_at = 0 \<rparr>"

definition sample_bid_row :: "string \<Rightarrow> string \<Rightarrow> int \<Rightarrow> bid_status \<Rightarrow> bid_row" where
  "sample_bid_row i ti amount s =
    \<lparr> bw_id = i, bw_task_id = ti, bw_executor_public_key = sample_key (CHR ''B''),
      bw_amount_stroops = amount, bw_collateral_stroops = 50, bw_escrow_id = ''escrow'',
      bw_status = s, bw_created_at = 0 \<rparr>"

lemmas sample_defs = sample_mem_def sample_pg_def sample_ext_def sample_redis_def sample_task_def
  sample_bid_def sample_task_row_def sample_bid_row_def

lemma sample_iso:
  "toISOString 0 = ''1970-01-01T00:00:00.000Z''"
  "toISOString 1893456000000 = ''2030-01-01T00:00:00.000Z''"
  by code_simp+

lemma sample_time_stable: "sample_time s = Some ms \<Longrightarrow> sample_time (toISOString ms) = Some ms"
  by (auto simp: sample_time_def sample_iso split: if_splits)

lemma sample_mem_inv:
  "distinct (map task_id ts) \<Longrightarrow> distinct (map bid_id bs) \<Longrightarrow> mem_inv (sample_mem ts bs)"
  by (auto simp: mem_inv_def sample_mem_def keyed_def comp_def)

lemma sample_pg_inv:
  assumes "distinct (map tk_id ts)" "distinct (map bw_id bs)"
    and "\<forall>r \<in> set ts. tk_deadline r = 1893456000000"
  shows "pg_inv (sample_pg ts bs fault)"
  using assms by (auto simp: pg_inv_def sample_pg_def sample_iso sample_time_def)

end
