(* ===== verification/Auction.thy ===== *)
theory Auction
  imports Samples
begin

text \<open>
  \<open>services/auctionService.ts\<close>: the winner of a task is its lowest pending bid, the earlier
  one on a tie. The selection saves the task, then the winner, then each loser, each in a
  query of its own. The market-level effect is \<open>settle\<close>; the proofs run inside the contract
  of the repositories, so they hold for both stores.
\<close>

section \<open>The service\<close>

text \<open>The callback of \<open>reduce\<close>.\<close>

definition lower_bid :: "bid \<Rightarrow> bid \<Rightarrow> bid" where
  "lower_bid lowest b =
    (if bid_amountStroops b < bid_amountStroops lowest then b
     else if bid_amountStroops b = bid_amountStroops lowest \<and> bid_createdAt b < bid_createdAt lowest then b
     else lowest)"

definition winning_bid :: "bid list \<Rightarrow> bid" where
  "winning_bid pending = foldl lower_bid (hd pending) (tl pending)"

definition selectWinner ::
  "'w task_repo \<Rightarrow> 'w bid_repo \<Rightarrow> string \<Rightarrow> ('w, task \<times> bid) prog" where
  "selectWinner tr br taskId =
     bindE (tr_findById tr taskId) (\<lambda>found. case found of
       None \<Rightarrow> throw (TaskNotFoundError (''Task not found: '' @ taskId))
     | Some t \<Rightarrow>
         if task_status t \<noteq> OPEN then throw (TaskNotOpenError (task_status_text (task_status t)))
         else bindE (br_findByTaskId br taskId) (\<lambda>bids.
           let pending = filter (\<lambda>b. bid_status b = PENDING) bids
           in if pending = [] then throw (NoBidsError (''No pending bids for task: '' @ taskId))
              else
                let winner = winning_bid pending;
                    updatedTask = t\<lparr>task_status := ASSIGNED\<rparr>;
                    updatedWinner = winner\<lparr>bid_status := SELECTED\<rparr>
                in bindE (tr_save tr updatedTask) (\<lambda>_.
                   bindE (br_save br updatedWinner) (\<lambda>_.
                   bindE (forE pending (\<lambda>b.
                     if bid_id b \<noteq> bid_id winner then br_save br (b\<lparr>bid_status := REJECTED\<rparr>)
                     else ret ())) (\<lambda>_.
                   ret (updatedTask, updatedWinner))))))"

section \<open>The winner\<close>

text \<open>The order of the auction: price first, then the time of the bid.\<close>

definition bid_before :: "bid \<Rightarrow> bid \<Rightarrow> bool" where
  "bid_before a b \<longleftrightarrow> bid_amountStroops a < bid_amountStroops b \<or>
     bid_amountStroops a = bid_amountStroops b \<and> bid_createdAt a < bid_createdAt b"

definition best_bid :: "bid set \<Rightarrow> bid \<Rightarrow> bool" where
  "best_bid B a \<longleftrightarrow> a \<in> B \<and> (\<forall>b \<in> B. \<not> bid_before b a)"

lemma lower_bid_before: "lower_bid a b = (if bid_before b a then b else a)"
  by (simp add: lower_bid_def bid_before_def)

lemma bid_before_irrefl [simp]: "\<not> bid_before a a"
  by (simp add: bid_before_def)

lemma not_bid_before_trans: "\<not> bid_before a b \<Longrightarrow> \<not> bid_before b c \<Longrightarrow> \<not> bid_before a c"
  by (auto simp: bid_before_def)

lemma lower_bid_least:
  "lower_bid a b = a \<or> lower_bid a b = b"
  "\<not> bid_before a (lower_bid a b)" "\<not> bid_before b (lower_bid a b)"
  by (auto simp: lower_bid_def bid_before_def)

lemma foldl_lower_bid: "best_bid (set (a # bs)) (foldl lower_bid a bs)"
proof (induction bs arbitrary: a)
  case Nil
  show ?case by (simp add: best_bid_def)
next
  case (Cons b bs)
  let ?l = "lower_bid a b" and ?w = "foldl lower_bid (lower_bid a b) bs"
  have w: "best_bid (set (?l # bs)) ?w" by (rule Cons.IH)
  then have "\<not> bid_before ?l ?w" by (simp add: best_bid_def)
  then have "\<not> bid_before a ?w" "\<not> bid_before b ?w"
    using lower_bid_least not_bid_before_trans by blast+
  moreover have "?w \<in> set (a # b # bs)"
    using w lower_bid_least(1) [of a b] unfolding best_bid_def by (metis list.set_intros set_ConsD)
  ultimately show ?case using w by (simp add: best_bid_def)
qed

lemma winning_bid_best: "pending \<noteq> [] \<Longrightarrow> best_bid (set pending) (winning_bid pending)"
  using foldl_lower_bid [of "hd pending" "tl pending"] by (simp add: winning_bid_def)

lemma winning_bid_in: "pending \<noteq> [] \<Longrightarrow> winning_bid pending \<in> set pending"
  using winning_bid_best by (auto simp: best_bid_def)

section \<open>What a selection does to the market\<close>

definition pending_bids :: "market \<Rightarrow> string \<Rightarrow> bid set" where
  "pending_bids M i = {b \<in> ran (mk_bids M). bid_taskId b = i \<and> bid_status b = PENDING}"

definition settle_bid :: "string \<Rightarrow> bid \<Rightarrow> bid \<Rightarrow> bid" where
  "settle_bid i winner b =
    (if bid_taskId b = i \<and> bid_status b = PENDING
     then b\<lparr>bid_status := if bid_id b = bid_id winner then SELECTED else REJECTED\<rparr> else b)"

definition settle :: "string \<Rightarrow> bid \<Rightarrow> market \<Rightarrow> market" where
  "settle i winner M = M\<lparr>
     mk_tasks := (mk_tasks M)(i := map_option (\<lambda>t. t\<lparr>task_status := ASSIGNED\<rparr>) (mk_tasks M i)),
     mk_bids := (\<lambda>j. map_option (settle_bid i winner) (mk_bids M j)) \<rparr>"

definition reject_others :: "bid set \<Rightarrow> string \<Rightarrow> market \<Rightarrow> market" where
  "reject_others B k M = M\<lparr>mk_bids := (\<lambda>j.
     if j \<noteq> k \<and> (\<exists>b \<in> B. bid_id b = j) then map_option (\<lambda>b. b\<lparr>bid_status := REJECTED\<rparr>) (mk_bids M j)
     else mk_bids M j)\<rparr>"

text \<open>The triple of an operation: what it does to the market on success, and that a failure
  moves the market only along the lifecycle.\<close>

context bid_store
begin

lemma reject_loop:
  assumes "inv w" and "\<forall>b \<in> set xs. mk_bids (abs w) (bid_id b) = Some b \<and> bid_status b = PENDING"
    and "distinct (map bid_id xs)"
    and "forE xs (\<lambda>b. if bid_id b \<noteq> k then br_save br (b\<lparr>bid_status := REJECTED\<rparr>) else ret ()) w = (r, w')"
  shows "inv w' \<and> env.truncate w' = env.truncate w \<and> status_step (abs w) (abs w') \<and>
    (\<forall>u. r = Inr u \<longrightarrow> abs w' = reject_others (set xs) k (abs w))"
  using assms
proof (induction xs arbitrary: w)
  case Nil
  then show ?case by (simp add: prog_run reject_others_def)
next
  case (Cons b xs)
  let ?loop = "forE xs (\<lambda>b. if bid_id b \<noteq> k then br_save br (b\<lparr>bid_status := REJECTED\<rparr>) else ret ())"
  have b: "mk_bids (abs w) (bid_id b) = Some b" "bid_status b = PENDING"
    and xs: "distinct (map bid_id xs)" "bid_id b \<notin> bid_id ` set xs"
    using Cons.prems(2,3) by auto
  show ?case
  proof (cases "bid_id b = k")
    case True
    then have run: "?loop w = (r, w')" using Cons.prems(4) by simp
    have "reject_others (set (b # xs)) k (abs w) = reject_others (set xs) k (abs w)"
      using True by (auto simp: reject_others_def fun_eq_iff)
    then show ?thesis using Cons.IH [OF Cons.prems(1) _ xs(1) run] Cons.prems(2) by simp
  next
    case False
    obtain rb w1 where save: "br_save br (b\<lparr>bid_status := REJECTED\<rparr>) w = (rb, w1)" by fastforce
    note s = save_bid_status [OF Cons.prems(1) b(1) save]
    have le: "status_step (abs w) (abs w1)"
      using save_bid_status_le [OF Cons.prems(1) b(1) _ save] b(2) by simp
    show ?thesis
    proof (cases rb)
      case (Inl e)
      then show ?thesis using Cons.prems(4) False save s le by (auto simp: bindE_apply)
    next
      case (Inr u)
      then have run: "?loop w1 = (r, w')" using Cons.prems(4) False save by (simp add: bindE_apply)
      have abs1: "abs w1 = (abs w)\<lparr>mk_bids := (mk_bids (abs w))(bid_id b \<mapsto> b\<lparr>bid_status := REJECTED\<rparr>)\<rparr>"
        using s(3) Inr by simp
      have "\<forall>c \<in> set xs. mk_bids (abs w1) (bid_id c) = Some c \<and> bid_status c = PENDING"
      proof
        fix c assume "c \<in> set xs"
        moreover from this have "mk_bids (abs w) (bid_id c) = Some c \<and> bid_status c = PENDING"
          using bspec [OF Cons.prems(2), of c] by simp
        moreover have "bid_id c \<noteq> bid_id b" using \<open>c \<in> set xs\<close> xs(2) by (metis imageI)
        ultimately show "mk_bids (abs w1) (bid_id c) = Some c \<and> bid_status c = PENDING" by (simp add: abs1)
      qed
      note IH = Cons.IH [OF s(1) this xs(1) run]
      have "reject_others (set (b # xs)) k (abs w) = reject_others (set xs) k (abs w1)"
        using b(1) xs(2) False by (auto simp: reject_others_def abs1 fun_eq_iff)
      then show ?thesis using IH s(2) status_step_trans [OF le] by simp
    qed
  qed
qed

end

context market_store
begin

text \<open>The saves of a selection, from a world whose pending bids are \<open>xs\<close>.\<close>

lemma selectWinner_saves:
  assumes "inv w" and t: "mk_tasks (abs w) k = Some t" "task_status t = OPEN"
    and xs: "set xs = pending_bids (abs w) k" "distinct (map bid_id xs)" "b0 \<in> set xs"
    and run: "bindE (tr_save tr (t\<lparr>task_status := ASSIGNED\<rparr>)) (\<lambda>_.
       bindE (br_save br (b0\<lparr>bid_status := SELECTED\<rparr>)) (\<lambda>_.
       bindE (forE xs (\<lambda>b. if bid_id b \<noteq> bid_id b0 then br_save br (b\<lparr>bid_status := REJECTED\<rparr>)
         else ret ())) (\<lambda>_. ret x))) w = (r, w')"
  shows "inv w' \<and> env.truncate w' = env.truncate w \<and> status_step (abs w) (abs w') \<and>
    (\<forall>y. r = Inr y \<longrightarrow> y = x \<and> abs w' = settle k b0 (abs w))"
proof -
  have stored: "mk_bids (abs w) (bid_id b) = Some b \<and> bid_status b = PENDING \<and> bid_taskId b = k"
    if "b \<in> set xs" for b
    using that xs(1) bids_keyed [OF assms(1)] by (auto simp: pending_bids_def ran_def)
  obtain r1 w1 where s1: "tr_save tr (t\<lparr>task_status := ASSIGNED\<rparr>) w = (r1, w1)" by fastforce
  note S1 = save_status [OF assms(1) t(1) s1]
  have L1: "status_step (abs w) (abs w1)" using save_status_le [OF assms(1) t(1) _ s1] t(2) by simp
  show ?thesis
  proof (cases r1)
    case (Inl e)
    then show ?thesis using run s1 S1 L1 by (auto simp: bindE_apply)
  next
    case r1: (Inr u)
    have a1: "abs w1 = (abs w)\<lparr>mk_tasks := (mk_tasks (abs w))(k \<mapsto> t\<lparr>task_status := ASSIGNED\<rparr>)\<rparr>"
      using S1(3) r1 by simp
    have b0: "mk_bids (abs w1) (bid_id b0) = Some b0" "bid_status b0 = PENDING"
      using stored [OF xs(3)] by (simp_all add: a1)
    obtain r2 w2 where s2: "br_save br (b0\<lparr>bid_status := SELECTED\<rparr>) w1 = (r2, w2)" by fastforce
    note S2 = save_bid_status [OF S1(1) b0(1) s2]
    have L2: "status_step (abs w1) (abs w2)"
      using save_bid_status_le [OF S1(1) b0(1) _ s2] b0(2) by simp
    show ?thesis
    proof (cases r2)
      case (Inl e)
      then show ?thesis using run s1 r1 s2 S1(2) S2 status_step_trans [OF L1 L2] by (auto simp: bindE_apply)
    next
      case r2: (Inr u2)
      have a2: "abs w2 = (abs w1)\<lparr>mk_bids := (mk_bids (abs w1))(bid_id b0 \<mapsto> b0\<lparr>bid_status := SELECTED\<rparr>)\<rparr>"
        using S2(3) r2 by simp
      let ?others = "filter (\<lambda>b. bid_id b \<noteq> bid_id b0) xs"
      have loop: "forE xs (\<lambda>b. if bid_id b \<noteq> bid_id b0 then br_save br (b\<lparr>bid_status := REJECTED\<rparr>) else ret ()) =
          forE ?others (\<lambda>b. if bid_id b \<noteq> bid_id b0 then br_save br (b\<lparr>bid_status := REJECTED\<rparr>) else ret ())"
        by (induction xs) simp_all
      obtain r3 w3 where s3: "forE ?others (\<lambda>b. if bid_id b \<noteq> bid_id b0
          then br_save br (b\<lparr>bid_status := REJECTED\<rparr>) else ret ()) w2 = (r3, w3)" by fastforce
      have "\<forall>b \<in> set ?others. mk_bids (abs w2) (bid_id b) = Some b \<and> bid_status b = PENDING"
        using stored by (simp add: a1 a2)
      note L = reject_loop [OF S2(1) this _ s3]
      have L3: "inv w3 \<and> env.truncate w3 = env.truncate w2 \<and> status_step (abs w2) (abs w3) \<and>
          (\<forall>u. r3 = Inr u \<longrightarrow> abs w3 = reject_others (set ?others) (bid_id b0) (abs w2))"
        using L xs(2) by (simp add: distinct_map_filter)
      have eq: "reject_others (set ?others) (bid_id b0) (abs w2) = settle k b0 (abs w)"
      proof -
        have "(if j \<noteq> bid_id b0 \<and> (\<exists>b \<in> set ?others. bid_id b = j)
             then map_option (\<lambda>b. b\<lparr>bid_status := REJECTED\<rparr>) (mk_bids (abs w2) j) else mk_bids (abs w2) j) =
            map_option (settle_bid k b0) (mk_bids (abs w) j)" for j
        proof (cases "mk_bids (abs w) j")
          case None
          then show ?thesis using stored stored [OF xs(3)] by (auto simp: a1 a2)
        next
          case (Some c)
          then have "bid_id c = j" by (rule bids_keyed [OF assms(1)])
          moreover have "(\<exists>b \<in> set xs. bid_id b = j) \<longleftrightarrow> bid_taskId c = k \<and> bid_status c = PENDING"
          proof
            assume "\<exists>b \<in> set xs. bid_id b = j"
            then obtain b where "b \<in> set xs" "bid_id b = j" by blast
            then show "bid_taskId c = k \<and> bid_status c = PENDING" using stored [of b] Some by simp
          next
            assume "bid_taskId c = k \<and> bid_status c = PENDING"
            then have "c \<in> set xs" using Some by (auto simp: xs(1) pending_bids_def ran_def)
            then show "\<exists>b \<in> set xs. bid_id b = j" using \<open>bid_id c = j\<close> by blast
          qed
          ultimately have mem: "(\<exists>b \<in> set ?others. bid_id b = j) \<longleftrightarrow>
              j \<noteq> bid_id b0 \<and> bid_taskId c = k \<and> bid_status c = PENDING"
            by auto
          have m2: "mk_bids (abs w2) j = (if j = bid_id b0 then Some (b0\<lparr>bid_status := SELECTED\<rparr>) else Some c)"
            using Some by (simp add: a1 a2)
          have "j = bid_id b0 \<Longrightarrow> c = b0" using Some stored [OF xs(3)] by simp
          then show ?thesis
            using stored [OF xs(3)] \<open>bid_id c = j\<close> unfolding mem m2 Some settle_bid_def
            by (cases "j = bid_id b0") simp_all
        qed
        then show ?thesis unfolding reject_others_def settle_def using t(1) by (simp add: a2) (simp add: a1)
      qed
      have "status_step (abs w) (abs w3)" using status_step_trans [OF L1 status_step_trans [OF L2]] L3 by blast
      then show ?thesis using run s1 r1 s2 r2 s3 S1(2) S2(2) L3
        unfolding eq by (cases r3) (auto simp: bindE_apply loop ret_apply)
    qed
  qed
qed

lemma selectWinner_run:
  assumes "inv w" and run: "selectWinner tr br i w = (r, w')"
  defines "k \<equiv> mk_key (abs w) i"
  shows "inv w' \<and> env.truncate w' = env.truncate w \<and> status_step (abs w) (abs w') \<and>
    (\<forall>t b. r = Inr (t, b) \<longrightarrow> (\<exists>t0 b0. mk_tasks (abs w) k = Some t0 \<and> task_status t0 = OPEN \<and>
       best_bid (pending_bids (abs w) k) b0 \<and>
       t = t0\<lparr>task_status := ASSIGNED\<rparr> \<and> b = b0\<lparr>bid_status := SELECTED\<rparr> \<and>
       abs w' = settle k b0 (abs w))) \<and>
    (\<forall>e. r = Inl e \<longrightarrow> abs w' = abs w \<or>
       (\<exists>t0. mk_tasks (abs w) k = Some t0 \<and> task_status t0 = OPEN \<and> pending_bids (abs w) k \<noteq> {}))"
proof -
  obtain r1 w1 where f1: "tr_findById tr i w = (r1, w1)" by fastforce
  have F1: "inv w1" "abs w1 = abs w" "env.truncate w1 = env.truncate w" "\<And>x. r1 = Inr x \<Longrightarrow> x = mk_tasks (abs w) k"
    using t_find [OF assms(1) f1] by (auto simp: k_def)
  show ?thesis
  proof (cases "\<exists>t0. r1 = Inr (Some t0) \<and> task_status t0 = OPEN")
    case False
    then have "w' = w1 \<and> (\<exists>e. r = Inl e)" using run f1
      by (auto simp: selectWinner_def bindE_apply throw_apply split: sum.splits option.splits if_splits)
    then show ?thesis using F1 by auto
  next
    case True
    then obtain t0 where t0: "r1 = Inr (Some t0)" "mk_tasks (abs w) k = Some t0" "task_status t0 = OPEN"
      using F1(4) by auto
    obtain r2 w2 where f2: "br_findByTaskId br i w1 = (r2, w2)" by fastforce
    have F2: "inv w2" "abs w2 = abs w" "env.truncate w2 = env.truncate w"
      "\<And>xs. r2 = Inr xs \<Longrightarrow> set xs = {b \<in> ran (mk_bids (abs w)). bid_taskId b = k} \<and> distinct (map bid_id xs)"
      using b_find [OF F1(1) f2] F1(2,3) by (auto simp: k_def)
    show ?thesis
    proof (cases "\<exists>xs. r2 = Inr xs \<and> filter (\<lambda>b. bid_status b = PENDING) xs \<noteq> []")
      case False
      then have "w' = w2 \<and> (\<exists>e. r = Inl e)" using run f1 t0 f2
        by (auto simp: selectWinner_def bindE_apply throw_apply Let_def split: sum.splits if_splits)
      then show ?thesis using F2 by auto
    next
      case True
      then obtain bs xs where bs: "r2 = Inr bs" "xs = filter (\<lambda>b. bid_status b = PENDING) bs" "xs \<noteq> []"
        by blast
      have xs: "set xs = pending_bids (abs w2) k" "distinct (map bid_id xs)"
        using F2(4) [OF bs(1)] bs(2) by (auto simp: pending_bids_def F2(2) distinct_map_filter)
      let ?b0 = "winning_bid xs"
      have best: "best_bid (pending_bids (abs w) k) ?b0" and mem: "?b0 \<in> set xs"
        using winning_bid_best [OF bs(3)] winning_bid_in [OF bs(3)] xs(1) by (simp_all add: F2(2))
      have "bindE (tr_save tr (t0\<lparr>task_status := ASSIGNED\<rparr>)) (\<lambda>_.
          bindE (br_save br (?b0\<lparr>bid_status := SELECTED\<rparr>)) (\<lambda>_.
          bindE (forE xs (\<lambda>b. if bid_id b \<noteq> bid_id ?b0 then br_save br (b\<lparr>bid_status := REJECTED\<rparr>)
            else ret ())) (\<lambda>_. ret (t0\<lparr>task_status := ASSIGNED\<rparr>, ?b0\<lparr>bid_status := SELECTED\<rparr>)))) w2 = (r, w')"
        using run f1 t0 f2 bs(1,3) unfolding bs(2) [symmetric]
        by (simp add: selectWinner_def bindE_apply [of "tr_findById tr i"]
            bindE_apply [of "br_findByTaskId br i"] Let_def bs(2))
      from selectWinner_saves [OF F2(1) _ t0(3) xs mem this] t0(2)
      have S: "inv w' \<and> env.truncate w' = env.truncate w2 \<and> status_step (abs w) (abs w') \<and>
          (\<forall>y. r = Inr y \<longrightarrow> y = (t0\<lparr>task_status := ASSIGNED\<rparr>, ?b0\<lparr>bid_status := SELECTED\<rparr>) \<and>
            abs w' = settle k ?b0 (abs w))"
        by (simp add: F2(2))
      have "pending_bids (abs w) k \<noteq> {}" using best by (auto simp: best_bid_def)
      then show ?thesis using S best t0(2,3) F2(3) by auto
    qed
  qed
qed

lemma selectWinner_evolves: "evolves lifecycle (selectWinner tr br i)"
proof (rule evolvesI)
  fix w r w' assume run: "selectWinner tr br i w = (r, w')"
  show "lifecycle w w'" unfolding lifecycle_def
    using selectWinner_run [OF _ run] fresh_status_step [of w w'] by (simp add: status_step_le)
qed

end

section \<open>Correctness\<close>

lemma mem_select_refused:
  "jsmap_get (m_tasks w) i = None \<Longrightarrow>
     selectWinner mem_task_repo mem_bid_repo i w = (Inl (TaskNotFoundError (''Task not found: '' @ i)), w)"
  "jsmap_get (m_tasks w) i = Some t \<Longrightarrow> task_status t \<noteq> OPEN \<Longrightarrow>
     selectWinner mem_task_repo mem_bid_repo i w =
       (Inl (TaskNotOpenError (task_status_text (task_status t))), w)"
  "jsmap_get (m_tasks w) i = Some t \<Longrightarrow> task_status t = OPEN \<Longrightarrow>
   filter (\<lambda>b. bid_status b = PENDING) (bids_of_task w i) = [] \<Longrightarrow>
     selectWinner mem_task_repo mem_bid_repo i w =
       (Inl (NoBidsError (''No pending bids for task: '' @ i)), w)"
  by (simp_all add: selectWinner_def bindE_apply mem_run throw_apply Let_def)

lemma mem_select_returns:
  assumes "jsmap_get (m_tasks w) i = Some t" and "task_status t = OPEN"
    and "filter (\<lambda>b. bid_status b = PENDING) (bids_of_task w i) \<noteq> []"
  shows "\<exists>x w'. selectWinner mem_task_repo mem_bid_repo i w = (Inr x, w')"
proof -
  have save: "returns (mem_task_save t')" "returns (mem_bid_save b')" "returns (br_save mem_bid_repo b')"
    for t' b' by (simp_all add: mem_task_save_def mem_bid_save_def returns_modify)
  show ?thesis
    using assms by (simp add: selectWinner_def bindE_apply [of "mem_task_findById i"]
        bindE_apply [of "mem_bid_findByTaskId i"] mem_run Let_def del: split_paired_Ex)
      (intro returnsD returns_intros save)
qed

text \<open>
  C19. The in-memory auction: an unknown task, a task that is not \<open>OPEN\<close> and a task without
  pending bids are refused with their own errors and nothing changes; otherwise the call
  returns a lowest pending bid (the earliest of the lowest), the task is \<open>ASSIGNED\<close>, that
  bid \<open>SELECTED\<close>, every other pending bid of the task \<open>REJECTED\<close>, and nothing else changes.
\<close>

theorem select_winner_mem:
  assumes "mem_inv w"
  shows "case selectWinner mem_task_repo mem_bid_repo i w of (r, w') \<Rightarrow>
    mem_inv w' \<and>
    (case jsmap_get (m_tasks w) i of
       None \<Rightarrow> r = Inl (TaskNotFoundError (''Task not found: '' @ i)) \<and> w' = w
     | Some t \<Rightarrow>
         if task_status t \<noteq> OPEN then r = Inl (TaskNotOpenError (task_status_text (task_status t))) \<and> w' = w
         else if pending_bids (mem_market w) i = {}
         then r = Inl (NoBidsError (''No pending bids for task: '' @ i)) \<and> w' = w
         else \<exists>b. best_bid (pending_bids (mem_market w) i) b \<and>
           r = Inr (t\<lparr>task_status := ASSIGNED\<rparr>, b\<lparr>bid_status := SELECTED\<rparr>) \<and>
           mem_market w' = settle i b (mem_market w))"
proof -
  obtain r w' where run: "selectWinner mem_task_repo mem_bid_repo i w = (r, w')" by fastforce
  have key: "mk_key (mem_market w) i = i" and get: "mk_tasks (mem_market w) = jsmap_get (m_tasks w)"
    by (simp_all add: mem_market_def)
  have pending: "pending_bids (mem_market w) i = set (filter (\<lambda>b. bid_status b = PENDING) (bids_of_task w i))"
    using assms by (auto simp: pending_bids_def bids_of_task_def mem_market_def mem_inv_def jsmap_values_ran)
  note spec = mem.selectWinner_run [OF assms run, unfolded key get]
  show ?thesis
  proof (cases "\<exists>t. jsmap_get (m_tasks w) i = Some t \<and> task_status t = OPEN \<and> pending_bids (mem_market w) i \<noteq> {}")
    case False
    then show ?thesis using assms
      using run mem_select_refused [of w i] by (auto simp: pending filter_empty_conv split: option.splits)
  next
    case True
    then obtain t where t: "jsmap_get (m_tasks w) i = Some t" "task_status t = OPEN"
      "pending_bids (mem_market w) i \<noteq> {}" by blast
    then obtain x where "r = Inr x" using mem_select_returns [OF t(1,2)] run by (auto simp: pending filter_empty_conv)
    then show ?thesis using t spec run by (cases x) auto
  qed
qed

lemma select_winner_mem_witness:
  "mem_inv (sample_mem [sample_task ''t'' OPEN]
     [sample_bid ''a'' ''t'' 9 PENDING, sample_bid ''b'' ''t'' 7 PENDING]) \<and>
   mem_inv (snd (selectWinner mem_task_repo mem_bid_repo ''t'' (sample_mem [sample_task ''t'' OPEN]
     [sample_bid ''a'' ''t'' 9 PENDING, sample_bid ''b'' ''t'' 7 PENDING])))"
proof -
  have "mem_inv (sample_mem [sample_task ''t'' OPEN]
     [sample_bid ''a'' ''t'' 9 PENDING, sample_bid ''b'' ''t'' 7 PENDING])"
    by (rule sample_mem_inv) (simp_all add: sample_bid_def)
  with select_winner_mem [OF this, of "''t''"] show ?thesis by (auto split: prod.splits)
qed

text \<open>
  C15. The auction on PostgreSQL: on success the task is \<open>ASSIGNED\<close>, a lowest pending bid is
  \<open>SELECTED\<close> and every other pending bid \<open>REJECTED\<close>, and nothing else changes. When a query
  fails, the market has still only moved along the lifecycle, and it is untouched unless the
  task was \<open>OPEN\<close> with pending bids.
\<close>

theorem select_winner_pg:
  assumes "pg_inv w" and "selectWinner pg_task_repo pg_bid_repo i w = (r, w')"
  shows "pg_inv w' \<and> market_le (pg_market w) (pg_market w') \<and>
    (\<forall>t b. r = Inr (t, b) \<longrightarrow> (\<exists>t0 b0. mk_tasks (pg_market w) (pg_key w i) = Some t0 \<and> task_status t0 = OPEN \<and>
       best_bid (pending_bids (pg_market w) (pg_key w i)) b0 \<and>
       t = t0\<lparr>task_status := ASSIGNED\<rparr> \<and> b = b0\<lparr>bid_status := SELECTED\<rparr> \<and>
       pg_market w' = settle (pg_key w i) b0 (pg_market w))) \<and>
    (\<forall>e. r = Inl e \<longrightarrow> pg_market w' = pg_market w \<or>
       (\<exists>t0. mk_tasks (pg_market w) (pg_key w i) = Some t0 \<and> task_status t0 = OPEN \<and>
         pending_bids (pg_market w) (pg_key w i) \<noteq> {}))"
  using pg.selectWinner_run [OF assms] by (simp add: status_step_le)

lemma select_winner_pg_witness:
  "fst (selectWinner pg_task_repo pg_bid_repo ''t'' (sample_pg [sample_task_row ''t'' OPEN]
     [sample_bid_row ''a'' ''t'' 9 PENDING, sample_bid_row ''b'' ''t'' 7 PENDING] (\<lambda>n. None))) =
   Inr ((row_to_task (sample_task_row ''t'' ASSIGNED)), row_to_bid (sample_bid_row ''b'' ''t'' 7 SELECTED)) \<and>
   pg_inv (snd (selectWinner pg_task_repo pg_bid_repo ''t'' (sample_pg [sample_task_row ''t'' OPEN]
     [sample_bid_row ''a'' ''t'' 9 PENDING, sample_bid_row ''b'' ''t'' 7 PENDING] (\<lambda>n. None))))"
proof (rule conjI)
  have "pg_inv (sample_pg [sample_task_row ''t'' OPEN]
     [sample_bid_row ''a'' ''t'' 9 PENDING, sample_bid_row ''b'' ''t'' 7 PENDING] (\<lambda>n. None))"
    by (rule sample_pg_inv) (simp_all add: sample_bid_row_def sample_task_row_def)
  from select_winner_pg [OF this prod.collapse [symmetric], of "''t''"]
  show "pg_inv (snd (selectWinner pg_task_repo pg_bid_repo ''t'' (sample_pg [sample_task_row ''t'' OPEN]
     [sample_bid_row ''a'' ''t'' 9 PENDING, sample_bid_row ''b'' ''t'' 7 PENDING] (\<lambda>n. None))))" by blast
qed code_simp

end
