(* ===== verification/Escrow.thy ===== *)
theory Escrow
  imports Samples
begin

text \<open>
  \<open>services/escrowService.ts\<close> and the mock of \<open>services/mockExternalServices.ts\<close>: the
  escrow provider interface, the Trustless Work implementation with the split of a
  confiscated collateral, the stub of the own contract, the mock, and the factory. Texts
  are UTF-8.
\<close>

section \<open>The interface\<close>

record confiscate_result =
  cr_success :: bool
  cr_disputeId :: string
  cr_status :: string
  cr_requesterShare :: rat
  cr_marketplaceShare :: rat

text \<open>\<open>IProviderEscrow\<close>.\<close>

record 'w escrow_provider =
  ep_createEscrow :: "string \<Rightarrow> string \<Rightarrow> rat \<Rightarrow> ('w, string) prog"
  ep_releaseMilestone :: "string \<Rightarrow> ('w, release_result) prog"
  ep_confiscate :: "string \<Rightarrow> rat \<Rightarrow> rat option \<Rightarrow> ('w, confiscate_result) prog"

section \<open>Trustless Work\<close>

datatype tw_network = Testnet | Mainnet

record escrow_config =
  cfg_apiKey :: string
  cfg_network :: tw_network
  cfg_marketplaceWallet :: string
  cfg_usdcIssuer :: string

definition DEFAULT_REQUESTER_CONFISCATION_SHARE :: rat where
  "DEFAULT_REQUESTER_CONFISCATION_SHARE = fl (7 / 10)"

definition em_dash :: string where
  "em_dash = [CHR 0xE2, CHR 0x80, CHR 0x94]"

text \<open>
  \<open>getClient\<close>: an injected client, else the promise of the first load, which is kept
  whether it was fulfilled or rejected.
\<close>

definition getClient :: "bool \<Rightarrow> ('a env_scheme, unit) prog" where
  "getClient injected =
     (if injected then ret ()
      else bindE (getsE w_tw_client) (\<lambda>c. case c of
          Some settled \<Rightarrow> liftE settled
        | None \<Rightarrow> (\<lambda>w. case call_ext TwLoad (\<lambda>x. x_tw_load x) w of
            (settled, w') \<Rightarrow> (settled, w'\<lparr>w_tw_client := Some settled\<rparr>))))"

definition tw_createEscrow ::
  "escrow_config \<Rightarrow> bool \<Rightarrow> string \<Rightarrow> string \<Rightarrow> rat \<Rightarrow> ('a env_scheme, string) prog" where
  "tw_createEscrow cfg injected executorPublicKey taskId collateralAmount =
     bindE (getClient injected) (\<lambda>_.
       let input =
         \<lparr> csr_engagementId = taskId,
           csr_title = ''Collateral for task '' @ taskId,
           csr_description = ''Executor collateral bond for task '' @ taskId,
           csr_approver = cfg_marketplaceWallet cfg,
           csr_serviceProvider = executorPublicKey,
           csr_releaseSigner = cfg_marketplaceWallet cfg,
           csr_platformAddress = cfg_marketplaceWallet cfg,
           csr_disputeResolver = cfg_marketplaceWallet cfg,
           csr_amount = collateralAmount,
           csr_milestone = ''Deliver result for task '' @ taskId,
           csr_trustline_address = cfg_usdcIssuer cfg,
           csr_trustline_code = ''USDC'' \<rparr>
       in call_ext (TwCreate input) (\<lambda>x l. x_tw_create x l input))"

definition tw_releaseMilestone :: "bool \<Rightarrow> string \<Rightarrow> ('a env_scheme, release_result) prog" where
  "tw_releaseMilestone injected escrowId =
     bindE (getClient injected) (\<lambda>_.
       call_ext (TwRelease escrowId) (\<lambda>x l. x_tw_release x l escrowId))"

text \<open>The split of a collateral into the requester's and the marketplace's share.\<close>

definition confiscation_shares :: "rat \<Rightarrow> rat \<Rightarrow> rat \<times> rat" where
  "confiscation_shares collateralAmount requesterSharePct =
     (let requesterShare =
            js_divide (math_round (js_mult (js_mult collateralAmount requesterSharePct) 100)) 100;
          marketplaceShare =
            js_divide (math_round (js_mult (js_minus collateralAmount requesterShare) 100)) 100
      in (requesterShare, marketplaceShare))"

definition confiscate_reason :: string where
  "confiscate_reason =
     ''Executor abandoned task '' @ em_dash @ '' deadline expired without delivery''"

definition tw_confiscate ::
  "bool \<Rightarrow> string \<Rightarrow> rat \<Rightarrow> rat option \<Rightarrow> ('a env_scheme, confiscate_result) prog" where
  "tw_confiscate injected escrowId collateralAmount pct =
     bindE (getClient injected) (\<lambda>_.
     bindE (getsE (\<lambda>w. x_num_string (w_ext w))) (\<lambda>num.
       let requesterSharePct = (case pct of None \<Rightarrow> DEFAULT_REQUESTER_CONFISCATION_SHARE | Some p \<Rightarrow> p);
           (requesterShare, marketplaceShare) = confiscation_shares collateralAmount requesterSharePct;
           requestedAction = ''confiscate:requester='' @ num requesterShare @ '',marketplace='' @ num marketplaceShare
       in bindE (call_ext (TwDispute escrowId confiscate_reason requestedAction)
            (\<lambda>x l. x_tw_dispute x l escrowId confiscate_reason requestedAction)) (\<lambda>d.
          ret \<lparr> cr_success = dr_success d, cr_disputeId = dr_disputeId d, cr_status = dr_status d,
                cr_requesterShare = requesterShare, cr_marketplaceShare = marketplaceShare \<rparr>)))"

definition trustless_work_escrow :: "escrow_config \<Rightarrow> bool \<Rightarrow> 'a env_scheme escrow_provider" where
  "trustless_work_escrow cfg injected =
     \<lparr> ep_createEscrow = tw_createEscrow cfg injected,
       ep_releaseMilestone = tw_releaseMilestone injected,
       ep_confiscate = tw_confiscate injected \<rparr>"

section \<open>The mock\<close>

definition mock_escrow :: "'w escrow_provider" where
  "mock_escrow =
     \<lparr> ep_createEscrow = (\<lambda>executor taskId amount. ret (''mock-escrow:'' @ taskId)),
       ep_releaseMilestone = (\<lambda>escrowId. ret
         \<lparr> rr_success = True, rr_transactionHash = ''mock-release:'' @ escrowId,
           rr_amountReleased = 0, rr_receiver = ''mock-receiver'' \<rparr>),
       ep_confiscate = (\<lambda>escrowId amount pct.
         let share = (case pct of None \<Rightarrow> fl (7 / 10) | Some p \<Rightarrow> p) in ret
         \<lparr> cr_success = True, cr_disputeId = ''mock-dispute:'' @ escrowId, cr_status = ''mocked'',
           cr_requesterShare = js_divide (math_round (js_mult (js_mult 0 share) 100)) 100,
           cr_marketplaceShare = js_divide (math_round (js_mult 0 100)) 100 \<rparr>) \<rparr>"

section \<open>The stub of the own contract\<close>

definition right_arrow :: string where
  "right_arrow = [CHR 0xE2, CHR 0x86, CHR 0x92]"

definition both_arrow :: string where
  "both_arrow = [CHR 0xE2, CHR 0x86, CHR 0x94]"

definition ellipsis :: string where
  "ellipsis = [CHR 0xE2, CHR 0x80, CHR 0xA6]"

definition OWN_ESCROW_BLOCKER_MSG :: string where
  "OWN_ESCROW_BLOCKER_MSG =
     ''[OurOwnEscrowContractClient P0 blockers not cleared] This is a SAFE STUB, not a real client. '' @
     ''Activate ESCROW_IMPLEMENTATION=ourown on any environment ONLY after ALL of the following: '' @
     ''(a) deploy contracts/escrow/ WASM '' @ right_arrow @ '' set ESCROW_CONTRACT_ID to the deployed address; '' @
     ''(b) 2 independent external audits published; '' @
     ''(c) generate TypeScript bindings at src/contracts/bindings/escrow mirroring registry/ pattern; '' @
     ''(d) implement a REAL OurOwnEscrowContractClient class inside src/services/escrowService.ts that '' @
     ''performs: (createEscrow) call escrow_contract.create_escrow with executor signed auth + '' @
     ''USDC Soroban transfer via token.transfer(executor'' @ right_arrow @ ''escrow, collateral); '' @
     ''(releaseMilestone) call escrow_contract.release_milestone with MARKETPLACE_WALLET release_signer auth; '' @
     ''(confiscate) call escrow_contract.confiscate(escrowId, requester_share_bp, marketplace) with requester auth. '' @
     ''Today the Rust contracts/escrow exist but are NOT wired into the TypeScript runtime bindings.''"

text \<open>Every method throws.\<close>

definition own_escrow_stub :: "'w escrow_provider" where
  "own_escrow_stub =
     \<lparr> ep_createEscrow = (\<lambda>e t a. throw (JsError (OWN_ESCROW_BLOCKER_MSG @ '' (method: createEscrow)''))),
       ep_releaseMilestone = (\<lambda>i. throw (JsError (OWN_ESCROW_BLOCKER_MSG @ '' (method: releaseMilestone)''))),
       ep_confiscate = (\<lambda>i a p. throw (JsError (OWN_ESCROW_BLOCKER_MSG @ '' (method: confiscate)''))) \<rparr>"

section \<open>The factory\<close>

datatype escrow_implementation = TrustlessWorkImpl | MockImpl | OurOwnImpl

datatype stellar_network = Local | TestnetNet | Pubnet

datatype bp_setting = BpText string | BpNumber rat

text \<open>The settings the factory reads, from the overrides or from \<open>process.env\<close>.\<close>

record escrow_env =
  ee_TRUSTLESS_WORK_API_KEY :: "string option"
  ee_USDC_ISSUER :: "string option"
  ee_MARKETPLACE_WALLET :: "string option"
  ee_ESCROW_CONTRACT_ID :: "string option"
  ee_ESCROW_TOKEN_CONTRACT :: "string option"
  ee_ESCROW_CONFISCATE_REQUESTER_BP :: "bp_setting option"

record own_escrow_config =
  oc_network :: stellar_network
  oc_escrowContractId :: string
  oc_tokenContract :: string
  oc_marketplaceWallet :: string
  oc_confiscateRequesterBp :: int

record 'w create_escrow_input =
  ci_implementation :: escrow_implementation
  ci_network :: stellar_network
  ci_envOverrides :: "escrow_env option"
  ci_injectedClient :: bool
  ci_injectedMock :: "'w escrow_provider option"
  ci_injectedOwn :: "'w escrow_provider option"

datatype 'w provider_choice =
    Injected "'w escrow_provider"
  | MockEscrowService
  | OwnEscrowStub own_escrow_config
  | TrustlessWorkEscrow escrow_config bool

definition provider_of :: "'a env_scheme provider_choice \<Rightarrow> 'a env_scheme escrow_provider" where
  "provider_of c = (case c of
      Injected p \<Rightarrow> p
    | MockEscrowService \<Rightarrow> mock_escrow
    | OwnEscrowStub cfg \<Rightarrow> own_escrow_stub
    | TrustlessWorkEscrow cfg injected \<Rightarrow> trustless_work_escrow cfg injected)"

text \<open>\<open>Number(requesterBpRaw)\<close>, with 7000 where it is unset or empty.\<close>

definition requester_bp :: "bp_setting option \<Rightarrow> jsnum" where
  "requester_bp raw = (case raw of
      None \<Rightarrow> Fin 7000
    | Some (BpText s) \<Rightarrow> if s = [] then Fin 7000 else js_to_number s
    | Some (BpNumber x) \<Rightarrow> Fin x)"

definition or_empty :: "string option \<Rightarrow> string" where
  "or_empty s = (case s of None \<Rightarrow> [] | Some x \<Rightarrow> x)"

definition long_enough :: "string option \<Rightarrow> bool" where
  "long_enough s = (case s of None \<Rightarrow> False | Some x \<Rightarrow> length x \<ge> 56)"

definition require_env :: "string \<Rightarrow> string option \<Rightarrow> exn + string" where
  "require_env name v = (case v of
      None \<Rightarrow> Inl (JsError (name @ '' is not set''))
    | Some s \<Rightarrow> if s = [] then Inl (JsError (name @ '' is not set'')) else Inr s)"

definition own_no_contract :: string where
  "own_no_contract =
     ''[createEscrowProvider ourown] ESCROW_CONTRACT_ID is not set or too short (expected deployed Soroban contract address, 56+ chars). '' @
     ''ADR0002 blocker (a) not cleared: deploy contracts/escrow WASM first and provide resulting contract address.''"

definition own_no_token :: string where
  "own_no_token =
     ''[createEscrowProvider ourown] ESCROW_TOKEN_CONTRACT is not set or too short (expected Soroban USDC token contract address). '' @
     ''Set it explicitly to avoid classic'' @ both_arrow @ ''Soroban address mapping bugs on pubnet.''"

definition own_no_market :: string where
  "own_no_market =
     ''[createEscrowProvider ourown] MARKETPLACE_WALLET is not a valid Stellar G'' @ ellipsis @ ''55 address (required as confiscate marketplace share recipient).''"

definition createOwnEscrow ::
  "(rat \<Rightarrow> string) \<Rightarrow> escrow_env \<Rightarrow> stellar_network \<Rightarrow> exn + own_escrow_config" where
  "createOwnEscrow num env network =
     (let raw = ee_ESCROW_CONFISCATE_REQUESTER_BP env;
          rawText = (case raw of None \<Rightarrow> ''undefined'' | Some (BpText s) \<Rightarrow> s | Some (BpNumber x) \<Rightarrow> num x);
          invalid = Inl (JsError (''[createEscrowProvider ourown] ESCROW_CONFISCATE_REQUESTER_BP invalid: expected integer 0..=10000, got '' @ rawText))
      in case requester_bp raw of
           NaN \<Rightarrow> invalid
         | Infinite n \<Rightarrow> invalid
         | Fin bp \<Rightarrow>
             if bp < 0 \<or> bp > 10000 then invalid
             else if \<not> long_enough (ee_ESCROW_CONTRACT_ID env) then Inl (JsError own_no_contract)
             else if \<not> long_enough (ee_ESCROW_TOKEN_CONTRACT env) then Inl (JsError own_no_token)
             else if \<not> strkey_syntax (CHR ''G'') (or_empty (ee_MARKETPLACE_WALLET env))
             then Inl (JsError own_no_market)
             else Inr \<lparr> oc_network = network,
                        oc_escrowContractId = or_empty (ee_ESCROW_CONTRACT_ID env),
                        oc_tokenContract = or_empty (ee_ESCROW_TOKEN_CONTRACT env),
                        oc_marketplaceWallet = or_empty (ee_MARKETPLACE_WALLET env),
                        oc_confiscateRequesterBp = math_trunc bp \<rparr>)"

definition createEscrowProvider ::
  "(rat \<Rightarrow> string) \<Rightarrow> escrow_env \<Rightarrow> 'w create_escrow_input \<Rightarrow> exn + 'w provider_choice" where
  "createEscrowProvider num process_env input =
     (let net = (if ci_network input = Pubnet then Mainnet else Testnet);
          env = (case ci_envOverrides input of Some e \<Rightarrow> e | None \<Rightarrow> process_env)
      in case ci_injectedMock input of Some p \<Rightarrow> Inr (Injected p) | None \<Rightarrow>
         (case ci_injectedOwn input of Some p \<Rightarrow> Inr (Injected p) | None \<Rightarrow>
         (case ci_implementation input of
            MockImpl \<Rightarrow> Inr MockEscrowService
          | OurOwnImpl \<Rightarrow> (case createOwnEscrow num env (ci_network input) of
              Inl e \<Rightarrow> Inl e | Inr cfg \<Rightarrow> Inr (OwnEscrowStub cfg))
          | TrustlessWorkImpl \<Rightarrow>
              if ci_injectedClient input then
                (let override = (\<lambda>f. case ci_envOverrides input of None \<Rightarrow> None | Some e \<Rightarrow> f e)
                 in Inr (TrustlessWorkEscrow
                   \<lparr> cfg_apiKey = (case override ee_TRUSTLESS_WORK_API_KEY of
                         None \<Rightarrow> ''__injected_client__'' | Some k \<Rightarrow> k),
                     cfg_network = net,
                     cfg_marketplaceWallet = or_empty (override ee_MARKETPLACE_WALLET),
                     cfg_usdcIssuer = or_empty (override ee_USDC_ISSUER) \<rparr> True))
              else
                (case require_env ''TRUSTLESS_WORK_API_KEY'' (ee_TRUSTLESS_WORK_API_KEY env) of Inl e \<Rightarrow> Inl e | Inr key \<Rightarrow>
                (case require_env ''USDC_ISSUER'' (ee_USDC_ISSUER env) of Inl e \<Rightarrow> Inl e | Inr issuer \<Rightarrow>
                (case require_env ''MARKETPLACE_WALLET'' (ee_MARKETPLACE_WALLET env) of Inl e \<Rightarrow> Inl e | Inr wallet \<Rightarrow>
                   Inr (TrustlessWorkEscrow
                     \<lparr> cfg_apiKey = key, cfg_network = net, cfg_marketplaceWallet = wallet,
                       cfg_usdcIssuer = issuer \<rparr> False)))))))"

section \<open>The shares of a confiscation\<close>

text \<open>Rounding a computed amount to cents moves it by half a cent and a trifle.\<close>

lemma abs_le_parts: "\<bar>x :: rat\<bar> \<le> e \<Longrightarrow> x \<le> e \<and> - x \<le> e"
  by linarith

lemma hundred_error:
  assumes "\<bar>x\<bar> \<le> 1000000001"
  shows "\<bar>js_mult (fl x) 100 - 100 * x\<bar> \<le> 1 / 50000"
proof -
  have "\<bar>fl x - x\<bar> \<le> 1 / 16777216"
    using fl_error_below [of x 30] assms by (simp add: power_int_minus)
  from abs_le_parts [OF this] have a: "fl x - x \<le> 1 / 16777216" "x - fl x \<le> 1 / 16777216" by linarith+
  have "x \<le> 1000000001" "- x \<le> 1000000001" using abs_le_parts [OF assms] by blast+
  then have "fl x * 100 < 137438953472" "- (fl x * 100) < 137438953472" using a by linarith+
  then have "\<bar>fl x * 100\<bar> < 2 powi 37" by (simp add: abs_less_iff)
  then have "\<bar>fl (fl x * 100) - fl x * 100\<bar> \<le> 1 / 131072"
    using fl_error_below [of "fl x * 100" 37] by (simp add: power_int_minus)
  then show ?thesis using a unfolding js_mult_def by linarith
qed

lemma cents_error:
  assumes "\<bar>x\<bar> \<le> 1000000001"
  shows "\<bar>js_divide (math_round (js_mult (fl x) 100)) 100 - x\<bar> \<le> 501 / 100000"
proof -
  define r where "r = math_round (js_mult (fl x) 100)"
  have "\<bar>r - js_mult (fl x) 100\<bar> \<le> 1 / 2" unfolding r_def by (rule math_round_error)
  then have r: "\<bar>r / 100 - x\<bar> \<le> 1 / 200 + 1 / 5000000" using hundred_error [OF assms] by linarith
  have "x \<le> 1000000001" "- x \<le> 1000000001" using abs_le_parts [OF assms] by blast+
  then have "r / 100 < 1073741824" "- (r / 100) < 1073741824" using abs_le_parts [OF r] by linarith+
  then have "\<bar>r / 100\<bar> < 2 powi 30" by (simp add: abs_less_iff)
  then have "\<bar>fl (r / 100) - r / 100\<bar> \<le> 1 / 16777216"
    using fl_error_below [of "r / 100" 30] by (simp add: power_int_minus)
  then have "\<bar>fl (r / 100) - x\<bar> \<le> 501 / 100000" using r by linarith
  then show ?thesis by (simp add: js_divide_def r_def)
qed

lemma confiscation_shares_error:
  assumes "0 \<le> c" "c \<le> 1000000000" "0 \<le> p" "p \<le> 1"
    and "confiscation_shares c p = (rs, ms)"
  shows "\<bar>rs - c * p\<bar> \<le> 501 / 100000" and "\<bar>rs + ms - c\<bar> \<le> 501 / 100000" and "0 \<le> rs"
proof -
  have "0 \<le> c * p" using assms(1,3) by (rule mult_nonneg_nonneg)
  moreover have "c * p \<le> 1000000000" using mult_mono [of c 1000000000 p 1] assms(1-4) by simp
  ultimately have cp: "\<bar>c * p\<bar> \<le> 1000000000" "0 \<le> c * p" by linarith+
  have rs: "rs = js_divide (math_round (js_mult (fl (c * p)) 100)) 100"
    and ms: "ms = js_divide (math_round (js_mult (fl (c - rs)) 100)) 100"
    using assms(5) by (auto simp: confiscation_shares_def Let_def js_mult_def js_minus_def)
  show r: "\<bar>rs - c * p\<bar> \<le> 501 / 100000" unfolding rs using cp by (intro cents_error) linarith
  show "0 \<le> rs" unfolding rs js_divide_def js_mult_def
    using assms(1,3) by (intro fl_nonneg divide_nonneg_nonneg math_round_nonneg mult_nonneg_nonneg) auto
  have "\<bar>c - rs\<bar> \<le> 1000000001" using r cp assms(1,2) by linarith
  then have "\<bar>ms - (c - rs)\<bar> \<le> 501 / 100000" unfolding ms by (rule cents_error)
  then show "\<bar>rs + ms - c\<bar> \<le> 501 / 100000" by linarith
qed

lemma default_share: "69999 / 100000 \<le> DEFAULT_REQUESTER_CONFISCATION_SHARE \<and>
    DEFAULT_REQUESTER_CONFISCATION_SHARE \<le> 70001 / 100000"
  by code_simp

text \<open>
  C22. The split of a confiscated collateral of up to a billion USDC: the requester's share is
  70 percent and the two shares add up to the collateral, both to within half a cent (the
  arithmetic is binary64 and rounds to cents), and neither share is negative.
\<close>

theorem confiscation_split:
  assumes "0 \<le> c" "c \<le> 1000000000"
    and "confiscation_shares c DEFAULT_REQUESTER_CONFISCATION_SHARE = (rs, ms)"
  shows "\<bar>rs - c * DEFAULT_REQUESTER_CONFISCATION_SHARE\<bar> \<le> 501 / 100000 \<and>
    \<bar>rs + ms - c\<bar> \<le> 501 / 100000 \<and> 0 \<le> rs \<and> 0 \<le> ms"
proof -
  let ?p = DEFAULT_REQUESTER_CONFISCATION_SHARE
  have p: "0 \<le> ?p" "?p \<le> 1" "?p \<le> 70001 / 100000" using default_share by linarith+
  note err = confiscation_shares_error [OF assms(1,2) p(1,2) assms(3)]
  have rs: "rs = js_divide (math_round (js_mult (fl (c * ?p)) 100)) 100"
    and ms: "ms = js_divide (math_round (js_mult (fl (c - rs)) 100)) 100"
    using assms(3) by (auto simp: confiscation_shares_def Let_def js_mult_def js_minus_def)
  have cp: "c * ?p \<le> c * (70001 / 100000)" using p(3) assms(1) by (rule mult_left_mono)
  have "0 \<le> math_round (js_mult (fl (c - rs)) 100)"
  proof (cases "math_round (js_mult (fl (c * ?p)) 100) = 0")
    case True
    then have "rs = 0" unfolding rs by (simp add: js_divide_def fl_def)
    then show ?thesis using assms(1)
      by (simp add: js_mult_def) (intro math_round_nonneg fl_nonneg mult_nonneg_nonneg; simp)
  next
    case False
    moreover have "0 \<le> math_round (js_mult (fl (c * ?p)) 100)"
      unfolding js_mult_def using assms(1) p(1)
      by (intro math_round_nonneg fl_nonneg mult_nonneg_nonneg) auto
    ultimately have "1 / 2 \<le> js_mult (fl (c * ?p)) 100" by (simp add: math_round_def) linarith
    moreover have "\<bar>c * ?p\<bar> \<le> 1000000001" using cp assms(1,2) p(1) by (simp add: abs_mult)
    then have "js_mult (fl (c * ?p)) 100 \<le> 100 * (c * ?p) + 1 / 50000"
      using hundred_error [of "c * ?p"] by linarith
    ultimately have "c - rs \<ge> - (4 / 1000)" using cp err(1) by linarith
    moreover have "\<bar>c - rs\<bar> \<le> 1000000001" using err(3) assms(2) calculation by linarith
    then have "js_mult (fl (c - rs)) 100 \<ge> 100 * (c - rs) - 1 / 50000"
      using hundred_error [of "c - rs"] by linarith
    ultimately show ?thesis by (simp add: math_round_def)
  qed
  then have "0 \<le> ms" unfolding ms js_divide_def by (intro fl_nonneg divide_nonneg_nonneg) auto
  then show ?thesis using err by simp
qed

lemma confiscation_split_witness:
  "confiscation_shares 10 DEFAULT_REQUESTER_CONFISCATION_SHARE = (7, 3) \<and>
   \<bar>(7::rat) + 3 - 10\<bar> \<le> 501 / 100000"
proof -
  have run: "confiscation_shares 10 DEFAULT_REQUESTER_CONFISCATION_SHARE = (7, 3)" by code_simp
  with confiscation_split [of 10 7 3] show ?thesis by simp
qed

text \<open>
  The shares are rounded to cents although amounts have seven decimals, so they need not
  add up: of a collateral of 0.005 USDC the marketplace is owed 0.01, twice what was locked,
  and of 0.004 USDC nobody is owed anything.
\<close>

theorem confiscation_split_inexact:
  "confiscation_shares (fl (5 / 1000)) DEFAULT_REQUESTER_CONFISCATION_SHARE = (0, fl (1 / 100)) \<and>
   fl (5 / 1000) < fl (1 / 100) \<and>
   confiscation_shares (fl (4 / 1000)) DEFAULT_REQUESTER_CONFISCATION_SHARE = (0, 0)"
  by code_simp

section \<open>Safety of the providers\<close>

text \<open>
  The own escrow contract cannot be activated: with \<open>ourown\<close> and nothing injected the
  factory throws or returns a provider whose every method throws and changes nothing.
\<close>

theorem own_escrow_blocked:
  assumes "ci_implementation input = OurOwnImpl"
    and "ci_injectedMock input = None" "ci_injectedOwn input = None"
    and "createEscrowProvider num penv input = Inr choice"
  shows "(\<exists>m. ep_createEscrow (provider_of choice) e t a w = (Inl (JsError m), w)) \<and>
    (\<exists>m. ep_releaseMilestone (provider_of choice) i w = (Inl (JsError m), w)) \<and>
    (\<exists>m. ep_confiscate (provider_of choice) i a p w = (Inl (JsError m), w)) \<and>
    (\<exists>cfg. choice = OwnEscrowStub cfg \<and> 0 \<le> oc_confiscateRequesterBp cfg \<and>
       oc_confiscateRequesterBp cfg \<le> 10000 \<and> strkey_syntax (CHR ''G'') (oc_marketplaceWallet cfg))"
proof -
  obtain env cfg where own: "createOwnEscrow num env (ci_network input) = Inr cfg" "choice = OwnEscrowStub cfg"
    using assms by (auto simp: createEscrowProvider_def Let_def split: sum.splits option.splits)
  from own(1) have "0 \<le> oc_confiscateRequesterBp cfg \<and> oc_confiscateRequesterBp cfg \<le> 10000 \<and>
      strkey_syntax (CHR ''G'') (oc_marketplaceWallet cfg)"
    by (auto simp: createOwnEscrow_def Let_def math_trunc_def floor_le_iff split: jsnum.splits if_splits)
  then show ?thesis
    by (simp add: own(2) provider_of_def own_escrow_stub_def throw_apply)
qed

definition own_sample_input :: "mem_world create_escrow_input" where
  "own_sample_input =
     \<lparr> ci_implementation = OurOwnImpl, ci_network = Pubnet,
       ci_envOverrides = Some
         \<lparr> ee_TRUSTLESS_WORK_API_KEY = None, ee_USDC_ISSUER = None,
           ee_MARKETPLACE_WALLET = Some (sample_key (CHR ''A'')),
           ee_ESCROW_CONTRACT_ID = Some (sample_key (CHR ''C'')),
           ee_ESCROW_TOKEN_CONTRACT = Some (sample_key (CHR ''D'')),
           ee_ESCROW_CONFISCATE_REQUESTER_BP = None \<rparr>,
       ci_injectedClient = False, ci_injectedMock = None, ci_injectedOwn = None \<rparr>"

lemma own_escrow_blocked_witness:
  "\<exists>m. ep_releaseMilestone (provider_of (OwnEscrowStub
     \<lparr> oc_network = Pubnet, oc_escrowContractId = sample_key (CHR ''C''),
       oc_tokenContract = sample_key (CHR ''D''), oc_marketplaceWallet = sample_key (CHR ''A''),
       oc_confiscateRequesterBp = 7000 \<rparr>)) ''e'' (sample_mem [] []) = (Inl (JsError m), sample_mem [] [])"
proof -
  have "createEscrowProvider (\<lambda>x. []) (the (ci_envOverrides own_sample_input)) own_sample_input =
    Inr (OwnEscrowStub
     \<lparr> oc_network = Pubnet, oc_escrowContractId = sample_key (CHR ''C''),
       oc_tokenContract = sample_key (CHR ''D''), oc_marketplaceWallet = sample_key (CHR ''A''),
       oc_confiscateRequesterBp = 7000 \<rparr>)"
    by (simp add: createEscrowProvider_def own_sample_input_def createOwnEscrow_def requester_bp_def
        long_enough_def or_empty_def math_trunc_def sample_key_def strkey_syntax_def base32_char_def
        Let_def numeral_eq_Suc)
  from own_escrow_blocked [OF _ _ _ this, of "[]" "[]" 0 "sample_mem [] []" "''e''" None]
  show ?thesis by (simp add: own_sample_input_def)
qed

text \<open>
  A client that failed to load stays failed: \<open>getClient\<close> keeps the rejected promise, so
  after one failed load every operation of the service throws the same error, with no call
  and no second attempt to load.
\<close>

theorem escrow_client_never_reloads:
  assumes "w_tw_client w = None" and "x_tw_load (w_ext w) (w_log w) = Inl err"
    and "tw_createEscrow cfg False e t a w = (r, w1)"
  shows "r = Inl err \<and> w_log w1 = w_log w @ [TwLoad] \<and>
    tw_createEscrow cfg False e' t' a' w1 = (Inl err, w1) \<and>
    tw_releaseMilestone False i w1 = (Inl err, w1) \<and>
    tw_confiscate False i a'' p w1 = (Inl err, w1)"
  using assms
  by (auto simp: tw_createEscrow_def tw_releaseMilestone_def tw_confiscate_def getClient_def
      prog_run call_ext_def)

lemma escrow_client_never_reloads_witness:
  "let w = sample_mem [] []; e = w_ext w;
       w0 = w\<lparr>w_ext := e\<lparr>x_tw_load := (\<lambda>l. if l = [] then Inl (JsError ''offline'') else Inr ())\<rparr>\<rparr>;
       cfg = \<lparr> cfg_apiKey = ''k'', cfg_network = Testnet, cfg_marketplaceWallet = ''m'', cfg_usdcIssuer = ''i'' \<rparr>;
       w1 = snd (tw_createEscrow cfg False ''x'' ''t'' 1 w0)
   in w_log w1 = [TwLoad] \<and> tw_releaseMilestone False ''i'' w1 = (Inl (JsError ''offline''), w1)"
proof -
  let ?w = "sample_mem [] []"
  let ?w0 = "?w\<lparr>w_ext := (w_ext ?w)\<lparr>x_tw_load := (\<lambda>l. if l = [] then Inl (JsError ''offline'') else Inr ())\<rparr>\<rparr>"
  let ?cfg = "\<lparr> cfg_apiKey = ''k'', cfg_network = Testnet, cfg_marketplaceWallet = ''m'', cfg_usdcIssuer = ''i'' \<rparr>"
  have "w_tw_client ?w0 = None" "w_log ?w0 = []" by (simp_all add: sample_mem_def)
  with escrow_client_never_reloads [of ?w0 "JsError ''offline''" ?cfg "''x''" "''t''" 1, OF _ _ prod.collapse [symmetric]]
  show ?thesis by (simp add: Let_def)
qed

end
