(* ===== verification/Retry.thy ===== *)
theory Retry
  imports Samples
begin

text \<open>
  \<open>utils/retry.ts\<close>: a failed attempt is repeated after an exponential delay, with jitter and
  the server's \<open>Retry-After\<close>, while attempts are left and the error is worth it. The loop
  over the attempts is a recursion on the retries left, so it always ends. A sleep is logged.
\<close>

section \<open>Which errors, how long\<close>

definition to_lower :: "char \<Rightarrow> char" where
  "to_lower c = (let n = (of_char c :: nat) in if 65 \<le> n \<and> n \<le> 90 then char_of (n + 32) else c)"

text \<open>\<open>/needle/i.test(s)\<close> for a literal needle in lower case.\<close>

fun contains :: "string \<Rightarrow> string \<Rightarrow> bool" where
  "contains needle [] = (needle = [])"
| "contains needle (c # s) = (take (length needle) (c # s) = needle \<or> contains needle s)"

definition matches_ci :: "string list \<Rightarrow> string \<Rightarrow> bool" where
  "matches_ci needles s = list_ex (\<lambda>n. contains n (map to_lower s)) needles"

definition isTransientNetworkError :: "exn \<Rightarrow> bool" where
  "isTransientNetworkError err =
     matches_ci [''account not found'', ''timeout'', ''timed out'', ''econnreset'', ''etimedout'', ''network'']
       (err_text err)"

text \<open>Only \<open>WebhookHttpError\<close> carries \<open>retryAfterSeconds\<close>, an integer.\<close>

fun extractRetryAfterMs :: "exn \<Rightarrow> int" where
  "extractRetryAfterMs (WebhookHttpError m st body (Some s)) = (if s > 0 then s * 1000 else 0)"
| "extractRetryAfterMs _ = 0"

record 'w retry_options =
  ro_retries :: nat
  ro_baseDelayMs :: int
  ro_shouldRetry :: "exn \<Rightarrow> bool"
  ro_jitterPct :: rat
  ro_onRetry :: "(nat \<Rightarrow> nat \<Rightarrow> exn \<Rightarrow> int \<Rightarrow> ('w, rat option) prog) option"

definition default_retry :: "'w retry_options" where
  "default_retry =
     \<lparr> ro_retries = 3, ro_baseDelayMs = 500, ro_shouldRetry = isTransientNetworkError,
       ro_jitterPct = 0, ro_onRetry = None \<rparr>"

definition computed_delay :: "rat \<Rightarrow> rat \<Rightarrow> int" where
  "computed_delay rawDelay jitterMs = max 0 (math_trunc (fl (rawDelay + jitterMs)))"

definition jitter_ms :: "rat \<Rightarrow> rat \<Rightarrow> rat \<Rightarrow> rat" where
  "jitter_ms random rawDelay pct =
     js_mult (js_mult (js_minus (js_mult random 2) 1) rawDelay) pct"

definition sleep :: "int \<Rightarrow> ('a env_scheme, unit) prog" where
  "sleep ms = call_ext (Sleep ms) (\<lambda>x l. Inr ())"

section \<open>The loop\<close>

text \<open>The handler of a failed attempt that will be repeated.\<close>

definition retry_pause ::
  "'a env_scheme retry_options \<Rightarrow> nat \<Rightarrow> exn \<Rightarrow> ('a env_scheme, unit) prog" where
  "retry_pause opts attempt err =
     (let rawDelay = of_int (ro_baseDelayMs opts) * 2 ^ attempt
      in bindE (if ro_jitterPct opts > 0
           then bindE math_random (\<lambda>x. ret (jitter_ms x rawDelay (ro_jitterPct opts))) else ret 0) (\<lambda>jitter.
         let computedDelayMs = computed_delay rawDelay jitter
         in bindE (case ro_onRetry opts of
              None \<Rightarrow> ret computedDelayMs
            | Some hook \<Rightarrow> bindE (hook attempt (Suc (ro_retries opts)) err computedDelayMs) (\<lambda>ov.
                ret (case ov of None \<Rightarrow> computedDelayMs
                     | Some x \<Rightarrow> if x > of_int computedDelayMs then math_trunc x else computedDelayMs))) (\<lambda>sleepMs.
            sleep (if extractRetryAfterMs err > sleepMs then extractRetryAfterMs err else sleepMs))))"

text \<open>\<open>fn\<close> may count its calls: it is given how often it was called before.\<close>

fun retry_attempts ::
  "'a env_scheme retry_options \<Rightarrow> (nat \<Rightarrow> ('a env_scheme, 'b) prog) \<Rightarrow> nat \<Rightarrow> nat \<Rightarrow> ('a env_scheme, 'b) prog" where
  "retry_attempts opts fn 0 attempt = fn attempt"
| "retry_attempts opts fn (Suc left) attempt =
     tryE (fn attempt) ret (\<lambda>err.
       if \<not> ro_shouldRetry opts err then throw err
       else bindE (retry_pause opts attempt err) (\<lambda>_. retry_attempts opts fn left (Suc attempt)))"

definition withRetry_counting ::
  "(nat \<Rightarrow> ('a env_scheme, 'b) prog) \<Rightarrow> 'a env_scheme retry_options \<Rightarrow> ('a env_scheme, 'b) prog" where
  "withRetry_counting fn opts = retry_attempts opts fn (ro_retries opts) 0"

definition withRetry ::
  "('a env_scheme, 'b) prog \<Rightarrow> 'a env_scheme retry_options \<Rightarrow> ('a env_scheme, 'b) prog" where
  "withRetry fn opts = retry_attempts opts (\<lambda>_. fn) (ro_retries opts) 0"

section \<open>Facts\<close>

lemma env_only_case_option:
  "env_only m \<Longrightarrow> (\<And>y. x = Some y \<Longrightarrow> env_only (f y)) \<Longrightarrow> env_only (case x of None \<Rightarrow> m | Some y \<Rightarrow> f y)"
  by (cases x) simp_all

lemma env_only_pause:
  assumes "\<And>h a n e d. ro_onRetry opts = Some h \<Longrightarrow> env_only (h a n e d)"
  shows "env_only (retry_pause opts attempt err)"
  unfolding retry_pause_def sleep_def Let_def
  by (intro env_only_rules env_only_case_option assms)

lemma env_only_attempts:
  assumes "\<And>k. env_only (fn k)" and "\<And>h a n e d. ro_onRetry opts = Some h \<Longrightarrow> env_only (h a n e d)"
  shows "env_only (retry_attempts opts fn left attempt)"
proof (induction left arbitrary: attempt)
  case (Suc left)
  then show ?case unfolding retry_attempts.simps
    by (intro env_only_rules env_only_pause assms)
qed (simp add: assms(1))

lemma env_only_withRetry_counting [env_only_rules]:
  assumes "\<And>k. env_only (fn k)" and "\<And>h a n e d. ro_onRetry opts = Some h \<Longrightarrow> env_only (h a n e d)"
  shows "env_only (withRetry_counting fn opts)"
  unfolding withRetry_counting_def using assms by (rule env_only_attempts)

lemma env_only_withRetry [env_only_rules]:
  assumes "env_only fn" and "\<And>h a n e d. ro_onRetry opts = Some h \<Longrightarrow> env_only (h a n e d)"
  shows "env_only (withRetry fn opts)"
  unfolding withRetry_def using assms by (rule env_only_attempts)

text \<open>Without jitter and hook the pause is the exponential delay or the server's wish.\<close>

definition plain_delay :: "'w retry_options \<Rightarrow> nat \<Rightarrow> exn \<Rightarrow> int" where
  "plain_delay opts attempt err =
     (let d = computed_delay (of_int (ro_baseDelayMs opts) * 2 ^ attempt) 0
      in max d (extractRetryAfterMs err))"

lemma retry_pause_plain:
  assumes "ro_onRetry opts = None" and "ro_jitterPct opts = 0"
  shows "retry_pause opts attempt err w = (Inr (), w\<lparr>w_log := w_log w @ [Sleep (plain_delay opts attempt err)]\<rparr>)"
  using assms by (auto simp: retry_pause_def Let_def plain_delay_def sleep_def call_ext_def ret_apply
      max_def not_le)

text \<open>
  The trace of a retried call \<open>c\<close>: \<open>pauses\<close> are the sleeps, one before every attempt but
  the first.
\<close>

definition retry_trace :: "call \<Rightarrow> int list \<Rightarrow> call list" where
  "retry_trace c pauses = c # concat (map (\<lambda>d. [Sleep d, c]) pauses)"

text \<open>\<open>errs\<close> are the errors of the failed attempts, in order, the first numbered \<open>k\<close>.\<close>

fun plain_delays :: "'w retry_options \<Rightarrow> nat \<Rightarrow> exn list \<Rightarrow> int list" where
  "plain_delays opts k [] = []"
| "plain_delays opts k (e # errs) = plain_delay opts k e # plain_delays opts (Suc k) errs"

lemma length_plain_delays [simp]: "length (plain_delays opts k errs) = length errs"
  by (induction opts k errs rule: plain_delays.induct) simp_all

lemma retry_attempts_trace:
  assumes "ro_onRetry opts = None" "ro_jitterPct opts = 0"
    and "retry_attempts opts (\<lambda>_. call_ext c f) left k w = (r, w')"
  shows "\<exists>errs. length errs \<le> left \<and> (\<forall>e \<in> set errs. ro_shouldRetry opts e) \<and>
    w_log w' = w_log w @ retry_trace c (plain_delays opts k errs) \<and>
    (\<forall>e. r = Inl e \<longrightarrow> length errs = left \<or> \<not> ro_shouldRetry opts e)"
  using assms(3)
proof (induction left arbitrary: k w)
  case 0
  then show ?case by (auto simp: call_ext_def retry_trace_def intro!: exI [where x = "[]"])
next
  case (Suc left)
  let ?w1 = "w\<lparr>w_log := w_log w @ [c]\<rparr>"
  show ?case
  proof (cases "\<exists>e. f (w_ext w) (w_log w) = Inl e \<and> ro_shouldRetry opts e")
    case False
    then show ?thesis using Suc.prems
      by (auto simp: tryE_apply call_ext_def ret_apply throw_apply retry_trace_def
          split: sum.splits if_splits intro!: exI [where x = "[]"])
  next
    case True
    then obtain e where e: "f (w_ext w) (w_log w) = Inl e" "ro_shouldRetry opts e" by blast
    let ?w2 = "w\<lparr>w_log := w_log w @ [c, Sleep (plain_delay opts k e)]\<rparr>"
    have "retry_attempts opts (\<lambda>_. call_ext c f) left (Suc k) ?w2 = (r, w')"
      using Suc.prems e retry_pause_plain [OF assms(1,2)]
      by (simp add: tryE_apply call_ext_def bindE_apply)
    from Suc.IH [OF this] obtain errs where errs: "length errs \<le> left" "\<forall>e \<in> set errs. ro_shouldRetry opts e"
      "w_log w' = w_log ?w2 @ retry_trace c (plain_delays opts (Suc k) errs)"
      "\<forall>e. r = Inl e \<longrightarrow> length errs = left \<or> \<not> ro_shouldRetry opts e" by blast
    then show ?thesis using e(2)
      by (intro exI [where x = "e # errs"]) (auto simp: retry_trace_def)
  qed
qed

lemma computed_delay_exact:
  assumes "0 \<le> base" and "base * 2 ^ k < 2 ^ 53"
  shows "computed_delay (of_int base * 2 ^ k) 0 = base * 2 ^ k"
proof -
  define n where "n = base * 2 ^ k"
  have n: "of_int base * 2 ^ k = (of_int n :: rat)" by (simp add: n_def)
  have "0 \<le> n" using assms(1) by (simp add: n_def)
  moreover have "fl (of_int n) = of_int n" using assms calculation by (intro fl_of_int) (simp add: n_def)
  ultimately have "computed_delay (of_int n) 0 = n" by (simp add: computed_delay_def math_trunc_def)
  then show ?thesis unfolding n n_def [symmetric] .
qed

lemma nth_plain_delays: "j < length errs \<Longrightarrow> plain_delays opts k errs ! j = plain_delay opts (k + j) (errs ! j)"
  by (induction opts k errs arbitrary: j rule: plain_delays.induct) (auto simp: nth_Cons split: nat.splits)

text \<open>
  C23. What a retried call does to the outside: the call is made at most \<open>retries + 1\<close> times and
  at least once; every failed attempt but the last had an error worth retrying; the pause
  after failure number \<open>j\<close> is \<open>baseDelayMs * 2^j\<close>, or the server's \<open>Retry-After\<close> if longer;
  and the result is an error only when the attempts are used up or the error is not worth
  retrying.
\<close>

theorem with_retry_trace:
  assumes "ro_onRetry opts = None" "ro_jitterPct opts = 0" "0 \<le> ro_baseDelayMs opts"
    and "ro_baseDelayMs opts * 2 ^ ro_retries opts < 2 ^ 53"
    and "withRetry (call_ext c f) opts w = (r, w')"
  shows "\<exists>errs pauses. length errs \<le> ro_retries opts \<and> (\<forall>e \<in> set errs. ro_shouldRetry opts e) \<and>
    length pauses = length errs \<and>
    (\<forall>j < length errs. pauses ! j = max (ro_baseDelayMs opts * 2 ^ j) (extractRetryAfterMs (errs ! j))) \<and>
    w_log w' = w_log w @ retry_trace c pauses \<and>
    (\<forall>e. r = Inl e \<longrightarrow> length errs = ro_retries opts \<or> \<not> ro_shouldRetry opts e)"
proof -
  obtain errs where errs: "length errs \<le> ro_retries opts" "\<forall>e \<in> set errs. ro_shouldRetry opts e"
    "w_log w' = w_log w @ retry_trace c (plain_delays opts 0 errs)"
    "\<forall>e. r = Inl e \<longrightarrow> length errs = ro_retries opts \<or> \<not> ro_shouldRetry opts e"
    using retry_attempts_trace [OF assms(1,2) assms(5) [unfolded withRetry_def]] by blast
  have "plain_delays opts 0 errs ! j = max (ro_baseDelayMs opts * 2 ^ j) (extractRetryAfterMs (errs ! j))"
    if j: "j < length errs" for j
  proof -
    have "ro_baseDelayMs opts * 2 ^ j \<le> ro_baseDelayMs opts * 2 ^ ro_retries opts"
      using j errs(1) assms(3) by (intro mult_left_mono power_increasing) auto
    then have "ro_baseDelayMs opts * 2 ^ j < 2 ^ 53" using assms(4) by linarith
    then show ?thesis using j assms(3) by (simp add: nth_plain_delays plain_delay_def Let_def computed_delay_exact)
  qed
  with errs show ?thesis by (intro exI [where x = errs] exI [where x = "plain_delays opts 0 errs"]) simp
qed

lemma with_retry_trace_witness:
  "\<exists>pauses. length pauses \<le> 3 \<and>
    w_log (snd (withRetry (call_ext (UsdcTransfer ''a'' ''b'' 1)
      (\<lambda>x l. if length l < 3 then Inl (JsError ''Network down'') else Inr ())) default_retry (sample_mem [] []))) =
    retry_trace (UsdcTransfer ''a'' ''b'' 1) pauses"
proof -
  let ?c = "UsdcTransfer ''a'' ''b'' 1"
  define f :: "ext \<Rightarrow> call list \<Rightarrow> exn + unit"
    where "f = (\<lambda>x l. if length l < 3 then Inl (JsError ''Network down'') else Inr ())"
  have log: "w_log (sample_mem [] []) = []" by (simp add: sample_mem_def)
  define opts :: "mem_world retry_options" where "opts = default_retry"
  have opts: "ro_onRetry opts = None" "ro_jitterPct opts = 0"
    "0 \<le> ro_baseDelayMs opts" "ro_baseDelayMs opts * 2 ^ ro_retries opts < 2 ^ 53" "ro_retries opts = 3"
    by (simp_all add: default_retry_def opts_def)
  obtain errs :: "exn list" and pauses where "length errs \<le> ro_retries opts" "length pauses = length errs"
    "w_log (snd (withRetry (call_ext ?c f) opts (sample_mem [] []))) =
      w_log (sample_mem [] []) @ retry_trace ?c pauses"
    using with_retry_trace [of opts ?c f, OF opts(1-4) prod.collapse [symmetric], of "sample_mem [] []"]
    by (elim exE conjE) blast
  then show ?thesis unfolding opts_def [symmetric] f_def [symmetric] log opts(5)
    by (intro exI [where x = pauses]) simp
qed

end
