(* ===== verification/Json.thy ===== *)
theory Json
  imports Models "HOL-Library.Multiset"
begin

text \<open>
  \<open>JSON.stringify\<close>, the property order of JavaScript objects, and \<open>canonicalize\<close> of
  \<open>services/executorResultService.ts\<close>, with the proof that the canonical form does not
  depend on the order of an object's properties.
\<close>

section \<open>Serialisation\<close>

definition hex_digit :: "nat \<Rightarrow> char" where
  "hex_digit n = (if n < 10 then char_of (48 + n) else char_of (87 + n))"

definition json_escape :: "char \<Rightarrow> string" where
  "json_escape c =
     (let n = (of_char c :: nat)
      in if n = 34 then [CHR 0x5C, CHR 0x22] else if n = 92 then [CHR 0x5C, CHR 0x5C]
         else if n = 8 then [CHR 0x5C, CHR ''b''] else if n = 9 then [CHR 0x5C, CHR ''t'']
         else if n = 10 then [CHR 0x5C, CHR ''n''] else if n = 12 then [CHR 0x5C, CHR ''f'']
         else if n = 13 then [CHR 0x5C, CHR ''r'']
         else if n < 32 then [CHR 0x5C, CHR ''u'', CHR ''0'', CHR ''0'', hex_digit (n div 16), hex_digit (n mod 16)]
         else [c])"

definition json_quote :: "string \<Rightarrow> string" where
  "json_quote s = CHR 0x22 # concat (map json_escape s) @ [CHR 0x22]"

fun commas :: "string list \<Rightarrow> string" where
  "commas [] = []"
| "commas [s] = s"
| "commas (s # t # ss) = s @ '','' @ commas (t # ss)"

fun json_stringify :: "(rat \<Rightarrow> string) \<Rightarrow> json \<Rightarrow> string" where
  "json_stringify num JNull = ''null''"
| "json_stringify num (JBool b) = (if b then ''true'' else ''false'')"
| "json_stringify num (JNum x) = num x"
| "json_stringify num (JStr s) = json_quote s"
| "json_stringify num (JArr xs) = ''['' @ commas (map (json_stringify num) xs) @ '']''"
| "json_stringify num (JObj fs) =
     ''{'' @ commas (map (\<lambda>(k, v). json_quote k @ '':'' @ json_stringify num v) fs) @ ''}''"

section \<open>Sorting\<close>

text \<open>\<open>Array.prototype.sort\<close> with a consistent comparison: it is stable.\<close>

fun insort_by :: "('a \<Rightarrow> 'a \<Rightarrow> bool) \<Rightarrow> 'a \<Rightarrow> 'a list \<Rightarrow> 'a list" where
  "insort_by le x [] = [x]"
| "insort_by le x (y # ys) = (if le x y then x # y # ys else y # insort_by le x ys)"

definition js_sort :: "('a \<Rightarrow> 'a \<Rightarrow> bool) \<Rightarrow> 'a list \<Rightarrow> 'a list" where
  "js_sort le xs = foldr (insort_by le) xs []"

text \<open>
  \<open>Object.fromEntries\<close> of entries with different keys: the properties that are array
  indices come first, in ascending order.
\<close>

definition array_index :: "string \<Rightarrow> bool" where
  "array_index k \<longleftrightarrow> k \<noteq> [] \<and> list_all is_digit k \<and> (hd k \<noteq> CHR ''0'' \<or> k = ''0'') \<and>
     digits_value k < 2 ^ 32 - 1"

definition fromEntries :: "(string \<times> json) list \<Rightarrow> json" where
  "fromEntries es = JObj
     (js_sort (\<lambda>a b. digits_value (fst a) \<le> digits_value (fst b)) (filter (\<lambda>e. array_index (fst e)) es) @
      filter (\<lambda>e. \<not> array_index (fst e)) es)"

fun canonicalize :: "(string \<Rightarrow> string \<Rightarrow> bool) \<Rightarrow> json \<Rightarrow> json" where
  "canonicalize le (JArr xs) = JArr (map (canonicalize le) xs)"
| "canonicalize le (JObj fs) =
     fromEntries (js_sort (\<lambda>a b. le (fst a) (fst b)) (map (\<lambda>(k, v). (k, canonicalize le v)) fs))"
| "canonicalize le j = j"

section \<open>The canonical form\<close>

lemma mset_insort_by [simp]: "mset (insort_by le x ys) = add_mset x (mset ys)"
  by (induction ys) auto

lemma mset_js_sort [simp]: "mset (js_sort le xs) = mset xs"
  by (induction xs) (simp_all add: js_sort_def)

lemma set_insort_by [simp]: "set (insort_by le x ys) = insert x (set ys)"
  by (metis mset_insort_by set_mset_add_mset_insert set_mset_mset)

lemma set_js_sort [simp]: "set (js_sort le xs) = set xs"
  by (metis mset_js_sort set_mset_mset)

text \<open>A comparison that is a linear order on \<open>A\<close>.\<close>

definition linear_on :: "'a set \<Rightarrow> ('a \<Rightarrow> 'a \<Rightarrow> bool) \<Rightarrow> bool" where
  "linear_on A le \<longleftrightarrow>
     (\<forall>x \<in> A. \<forall>y \<in> A. (le x y \<or> le y x) \<and> (le x y \<and> le y x \<longrightarrow> x = y) \<and>
        (\<forall>z \<in> A. le x y \<and> le y z \<longrightarrow> le x z))"

lemma linear_onD:
  assumes "linear_on A le" "x \<in> A" "y \<in> A"
  shows "le x y \<or> le y x" "le x y \<Longrightarrow> le y x \<Longrightarrow> x = y" "z \<in> A \<Longrightarrow> le x y \<Longrightarrow> le y z \<Longrightarrow> le x z"
  using assms unfolding linear_on_def by blast+

lemma sorted_insort_by:
  assumes "linear_on A le" "x \<in> A" "set ys \<subseteq> A" "sorted_wrt le ys"
  shows "sorted_wrt le (insort_by le x ys)"
  using assms(3,4)
proof (induction ys)
  case (Cons y ys)
  then have y: "y \<in> A" and ys: "set ys \<subseteq> A" by auto
  show ?case
  proof (cases "le x y")
    case True
    then have "\<forall>z \<in> set ys. le x z"
      using Cons.prems linear_onD(3) [OF assms(1,2) y] ys by auto
    then show ?thesis using True Cons.prems by simp
  next
    case False
    then have "le y x" using linear_onD(1) [OF assms(1,2) y] by blast
    then show ?thesis using False Cons ys by simp
  qed
qed simp

lemma sorted_js_sort:
  assumes "linear_on A le" "set xs \<subseteq> A"
  shows "sorted_wrt le (js_sort le xs)"
  using assms(2)
proof (induction xs)
  case (Cons x xs)
  have "js_sort le (x # xs) = insort_by le x (js_sort le xs)" by (simp add: js_sort_def)
  moreover have "sorted_wrt le (insort_by le x (js_sort le xs))"
    using Cons by (intro sorted_insort_by [OF assms(1)]) auto
  ultimately show ?case by simp
qed (simp add: js_sort_def)

lemma sorted_unique:
  assumes "linear_on A le" "set xs \<subseteq> A" "sorted_wrt le xs" "sorted_wrt le ys" "mset xs = mset ys"
  shows "xs = ys"
  using assms(2-5)
proof (induction xs arbitrary: ys)
  case (Cons x xs)
  then obtain y ys' where ys: "ys = y # ys'" by (cases ys) auto
  have sets: "set (x # xs) = set (y # ys')" using Cons.prems(4) ys by (metis set_mset_mset)
  have "x = y"
  proof (rule ccontr)
    assume "x \<noteq> y"
    then have "le x y" "le y x" using sets Cons.prems(2,3) ys by auto
    moreover have "x \<in> A" "y \<in> A" using sets Cons.prems(1) by auto
    ultimately show False using linear_onD(2) [OF assms(1)] \<open>x \<noteq> y\<close> by blast
  qed
  then show ?case using Cons ys by auto
qed simp

lemma js_sort_cong:
  assumes "linear_on (set xs) le" "mset xs = mset ys"
  shows "js_sort le xs = js_sort le ys"
proof -
  have "set xs = set ys" using assms(2) by (metis set_mset_mset)
  then have "sorted_wrt le (js_sort le xs)" "sorted_wrt le (js_sort le ys)"
    using assms(1) by (auto intro: sorted_js_sort)
  then show ?thesis using assms by (intro sorted_unique [OF assms(1)]) simp_all
qed

text \<open>Two JSON values that differ only in the order of their objects' properties.\<close>

inductive json_equiv :: "json \<Rightarrow> json \<Rightarrow> bool" where
  atom: "\<forall>xs. j \<noteq> JArr xs \<Longrightarrow> \<forall>fs. j \<noteq> JObj fs \<Longrightarrow> json_equiv j j"
| arr: "list_all2 json_equiv xs ys \<Longrightarrow> json_equiv (JArr xs) (JArr ys)"
| obj: "distinct (map fst fs) \<Longrightarrow>
    list_all2 (\<lambda>a b. fst a = fst b \<and> json_equiv (snd a) (snd b)) fs hs \<Longrightarrow> mset hs = mset gs \<Longrightarrow>
    json_equiv (JObj fs) (JObj gs)"

fun json_keys :: "json \<Rightarrow> string set" where
  "json_keys (JArr xs) = (\<Union>x \<in> set xs. json_keys x)"
| "json_keys (JObj fs) = (\<Union>e \<in> set fs. insert (fst e) (json_keys (snd e)))"
| "json_keys j = {}"

lemma linear_on_fst:
  assumes "linear_on K le" "fst ` set es \<subseteq> K" "distinct (map fst es)"
  shows "linear_on (set es) (\<lambda>a b. le (fst a) (fst b))"
proof -
  have inj: "a \<in> set es \<Longrightarrow> b \<in> set es \<Longrightarrow> fst a = fst b \<Longrightarrow> a = b" for a b
    using assms(3) by (meson distinct_map inj_onD)
  have K: "a \<in> set es \<Longrightarrow> fst a \<in> K" for a using assms(2) by auto
  show ?thesis unfolding linear_on_def
    using linear_onD [OF assms(1)] K inj by (intro ballI conjI impI; metis)
qed

lemma list_all2_map_eq:
  "list_all2 P xs ys \<Longrightarrow> (\<And>x y. x \<in> set xs \<Longrightarrow> P x y \<Longrightarrow> f x = g y) \<Longrightarrow> map f xs = map g ys"
  by (induction rule: list_all2_induct) auto

lemma canonicalize_equiv:
  assumes "json_equiv a b" "linear_on K le" "json_keys a \<subseteq> K"
  shows "canonicalize le a = canonicalize le b"
  using assms(1,3)
proof induction
  case (atom j)
  then show ?case by simp
next
  case (arr xs ys)
  have "map (canonicalize le) xs = map (canonicalize le) ys"
    by (rule list_all2_map_eq [OF arr(1)]) (use arr(2) in auto)
  then show ?case by simp
next
  case (obj fs hs gs)
  let ?c = "\<lambda>(k, v). (k, canonicalize le v)"
  have "map ?c fs = map ?c hs"
    by (rule list_all2_map_eq [OF obj.IH]) (use obj.prems in \<open>auto simp: split_beta\<close>)
  moreover have "mset (map ?c hs) = mset (map ?c gs)" using obj.hyps(2) by simp
  ultimately have ms: "mset (map ?c fs) = mset (map ?c gs)" by simp
  have fst_map: "map fst (map ?c fs) = map fst fs" by (auto simp: split_beta)
  moreover have "fst ` set (map ?c fs) \<subseteq> K" using obj.prems by auto
  ultimately have "linear_on (set (map ?c fs)) (\<lambda>a b. le (fst a) (fst b))"
    using obj.hyps(1) by (intro linear_on_fst [OF assms(2)]) (auto simp only:)
  then have "js_sort (\<lambda>a b. le (fst a) (fst b)) (map ?c fs) = js_sort (\<lambda>a b. le (fst a) (fst b)) (map ?c gs)"
    using ms by (rule js_sort_cong)
  then show ?case by simp
qed

end
