(* ===== verification/Services.thy ===== *)
theory Services
  imports Retry Json Escrow Auction
begin

text \<open>
  The remaining services the controllers call: the Registry and its mock, the payment
  policy, the listing-fee charge of the local network and its mock, the task feed, the
  result service, the outbox, and the timeout sweep.
\<close>

section \<open>Registry and policy\<close>

text \<open>\<open>RegistryServiceLike\<close>; an executor's key pair is given by its public key.\<close>

record 'w registry_service =
  rg_registerExecutor :: "string \<Rightarrow> string \<Rightarrow> ('w, unit) prog"
  rg_isRegistered :: "string \<Rightarrow> ('w, bool) prog"

definition registry_registerExecutor :: "string \<Rightarrow> string \<Rightarrow> ('a env_scheme, unit) prog" where
  "registry_registerExecutor executor metadataUri =
     withRetry (call_ext (RegistryRegister executor metadataUri)
       (\<lambda>x l. x_registry_register x l executor metadataUri)) default_retry"

definition registry_isRegistered :: "string \<Rightarrow> ('a env_scheme, bool) prog" where
  "registry_isRegistered executorPublicKey =
     withRetry (call_ext (RegistryIsRegistered executorPublicKey)
       (\<lambda>x l. x_registry_is_registered x l executorPublicKey)) default_retry"

definition chain_registry :: "'a env_scheme registry_service" where
  "chain_registry =
     \<lparr> rg_registerExecutor = registry_registerExecutor, rg_isRegistered = registry_isRegistered \<rparr>"

text \<open>\<open>MockRegistryService\<close>: what it stores is read by nobody, and everybody is registered.\<close>

definition mock_registry :: "'w registry_service" where
  "mock_registry = \<lparr> rg_registerExecutor = (\<lambda>k m. ret ()), rg_isRegistered = (\<lambda>k. ret True) \<rparr>"

definition authorizeExecutorPayment :: "'w registry_service \<Rightarrow> string \<Rightarrow> ('w, unit) prog" where
  "authorizeExecutorPayment rg executorPublicKey =
     bindE (rg_isRegistered rg executorPublicKey) (\<lambda>isRegistered.
       if \<not> isRegistered
       then throw (ExecutorNotAllowedError
         (''Executor '' @ executorPublicKey @ '' is not on the Registry allow-list''))
       else ret ())"

section \<open>The listing fee\<close>

record charge_result =
  ch_feeAmount :: string
  ch_feeStroops :: string
  ch_txHash :: string

type_synonym 'w charge_service = "string \<Rightarrow> int \<Rightarrow> ('w, charge_result) prog"

definition isInsufficientBalanceError :: "exn \<Rightarrow> bool" where
  "isInsufficientBalanceError err =
     matches_ci [''balance'', ''underflow'', ''insufficient'', ''trustline''] (err_text err)"

text \<open>\<open>${(err as Error).message}\<close>.\<close>

definition message_text :: "exn \<Rightarrow> string" where
  "message_text err = (case err_message err of None \<Rightarrow> ''undefined'' | Some m \<Rightarrow> m)"

definition insufficient_balance :: "string \<Rightarrow> string \<Rightarrow> exn" where
  "insufficient_balance requester feeAmount = InsufficientBalanceError
     (''Requester '' @ requester @ '' has insufficient USDC balance for listing fee of '' @ feeAmount)"

text \<open>One attempt: reach the contract, build the transfer, sign and send it.\<close>

definition charge_attempt ::
  "string \<Rightarrow> string \<Rightarrow> string \<Rightarrow> int \<Rightarrow> string \<Rightarrow> ('a env_scheme, charge_result) prog" where
  "charge_attempt contractId wallet requester feeStroops feeAmount =
     (let sendError = (\<lambda>what err.
            if isInsufficientBalanceError err then throw (insufficient_balance requester feeAmount)
            else throw (ChargeNetworkError (what @ message_text err)))
      in tryE (call_ext UsdcClient (\<lambda>x l. x_usdc_client x l)) (\<lambda>_.
         tryE (call_ext (UsdcTransfer requester wallet feeStroops)
             (\<lambda>x l. x_usdc_transfer x l requester wallet feeStroops)) (\<lambda>_.
           tryE (call_ext UsdcSend (\<lambda>x l. x_usdc_send x l)) (\<lambda>hash.
             ret \<lparr> ch_feeAmount = feeAmount, ch_feeStroops = int_string feeStroops,
                   ch_txHash = (case hash of None \<Rightarrow> [] | Some h \<Rightarrow> h) \<rparr>)
             (sendError ''Failed to submit listing fee transfer: ''))
           (sendError ''Failed to build listing fee transfer: ''))
         (\<lambda>err. throw (ChargeNetworkError
            (''Failed to reach USDC contract at '' @ contractId @ '': '' @ message_text err))))"

definition chargeListingFee :: "string \<Rightarrow> string \<Rightarrow> 'a env_scheme charge_service" where
  "chargeListingFee contractId wallet requester reservePriceStroops =
     (let feeStroops = calculateListingFeeStroops reservePriceStroops;
          feeAmount = formatUsdcStroopsToDecimal feeStroops
      in withRetry (charge_attempt contractId wallet requester feeStroops feeAmount) default_retry)"

definition mock_charge :: "'w charge_service" where
  "mock_charge requester reservePriceStroops =
     (let feeStroops = calculateListingFeeStroops reservePriceStroops in
      ret \<lparr> ch_feeAmount = formatUsdcStroopsToDecimal feeStroops,
            ch_feeStroops = int_string feeStroops, ch_txHash = ''mock-tx'' \<rparr>)"

section \<open>The task feed\<close>

text \<open>The tick is what the listeners and the event stream receive.\<close>

definition publishTask :: "task \<Rightarrow> ('a env_scheme, unit) prog" where
  "publishTask t =
     bindE (modifyE (\<lambda>w. w\<lparr>w_feed_seq := Suc (w_feed_seq w)\<rparr>)) (\<lambda>_.
     bindE (getsE w_feed_seq) (\<lambda>sequence.
     bindE date_now (\<lambda>now.
     bindE (getsE (\<lambda>w. x_sign (w_ext w))) (\<lambda>sign.
       let timestamp = toISOString now;
           payload = nat_string sequence @ '':'' @ task_id t @ '':'' @ timestamp
       in call_ext (FeedTick sequence (task_id t) timestamp (sign payload)) (\<lambda>x l. Inr ())))))"

section \<open>Results\<close>

definition canonical_hash :: "ext \<Rightarrow> json \<Rightarrow> string" where
  "canonical_hash x payload =
     ''sha256:'' @ x_sha256 x (json_stringify (x_num_string x) (canonicalize (x_locale_le x) payload))"

definition publish_result :: "'a env_scheme result_repo \<Rightarrow> string \<Rightarrow> json \<Rightarrow> ('a env_scheme, task_result) prog" where
  "publish_result rr taskId payload =
     bindE (getsE (\<lambda>w. canonical_hash (w_ext w) payload)) (\<lambda>payloadHash.
     bindE (rr_upsert rr taskId payload payloadHash) (\<lambda>_.
     bindE (rr_findByTaskId rr taskId) (\<lambda>stored. case stored of
         None \<Rightarrow> throw (JsError ''failed to persist result'')
       | Some s \<Rightarrow> ret s)))"

section \<open>The outbox\<close>

text \<open>\<open>OutboxService.emit\<close>: type, aggregate type, aggregate id, payload.\<close>

type_synonym 'w outbox = "string \<Rightarrow> string \<Rightarrow> string \<Rightarrow> json \<Rightarrow> ('w, unit) prog"

definition pg_outbox_insert :: "string \<Rightarrow> string \<Rightarrow> string \<Rightarrow> string \<Rightarrow> json \<Rightarrow> ('a pg_world_scheme, unit) prog" where
  "pg_outbox_insert i ty aggType aggId payload = pg_query (\<lambda>w.
     sum_bind (sql_uuid w i) (\<lambda>u.
     sum_bind (sql_jsonb w payload) (\<lambda>stored.
       if \<exists>r \<in> set (pg_outbox w). ob_id r = u
       then Inl (JsError ''duplicate key value violates unique constraint outbox_events_pkey'')
       else Inr ((), w\<lparr>pg_outbox := pg_outbox w @
         [\<lparr> ob_id = u, ob_type = ty, ob_aggregate_type = aggType, ob_aggregate_id = aggId,
            ob_payload_json = stored, ob_created_at = sql_now w, ob_processed_at = None,
            ob_attempts = 0, ob_last_error = None \<rparr>]\<rparr>))))"

definition pg_emit :: "'a pg_world_scheme outbox" where
  "pg_emit ty aggType aggId payload =
     bindE randomUUID (\<lambda>i. pg_outbox_insert i ty aggType aggId payload)"

text \<open>\<open>this.outbox?.emit(...)\<close>.\<close>

definition emit_if :: "'w outbox option \<Rightarrow> 'w outbox" where
  "emit_if ob ty aggType aggId payload =
     (case ob of None \<Rightarrow> ret () | Some emit \<Rightarrow> emit ty aggType aggId payload)"

end
