(* ===== verification/Controllers.thy ===== *)
theory Controllers
  imports Services
begin

text \<open>
  \<open>controllers/\<close> and \<open>services/timeoutService.ts\<close>: the request handlers, from the parsed
  body to the response, with every call that changes state in its place. The server record
  holds what \<open>createApp\<close> gives the controllers. A handler that throws is answered by
  \<open>middlewares/errorHandler.ts\<close>.
\<close>

section \<open>The server\<close>

record 'w server =
  sv_local :: bool
  sv_pauseNewTasks :: bool
  sv_pauseNewBids :: bool
  sv_executorDenylist :: "string list"
  sv_tasks :: "'w task_repo"
  sv_bids :: "'w bid_repo"
  sv_results :: "'w result_repo"
  sv_executors :: "'w executor_repo"
  sv_escrow :: "'w escrow_provider"
  sv_registry :: "'w registry_service"
  sv_charge :: "'w charge_service"
  sv_outbox :: "'w outbox option"

definition errorHandler :: "exn \<Rightarrow> response" where
  "errorHandler err = (500, ErrorBody ''Internal Server Error'' (Some (err_text err)))"

definition handled :: "('w, response) prog \<Rightarrow> ('w, response) prog" where
  "handled handler = catchE handler (\<lambda>err. ret (errorHandler err))"

definition json_response :: "nat \<Rightarrow> json \<Rightarrow> response" where
  "json_response st j = (st, JsonBody j)"

abbreviation respond :: "nat \<Rightarrow> string \<Rightarrow> ('w, response) prog" where
  "respond st e \<equiv> ret (error_response st e)"

abbreviation respond_detail :: "nat \<Rightarrow> string \<Rightarrow> exn \<Rightarrow> ('w, response) prog" where
  "respond_detail st e err \<equiv> ret (error_detail st e err)"

abbreviation invalid_request :: "('w, response) prog" where
  "invalid_request \<equiv> ret (400, InvalidRequest)"

definition task_json :: "task \<Rightarrow> json" where
  "task_json t = task_dto_json (toTaskDto t)"

definition bid_json :: "bid \<Rightarrow> json" where
  "bid_json b = bid_dto_json (toBidDto b)"

definition selected_bid :: "bid list \<Rightarrow> bid option" where
  "selected_bid bids = List.find (\<lambda>b. bid_status b = SELECTED) bids"

text \<open>\<open>Number(s)\<close> of a string a schema let through (never \<open>NaN\<close>).\<close>

definition number_of :: "string \<Rightarrow> rat" where
  "number_of s = (case js_Number s of None \<Rightarrow> 0 | Some x \<Rightarrow> x)"

section \<open>Tasks\<close>

definition paused_tasks :: response where
  "paused_tasks = (503, ErrorBody ''new tasks are paused'' (Some
     ''Marketplace operators have temporarily disabled new task creation. Retry later or check status page.''))"

definition saveAndPublish ::
  "'a env_scheme server \<Rightarrow> create_task_input \<Rightarrow> ('a env_scheme, task) prog" where
  "saveAndPublish sv input =
     bindE (liftE (parseUsdcDecimalToStroops (cti_reservePrice input))) (\<lambda>reservePriceStroops.
     bindE randomUUID (\<lambda>i.
       let t = \<lparr> task_id = i, task_requesterPublicKey = cti_requester input,
                 task_reservePriceStroops = reservePriceStroops,
                 task_description = cti_description input, task_deadline = cti_deadline input,
                 task_status = OPEN \<rparr>
       in bindE (tr_save (sv_tasks sv) t) (\<lambda>_.
          bindE (catchE (publishTask t) (\<lambda>err. ret ())) (\<lambda>_.
          bindE (emit_if (sv_outbox sv) ''task_created'' ''task'' (task_id t) (task_json t)) (\<lambda>_.
          ret t)))))"

definition task_create :: "'a env_scheme server \<Rightarrow> json option \<Rightarrow> ('a env_scheme, response) prog" where
  "task_create sv body =
     (if sv_pauseNewTasks sv then ret paused_tasks
      else
        bindE date_now (\<lambda>now.
        bindE (getsE w_ext) (\<lambda>x.
        case createTaskLocalRequestSchema (x_date_parse x) now body of
          None \<Rightarrow> invalid_request
        | Some (input, secret) \<Rightarrow>
            (case parseUsdcDecimalToStroops (cti_reservePrice input) of
               Inl err \<Rightarrow> respond_detail 400 ''invalid reservePrice'' err
             | Inr reservePriceStroops \<Rightarrow>
                 (case x_public_key_of x secret of
                    None \<Rightarrow> respond 400 ''invalid secret''
                  | Some publicKey \<Rightarrow>
                      if publicKey \<noteq> cti_requester input then respond 400 ''secret does not match requester''
                      else tryE (sv_charge sv publicKey reservePriceStroops)
                        (\<lambda>_. bindE (saveAndPublish sv input) (\<lambda>t. ret (json_response 201 (task_json t))))
                        (\<lambda>err. case err of
                            InsufficientBalanceError m \<Rightarrow> respond_detail 402 ''payment required'' err
                          | _ \<Rightarrow> respond_detail 502 ''listing fee charge failed'' err))))))"

definition task_createPaid :: "'a env_scheme server \<Rightarrow> json option \<Rightarrow> ('a env_scheme, response) prog" where
  "task_createPaid sv body =
     (if sv_pauseNewTasks sv then ret paused_tasks
      else
        bindE date_now (\<lambda>now.
        bindE (getsE w_ext) (\<lambda>x.
        case createTaskSchema (x_date_parse x) now body of
          None \<Rightarrow> invalid_request
        | Some input \<Rightarrow>
            bindE (saveAndPublish sv input) (\<lambda>t. ret (json_response 201 (task_json t))))))"

definition task_getById :: "'w server \<Rightarrow> string \<Rightarrow> ('w, response) prog" where
  "task_getById sv taskId =
     bindE (tr_findById (sv_tasks sv) taskId) (\<lambda>found. case found of
         None \<Rightarrow> respond 404 ''task not found''
       | Some t \<Rightarrow> ret (json_response 200 (task_json t)))"

definition selection_json :: "task \<Rightarrow> bid \<Rightarrow> json" where
  "selection_json t b = JObj [(''task'', task_json t), (''winningBid'', bid_json b)]"

definition task_select :: "'w server \<Rightarrow> string \<Rightarrow> ('w, response) prog" where
  "task_select sv taskId =
     catchE
       (bindE (selectWinner (sv_tasks sv) (sv_bids sv) taskId) (\<lambda>(t, b).
        bindE (emit_if (sv_outbox sv) ''task_assigned'' ''task'' (task_id t) (selection_json t b)) (\<lambda>_.
        ret (json_response 200 (selection_json t b)))))
       (\<lambda>err. case err of
           TaskNotFoundError m \<Rightarrow> respond 404 ''task not found''
         | TaskNotOpenError m \<Rightarrow> respond 409 (''task is not open for selection (status: '' @ m @ '')'')
         | NoBidsError m \<Rightarrow> respond 409 ''no pending bids for this task''
         | _ \<Rightarrow> respond_detail 500 ''failed to select winner'' err)"

definition release_json :: "release_result \<Rightarrow> json" where
  "release_json r = JObj
    [(''success'', JBool (rr_success r)), (''transactionHash'', JStr (rr_transactionHash r)),
     (''amountReleased'', JNum (rr_amountReleased r)), (''receiver'', JStr (rr_receiver r))]"

text \<open>Who asks: the requester named by the body, which in local mode must hold its secret.\<close>

definition complete_requester :: "ext \<Rightarrow> bool \<Rightarrow> json option \<Rightarrow> response + string" where
  "complete_requester x local body =
     (if local then
        (case completeTaskLocalRequestSchema body of
           None \<Rightarrow> Inl (400, InvalidRequest)
         | Some (requester, secret) \<Rightarrow>
             (case x_public_key_of x secret of
                None \<Rightarrow> Inl (error_response 400 ''invalid secret'')
              | Some publicKey \<Rightarrow>
                  if publicKey \<noteq> requester then Inl (error_response 400 ''secret does not match requester'')
                  else Inr requester))
      else
        (case completeTaskSignedRequestSchema body of
           None \<Rightarrow> Inl (400, InvalidRequest)
         | Some requester \<Rightarrow> Inr requester))"

text \<open>The end of the handler, for an \<open>ASSIGNED\<close> task and its selected bid.\<close>

definition complete_assigned :: "'w server \<Rightarrow> task \<Rightarrow> bid \<Rightarrow> ('w, response) prog" where
  "complete_assigned sv t winningBid =
     (case sv_outbox sv of
        None \<Rightarrow>
          catchE
            (bindE (ep_releaseMilestone (sv_escrow sv) (bid_escrowId winningBid)) (\<lambda>release.
               let updatedTask = t\<lparr>task_status := COMPLETED\<rparr>
               in bindE (tr_save (sv_tasks sv) updatedTask) (\<lambda>_.
                  ret (json_response 200 (JObj [(''task'', task_json updatedTask), (''release'', release_json release)])))))
            (\<lambda>err. respond_detail 502 ''escrow release failed'' err)
      | Some emit \<Rightarrow>
          let completingTask = t\<lparr>task_status := COMPLETING\<rparr>
          in bindE (tr_save (sv_tasks sv) completingTask) (\<lambda>_.
             bindE (emit ''task_completion_requested'' ''task'' (task_id completingTask)
               (JObj [(''taskId'', JStr (task_id completingTask)),
                      (''escrowId'', JStr (bid_escrowId winningBid))])) (\<lambda>_.
             ret (json_response 202 (JObj [(''task'', task_json completingTask)])))))"

definition task_complete :: "'a env_scheme server \<Rightarrow> string \<Rightarrow> json option \<Rightarrow> ('a env_scheme, response) prog" where
  "task_complete sv taskId body =
     bindE (getsE w_ext) (\<lambda>x. case complete_requester x (sv_local sv) body of
       Inl response \<Rightarrow> ret response
     | Inr requester \<Rightarrow>
         bindE (tr_findById (sv_tasks sv) taskId) (\<lambda>found. case found of
           None \<Rightarrow> respond 404 ''task not found''
         | Some t \<Rightarrow>
             if task_requesterPublicKey t \<noteq> requester
             then respond 403 ''only the task requester can complete this task''
             else if task_status t = COMPLETED then
               ret (json_response 200 (JObj [(''task'', task_json t), (''status'', JStr ''already completed'')]))
             else if task_status t = COMPLETING then
               ret (json_response 202 (JObj [(''task'', task_json t), (''status'', JStr ''completion in progress'')]))
             else if task_status t \<noteq> ASSIGNED then
               respond 409 (''task is not assigned (status: '' @ task_status_text (task_status t) @ '')'')
             else bindE (br_findByTaskId (sv_bids sv) taskId) (\<lambda>bids. case selected_bid bids of
               None \<Rightarrow> respond 409 ''no selected bid found for this task''
             | Some winningBid \<Rightarrow>
                 if bid_executorPublicKey winningBid \<in> set (sv_executorDenylist sv)
                 then respond 403 (''cannot complete task '' @ em_dash @ '' executor is not allowed to release milestone'')
                 else complete_assigned sv t winningBid)))"

section \<open>Bids\<close>

definition paused_bids :: response where
  "paused_bids = (503, ErrorBody ''new bids are paused'' (Some
     ''Marketplace operators have temporarily disabled new bids. Retry later or check status page.''))"

definition bid_request :: "ext \<Rightarrow> bool \<Rightarrow> json option \<Rightarrow> response + create_bid_input" where
  "bid_request x local body =
     (if local then
        (case createBidLocalSchema body of
           None \<Rightarrow> Inl (400, InvalidRequest)
         | Some (input, secret) \<Rightarrow>
             (case x_public_key_of x secret of
                None \<Rightarrow> Inl (error_response 400 ''invalid secret'')
              | Some publicKey \<Rightarrow>
                  if publicKey \<noteq> cbi_executor input then Inl (error_response 400 ''secret does not match executor'')
                  else Inr input))
      else
        (case createBidSignedSchema body of
           None \<Rightarrow> Inl (400, InvalidRequest)
         | Some input \<Rightarrow> Inr input))"

text \<open>Both amounts, or the first error.\<close>

definition parse_amounts :: "create_bid_input \<Rightarrow> exn + (int \<times> int)" where
  "parse_amounts input =
     (case parseUsdcDecimalToStroops (cbi_amount input) of
        Inl e \<Rightarrow> Inl e
      | Inr amount \<Rightarrow>
          (case parseUsdcDecimalToStroops (cbi_collateral input) of
             Inl e \<Rightarrow> Inl e | Inr collateral \<Rightarrow> Inr (amount, collateral)))"

text \<open>The bid is stored, announced, and the auction of its task is run at once.\<close>

definition bid_place ::
  "'a env_scheme server \<Rightarrow> create_bid_input \<Rightarrow> string \<Rightarrow> int \<Rightarrow> int \<Rightarrow> ('a env_scheme, response) prog" where
  "bid_place sv input escrowId amountStroops collateralStroops =
     bindE randomUUID (\<lambda>i.
     bindE date_now (\<lambda>now.
       let b = \<lparr> bid_id = i, bid_taskId = cbi_taskId input, bid_executorPublicKey = cbi_executor input,
                 bid_amountStroops = amountStroops, bid_collateralStroops = collateralStroops,
                 bid_escrowId = escrowId, bid_status = PENDING, bid_createdAt = toISOString now \<rparr>
       in bindE (br_save (sv_bids sv) b) (\<lambda>_.
          bindE (emit_if (sv_outbox sv) ''bid_placed'' ''bid'' (bid_id b) (bid_json b)) (\<lambda>_.
          bindE (catchE
            (bindE (selectWinner (sv_tasks sv) (sv_bids sv) (cbi_taskId input)) (\<lambda>_. ret ()))
            (\<lambda>err. ret ())) (\<lambda>_.
          ret (json_response 201 (bid_json b)))))))"

definition bid_create :: "'a env_scheme server \<Rightarrow> json option \<Rightarrow> ('a env_scheme, response) prog" where
  "bid_create sv body =
     (if sv_pauseNewBids sv then ret paused_bids
      else bindE (getsE w_ext) (\<lambda>x. case bid_request x (sv_local sv) body of
        Inl response \<Rightarrow> ret response
      | Inr input \<Rightarrow>
          if cbi_executor input \<in> set (sv_executorDenylist sv) then respond 403 ''executor is not allowed to bid''
          else bindE (tr_findById (sv_tasks sv) (cbi_taskId input)) (\<lambda>found. case found of
            None \<Rightarrow> respond 404 ''task not found''
          | Some t \<Rightarrow>
              if task_status t \<noteq> OPEN
              then respond 409 (''task is not open for bids (status: '' @ task_status_text (task_status t) @ '')'')
              else tryE (authorizeExecutorPayment (sv_registry sv) (cbi_executor input))
                (\<lambda>_. tryE (ep_createEscrow (sv_escrow sv) (cbi_executor input) (cbi_taskId input)
                       (number_of (cbi_collateral input)))
                   (\<lambda>escrowId. case parse_amounts input of
                      Inl err \<Rightarrow> respond_detail 400 ''invalid amount/collateral'' err
                    | Inr (amountStroops, collateralStroops) \<Rightarrow>
                        bid_place sv input escrowId amountStroops collateralStroops)
                   (\<lambda>err. respond_detail 502 ''escrow creation failed'' err))
                (\<lambda>err. case err of
                    ExecutorNotAllowedError m \<Rightarrow> respond 403 ''executor is not registered''
                  | _ \<Rightarrow> respond_detail 500 ''executor authorization failed'' err))))"

section \<open>Executors\<close>

definition executor_json :: "executor_record \<Rightarrow> json" where
  "executor_json e = JObj
    [(''publicKey'', JStr (ex_publicKey e)), (''metadataUri'', JStr (ex_metadataUri e)),
     (''registeredAt'', JStr (ex_registeredAt e))]"

definition save_executor :: "'a env_scheme server \<Rightarrow> string \<Rightarrow> string \<Rightarrow> ('a env_scheme, response) prog" where
  "save_executor sv publicKey metadataUri =
     bindE date_now (\<lambda>now.
       let e = \<lparr> ex_publicKey = publicKey, ex_metadataUri = metadataUri, ex_registeredAt = toISOString now \<rparr>
       in bindE (er_save (sv_executors sv) e) (\<lambda>_. ret (json_response 201 (executor_json e))))"

definition executor_register :: "'a env_scheme server \<Rightarrow> json option \<Rightarrow> ('a env_scheme, response) prog" where
  "executor_register sv body =
     bindE (getsE w_ext) (\<lambda>x.
       if sv_local sv then
         (case (body_string body ''secret'', body_string body ''metadataUri'') of
            (Some secret, Some metadataUri) \<Rightarrow>
              if js_trim metadataUri = [] then respond 400 ''secret and metadataUri are required''
              else (case x_public_key_of x secret of
                  None \<Rightarrow> respond 400 ''invalid secret''
                | Some publicKey \<Rightarrow>
                    tryE (rg_registerExecutor (sv_registry sv) publicKey metadataUri)
                      (\<lambda>_. save_executor sv publicKey metadataUri)
                      (\<lambda>err. respond_detail 409 ''registration failed'' err))
          | _ \<Rightarrow> respond 400 ''secret and metadataUri are required'')
       else
         (case (body_string body ''publicKey'', body_string body ''metadataUri'') of
            (Some publicKey, Some metadataUri) \<Rightarrow>
              if js_trim metadataUri = [] then respond 400 ''publicKey and metadataUri are required''
              else bindE (rg_isRegistered (sv_registry sv) publicKey) (\<lambda>registered.
                if \<not> registered then respond 409 ''executor is not registered on-chain''
                else save_executor sv publicKey metadataUri)
          | _ \<Rightarrow> respond 400 ''publicKey and metadataUri are required''))"

section \<open>Results\<close>

definition result_get :: "'w server \<Rightarrow> string \<Rightarrow> ('w, response) prog" where
  "result_get sv taskId =
     bindE (tr_findById (sv_tasks sv) taskId) (\<lambda>found. case found of
       None \<Rightarrow> respond 404 ''task not found''
     | Some t \<Rightarrow>
         if task_status t \<notin> {ASSIGNED, COMPLETING, COMPLETED}
         then respond 409 ''task result is not available until the task is assigned''
         else bindE (br_findByTaskId (sv_bids sv) taskId) (\<lambda>bids. case selected_bid bids of
           None \<Rightarrow> respond 409 ''no selected executor for this task''
         | Some b \<Rightarrow>
             bindE (rr_findByTaskId (sv_results sv) taskId) (\<lambda>result. case result of
               None \<Rightarrow> respond 404 ''result not found''
             | Some r \<Rightarrow> ret (json_response 200 (JObj
                 [(''taskId'', JStr (res_taskId r)), (''payloadHash'', JStr (res_payloadHash r)),
                  (''payload'', res_payload r)])))))"

definition result_publish ::
  "'a env_scheme server \<Rightarrow> string \<Rightarrow> json option \<Rightarrow> ('a env_scheme, response) prog" where
  "result_publish sv taskId body =
     bindE (tr_findById (sv_tasks sv) taskId) (\<lambda>found. case found of
       None \<Rightarrow> respond 404 ''task not found''
     | Some t \<Rightarrow>
         if task_status t \<noteq> ASSIGNED then respond 409 ''task is not assigned''
         else bindE (br_findByTaskId (sv_bids sv) taskId) (\<lambda>bids. case selected_bid bids of
           None \<Rightarrow> respond 409 ''no selected executor for this task''
         | Some b \<Rightarrow>
             (case body_string body ''executorPublicKey'' of
                None \<Rightarrow> respond 400 ''executorPublicKey is required''
              | Some executorPublicKey \<Rightarrow>
                  if executorPublicKey \<noteq> bid_executorPublicKey b
                  then respond 403 ''only the selected executor can publish a result''
                  else (case Option.bind body (\<lambda>j. jfield j ''payload'') of
                      None \<Rightarrow> respond 400 ''payload is required''
                    | Some payload \<Rightarrow>
                        bindE (publish_result (sv_results sv) taskId payload) (\<lambda>stored.
                        bindE (emit_if (sv_outbox sv) ''result_published'' ''task'' taskId (JObj
                          [(''taskId'', JStr (res_taskId stored)),
                           (''executorPublicKey'', JStr executorPublicKey),
                           (''payloadHash'', JStr (res_payloadHash stored)),
                           (''publishedAt'', JStr (res_createdAt stored))])) (\<lambda>_.
                        ret (json_response 201 (JObj
                          [(''taskId'', JStr (res_taskId stored)),
                           (''payloadHash'', JStr (res_payloadHash stored))]))))))))"

section \<open>The timeout sweep\<close>

text \<open>One overdue task: the ids of the tasks expired so far go through.\<close>

definition timeout_task ::
  "'a env_scheme server \<Rightarrow> task \<Rightarrow> string list \<Rightarrow> ('a env_scheme, string list) prog" where
  "timeout_task sv t expiredTaskIds =
     bindE (br_findByTaskId (sv_bids sv) (task_id t)) (\<lambda>bids. case selected_bid bids of
       None \<Rightarrow> ret expiredTaskIds
     | Some winningBid \<Rightarrow>
         tryE (ep_confiscate (sv_escrow sv) (bid_escrowId winningBid)
             (number_of (formatUsdcStroopsToDecimal (bid_collateralStroops winningBid))) None)
           (\<lambda>result.
             let updatedTask = t\<lparr>task_status := EXPIRED\<rparr>
             in bindE (tr_save (sv_tasks sv) updatedTask) (\<lambda>_.
                bindE (emit_if (sv_outbox sv) ''task_expired'' ''task'' (task_id updatedTask)
                  (JObj [(''taskId'', JStr (task_id updatedTask))])) (\<lambda>_.
                ret (expiredTaskIds @ [task_id t]))))
           (\<lambda>err. ret expiredTaskIds))"

definition overdue :: "(string \<Rightarrow> int option) \<Rightarrow> int \<Rightarrow> task \<Rightarrow> bool" where
  "overdue date_parse now t \<longleftrightarrow> task_status t = ASSIGNED \<and>
     (case date_parse (task_deadline t) of None \<Rightarrow> False | Some ms \<Rightarrow> ms < now)"

definition timeout_runOnce :: "'a env_scheme server \<Rightarrow> ('a env_scheme, string list) prog" where
  "timeout_runOnce sv =
     bindE date_now (\<lambda>now.
     bindE (tr_list (sv_tasks sv)) (\<lambda>ts.
     bindE (getsE (\<lambda>w. x_date_parse (w_ext w))) (\<lambda>date_parse.
     foldE (filter (overdue date_parse now) ts) [] (timeout_task sv))))"

definition timeout_check :: "'a env_scheme server \<Rightarrow> ('a env_scheme, response) prog" where
  "timeout_check sv =
     tryE (timeout_runOnce sv)
       (\<lambda>ids. ret (json_response 200 (JObj [(''expiredTaskIds'', JArr (map JStr ids))])))
       (\<lambda>err. respond_detail 500 ''timeout check failed'' err)"

text \<open>\<open>middlewares/adminAuth.ts\<close>, for the secret of the environment and of the header.\<close>

definition adminAuth :: "string option \<Rightarrow> string option \<Rightarrow> ('w, response) prog \<Rightarrow> ('w, response) prog" where
  "adminAuth expected provided next =
     (if expected = None \<or> expected = Some [] \<or> provided = None \<or> provided = Some [] \<or> provided \<noteq> expected
      then respond 401 ''unauthorized'' else next)"

end
