(* ===== verification/Contracts.thy ===== *)
theory Contracts
  imports Controllers
begin

text \<open>
  What the handlers do to the market, proved once inside the contract of a server: its
  repositories meet the contracts of \<open>Store\<close>, and its other services leave the market
  alone. The in-memory and the PostgreSQL server are interpreted in \<open>Servers\<close>.
\<close>

section \<open>Triples over the market\<close>

lemma hoare_assume: "(\<phi> \<Longrightarrow> hoare P m Q E) \<Longrightarrow> hoare (\<lambda>w. P w \<and> \<phi>) m Q E"
  by (auto simp: hoare_def)

lemma hoare_ext:
  assumes "hoare P (f x) Q E"
  shows "hoare (\<lambda>w. P w \<and> w_ext w = x) (bindE (getsE w_ext) f) Q E"
  using assms by (auto simp: hoare_def bindE_apply getsE_apply)

lemma hoare_gets_value: "(\<And>x. hoare P (f x) Q E) \<Longrightarrow> hoare P (bindE (getsE g) f) Q E"
  by (rule hoare_bind [where R = "\<lambda>_. P"]) (auto intro: hoare_gets)

lemma hoare_gets_known:
  "hoare P (f y) Q E \<Longrightarrow> (\<And>w. P w \<Longrightarrow> g w = y) \<Longrightarrow> hoare P (bindE (getsE g) f) Q E"
  by (auto simp: hoare_def bindE_apply getsE_apply)

lemma hoare_fact:
  assumes "\<And>w. P w \<Longrightarrow> \<phi>" and "\<phi> \<Longrightarrow> hoare P m Q E"
  shows "hoare P m Q E"
  using assms by (auto simp: hoare_def)

context world_view
begin

definition in_market :: "market \<Rightarrow> 'a env_scheme \<Rightarrow> bool" where
  "in_market M w \<longleftrightarrow> inv w \<and> fresh w \<and> abs w = M"

text \<open>From a market \<open>M\<close> to one the lifecycle allows.\<close>

definition later :: "market \<Rightarrow> 'a env_scheme \<Rightarrow> bool" where
  "later M w \<longleftrightarrow> inv w \<and> fresh w \<and> market_le M (abs w)"

definition keeps :: "('a env_scheme, 'b) prog \<Rightarrow> bool" where
  "keeps m \<longleftrightarrow> (\<forall>M. hoare (in_market M) m (\<lambda>_. in_market M) (\<lambda>_. in_market M))"

lemma in_market_later: "in_market M w \<Longrightarrow> later M w"
  by (auto simp: in_market_def later_def)

lemma keepsI:
  assumes "\<And>w r w'. inv w \<Longrightarrow> fresh w \<Longrightarrow> m w = (r, w') \<Longrightarrow> inv w' \<and> fresh w' \<and> abs w' = abs w"
  shows "keeps m"
  unfolding keeps_def
proof (intro allI hoareI)
  fix M w x w' assume "in_market M w" "m w = (Inr x, w')"
  then show "in_market M w'" using assms [of w "Inr x" w'] by (simp add: in_market_def)
next
  fix M w e w' assume "in_market M w" "m w = (Inl e, w')"
  then show "in_market M w'" using assms [of w "Inl e" w'] by (simp add: in_market_def)
qed

text \<open>A query that reads.\<close>

lemma keeps_query:
  assumes "\<And>w r w'. inv w \<Longrightarrow> m w = (r, w') \<Longrightarrow>
    inv w' \<and> abs w' = abs w \<and> env.truncate w' = env.truncate w"
  shows "keeps m"
proof (rule keepsI)
  fix w r w' assume "inv w" "fresh w" "m w = (r, w')"
  then show "inv w' \<and> fresh w' \<and> abs w' = abs w"
    using assms [of w r w'] fresh_status_step [of w w'] by simp
qed

lemma keeps_hoare: "keeps m \<Longrightarrow> hoare (in_market M) m (\<lambda>_. in_market M) (\<lambda>_. in_market M)"
  by (simp add: keeps_def)

lemma keeps_run:
  assumes "keeps m" "inv w" "fresh w" "m w = (r, w')"
  shows "inv w' \<and> fresh w' \<and> abs w' = abs w"
proof -
  have "hoare (in_market (abs w)) m (\<lambda>_. in_market (abs w)) (\<lambda>_. in_market (abs w))"
    using assms(1) by (simp add: keeps_def)
  moreover have "in_market (abs w) w" using assms(2,3) by (simp add: in_market_def)
  ultimately have "in_market (abs w) w'" using assms(4) by (cases r) (auto dest: hoareD_Inr hoareD_Inl)
  then show ?thesis by (simp add: in_market_def)
qed

lemma env_only_keeps: "env_only m \<Longrightarrow> keeps m"
  by (intro keepsI) (simp add: env_only_view)

lemma keeps_ret: "keeps (ret x)" and keeps_throw: "keeps (throw e)" and keeps_gets: "keeps (getsE g)"
  and keeps_lift: "keeps (liftE r)" and keeps_now: "keeps date_now" and keeps_uuid: "keeps randomUUID"
  by (auto intro!: env_only_keeps env_only_rules)

lemma keeps_bind: "keeps m \<Longrightarrow> (\<And>x. keeps (f x)) \<Longrightarrow> keeps (bindE m f)"
  unfolding keeps_def by (auto intro: hoare_bind)

lemma keeps_try: "keeps m \<Longrightarrow> (\<And>x. keeps (f x)) \<Longrightarrow> (\<And>e. keeps (h e)) \<Longrightarrow> keeps (tryE m f h)"
  unfolding keeps_def by (auto intro: hoare_try)

lemma keeps_catch: "keeps m \<Longrightarrow> (\<And>e. keeps (h e)) \<Longrightarrow> keeps (catchE m h)"
  unfolding keeps_def by (auto intro: hoare_catch)

lemma keeps_option: "keeps m \<Longrightarrow> (\<And>y. keeps (f y)) \<Longrightarrow> keeps (case x of None \<Rightarrow> m | Some y \<Rightarrow> f y)"
  by (cases x) simp_all

lemma keeps_sum: "(\<And>e. keeps (h e)) \<Longrightarrow> (\<And>y. keeps (f y)) \<Longrightarrow> keeps (case x of Inl e \<Rightarrow> h e | Inr y \<Rightarrow> f y)"
  by (cases x) simp_all

lemma keeps_if: "(b \<Longrightarrow> keeps m) \<Longrightarrow> (\<not> b \<Longrightarrow> keeps m') \<Longrightarrow> keeps (if b then m else m')"
  by simp

lemma keeps_evolves: "keeps m \<Longrightarrow> evolves lifecycle m"
  by (intro evolvesI) (auto simp: lifecycle_def dest: keeps_run)

lemma evolves_later: "evolves lifecycle m \<Longrightarrow> hoare (later M) m (\<lambda>_. later M) (\<lambda>_. later M)"
  by (intro hoareI) (auto simp: later_def lifecycle_def dest!: evolvesD intro: market_le_trans)

lemma later_evolves:
  assumes "\<And>M. hoare (in_market M) m (\<lambda>_. later M) (\<lambda>_. later M)"
  shows "evolves lifecycle m"
proof (rule evolvesI)
  fix w r w' assume "m w = (r, w')"
  moreover have "inv w \<Longrightarrow> fresh w \<Longrightarrow> in_market (abs w) w" by (simp add: in_market_def)
  ultimately show "lifecycle w w'" using assms [of "abs w"]
    by (cases r) (auto simp: lifecycle_def later_def dest: hoareD_Inr hoareD_Inl)
qed

text \<open>A set of markets the world's is in.\<close>

definition market_in :: "(market \<Rightarrow> bool) \<Rightarrow> 'a env_scheme \<Rightarrow> bool" where
  "market_in \<Phi> w \<longleftrightarrow> inv w \<and> fresh w \<and> \<Phi> (abs w)"

lemma in_market_in: "in_market M w \<Longrightarrow> \<Phi> M \<Longrightarrow> market_in \<Phi> w"
  by (simp add: in_market_def market_in_def)

lemma market_in_mono: "market_in \<Phi> w \<Longrightarrow> (\<And>M. \<Phi> M \<Longrightarrow> \<Psi> M) \<Longrightarrow> market_in \<Psi> w"
  by (simp add: market_in_def)

lemma hoare_market_in:
  assumes "\<And>M. \<Phi> M \<Longrightarrow> hoare (in_market M) m Q E"
  shows "hoare (market_in \<Phi>) m Q E"
proof (rule hoareI)
  fix w x w' assume "market_in \<Phi> w" "m w = (Inr x, w')"
  then show "Q x w'" using hoareD_Inr [OF assms [of "abs w"], of w x w'] by (simp add: in_market_def market_in_def)
next
  fix w e w' assume "market_in \<Phi> w" "m w = (Inl e, w')"
  then show "E e w'" using hoareD_Inl [OF assms [of "abs w"], of w e w'] by (simp add: in_market_def market_in_def)
qed

lemma keeps_at: "keeps m \<Longrightarrow> hoare (market_in \<Phi>) m (\<lambda>_. market_in \<Phi>) (\<lambda>_. market_in \<Phi>)"
  by (rule hoare_market_in, rule hoare_weaken [OF keeps_hoare]) (auto intro: in_market_in)

text \<open>The market after a run of \<open>m\<close>, from its specification.\<close>

lemma spec_run:
  assumes "\<And>M x. hoare (\<lambda>w. in_market M w \<and> g w = x) m (\<lambda>r. market_in (\<Phi> x M r)) (\<lambda>e. market_in (\<Psi> x M e))"
    and "inv w" "fresh w" "m w = (r, w')"
  shows "case r of Inr y \<Rightarrow> \<Phi> (g w) (abs w) y (abs w') | Inl e \<Rightarrow> \<Psi> (g w) (abs w) e (abs w')"
proof -
  have pre: "in_market (abs w) w \<and> g w = g w" using assms(2,3) by (simp add: in_market_def)
  show ?thesis
  proof (cases r)
    case (Inl e)
    then show ?thesis using hoareD_Inl [OF assms(1) pre, of e w'] assms(4) by (simp add: market_in_def)
  next
    case (Inr y)
    then show ?thesis using hoareD_Inr [OF assms(1) pre, of y w'] assms(4) by (simp add: market_in_def)
  qed
qed

text \<open>An identifier just drawn: it names nothing, and will not be drawn again.\<close>

definition reserved :: "market \<Rightarrow> string \<Rightarrow> 'a env_scheme \<Rightarrow> bool" where
  "reserved M i w \<longleftrightarrow> in_market M w \<and>
     mk_tasks M (mk_key M i) = None \<and> mk_bids M (mk_key M i) = None \<and>
     (\<forall>n \<ge> w_uuids w. mk_key M (w_uuid w n) \<noteq> mk_key M i)"

lemma reserved_in_market: "reserved M i w \<Longrightarrow> in_market M w"
  by (simp add: reserved_def)

lemma randomUUID_reserved: "hoare (in_market M) randomUUID (\<lambda>i. reserved M i) (\<lambda>_. in_market M)"
proof (rule hoareI)
  fix w i w' assume w: "in_market M w" and run: "randomUUID w = (Inr i, w')"
  then have i: "i = w_uuid w (w_uuids w)" "w_uuid w' = w_uuid w" "w_uuids w' = Suc (w_uuids w)"
    by (auto simp: randomUUID_def)
  have "in_market M w'"
    using keeps_run [OF keeps_uuid _ _ run] w by (simp add: in_market_def)
  moreover have "inj_on (\<lambda>n. mk_key M (w_uuid w n)) UNIV"
    and "mk_tasks M (mk_key M i) = None" "mk_bids M (mk_key M i) = None"
    using w by (auto simp: in_market_def fresh_def i(1) inj_on_def)
  moreover have "mk_key M (w_uuid w n) \<noteq> mk_key M i" if "Suc (w_uuids w) \<le> n" for n
    using that injD [OF calculation(2), of n "w_uuids w"] by (auto simp: i(1))
  ultimately show "reserved M i w'" by (simp add: reserved_def i(2,3))
qed (simp add: randomUUID_def)

lemma reserved_now: "hoare (reserved M i) date_now (\<lambda>_. reserved M i) (\<lambda>_. in_market M)"
proof (rule hoareI)
  fix w x w' assume w: "reserved M i w" and run: "date_now w = (Inr x, w')"
  then have "in_market M w'" using keeps_run [OF keeps_now _ _ run] by (simp add: reserved_def in_market_def)
  then show "reserved M i w'" using w run by (auto simp: reserved_def date_now_def)
qed (simp add: date_now_def)

text \<open>Storing something under a reserved identifier keeps the others fresh.\<close>

lemma fresh_add:
  assumes "reserved M i w" "env.truncate w' = env.truncate w" "mk_key (abs w') = mk_key M"
    "dom (mk_tasks (abs w')) \<subseteq> insert (mk_key M i) (dom (mk_tasks M))"
    "dom (mk_bids (abs w')) \<subseteq> insert (mk_key M i) (dom (mk_bids M))"
  shows "fresh w'"
proof -
  have u: "w_uuid w' = w_uuid w" "w_uuids w' = w_uuids w"
    using arg_cong [OF assms(2), of w_uuid] arg_cong [OF assms(2), of w_uuids] by (simp_all add: env.truncate_def)
  have f: "fresh w" "abs w = M" using assms(1) by (simp_all add: reserved_def in_market_def)
  have "mk_tasks M j = None \<Longrightarrow> j \<noteq> mk_key M i \<Longrightarrow> mk_tasks (abs w') j = None"
    "mk_bids M j = None \<Longrightarrow> j \<noteq> mk_key M i \<Longrightarrow> mk_bids (abs w') j = None" for j
    using assms(4,5) by (metis domIff insertE subsetD)+
  then show ?thesis using f assms(1) unfolding fresh_def u assms(3) by (simp add: reserved_def)
qed

lemmas keeps_intros = keeps_ret keeps_throw keeps_gets keeps_lift keeps_now keeps_uuid keeps_bind
  keeps_try keeps_catch keeps_option keeps_sum keeps_if

end

section \<open>What a handler may do\<close>

definition set_status :: "string \<Rightarrow> task_status \<Rightarrow> market \<Rightarrow> market" where
  "set_status k s M = M\<lparr>mk_tasks := (mk_tasks M)(k := map_option (\<lambda>t. t\<lparr>task_status := s\<rparr>) (mk_tasks M k))\<rparr>"

lemma set_status_step:
  "mk_tasks M k = Some t \<Longrightarrow> task_status t \<le> s \<Longrightarrow> status_step M (set_status k s M)"
  using status_step_task [of M k t s] by (simp add: set_status_def)

text \<open>
  Task \<open>k\<close> may be completed for \<open>requester\<close> by releasing the escrow of \<open>b\<close>: it is theirs and
  \<open>ASSIGNED\<close>, and \<open>b\<close> is its selected bid, of an executor who is not on the denylist.
\<close>

definition may_complete :: "string list \<Rightarrow> market \<Rightarrow> string \<Rightarrow> string \<Rightarrow> bid \<Rightarrow> bool" where
  "may_complete denylist M k requester b \<longleftrightarrow>
     (\<exists>t. mk_tasks M k = Some t \<and> task_requesterPublicKey t = requester \<and> task_status t = ASSIGNED) \<and>
     b \<in> ran (mk_bids M) \<and> bid_taskId b = k \<and> bid_status b = SELECTED \<and>
     bid_executorPublicKey b \<notin> set denylist"

text \<open>The outcomes of a completion request: nothing, or the one change of status.\<close>

definition complete_outcome :: "'w server \<Rightarrow> ext \<Rightarrow> string \<Rightarrow> json option \<Rightarrow> market \<Rightarrow> market \<Rightarrow> bool" where
  "complete_outcome sv x k body M M' \<longleftrightarrow> M' = M \<or>
     (\<exists>requester b. complete_requester x (sv_local sv) body = Inr requester \<and>
        may_complete (sv_executorDenylist sv) M k requester b \<and>
        M' = set_status k (if sv_outbox sv = None then COMPLETED else COMPLETING) M)"

text \<open>New entries.\<close>

definition add_task :: "string \<Rightarrow> task \<Rightarrow> market \<Rightarrow> market" where
  "add_task k t M = M\<lparr>mk_tasks := (mk_tasks M)(k \<mapsto> t)\<rparr>"

definition add_bid :: "string \<Rightarrow> bid \<Rightarrow> market \<Rightarrow> market" where
  "add_bid k b M = M\<lparr>mk_bids := (mk_bids M)(k \<mapsto> b)\<rparr>"

lemma add_task_le: "mk_tasks M k = None \<Longrightarrow> market_le M (add_task k t M)"
  by (auto simp: add_task_def intro: market_le_task_update)

lemma add_bid_le: "mk_bids M k = None \<Longrightarrow> market_le M (add_bid k b M)"
  by (auto simp: add_bid_def intro: market_le_bid_update)

text \<open>The outcomes of a creation request: nothing, or one new \<open>OPEN\<close> task as the input says.\<close>

definition new_task :: "create_task_input \<Rightarrow> market \<Rightarrow> market \<Rightarrow> bool" where
  "new_task input M M' \<longleftrightarrow> (\<exists>k t. mk_tasks M k = None \<and> M' = add_task k t M \<and>
     task_status t = OPEN \<and> task_requesterPublicKey t = cti_requester input \<and>
     task_description t = cti_description input \<and>
     parseUsdcDecimalToStroops (cti_reservePrice input) = Inr (task_reservePriceStroops t))"

text \<open>Through the local form only the holder of the requester's secret creates the task.\<close>

definition local_task :: "ext \<Rightarrow> json option \<Rightarrow> market \<Rightarrow> market \<Rightarrow> bool" where
  "local_task x body M M' \<longleftrightarrow> (\<exists>now input secret.
     createTaskLocalRequestSchema (x_date_parse x) now body = Some (input, secret) \<and>
     x_public_key_of x secret = Some (cti_requester input) \<and> new_task input M M')"

definition paid_task :: "ext \<Rightarrow> json option \<Rightarrow> market \<Rightarrow> market \<Rightarrow> bool" where
  "paid_task x body M M' \<longleftrightarrow>
     (\<exists>now input. createTaskSchema (x_date_parse x) now body = Some input \<and> new_task input M M')"

text \<open>And of a bid: nothing, or one new \<open>PENDING\<close> bid on an \<open>OPEN\<close> task, then its auction.\<close>

definition new_bid :: "create_bid_input \<Rightarrow> market \<Rightarrow> market \<Rightarrow> bool" where
  "new_bid input M M' \<longleftrightarrow> (\<exists>k b t. mk_bids M k = None \<and> M' = add_bid k b M \<and>
     mk_tasks M (mk_key M (cbi_taskId input)) = Some t \<and> task_status t = OPEN \<and>
     bid_status b = PENDING \<and> bid_taskId b = mk_key M (cbi_taskId input) \<and>
     bid_executorPublicKey b = cbi_executor input \<and>
     parseUsdcDecimalToStroops (cbi_amount input) = Inr (bid_amountStroops b) \<and>
     parseUsdcDecimalToStroops (cbi_collateral input) = Inr (bid_collateralStroops b))"

lemma new_task_le: "new_task input M M' \<Longrightarrow> market_le M M'"
  by (auto simp: new_task_def intro: add_task_le)

lemma new_bid_le: "new_bid input M M' \<Longrightarrow> market_le M M'"
  by (auto simp: new_bid_def intro: add_bid_le)

text \<open>The bid is stored; what follows it moves statuses only.\<close>

definition placed :: "create_bid_input \<Rightarrow> market \<Rightarrow> market \<Rightarrow> bool" where
  "placed input M M' \<longleftrightarrow> (\<exists>M1. new_bid input M M1 \<and> status_step M1 M')"

definition has_outbox :: "'w server \<Rightarrow> bool" where
  "has_outbox sv \<longleftrightarrow> sv_outbox sv \<noteq> None"

text \<open>The request of a bid, and what it makes of the market once accepted (\<open>A\<close>).\<close>

definition bid_placed ::
  "(create_bid_input \<Rightarrow> market \<Rightarrow> market \<Rightarrow> bool) \<Rightarrow> 'w server \<Rightarrow> ext \<Rightarrow> json option \<Rightarrow> market \<Rightarrow> market \<Rightarrow> bool" where
  "bid_placed A sv x body M M' \<longleftrightarrow> (\<exists>input. bid_request x (sv_local sv) body = Inr input \<and>
     cbi_executor input \<notin> set (sv_executorDenylist sv) \<and> A input M M')"

lemma response_status [simp]: "fst (error_response st e) = st" "fst (error_detail st e err) = st"
  by (simp_all add: error_response_def error_detail_def)

lemma placed_new: "new_bid input M M' \<Longrightarrow> placed input M M'"
  by (auto simp: placed_def)

lemma placed_le: "placed input M M' \<Longrightarrow> market_le M M'"
  unfolding placed_def using new_bid_le status_step_le market_le_trans by blast

text \<open>The status \<open>st\<close> if and only if the change was made.\<close>

definition answered :: "nat \<Rightarrow> (market \<Rightarrow> market \<Rightarrow> bool) \<Rightarrow> market \<Rightarrow> response \<Rightarrow> market \<Rightarrow> bool" where
  "answered st \<Phi> M resp M' \<longleftrightarrow> (if fst resp = st then \<Phi> M M' else M' = M)"

text \<open>The tasks named \<open>ids\<close> expire.\<close>

definition expire :: "string list \<Rightarrow> market \<Rightarrow> market" where
  "expire ids M = M\<lparr>mk_tasks := (\<lambda>k. if k \<in> set ids
     then map_option (\<lambda>t. t\<lparr>task_status := EXPIRED\<rparr>) (mk_tasks M k) else mk_tasks M k)\<rparr>"

text \<open>They may: they were \<open>ASSIGNED\<close> and past their deadline, with a selected bid.\<close>

definition may_expire :: "(string \<Rightarrow> int option) \<Rightarrow> int \<Rightarrow> market \<Rightarrow> string \<Rightarrow> bool" where
  "may_expire date_parse now M k \<longleftrightarrow>
     (\<exists>t. mk_tasks M k = Some t \<and> overdue date_parse now t) \<and>
     (\<exists>b \<in> ran (mk_bids M). bid_taskId b = k \<and> bid_status b = SELECTED)"

lemma expire_Nil [simp]: "expire [] M = M"
  by (simp add: expire_def)

lemma expire_key [simp]: "mk_key (expire ids M) = mk_key M" "mk_bids (expire ids M) = mk_bids M"
  by (simp_all add: expire_def)

lemma expire_tasks: "mk_tasks (expire ids M) k = (if k \<in> set ids
    then map_option (\<lambda>t. t\<lparr>task_status := EXPIRED\<rparr>) (mk_tasks M k) else mk_tasks M k)"
  by (simp add: expire_def)

lemma expire_snoc: "k \<notin> set ids \<Longrightarrow> set_status k EXPIRED (expire ids M) = expire (ids @ [k]) M"
  by (auto simp: expire_def set_status_def fun_eq_iff)

lemma expire_le: "\<forall>k \<in> set ids. may_expire d now M k \<Longrightarrow> market_le M (expire ids M)"
  by (auto simp: market_le_def expire_tasks may_expire_def overdue_def task_le_status)

section \<open>The contract of a server\<close>

locale server_store =
  market_store abs inv "sv_tasks sv" tnorm "sv_bids sv" bnorm
  for abs :: "'a env_scheme \<Rightarrow> market" and inv :: "'a env_scheme \<Rightarrow> bool"
    and sv :: "'a env_scheme server"
    and tnorm :: "'a env_scheme \<Rightarrow> task \<Rightarrow> task" and bnorm :: "'a env_scheme \<Rightarrow> bid \<Rightarrow> bid" +
  assumes create_keeps: "keeps (ep_createEscrow (sv_escrow sv) executor taskId amount)"
    and release_keeps: "keeps (ep_releaseMilestone (sv_escrow sv) escrowId)"
    and confiscate_keeps: "keeps (ep_confiscate (sv_escrow sv) escrowId amount pct)"
    and register_keeps: "keeps (rg_registerExecutor (sv_registry sv) k uri)"
    and registered_keeps: "keeps (rg_isRegistered (sv_registry sv) k)"
    and charge_keeps: "keeps (sv_charge sv k price)"
    and emit_keeps: "sv_outbox sv = Some emit \<Longrightarrow> keeps (emit ty aggType aggId payload)"
    and upsert_keeps: "keeps (rr_upsert (sv_results sv) i payload hash)"
    and result_keeps: "keeps (rr_findByTaskId (sv_results sv) i)"
    and executor_keeps: "keeps (er_save (sv_executors sv) e)"
begin

lemma emit_if_keeps: "keeps (emit_if (sv_outbox sv) ty aggType aggId payload)"
  unfolding emit_if_def by (cases "sv_outbox sv") (auto intro: keeps_ret emit_keeps)

lemma find_task_at:
  "hoare (in_market M) (tr_findById (sv_tasks sv) i)
     (\<lambda>x w. in_market M w \<and> x = mk_tasks M (mk_key M i)) (\<lambda>_. in_market M)"
proof (rule hoareI)
  fix w x w' assume "in_market M w" "tr_findById (sv_tasks sv) i w = (Inr x, w')"
  then show "in_market M w' \<and> x = mk_tasks M (mk_key M i)"
    using t_find [of w i "Inr x" w'] fresh_status_step [of w w'] by (simp add: in_market_def)
next
  fix w e w' assume "in_market M w" "tr_findById (sv_tasks sv) i w = (Inl e, w')"
  then show "in_market M w'" using t_find [of w i "Inl e" w'] fresh_status_step [of w w'] by (simp add: in_market_def)
qed

lemma find_bids_at:
  "hoare (in_market M) (br_findByTaskId (sv_bids sv) i)
     (\<lambda>xs w. in_market M w \<and> set xs = {b \<in> ran (mk_bids M). bid_taskId b = mk_key M i} \<and> distinct (map bid_id xs))
     (\<lambda>_. in_market M)"
proof (rule hoareI)
  fix w x w' assume "in_market M w" "br_findByTaskId (sv_bids sv) i w = (Inr x, w')"
  then show "in_market M w' \<and> set x = {b \<in> ran (mk_bids M). bid_taskId b = mk_key M i} \<and> distinct (map bid_id x)"
    using b_find [of w i "Inr x" w'] fresh_status_step [of w w'] by (simp add: in_market_def)
next
  fix w e w' assume "in_market M w" "br_findByTaskId (sv_bids sv) i w = (Inl e, w')"
  then show "in_market M w'" using b_find [of w i "Inl e" w'] fresh_status_step [of w w'] by (simp add: in_market_def)
qed

lemma list_tasks_at:
  "hoare (in_market M) (tr_list (sv_tasks sv))
     (\<lambda>xs w. in_market M w \<and> set xs = ran (mk_tasks M) \<and> distinct (map task_id xs)) (\<lambda>_. in_market M)"
proof (rule hoareI)
  fix w x w' assume "in_market M w" "tr_list (sv_tasks sv) w = (Inr x, w')"
  then show "in_market M w' \<and> set x = ran (mk_tasks M) \<and> distinct (map task_id x)"
    using t_list [of w "Inr x" w'] fresh_status_step [of w w'] by (simp add: in_market_def)
next
  fix w e w' assume "in_market M w" "tr_list (sv_tasks sv) w = (Inl e, w')"
  then show "in_market M w'" using t_list [of w "Inl e" w'] fresh_status_step [of w w'] by (simp add: in_market_def)
qed

lemma find_task_keeps: "keeps (tr_findById (sv_tasks sv) i)"
  by (rule keeps_query) (drule (1) t_find, blast)

lemma find_bids_keeps: "keeps (br_findByTaskId (sv_bids sv) i)"
  by (rule keeps_query) (drule (1) b_find, blast)

lemma save_status_at:
  assumes "mk_tasks M k = Some t"
  shows "hoare (in_market M) (tr_save (sv_tasks sv) (t\<lparr>task_status := s\<rparr>))
    (\<lambda>_. in_market (set_status k s M)) (\<lambda>_. in_market M)"
proof (rule hoareI)
  fix w x w' assume w: "in_market M w" and run: "tr_save (sv_tasks sv) (t\<lparr>task_status := s\<rparr>) w = (Inr x, w')"
  then have "abs w' = set_status k s M" "inv w'" "env.truncate w' = env.truncate w"
    using assms save_status(1-3) [of w k t s "Inr x" w'] by (simp_all add: in_market_def set_status_def)
  then show "in_market (set_status k s M) w'"
    using w assms fresh_update [of w w'] by (auto simp: in_market_def set_status_def)
next
  fix w e w' assume "in_market M w" "tr_save (sv_tasks sv) (t\<lparr>task_status := s\<rparr>) w = (Inl e, w')"
  then show "in_market M w'"
    using assms save_status(1,2,4) [of w k t s "Inl e" w'] fresh_status_step [of w w']
    by (simp add: in_market_def)
qed

lemma selected_bid_in:
  "selected_bid bids = Some b \<Longrightarrow> b \<in> set bids \<and> bid_status b = SELECTED"
  by (auto simp: selected_bid_def dest: find_SomeD)

subsection \<open>Completion\<close>

lemma complete_assigned_spec:
  assumes "mk_tasks M k = Some t"
  shows "hoare (in_market M) (complete_assigned sv t b)
    (\<lambda>resp w. in_market M w \<or> in_market (set_status k (if sv_outbox sv = None then COMPLETED else COMPLETING) M) w)
    (\<lambda>e w. in_market M w \<or> in_market (set_status k (if sv_outbox sv = None then COMPLETED else COMPLETING) M) w)"
proof (cases "sv_outbox sv")
  case None
  show ?thesis unfolding complete_assigned_def None Let_def option.case
    by (rule hoare_catch [where E' = "\<lambda>_ w. in_market M w \<or> in_market (set_status k COMPLETED M) w"],
        rule hoare_seq [OF keeps_hoare [OF release_keeps]], rule hoare_seq [OF save_status_at [OF assms]])
      (auto intro: hoare_ret)
next
  case (Some emit)
  show ?thesis unfolding complete_assigned_def Some Let_def option.case
    by (rule hoare_seq [OF save_status_at [OF assms]], rule hoare_seq [OF keeps_hoare [OF emit_keeps [OF Some]]])
      (auto intro: hoare_ret)
qed

lemma complete_spec:
  "hoare (\<lambda>w. in_market M w \<and> w_ext w = x) (task_complete sv i body)
     (\<lambda>resp w. \<exists>M'. in_market M' w \<and> complete_outcome sv x (mk_key M i) body M M')
     (\<lambda>e w. \<exists>M'. in_market M' w \<and> complete_outcome sv x (mk_key M i) body M M')"
  (is "hoare _ _ ?Q ?E")
proof -
  let ?k = "mk_key M i"
  have stay: "in_market M w \<Longrightarrow> \<exists>M'. in_market M' w \<and> complete_outcome sv x ?k body M M'" for w
    by (auto simp: complete_outcome_def)
  have refuse: "hoare (in_market M) (ret resp) ?Q ?E" for resp by (rule hoare_ret) (rule stay)
  have "hoare (in_market M) (complete_assigned sv t b) ?Q ?E"
    if "complete_requester x (sv_local sv) body = Inr requester" "mk_tasks M ?k = Some t"
      "may_complete (sv_executorDenylist sv) M ?k requester b" for t b requester
    by (rule hoare_weaken [OF complete_assigned_spec [OF that(2)]])
      (use that in \<open>auto simp: complete_outcome_def\<close>)
  then show ?thesis unfolding task_complete_def
    by (intro hoare_ext)
      (auto split: sum.splits simp: refuse may_complete_def dest: selected_bid_in
        intro!: refuse hoare_if hoare_case_option hoare_assume hoare_seq [OF find_task_at]
          hoare_seq [OF find_bids_at] intro: stay)
qed

subsection \<open>Creation\<close>

lemma new_task_save:
  assumes "task_id t = i" "task_status t = OPEN" "task_requesterPublicKey t = cti_requester input"
    "task_description t = cti_description input"
    "parseUsdcDecimalToStroops (cti_reservePrice input) = Inr (task_reservePriceStroops t)"
  shows "hoare (reserved M i) (tr_save (sv_tasks sv) t) (\<lambda>_. market_in (new_task input M)) (\<lambda>_. in_market M)"
proof (rule hoareI)
  fix w x w' assume w: "reserved M i w" and run: "tr_save (sv_tasks sv) t w = (Inr x, w')"
  have M: "inv w" "fresh w" "abs w = M" "mk_tasks M (mk_key M i) = None"
    using w by (simp_all add: reserved_def in_market_def)
  have s: "inv w'" "env.truncate w' = env.truncate w" "abs w' = add_task (mk_key M i) (tnorm w t) M"
    using t_save [OF M(1) run] assms(1) by (simp_all add: add_task_def M(3))
  have "fresh w'" by (rule fresh_add [OF w s(2)]) (auto simp: s(3) add_task_def)
  moreover have "new_task input M (abs w')" unfolding new_task_def
    using M(4) tnorm_fields [of w t] assms by (intro exI [of _ "mk_key M i"] exI [of _ "tnorm w t"]) (simp add: s(3))
  ultimately show "market_in (new_task input M) w'" using s(1) by (simp add: market_in_def)
next
  fix w e w' assume w: "reserved M i w" and run: "tr_save (sv_tasks sv) t w = (Inl e, w')"
  have M: "inv w" "fresh w" "abs w = M" using w by (simp_all add: reserved_def in_market_def)
  show "in_market M w'" using t_save [OF M(1) run] fresh_status_step [OF M(2), of w'] by (simp add: in_market_def M(3))
qed

lemma publish_keeps: "keeps (publishTask t)"
  unfolding publishTask_def Let_def by (intro env_only_keeps env_only_rules)

lemma saveAndPublish_spec:
  "hoare (in_market M) (saveAndPublish sv input) (\<lambda>_. market_in (new_task input M))
     (\<lambda>_. market_in (\<lambda>M'. M' = M \<or> new_task input M M'))"
proof -
  have err: "in_market M w \<Longrightarrow> market_in (\<lambda>M'. M' = M \<or> new_task input M M') w"
    "market_in (new_task input M) w \<Longrightarrow> market_in (\<lambda>M'. M' = M \<or> new_task input M M') w" for w
    by (auto intro: in_market_in market_in_mono)
  show ?thesis
  proof (cases "parseUsdcDecimalToStroops (cti_reservePrice input)")
    case (Inl e)
    then show ?thesis unfolding saveAndPublish_def
      by (auto simp: hoare_def bindE_apply liftE_apply intro: err)
  next
    case (Inr price)
    then have eq: "saveAndPublish sv input = bindE randomUUID (\<lambda>i.
       let t = \<lparr> task_id = i, task_requesterPublicKey = cti_requester input,
                 task_reservePriceStroops = price, task_description = cti_description input,
                 task_deadline = cti_deadline input, task_status = OPEN \<rparr>
       in bindE (tr_save (sv_tasks sv) t) (\<lambda>_.
          bindE (catchE (publishTask t) (\<lambda>err. ret ())) (\<lambda>_.
          bindE (emit_if (sv_outbox sv) ''task_created'' ''task'' (task_id t) (task_json t)) (\<lambda>_.
          ret t))))"
      by (simp add: saveAndPublish_def liftE_def bindE_def)
    show ?thesis unfolding eq Let_def
      by (rule hoare_seq [OF randomUUID_reserved _ err(1)], rule hoare_seq [OF new_task_save _ err(1)])
        (use Inr in \<open>auto intro!: hoare_seq [OF keeps_at] hoare_ret keeps_catch publish_keeps keeps_ret emit_if_keeps intro: err\<close>)
  qed
qed

lemma refused_at:
  "fst resp \<noteq> st \<Longrightarrow> hoare (in_market M) (ret resp) (\<lambda>resp. market_in (answered st \<Phi> M resp)) E"
  by (rule hoare_ret) (auto simp: answered_def intro: in_market_in)

lemma task_create_spec:
  "hoare (\<lambda>w. in_market M w \<and> w_ext w = x) (task_create sv body)
     (\<lambda>resp. market_in (answered 201 (local_task x body) M resp))
     (\<lambda>_. market_in (\<lambda>M'. M' = M \<or> local_task x body M M'))"
  (is "hoare _ _ ?Q ?E")
proof -
  have refuse: "hoare (in_market M) (ret resp) ?Q ?E" if "fst resp \<noteq> 201" for resp
    using that by (rule refused_at)
  have save: "hoare (in_market M) (bindE (saveAndPublish sv input) (\<lambda>t. ret (json_response 201 (task_json t)))) ?Q ?E"
    if "createTaskLocalRequestSchema (x_date_parse x) now body = Some (input, secret)"
      "x_public_key_of x secret = Some (cti_requester input)" for now input secret
  proof -
    have "new_task input M M' \<Longrightarrow> local_task x body M M'" for M'
      unfolding local_task_def using that by blast
    then show ?thesis
      by (intro hoare_seq [OF saveAndPublish_spec] hoare_ret)
        (auto simp: answered_def json_response_def elim!: market_in_mono)
  qed
  have fee: "hoare (in_market M) (tryE (sv_charge sv k price)
      (\<lambda>_. bindE (saveAndPublish sv input) (\<lambda>t. ret (json_response 201 (task_json t)))) h) ?Q ?E"
    if "createTaskLocalRequestSchema (x_date_parse x) now body = Some (input, secret)"
      "x_public_key_of x secret = Some (cti_requester input)"
      "\<And>e. hoare (in_market M) (h e) ?Q ?E" for now input secret k price h
    by (rule hoare_try [OF keeps_hoare [OF charge_keeps] save [OF that(1,2)] that(3)])
  have "hoare (\<lambda>w. in_market M w \<and> w_ext w = x) date_now (\<lambda>_ w. in_market M w \<and> w_ext w = x) (\<lambda>_. in_market M)"
    using keeps_run [OF keeps_now] by (auto simp: hoare_def in_market_def date_now_def)
  then show ?thesis unfolding task_create_def
    by (cases "sv_pauseNewTasks sv")
      (auto simp: paused_tasks_def error_response_def error_detail_def
        intro!: hoare_weaken [OF refuse] hoare_seq [of _ date_now] hoare_ext hoare_case_option hoare_if fee refuse
        intro: in_market_in split: sum.splits prod.splits exn.splits)
qed

lemma task_createPaid_spec:
  "hoare (\<lambda>w. in_market M w \<and> w_ext w = x) (task_createPaid sv body)
     (\<lambda>resp. market_in (answered 201 (paid_task x body) M resp))
     (\<lambda>_. market_in (\<lambda>M'. M' = M \<or> paid_task x body M M'))"
  (is "hoare _ _ ?Q ?E")
proof -
  have refuse: "hoare (in_market M) (ret resp) ?Q ?E" if "fst resp \<noteq> 201" for resp
    using that by (rule refused_at)
  have save: "hoare (in_market M) (bindE (saveAndPublish sv input) (\<lambda>t. ret (json_response 201 (task_json t)))) ?Q ?E"
    if "createTaskSchema (x_date_parse x) now body = Some input" for now input
  proof -
    have "new_task input M M' \<Longrightarrow> paid_task x body M M'" for M'
      unfolding paid_task_def using that by blast
    then show ?thesis
      by (intro hoare_seq [OF saveAndPublish_spec] hoare_ret)
        (auto simp: answered_def json_response_def elim!: market_in_mono)
  qed
  have "hoare (\<lambda>w. in_market M w \<and> w_ext w = x) date_now (\<lambda>_ w. in_market M w \<and> w_ext w = x) (\<lambda>_. in_market M)"
    using keeps_run [OF keeps_now] by (auto simp: hoare_def in_market_def date_now_def)
  then show ?thesis unfolding task_createPaid_def
    by (cases "sv_pauseNewTasks sv")
      (auto simp: paused_tasks_def
        intro!: hoare_weaken [OF refuse] hoare_seq [of _ date_now] hoare_ext hoare_case_option save refuse
        intro: in_market_in)
qed

subsection \<open>Bids\<close>

lemma new_bid_save:
  assumes "bid_id b = i" "bid_status b = PENDING" "bid_taskId b = cbi_taskId input"
    "bid_executorPublicKey b = cbi_executor input"
    "parse_amounts input = Inr (bid_amountStroops b, bid_collateralStroops b)"
    "mk_tasks M (mk_key M (cbi_taskId input)) = Some t" "task_status t = OPEN"
  shows "hoare (reserved M i) (br_save (sv_bids sv) b) (\<lambda>_. market_in (new_bid input M)) (\<lambda>_. in_market M)"
proof (rule hoareI)
  fix w x w' assume w: "reserved M i w" and run: "br_save (sv_bids sv) b w = (Inr x, w')"
  have M: "inv w" "fresh w" "abs w = M" "mk_bids M (mk_key M i) = None"
    using w by (simp_all add: reserved_def in_market_def)
  have s: "inv w'" "env.truncate w' = env.truncate w" "abs w' = add_bid (mk_key M i) (bnorm w b) M"
    using b_save [OF M(1) run] assms(1) by (simp_all add: add_bid_def M(3))
  have "fresh w'" by (rule fresh_add [OF w s(2)]) (auto simp: s(3) add_bid_def)
  moreover have "new_bid input M (abs w')" unfolding new_bid_def
    using M(3,4) bnorm_fields [of w b] assms
    by (intro exI [of _ "mk_key M i"] exI [of _ "bnorm w b"] exI [of _ t])
      (auto simp: s(3) parse_amounts_def split: sum.splits)
  ultimately show "market_in (new_bid input M) w'" using s(1) by (simp add: market_in_def)
next
  fix w e w' assume w: "reserved M i w" and run: "br_save (sv_bids sv) b w = (Inl e, w')"
  have M: "inv w" "fresh w" "abs w = M" using w by (simp_all add: reserved_def in_market_def)
  show "in_market M w'" using b_save [OF M(1) run] fresh_status_step [OF M(2), of w'] by (simp add: in_market_def M(3))
qed

text \<open>A selection moves statuses only, whatever comes of it.\<close>

lemma selectWinner_at:
  "hoare (market_in \<Phi>) (selectWinner (sv_tasks sv) (sv_bids sv) i)
     (\<lambda>_. market_in (\<lambda>M. \<exists>M0. \<Phi> M0 \<and> status_step M0 M)) (\<lambda>_. market_in (\<lambda>M. \<exists>M0. \<Phi> M0 \<and> status_step M0 M))"
proof -
  have "market_in (\<lambda>M. \<exists>M0. \<Phi> M0 \<and> status_step M0 M) w'"
    if "market_in \<Phi> w" "selectWinner (sv_tasks sv) (sv_bids sv) i w = (r, w')" for w r w'
    using that selectWinner_run [of w i r w'] fresh_status_step [of w w'] by (auto simp: market_in_def)
  then show ?thesis by (intro hoareI)
qed

text \<open>\<open>A\<close> is what the auction makes of the market with the new bid.\<close>

definition auction_makes :: "(create_bid_input \<Rightarrow> market \<Rightarrow> market \<Rightarrow> bool) \<Rightarrow> bool" where
  "auction_makes A \<longleftrightarrow> (\<forall>input M. hoare (market_in (new_bid input M))
     (selectWinner (sv_tasks sv) (sv_bids sv) (cbi_taskId input))
     (\<lambda>_. market_in (A input M)) (\<lambda>_. market_in (A input M)))"

lemma auction_makes_placed: "auction_makes placed"
  using selectWinner_at by (simp add: auction_makes_def placed_def [abs_def])

lemma bid_place_spec:
  assumes "auction_makes A" and "parse_amounts input = Inr (amount, collateral)"
    and "mk_tasks M (mk_key M (cbi_taskId input)) = Some t" "task_status t = OPEN"
  shows "hoare (in_market M) (bid_place sv input escrowId amount collateral)
    (\<lambda>resp. market_in (answered 201 (A input) M resp))
    (\<lambda>_. market_in (\<lambda>M'. M' = M \<or> has_outbox sv \<and> new_bid input M M'))"
proof -
  let ?E = "\<lambda>M'. M' = M \<or> has_outbox sv \<and> new_bid input M M'"
  have err: "in_market M w \<Longrightarrow> market_in ?E w" "reserved M i w \<Longrightarrow> market_in ?E w" for w i
    by (auto simp: reserved_def in_market_in)
  have emit: "hoare (market_in (new_bid input M)) (emit_if (sv_outbox sv) ty agg i j)
      (\<lambda>_. market_in (new_bid input M)) (\<lambda>_. market_in ?E)" for ty agg i j
  proof (cases "sv_outbox sv")
    case None
    then show ?thesis by (simp add: emit_if_def hoare_ret)
  next
    case (Some emit)
    show ?thesis by (rule hoare_weaken [OF keeps_at [OF emit_if_keeps, where \<Phi> = "new_bid input M"]])
        (auto simp: has_outbox_def Some elim: market_in_mono)
  qed
  have win: "hoare (market_in (new_bid input M))
      (catchE (bindE (selectWinner (sv_tasks sv) (sv_bids sv) (cbi_taskId input)) (\<lambda>_. ret ())) (\<lambda>err. ret ()))
      (\<lambda>_. market_in (A input M)) E" for E
    using assms(1) by (auto simp: auction_makes_def intro!: hoare_catch [where E' = "\<lambda>_. market_in (A input M)"]
      hoare_seq [where R = "\<lambda>_. market_in (A input M)" and E' = "\<lambda>_. market_in (A input M)"] hoare_ret)
  show ?thesis unfolding bid_place_def Let_def
    by (rule hoare_seq [OF randomUUID_reserved _ err(1)], rule hoare_seq [OF reserved_now _ err(1)],
        rule hoare_seq [OF new_bid_save _ err(1)])
      (use assms in \<open>auto intro!: hoare_seq [OF emit] hoare_seq [OF win] hoare_ret
        simp: answered_def [abs_def] json_response_def\<close>)
qed

lemma bid_request_refusal: "bid_request x local body = Inl resp \<Longrightarrow> fst resp \<noteq> 201"
  by (auto simp: bid_request_def error_response_def split: if_splits option.splits prod.splits)

lemma authorize_keeps: "keeps (authorizeExecutorPayment (sv_registry sv) k)"
  unfolding authorizeExecutorPayment_def
  by (intro keeps_bind keeps_if keeps_throw keeps_ret registered_keeps)

lemma bid_create_spec:
  assumes "auction_makes A"
  shows "hoare (\<lambda>w. in_market M w \<and> w_ext w = x) (bid_create sv body)
     (\<lambda>resp. market_in (answered 201 (bid_placed A sv x body) M resp))
     (\<lambda>_. market_in (\<lambda>M'. M' = M \<or> has_outbox sv \<and> bid_placed new_bid sv x body M M'))"
  (is "hoare _ _ ?Q ?E")
proof -
  have refuse: "hoare (in_market M) (ret resp) ?Q ?E" if "fst resp \<noteq> 201" for resp
    using that by (rule refused_at)
  have place: "hoare (in_market M) (bid_place sv input escrowId amount collateral) ?Q ?E"
    if "bid_request x (sv_local sv) body = Inr input" "cbi_executor input \<notin> set (sv_executorDenylist sv)"
      "parse_amounts input = Inr (amount, collateral)"
      "mk_tasks M (mk_key M (cbi_taskId input)) = Some t" "task_status t = OPEN" for input escrowId amount collateral t
  proof -
    have "A input M M' \<Longrightarrow> bid_placed A sv x body M M'" "new_bid input M M' \<Longrightarrow> bid_placed new_bid sv x body M M'" for M'
      unfolding bid_placed_def using that by blast+
    then show ?thesis
      by (intro hoare_weaken [OF bid_place_spec [OF assms that(3-5)]])
        (auto simp: answered_def elim!: market_in_mono split: if_splits)
  qed
  have amounts: "hoare (in_market M) (case parse_amounts input of
        Inl err \<Rightarrow> respond_detail 400 ''invalid amount/collateral'' err
      | Inr (amountStroops, collateralStroops) \<Rightarrow>
          bid_place sv input escrowId amountStroops collateralStroops) ?Q ?E"
    if "bid_request x (sv_local sv) body = Inr input" "cbi_executor input \<notin> set (sv_executorDenylist sv)"
      "mk_tasks M (mk_key M (cbi_taskId input)) = Some t" "task_status t = OPEN" for input escrowId t
    by (cases "parse_amounts input") (auto simp: error_detail_def intro!: refuse place that)
  have open_task: "hoare (in_market M)
      (tryE (authorizeExecutorPayment (sv_registry sv) (cbi_executor input))
        (\<lambda>_. tryE (ep_createEscrow (sv_escrow sv) (cbi_executor input) (cbi_taskId input)
                 (number_of (cbi_collateral input)))
             (\<lambda>escrowId. case parse_amounts input of
                Inl err \<Rightarrow> respond_detail 400 ''invalid amount/collateral'' err
              | Inr (amountStroops, collateralStroops) \<Rightarrow>
                  bid_place sv input escrowId amountStroops collateralStroops)
             (\<lambda>err. respond_detail 502 ''escrow creation failed'' err)) h) ?Q ?E"
    if "bid_request x (sv_local sv) body = Inr input" "cbi_executor input \<notin> set (sv_executorDenylist sv)"
      "mk_tasks M (mk_key M (cbi_taskId input)) = Some t" "task_status t = OPEN"
      "\<And>e. hoare (in_market M) (h e) ?Q ?E" for input t h
    by (rule hoare_try [OF keeps_hoare [OF authorize_keeps]
          hoare_try [OF keeps_hoare [OF create_keeps] amounts [OF that(1-4)]] that(5)])
      (auto simp: error_detail_def intro!: refuse)
  show ?thesis
  proof (cases "sv_pauseNewBids sv")
    case True
    then show ?thesis unfolding bid_create_def
      by (auto simp: paused_bids_def intro!: hoare_weaken [OF refuse])
  next
    case unpaused: False
    show ?thesis
    proof (cases "bid_request x (sv_local sv) body")
      case (Inl resp)
      then show ?thesis unfolding bid_create_def using unpaused bid_request_refusal [OF Inl]
        by (auto intro!: hoare_ext refuse)
    next
      case (Inr input)
      have err: "in_market M w \<Longrightarrow> market_in (\<lambda>M'. M' = M \<or> has_outbox sv \<and> bid_placed new_bid sv x body M M') w" for w
        by (simp add: in_market_in)
      have errors: "hoare (in_market M) (case e of
            ExecutorNotAllowedError m \<Rightarrow> respond 403 ''executor is not registered''
          | _ \<Rightarrow> respond_detail 500 ''executor authorization failed'' e) ?Q ?E" for e
        by (cases e) (auto intro!: refuse)
      show ?thesis unfolding bid_create_def using unpaused Inr
        by (auto intro!: hoare_ext refuse hoare_seq [OF find_task_at _ err] hoare_case_option hoare_assume)
          (rule open_task [OF Inr _ _ _ errors])
    qed
  qed
qed

subsection \<open>The other handlers\<close>

lemma task_select_evolves: "evolves lifecycle (task_select sv i)"
proof -
  have "evolves lifecycle (case p of (t, b) \<Rightarrow>
      bindE (emit_if (sv_outbox sv) ''task_assigned'' ''task'' (task_id t) (selection_json t b)) (\<lambda>_.
      ret (json_response 200 (selection_json t b))))" for p
    by (cases p) (auto intro!: keeps_evolves keeps_bind emit_if_keeps keeps_ret)
  then show ?thesis unfolding task_select_def
    by (intro life.evolves_catch life.evolves_bind selectWinner_evolves)
      (auto intro!: life.evolves_ret split: exn.split)
qed

lemma task_getById_keeps: "keeps (task_getById sv i)"
  unfolding task_getById_def by (intro keeps_bind find_task_keeps keeps_option keeps_ret)

lemma publish_result_keeps: "keeps (publish_result (sv_results sv) i payload)"
  unfolding publish_result_def
  by (intro keeps_bind keeps_gets upsert_keeps result_keeps keeps_option keeps_throw keeps_ret)

lemma result_get_keeps: "keeps (result_get sv i)"
  unfolding result_get_def
  by (intro keeps_bind find_task_keeps find_bids_keeps keeps_option keeps_if keeps_ret result_keeps)

lemma result_publish_keeps: "keeps (result_publish sv i body)"
  unfolding result_publish_def
  by (intro keeps_bind find_task_keeps find_bids_keeps keeps_option keeps_if keeps_ret publish_result_keeps
      emit_if_keeps)

lemma save_executor_keeps: "keeps (save_executor sv k uri)"
  unfolding save_executor_def Let_def by (intro keeps_bind keeps_now executor_keeps keeps_ret)

lemma executor_register_keeps: "keeps (executor_register sv body)"
  unfolding executor_register_def
  by (intro keeps_bind keeps_gets)
    (auto intro!: keeps_bind keeps_if keeps_ret keeps_try register_keeps registered_keeps save_executor_keeps
      keeps_option split: option.split)

subsection \<open>The timeout sweep\<close>

lemma stored_key: "in_market M w \<Longrightarrow> mk_tasks M k = Some t \<Longrightarrow> mk_key M k = k \<and> task_id t = k"
  using tnorm_stored [of w k t] tasks_keyed [of w k t] by (simp add: in_market_def)

lemma timeout_task_spec:
  assumes "mk_tasks M k = Some t" "task_id t = k" "mk_key M k = k" "k \<notin> set ids"
  shows "hoare (in_market (expire ids M)) (timeout_task sv t ids)
    (\<lambda>ids' w. in_market (expire ids' M) w \<and> (ids' = ids \<or> ids' = ids @ [k] \<and>
        (\<exists>b \<in> ran (mk_bids M). bid_taskId b = k \<and> bid_status b = SELECTED)))
    (\<lambda>_ w. in_market (expire ids M) w \<or> in_market (expire (ids @ [k]) M) w \<and>
        (\<exists>b \<in> ran (mk_bids M). bid_taskId b = k \<and> bid_status b = SELECTED))"
  (is "hoare ?P _ ?Q ?E")
proof -
  have stored: "mk_tasks (expire ids M) k = Some t" using assms(1,4) by (simp add: expire_tasks)
  have expire: "hoare ?P (bindE (tr_save (sv_tasks sv) (t\<lparr>task_status := EXPIRED\<rparr>)) (\<lambda>_.
      bindE (emit_if (sv_outbox sv) ''task_expired'' ''task'' i payload) (\<lambda>_. ret (ids @ [task_id t])))) ?Q ?E"
    if "\<exists>b \<in> ran (mk_bids M). bid_taskId b = k \<and> bid_status b = SELECTED" for i payload
    by (rule hoare_seq [OF save_status_at [OF stored]],
        rule hoare_seq [OF keeps_hoare [OF emit_if_keeps]])
      (use that assms(2,4) in \<open>auto simp: expire_snoc intro!: hoare_ret\<close>)
  have win: "hoare ?P (tryE (ep_confiscate (sv_escrow sv) e amount None)
       (\<lambda>result. bindE (tr_save (sv_tasks sv) (t\<lparr>task_status := EXPIRED\<rparr>)) (\<lambda>_.
          bindE (emit_if (sv_outbox sv) ''task_expired'' ''task'' i payload) (\<lambda>_. ret (ids @ [task_id t]))))
       (\<lambda>err. ret ids)) ?Q ?E"
    if "\<exists>b \<in> ran (mk_bids M). bid_taskId b = k \<and> bid_status b = SELECTED" for e amount i payload
    by (rule hoare_try [OF keeps_hoare [OF confiscate_keeps] expire [OF that]]) (simp add: hoare_ret)
  show ?thesis unfolding timeout_task_def Let_def
  proof (rule hoare_seq [OF find_bids_at])
    fix bids
    let ?R = "\<lambda>w. in_market (expire ids M) w \<and>
      set bids = {b \<in> ran (mk_bids (expire ids M)). bid_taskId b = mk_key (expire ids M) (task_id t)} \<and>
      distinct (map bid_id bids)"
    show "hoare ?R (case selected_bid bids of None \<Rightarrow> ret ids
      | Some winningBid \<Rightarrow> tryE (ep_confiscate (sv_escrow sv) (bid_escrowId winningBid)
          (number_of (formatUsdcStroopsToDecimal (bid_collateralStroops winningBid))) None)
        (\<lambda>result. bindE (tr_save (sv_tasks sv) (t\<lparr>task_status := EXPIRED\<rparr>)) (\<lambda>_.
          bindE (emit_if (sv_outbox sv) ''task_expired'' ''task'' (task_id (t\<lparr>task_status := EXPIRED\<rparr>))
            (JObj [(''taskId'', JStr (task_id (t\<lparr>task_status := EXPIRED\<rparr>)))])) (\<lambda>_. ret (ids @ [task_id t]))))
        (\<lambda>err. ret ids)) ?Q ?E"
    proof (cases "selected_bid bids")
      case None
      then show ?thesis by (auto intro!: hoare_ret)
    next
      case (Some b)
      have b: "b \<in> set bids" "bid_status b = SELECTED" using selected_bid_in [OF Some] by simp_all
      have "\<exists>b \<in> ran (mk_bids M). bid_taskId b = k \<and> bid_status b = SELECTED" if "?R w" for w
        using that b assms(2,3) by auto
      moreover have "?R w \<Longrightarrow> ?P w" for w by simp
      ultimately show ?thesis unfolding Some option.case
        by (intro hoare_fact [where P = ?R, OF _ hoare_weaken [OF win]])
    qed
  qed simp
qed

text \<open>Every task of the list is stored, past its deadline and not among \<open>ids\<close> yet.\<close>

definition pending_sweep :: "(string \<Rightarrow> int option) \<Rightarrow> int \<Rightarrow> market \<Rightarrow> task list \<Rightarrow> string list \<Rightarrow> bool" where
  "pending_sweep d now M ts ids \<longleftrightarrow> distinct (map task_id ts) \<and> task_id ` set ts \<inter> set ids = {} \<and>
     (\<forall>t \<in> set ts. mk_tasks M (task_id t) = Some t \<and> mk_key M (task_id t) = task_id t \<and> overdue d now t)"

definition swept :: "(string \<Rightarrow> int option) \<Rightarrow> int \<Rightarrow> market \<Rightarrow> string list \<Rightarrow> 'a env_scheme \<Rightarrow> bool" where
  "swept d now M ids w \<longleftrightarrow> in_market (expire ids M) w \<and> (\<forall>k \<in> set ids. may_expire d now M k)"

lemma timeout_sweep_spec:
  assumes "pending_sweep d now M ts ids" "\<forall>k \<in> set ids. may_expire d now M k"
  shows "hoare (in_market (expire ids M)) (foldE ts ids (timeout_task sv))
    (\<lambda>ids' w. swept d now M ids' w) (\<lambda>_ w. \<exists>ids'. swept d now M ids' w)"
  using assms
proof (induction ts arbitrary: ids)
  case Nil
  then show ?case by (simp add: hoare_ret swept_def)
next
  case (Cons t ts)
  have t: "mk_tasks M (task_id t) = Some t" "mk_key M (task_id t) = task_id t" "overdue d now t" "task_id t \<notin> set ids"
    and ts: "pending_sweep d now M ts ids" "pending_sweep d now M ts (ids @ [task_id t])"
    using Cons.prems(1) by (auto simp: pending_sweep_def)
  have grown: "\<forall>k \<in> set (ids @ [task_id t]). may_expire d now M k"
    if "\<exists>b \<in> ran (mk_bids M). bid_taskId b = task_id t \<and> bid_status b = SELECTED"
    using that t(1,3) Cons.prems(2) by (auto simp: may_expire_def)
  note step = timeout_task_spec [OF t(1) refl t(2,4)]
  show ?case unfolding foldE.simps
  proof (rule hoare_seq [OF step])
    fix ids'
    let ?sel = "\<exists>b \<in> ran (mk_bids M). bid_taskId b = task_id t \<and> bid_status b = SELECTED"
    let ?R = "\<lambda>w. in_market (expire ids' M) w \<and> (ids' = ids \<or> ids' = ids @ [task_id t] \<and> ?sel)"
    show "hoare ?R (foldE ts ids' (timeout_task sv))
        (\<lambda>ids' w. swept d now M ids' w) (\<lambda>_ w. \<exists>ids'. swept d now M ids' w)"
    proof (rule hoare_fact [where P = ?R])
      assume "ids' = ids \<or> ids' = ids @ [task_id t] \<and> ?sel"
      then consider (same) "ids' = ids" | (more) "ids' = ids @ [task_id t]" ?sel by blast
      then have "pending_sweep d now M ts ids' \<and> (\<forall>k \<in> set ids'. may_expire d now M k)"
      proof cases
        case same
        then show ?thesis using ts(1) Cons.prems(2) by simp
      next
        case more
        then show ?thesis using ts(2) grown by blast
      qed
      then have "pending_sweep d now M ts ids'" "\<forall>k \<in> set ids'. may_expire d now M k" by simp_all
      from Cons.IH [OF this] show "hoare ?R (foldE ts ids' (timeout_task sv))
          (\<lambda>ids' w. swept d now M ids' w) (\<lambda>_ w. \<exists>ids'. swept d now M ids' w)"
        by (rule hoare_weaken) simp_all
    qed simp
  next
    fix e w
    assume "in_market (expire ids M) w \<or> in_market (expire (ids @ [task_id t]) M) w \<and>
      (\<exists>b \<in> ran (mk_bids M). bid_taskId b = task_id t \<and> bid_status b = SELECTED)"
    then show "\<exists>ids'. swept d now M ids' w"
    proof
      assume "in_market (expire ids M) w"
      then have "swept d now M ids w" using Cons.prems(2) by (simp add: swept_def)
      then show ?thesis by blast
    next
      assume "in_market (expire (ids @ [task_id t]) M) w \<and>
        (\<exists>b \<in> ran (mk_bids M). bid_taskId b = task_id t \<and> bid_status b = SELECTED)"
      then have "swept d now M (ids @ [task_id t]) w" using grown by (simp add: swept_def)
      then show ?thesis by blast
    qed
  qed
qed

lemma now_at:
  "hoare (\<lambda>w. in_market M w \<and> w_ext w = x \<and> w_now w (w_reads w) = now) date_now
     (\<lambda>r w. r = now \<and> in_market M w \<and> w_ext w = x) E"
  using keeps_run [OF keeps_now] by (auto simp: hoare_def in_market_def date_now_def)

lemma list_tasks_ext:
  "hoare (\<lambda>w. in_market M w \<and> w_ext w = x) (tr_list (sv_tasks sv))
     (\<lambda>xs w. (in_market M w \<and> w_ext w = x) \<and> set xs = ran (mk_tasks M) \<and> distinct (map task_id xs)) (\<lambda>_. in_market M)"
proof (rule hoareI)
  fix w xs w' assume w: "in_market M w \<and> w_ext w = x" and run: "tr_list (sv_tasks sv) w = (Inr xs, w')"
  then have "env.truncate w' = env.truncate w" using t_list [of w "Inr xs" w'] by (simp add: in_market_def)
  then have "w_ext w' = x" using arg_cong [of _ _ w_ext] w by (fastforce simp: env.truncate_def)
  then show "(in_market M w' \<and> w_ext w' = x) \<and> set xs = ran (mk_tasks M) \<and> distinct (map task_id xs)"
    using hoareD_Inr [OF list_tasks_at [of M] _ run] w by simp
qed (use hoareD_Inl [OF list_tasks_at] in auto)

text \<open>The tasks of a list of what is stored, those past their deadline kept.\<close>

lemma pending_sweep_list:
  assumes "in_market M w" "set ts = ran (mk_tasks M)" "distinct (map task_id ts)"
  shows "pending_sweep d now M (filter (overdue d now) ts) []"
proof -
  have "mk_tasks M (task_id t) = Some t \<and> mk_key M (task_id t) = task_id t" if mem: "t \<in> set ts" for t
  proof -
    obtain k where "mk_tasks M k = Some t" using mem assms(2) by (auto simp: ran_def)
    with stored_key [OF assms(1)] show ?thesis by simp
  qed
  then show ?thesis using assms(3) by (simp add: pending_sweep_def distinct_map_filter)
qed

lemma timeout_runOnce_spec:
  "hoare (\<lambda>w. in_market M w \<and> w_ext w = x \<and> w_now w (w_reads w) = now) (timeout_runOnce sv)
    (\<lambda>ids. swept (x_date_parse x) now M ids) (\<lambda>_ w. \<exists>ids. swept (x_date_parse x) now M ids w)"
proof -
  let ?d = "x_date_parse x"
  have stay: "\<exists>ids. swept ?d now M ids w" if "in_market M w" for w
    using that by (intro exI [of _ "[]"]) (simp add: swept_def)
  have sweep: "hoare (\<lambda>w. in_market M w \<and> set ts = ran (mk_tasks M) \<and> distinct (map task_id ts))
      (foldE (filter (overdue ?d now) ts) [] (timeout_task sv))
      (\<lambda>ids. swept ?d now M ids) (\<lambda>_ w. \<exists>ids. swept ?d now M ids w)" (is "hoare ?P ?m ?Q ?E") for ts
  proof (rule hoare_fact)
    show "pending_sweep ?d now M (filter (overdue ?d now) ts) []" if "?P w" for w
      using that by (blast intro: pending_sweep_list)
    assume "pending_sweep ?d now M (filter (overdue ?d now) ts) []"
    from timeout_sweep_spec [OF this] have "hoare (in_market M) ?m ?Q ?E" by simp
    then show "hoare ?P ?m ?Q ?E" by (rule hoare_weaken) simp_all
  qed
  have listed: "hoare (\<lambda>w. (in_market M w \<and> w_ext w = x) \<and> set ts = ran (mk_tasks M) \<and> distinct (map task_id ts))
      (bindE (getsE (\<lambda>w. x_date_parse (w_ext w)))
        (\<lambda>date_parse. foldE (filter (overdue date_parse now) ts) [] (timeout_task sv)))
      (\<lambda>ids. swept ?d now M ids) (\<lambda>_ w. \<exists>ids. swept ?d now M ids w)" for ts
    by (rule hoare_gets_known [where y = ?d], rule hoare_weaken [OF sweep]) simp_all
  show ?thesis unfolding timeout_runOnce_def
  proof (rule hoare_seq [OF now_at])
    fix r
    show "hoare (\<lambda>w. r = now \<and> in_market M w \<and> w_ext w = x)
      (bindE (tr_list (sv_tasks sv)) (\<lambda>ts. bindE (getsE (\<lambda>w. x_date_parse (w_ext w))) (\<lambda>date_parse.
        foldE (filter (overdue date_parse r) ts) [] (timeout_task sv))))
      (\<lambda>ids. swept ?d now M ids) (\<lambda>_ w. \<exists>ids. swept ?d now M ids w)"
    proof (rule hoare_fact [where \<phi> = "r = now"])
      assume "r = now"
      then show "hoare (\<lambda>w. r = now \<and> in_market M w \<and> w_ext w = x)
        (bindE (tr_list (sv_tasks sv)) (\<lambda>ts. bindE (getsE (\<lambda>w. x_date_parse (w_ext w))) (\<lambda>date_parse.
          foldE (filter (overdue date_parse r) ts) [] (timeout_task sv))))
        (\<lambda>ids. swept ?d now M ids) (\<lambda>_ w. \<exists>ids. swept ?d now M ids w)"
        by (simp, intro hoare_seq [OF list_tasks_ext listed stay])
    qed simp
  qed (rule stay)
qed

subsection \<open>Along the lifecycle\<close>

lemma later_of_spec:
  assumes "\<And>x. hoare (\<lambda>w. in_market M w \<and> g w = x) m (\<lambda>r. market_in (\<Phi> x r)) (\<lambda>e. market_in (\<Psi> x e))"
    and "\<And>x r M'. \<Phi> x r M' \<Longrightarrow> market_le M M'" "\<And>x e M'. \<Psi> x e M' \<Longrightarrow> market_le M M'"
  shows "hoare (in_market M) m (\<lambda>_. later M) (\<lambda>_. later M)"
proof (rule hoareI)
  fix w r w' assume "in_market M w" "m w = (Inr r, w')"
  then have "market_in (\<Phi> (g w) r) w'" using hoareD_Inr [OF assms(1) [of "g w"], of w r w'] by simp
  then show "later M w'" using assms(2) by (auto simp: market_in_def later_def)
next
  fix w e w' assume "in_market M w" "m w = (Inl e, w')"
  then have "market_in (\<Psi> (g w) e) w'" using hoareD_Inl [OF assms(1) [of "g w"], of w e w'] by simp
  then show "later M w'" using assms(3) by (auto simp: market_in_def later_def)
qed

lemma answered_le:
  "answered st \<Phi> M resp M' \<Longrightarrow> (\<And>M'. \<Phi> M M' \<Longrightarrow> market_le M M') \<Longrightarrow> market_le M M'"
  by (auto simp: answered_def split: if_splits)

lemma local_task_le: "local_task x body M M' \<Longrightarrow> market_le M M'"
  by (auto simp: local_task_def dest: new_task_le)

lemma paid_task_le: "paid_task x body M M' \<Longrightarrow> market_le M M'"
  by (auto simp: paid_task_def dest: new_task_le)

lemma bid_placed_le:
  "bid_placed placed sv x body M M' \<Longrightarrow> market_le M M'" "bid_placed new_bid sv x body M M' \<Longrightarrow> market_le M M'"
  by (auto simp: bid_placed_def dest: placed_le new_bid_le)

lemma task_create_evolves: "evolves lifecycle (task_create sv body)"
  by (rule later_evolves, rule later_of_spec [OF task_create_spec])
    (auto dest: local_task_le answered_le [OF _ local_task_le])

lemma task_createPaid_evolves: "evolves lifecycle (task_createPaid sv body)"
  by (rule later_evolves, rule later_of_spec [OF task_createPaid_spec])
    (auto dest: paid_task_le answered_le [OF _ paid_task_le])

lemma bid_create_evolves: "evolves lifecycle (bid_create sv body)"
  by (rule later_evolves, rule later_of_spec [OF bid_create_spec [OF auction_makes_placed]])
    (auto dest: bid_placed_le answered_le [OF _ bid_placed_le(1)])

lemma complete_outcome_le: "complete_outcome sv x k body M M' \<Longrightarrow> market_le M M'"
  using set_status_step [THEN status_step_le]
  by (auto simp: complete_outcome_def may_complete_def split: if_splits)

lemma task_complete_evolves: "evolves lifecycle (task_complete sv i body)"
proof (rule later_evolves, rule later_of_spec [where g = w_ext])
  show "hoare (\<lambda>w. in_market M w \<and> w_ext w = x) (task_complete sv i body)
      (\<lambda>_. market_in (complete_outcome sv x (mk_key M i) body M))
      (\<lambda>_. market_in (complete_outcome sv x (mk_key M i) body M))" for M x
    by (rule hoare_weaken [OF complete_spec [where x = x]]) (auto simp: in_market_in)
qed (auto dest: complete_outcome_le)

lemma timeout_runOnce_evolves: "evolves lifecycle (timeout_runOnce sv)"
proof (rule later_evolves, rule later_of_spec [where g = "\<lambda>w. (w_ext w, w_now w (w_reads w))"])
  let ?S = "\<lambda>M x M'. \<exists>ids. M' = expire ids M \<and> (\<forall>k \<in> set ids. may_expire (x_date_parse (fst x)) (snd x) M k)"
  show "hoare (\<lambda>w. in_market M w \<and> (w_ext w, w_now w (w_reads w)) = x) (timeout_runOnce sv)
      (\<lambda>_. market_in (?S M x)) (\<lambda>_. market_in (?S M x))" for M x
    by (rule hoare_weaken [OF timeout_runOnce_spec [where x = "fst x" and now = "snd x"]])
      (auto simp: swept_def intro: in_market_in)
qed (auto dest: expire_le)

lemma timeout_check_evolves: "evolves lifecycle (timeout_check sv)"
  unfolding timeout_check_def by (intro life.evolves_try timeout_runOnce_evolves life.evolves_ret)

end

end
