(* ===== verification/Servers.thy ===== *)
theory Servers
  imports Contracts
begin

text \<open>
  The servers \<open>createApp\<close> builds: with the in-memory repositories and no outbox, or with the
  PostgreSQL repositories and the outbox; with the mocks, or with the real Registry, USDC and
  Trustless Work services. Both meet the contract of \<open>Contracts\<close>, whose lemmas become
  the properties of the two servers here.
\<close>

section \<open>Wiring\<close>

text \<open>
  What \<open>createApp\<close> reads from the environment for the controllers. \<open>ac_escrow\<close> is \<open>None\<close> when the
  externals are mocked. \<open>ac_envLocal\<close> is \<open>process.env.NETWORK === 'local'\<close>, the controllers' test.
\<close>

record app_config =
  ac_envLocal :: bool
  ac_escrow :: "escrow_config option"
  ac_usdcContract :: string
  ac_wallet :: string
  ac_pauseNewTasks :: bool
  ac_pauseNewBids :: bool
  ac_executorDenylist :: "string list"

definition app_escrow :: "app_config \<Rightarrow> 'a env_scheme escrow_provider" where
  "app_escrow c = (case ac_escrow c of None \<Rightarrow> mock_escrow | Some e \<Rightarrow> trustless_work_escrow e False)"

definition app_registry :: "app_config \<Rightarrow> 'a env_scheme registry_service" where
  "app_registry c = (case ac_escrow c of None \<Rightarrow> mock_registry | Some e \<Rightarrow> chain_registry)"

definition app_charge :: "app_config \<Rightarrow> 'a env_scheme charge_service" where
  "app_charge c =
     (case ac_escrow c of None \<Rightarrow> mock_charge | Some e \<Rightarrow> chargeListingFee (ac_usdcContract c) (ac_wallet c))"

definition mem_server :: "app_config \<Rightarrow> mem_world server" where
  "mem_server c =
     \<lparr> sv_local = ac_envLocal c, sv_pauseNewTasks = ac_pauseNewTasks c, sv_pauseNewBids = ac_pauseNewBids c,
       sv_executorDenylist = ac_executorDenylist c, sv_tasks = mem_task_repo, sv_bids = mem_bid_repo,
       sv_results = mem_result_repo, sv_executors = mem_executor_repo, sv_escrow = app_escrow c,
       sv_registry = app_registry c, sv_charge = app_charge c, sv_outbox = None \<rparr>"

definition pg_server :: "app_config \<Rightarrow> 'a pg_world_scheme server" where
  "pg_server c =
     \<lparr> sv_local = ac_envLocal c, sv_pauseNewTasks = ac_pauseNewTasks c, sv_pauseNewBids = ac_pauseNewBids c,
       sv_executorDenylist = ac_executorDenylist c, sv_tasks = pg_task_repo, sv_bids = pg_bid_repo,
       sv_results = pg_result_repo, sv_executors = pg_executor_repo, sv_escrow = app_escrow c,
       sv_registry = app_registry c, sv_charge = app_charge c, sv_outbox = Some pg_emit \<rparr>"

lemma mem_server_sel [simp]:
  "sv_local (mem_server c) = ac_envLocal c" "sv_executorDenylist (mem_server c) = ac_executorDenylist c"
  "sv_tasks (mem_server c) = mem_task_repo" "sv_bids (mem_server c) = mem_bid_repo"
  "sv_results (mem_server c) = mem_result_repo" "sv_executors (mem_server c) = mem_executor_repo"
  "sv_escrow (mem_server c) = app_escrow c" "sv_registry (mem_server c) = app_registry c"
  "sv_charge (mem_server c) = app_charge c" "sv_outbox (mem_server c) = None"
  "sv_pauseNewTasks (mem_server c) = ac_pauseNewTasks c" "sv_pauseNewBids (mem_server c) = ac_pauseNewBids c"
  by (simp_all add: mem_server_def)

lemma pg_server_sel [simp]:
  "sv_local (pg_server c) = ac_envLocal c" "sv_executorDenylist (pg_server c) = ac_executorDenylist c"
  "sv_tasks (pg_server c) = pg_task_repo" "sv_bids (pg_server c) = pg_bid_repo"
  "sv_results (pg_server c) = pg_result_repo" "sv_executors (pg_server c) = pg_executor_repo"
  "sv_escrow (pg_server c) = app_escrow c" "sv_registry (pg_server c) = app_registry c"
  "sv_charge (pg_server c) = app_charge c" "sv_outbox (pg_server c) = Some pg_emit"
  "sv_pauseNewTasks (pg_server c) = ac_pauseNewTasks c" "sv_pauseNewBids (pg_server c) = ac_pauseNewBids c"
  by (simp_all add: pg_server_def)

section \<open>The services leave the stores alone\<close>

lemma env_only_getClient [env_only_rules]: "env_only (getClient injected)"
proof -
  have "env_only (\<lambda>w. case call_ext TwLoad (\<lambda>x. x_tw_load x) w of
      (settled, w') \<Rightarrow> (settled, w'\<lparr>w_tw_client := Some settled\<rparr>))"
    by (simp add: env_only_def evolves_def call_ext_def env_step_def)
  then show ?thesis unfolding getClient_def
    by (intro env_only_if env_only_ret env_only_bind env_only_gets) (auto intro: env_only_lift split: option.split)
qed

lemma app_escrow_env_only:
  "env_only (ep_createEscrow (app_escrow c) executor taskId amount)"
  "env_only (ep_releaseMilestone (app_escrow c) escrowId)"
  "env_only (ep_confiscate (app_escrow c) escrowId amount pct)"
  by (auto simp: app_escrow_def mock_escrow_def trustless_work_escrow_def tw_createEscrow_def
      tw_releaseMilestone_def tw_confiscate_def Let_def
      intro!: env_only_rules split: option.split prod.split)

lemma app_registry_env_only:
  "env_only (rg_registerExecutor (app_registry c) k uri)" "env_only (rg_isRegistered (app_registry c) k)"
  by (auto simp: app_registry_def mock_registry_def chain_registry_def registry_registerExecutor_def
      registry_isRegistered_def default_retry_def intro!: env_only_rules split: option.split)

lemma app_charge_env_only: "env_only (app_charge c k price)"
  by (auto simp: app_charge_def mock_charge_def chargeListingFee_def charge_attempt_def Let_def default_retry_def
      intro!: env_only_rules split: option.split)

section \<open>The contracts\<close>

lemma mem_modify_keeps:
  assumes "\<And>w. mem_market (f w) = mem_market w" "\<And>w. mem_inv (f w) = mem_inv w"
    "\<And>w. env.truncate (f w) = env.truncate w"
  shows "mem.keeps (modifyE f)"
proof (rule mem.keeps_query)
  fix w r w' assume "mem_inv w" "modifyE f w = (r, w')"
  then show "mem_inv w' \<and> mem_market w' = mem_market w \<and> env.truncate w' = env.truncate w"
    using assms [of w] by (auto simp: modifyE_apply)
qed

lemma mem_repos_keep:
  "mem.keeps (mem_result_upsert i payload hash)" "mem.keeps (mem_result_findByTaskId i)" "mem.keeps (mem_executor_save e)"
  by (auto intro!: mem.keeps_bind mem.keeps_now mem.keeps_gets mem_modify_keeps
      simp: mem_result_upsert_def mem_result_findByTaskId_def mem_executor_save_def mem_inv_def mem_market_def)

text \<open>A query that leaves the tables of tasks and bids alone.\<close>

definition side_stmt :: "('a pg_world_scheme, 'b) stmt \<Rightarrow> bool" where
  "side_stmt stmt \<longleftrightarrow> (\<forall>w x w'. stmt w = Inr (x, w') \<longrightarrow>
     pg_tasks w' = pg_tasks w \<and> pg_bids w' = pg_bids w \<and> pg_uuid w' = pg_uuid w \<and> pg_time w' = pg_time w \<and>
     env.truncate w' = env.truncate w)"

lemma pg_side_keeps:
  assumes "side_stmt stmt"
  shows "pg.keeps (pg_query stmt)"
proof (rule pg.keeps_query)
  fix w r w' assume "pg_inv w" "pg_query stmt w = (r, w')"
  then show "pg_inv w' \<and> pg_market w' = pg_market w \<and> env.truncate w' = env.truncate w"
    using assms by (auto elim!: pg_query_cases simp: side_stmt_def pg_inv_def pg_market_def pg_key_def fun_eq_iff)
qed

lemma side_select: "side_stmt (\<lambda>w. case f w of Inl e \<Rightarrow> Inl e | Inr x \<Rightarrow> Inr (x, w))"
  by (auto simp: side_stmt_def split: sum.splits)

lemma pg_select_keeps: "pg.keeps (pg_select f)"
  unfolding pg_select_def by (rule pg_side_keeps [OF side_select])

lemma pg_repos_keep:
  "pg.keeps (pg_result_upsert i payload hash)" "pg.keeps (pg_result_findByTaskId i)" "pg.keeps (pg_executor_save e)"
  "pg.keeps (pg_emit ty aggType aggId j)"
  by (auto intro!: pg_side_keeps pg_select_keeps pg.keeps_bind pg.keeps_uuid
      simp: pg_result_upsert_def pg_result_findByTaskId_def pg_executor_save_def pg_emit_def pg_outbox_insert_def
        side_stmt_def split: if_splits)

interpretation mem_sv: server_store mem_market mem_inv "mem_server c" "\<lambda>w t. t" "\<lambda>w b. b" for c
proof (intro server_store.intro)
  show "market_store mem_market mem_inv (sv_tasks (mem_server c)) (\<lambda>w t. t) (sv_bids (mem_server c)) (\<lambda>w b. b)"
    by (simp add: mem.market_store_axioms)
  show "server_store_axioms mem_market mem_inv (mem_server c)"
    by unfold_locales
      (auto intro: mem.env_only_keeps app_escrow_env_only app_registry_env_only app_charge_env_only mem_repos_keep)
qed

interpretation pg_sv: server_store pg_market pg_inv "pg_server c" pg_tnorm pg_bnorm for c
proof (intro server_store.intro)
  show "market_store pg_market pg_inv (sv_tasks (pg_server c)) pg_tnorm (sv_bids (pg_server c)) pg_bnorm"
    by (simp add: pg.market_store_axioms)
  show "server_store_axioms pg_market pg_inv (pg_server c)"
    by unfold_locales
      (auto intro: pg.env_only_keeps app_escrow_env_only app_registry_env_only app_charge_env_only pg_repos_keep)
qed

end
