(* ===== verification/Lifecycle.thy ===== *)
theory Lifecycle
  imports Servers
begin

text \<open>
  Requests as steps: the worlds a server reaches by answering requests one after the other,
  the lifecycle of tasks and bids along them, and the invariant of the in-memory server, on
  which the first bid of a task wins it at once.
\<close>

section \<open>Requests\<close>

datatype request =
    CreateTask "json option"
  | CreatePaidTask "json option"
  | GetTask string
  | SelectWinner string
  | CompleteTask string "json option"
  | PlaceBid "json option"
  | RegisterExecutor "json option"
  | PublishResult string "json option"
  | GetResult string
  | TimeoutCheck

fun controller :: "'a env_scheme server \<Rightarrow> request \<Rightarrow> ('a env_scheme, response) prog" where
  "controller sv (CreateTask body) = task_create sv body"
| "controller sv (CreatePaidTask body) = task_createPaid sv body"
| "controller sv (GetTask i) = task_getById sv i"
| "controller sv (SelectWinner i) = task_select sv i"
| "controller sv (CompleteTask i body) = task_complete sv i body"
| "controller sv (PlaceBid body) = bid_create sv body"
| "controller sv (RegisterExecutor body) = executor_register sv body"
| "controller sv (PublishResult i body) = result_publish sv i body"
| "controller sv (GetResult i) = result_get sv i"
| "controller sv TimeoutCheck = timeout_check sv"

definition serve :: "'a env_scheme server \<Rightarrow> request \<Rightarrow> ('a env_scheme, response) prog" where
  "serve sv rq = handled (controller sv rq)"

inductive serves :: "'a env_scheme server \<Rightarrow> 'a env_scheme \<Rightarrow> 'a env_scheme \<Rightarrow> bool" for sv where
  idle: "serves sv w w"
| answers: "serves sv w w1 \<Longrightarrow> serve sv rq w1 = (r, w2) \<Longrightarrow> serves sv w w2"

inductive_cases serves_cases: "serves sv w w'"

lemma serves_trans: "serves sv w2 w3 \<Longrightarrow> serves sv w1 w2 \<Longrightarrow> serves sv w1 w3"
  by (induction rule: serves.induct) (auto intro: serves.answers)

lemma serve_answers: "\<exists>resp. serve sv rq w = (Inr resp, snd (controller sv rq w))"
  by (auto simp: serve_def handled_def catchE_apply ret_apply split: prod.splits sum.splits)

lemma serve_world: "serve sv rq w = (r, w') \<Longrightarrow> w' = snd (controller sv rq w)"
  using serve_answers [of sv rq w] by auto

section \<open>Along the lifecycle\<close>

context server_store
begin

lemma controller_evolves: "evolves lifecycle (controller sv rq)"
  by (cases rq)
    (simp_all add: task_create_evolves task_createPaid_evolves task_select_evolves task_complete_evolves
      bid_create_evolves timeout_check_evolves keeps_evolves task_getById_keeps executor_register_keeps
      result_publish_keeps result_get_keeps)

lemma serve_lifecycle: "serve sv rq w = (r, w') \<Longrightarrow> lifecycle w w'"
  using controller_evolves [of rq] by (auto simp: evolves_def dest: serve_world)

lemma serves_lifecycle: "serves sv w w' \<Longrightarrow> lifecycle w w'"
  by (induction rule: serves.induct) (auto intro: lifecycle_refl lifecycle_trans serve_lifecycle)

lemma serves_market:
  assumes "serves sv w w'" "inv w" "fresh w"
  shows "inv w' \<and> fresh w' \<and> market_le (abs w) (abs w')"
  using serves_lifecycle [OF assms(1)] assms(2,3) by (simp add: lifecycle_def)

end

section \<open>The in-memory server\<close>

text \<open>What its auction makes of the market with a new bid: it returns, with the best bid selected.\<close>

definition auctioned :: "create_bid_input \<Rightarrow> market \<Rightarrow> market \<Rightarrow> bool" where
  "auctioned input M M' \<longleftrightarrow> (\<exists>M1 b. new_bid input M M1 \<and>
     best_bid (pending_bids M1 (mk_key M (cbi_taskId input))) b \<and>
     M' = settle (mk_key M (cbi_taskId input)) b M1)"

lemma new_bid_pending:
  assumes "new_bid input M M1"
  obtains t b where "mk_tasks M1 (mk_key M (cbi_taskId input)) = Some t" "task_status t = OPEN"
    "b \<in> pending_bids M1 (mk_key M (cbi_taskId input))" "mk_key M1 = mk_key M"
  using assms by (fastforce simp: new_bid_def add_bid_def pending_bids_def ran_def)

lemma mem_market_sel [simp]:
  "mk_key (mem_market w) = (\<lambda>i. i)" "mk_tasks (mem_market w) = jsmap_get (m_tasks w)"
  "mk_bids (mem_market w) = jsmap_get (m_bids w)"
  by (simp_all add: mem_market_def)

lemma pending_bids_mem:
  "mem_inv w \<Longrightarrow> pending_bids (mem_market w) i = set (filter (\<lambda>b. bid_status b = PENDING) (bids_of_task w i))"
  by (auto simp: pending_bids_def bids_of_task_def mem_inv_def jsmap_values_ran)

lemma mem_auction_makes: "mem_sv.auction_makes c auctioned"
  unfolding mem_sv.auction_makes_def
proof (intro allI hoareI)
  have main: "mem.market_in (auctioned input M) w'"
    if w: "mem.market_in (new_bid input M) w"
      and run: "selectWinner (sv_tasks (mem_server c)) (sv_bids (mem_server c)) (cbi_taskId input) w = (r, w')"
    for input M w r w'
  proof -
    have inv: "mem_inv w" "mem.fresh w" "new_bid input M (mem_market w)" using w by (simp_all add: mem.market_in_def)
    obtain t b where t: "mk_tasks (mem_market w) (mk_key M (cbi_taskId input)) = Some t" "task_status t = OPEN"
      "b \<in> pending_bids (mem_market w) (mk_key M (cbi_taskId input))" "mk_key (mem_market w) = mk_key M"
      using new_bid_pending [OF inv(3)] .
    then have key: "mk_key M (cbi_taskId input) = cbi_taskId input" by (metis mem_market_sel(1))
    then have "filter (\<lambda>b. bid_status b = PENDING) (bids_of_task w (cbi_taskId input)) \<noteq> []"
      using t(3) by (auto simp: pending_bids_mem [OF inv(1)] filter_empty_conv)
    then obtain x where "r = Inr x"
      using mem_select_returns [of w "cbi_taskId input" t] t(1,2) key run by auto
    then show ?thesis
      using mem.selectWinner_run [OF inv(1), of "cbi_taskId input" r w'] run inv key
        mem.fresh_status_step [OF inv(2), of w']
      by (cases x) (auto simp: mem.market_in_def auctioned_def)
  qed
  show "mem.market_in (auctioned input M) w'"
    if "mem.market_in (new_bid input M) w"
      "selectWinner (sv_tasks (mem_server c)) (sv_bids (mem_server c)) (cbi_taskId input) w = (Inr x, w')"
    for input M w x w' using main [OF that] .
  show "mem.market_in (auctioned input M) w'"
    if "mem.market_in (new_bid input M) w"
      "selectWinner (sv_tasks (mem_server c)) (sv_bids (mem_server c)) (cbi_taskId input) w = (Inl e, w')"
    for input M w e w' using main [OF that] .
qed

text \<open>
  Its invariant: every bid is the selected bid of its task, no task has two, and the tasks that
  have none are the \<open>OPEN\<close> ones.
\<close>

definition taken :: "market \<Rightarrow> string \<Rightarrow> bool" where
  "taken M i \<longleftrightarrow> (case mk_tasks M i of None \<Rightarrow> False | Some t \<Rightarrow> task_status t \<noteq> OPEN)"

definition first_come :: "market \<Rightarrow> bool" where
  "first_come M \<longleftrightarrow>
     (\<forall>k b. mk_bids M k = Some b \<longrightarrow> bid_status b = SELECTED \<and> taken M (bid_taskId b)) \<and>
     (\<forall>k k' b b'. mk_bids M k = Some b \<longrightarrow> mk_bids M k' = Some b' \<longrightarrow> bid_taskId b = bid_taskId b' \<longrightarrow> k = k') \<and>
     (\<forall>i. taken M i \<longrightarrow> (\<exists>k b. mk_bids M k = Some b \<and> bid_taskId b = i))"

lemma first_comeD:
  assumes "first_come M" "mk_bids M k = Some b"
  shows "bid_status b = SELECTED" "taken M (bid_taskId b)"
    "mk_bids M k' = Some b' \<Longrightarrow> bid_taskId b = bid_taskId b' \<Longrightarrow> k = k'"
  using assms unfolding first_come_def by blast+

lemma first_come_no_pending: "first_come M \<Longrightarrow> pending_bids M i = {}"
  by (auto simp: pending_bids_def ran_def dest: first_comeD(1))

lemma first_come_cong:
  "mk_bids M' = mk_bids M \<Longrightarrow> (\<And>i. taken M' i = taken M i) \<Longrightarrow> first_come M \<Longrightarrow> first_come M'"
  by (simp add: first_come_def)

lemma first_come_status:
  assumes "first_come M" "taken M k" "s \<noteq> OPEN"
  shows "first_come (set_status k s M)"
  by (rule first_come_cong [OF _ _ assms(1)]) (use assms(2,3) in \<open>auto simp: set_status_def taken_def split: option.splits\<close>)

lemma first_come_expire:
  assumes "first_come M" "\<forall>k \<in> set ids. taken M k"
  shows "first_come (expire ids M)"
  by (rule first_come_cong [OF _ _ assms(1)])
    (use assms(2) in \<open>auto simp: expire_tasks taken_def split: option.splits\<close>)

lemma first_come_new_task:
  assumes "first_come M" "new_task input M M'"
  shows "first_come M'"
  by (rule first_come_cong [OF _ _ assms(1)])
    (use assms(2) in \<open>auto simp: new_task_def add_task_def taken_def split: option.splits if_splits\<close>)

text \<open>The bid that is placed on an \<open>OPEN\<close> task wins it.\<close>

definition wins :: "create_bid_input \<Rightarrow> market \<Rightarrow> market \<Rightarrow> bool" where
  "wins input M M' \<longleftrightarrow> (\<exists>i k b t. i = mk_key M (cbi_taskId input) \<and>
     mk_tasks M i = Some t \<and> task_status t = OPEN \<and> mk_bids M k = None \<and>
     bid_status b = SELECTED \<and> bid_taskId b = i \<and> bid_executorPublicKey b = cbi_executor input \<and>
     parse_amounts input = Inr (bid_amountStroops b, bid_collateralStroops b) \<and>
     M' = add_bid k b (set_status i ASSIGNED M))"

lemma first_come_wins:
  assumes "first_come M" "wins input M M'"
  shows "first_come M'"
proof -
  obtain i k b t where h: "mk_tasks M i = Some t" "task_status t = OPEN" "mk_bids M k = None"
    "bid_status b = SELECTED" "bid_taskId b = i" "M' = add_bid k b (set_status i ASSIGNED M)"
    using assms(2) by (auto simp: wins_def)
  have other: "bid_taskId c \<noteq> i" if "mk_bids M j = Some c" for j c
    using first_comeD(2) [OF assms(1) that] h(1,2) by (auto simp: taken_def)
  have bids: "mk_bids M' j = (if j = k then Some b else mk_bids M j)" for j
    by (simp add: h(6) add_bid_def set_status_def)
  have taken: "taken M' j \<longleftrightarrow> j = i \<or> taken M j" for j
    using h(1) by (auto simp: h(6) add_bid_def set_status_def taken_def split: option.splits)
  show ?thesis unfolding first_come_def
  proof (intro conjI allI impI)
    fix j c assume "mk_bids M' j = Some c"
    then show "bid_status c = SELECTED" "taken M' (bid_taskId c)"
      using h(4,5) first_comeD(1,2) [OF assms(1), of j c] by (auto simp: bids taken split: if_splits)
  next
    fix j j' c c' assume "mk_bids M' j = Some c" "mk_bids M' j' = Some c'" "bid_taskId c = bid_taskId c'"
    then show "j = j'"
      using h(5) other [of j c] other [of j' c'] first_comeD(3) [OF assms(1), of j c j' c']
      by (auto simp: bids split: if_splits)
  next
    fix j assume "taken M' j"
    then consider "j = i" | "taken M j" "j \<noteq> i" by (auto simp: taken)
    then show "\<exists>l c. mk_bids M' l = Some c \<and> bid_taskId c = j"
    proof cases
      case 1
      then show ?thesis using h(5) by (intro exI [of _ k] exI [of _ b]) (simp add: bids)
    next
      case 2
      then obtain l c where "mk_bids M l = Some c" "bid_taskId c = j"
        using assms(1) unfolding first_come_def by blast
      moreover from this h(3) have "l \<noteq> k" by auto
      ultimately show ?thesis by (intro exI [of _ l] exI [of _ c]) (simp add: bids)
    qed
  qed
qed

lemma auctioned_wins:
  assumes "first_come M" "auctioned input M M'"
  shows "wins input M M'"
proof -
  let ?i = "mk_key M (cbi_taskId input)"
  obtain M1 b where b: "new_bid input M M1" "best_bid (pending_bids M1 ?i) b" "M' = settle ?i b M1"
    using assms(2) by (auto simp: auctioned_def)
  obtain k c t where c: "mk_bids M k = None" "M1 = add_bid k c M" "mk_tasks M ?i = Some t" "task_status t = OPEN"
    "bid_status c = PENDING" "bid_taskId c = ?i" "bid_executorPublicKey c = cbi_executor input"
    "parse_amounts input = Inr (bid_amountStroops c, bid_collateralStroops c)"
    using b(1) by (auto simp: new_bid_def parse_amounts_def)
  have "pending_bids M1 ?i \<subseteq> {c}"
    using first_comeD(1) [OF assms(1)] by (auto simp: pending_bids_def ran_def c(2) add_bid_def split: if_splits)
  then have "b = c" using b(2) by (auto simp: best_bid_def)
  have old: "mk_bids M j = Some d \<Longrightarrow> settle_bid ?i b d = d" for j d
    using first_comeD(1) [OF assms(1)] by (simp add: settle_bid_def)
  have "map_option (settle_bid ?i b) (mk_bids M1 j) =
      (if j = k then Some (c\<lparr>bid_status := SELECTED\<rparr>) else mk_bids M j)" for j
    using c(5,6) old by (cases "mk_bids M j") (auto simp: c(2) add_bid_def \<open>b = c\<close> settle_bid_def)
  then have "M' = add_bid k (c\<lparr>bid_status := SELECTED\<rparr>) (set_status ?i ASSIGNED M)"
    by (auto simp: b(3) settle_def add_bid_def set_status_def c(2) fun_eq_iff)
  then show ?thesis unfolding wins_def using c
    by (intro exI [of _ ?i] exI [of _ k] exI [of _ "c\<lparr>bid_status := SELECTED\<rparr>"] exI [of _ t]) simp
qed

section \<open>What the in-memory server does\<close>

lemma mem_no_outbox [simp]: "\<not> has_outbox (mem_server c)"
  by (simp add: has_outbox_def)

lemma bid_create_mem_run:
  assumes "mem_inv w" "mem.fresh w" "bid_create (mem_server c) body w = (r, w')"
  shows "case r of Inr resp \<Rightarrow> answered 201 (bid_placed auctioned (mem_server c) (w_ext w) body) (mem_market w) resp (mem_market w')
    | Inl e \<Rightarrow> mem_market w' = mem_market w"
  using mem.spec_run [where g = w_ext, OF mem_sv.bid_create_spec [OF mem_auction_makes] assms] by (cases r) simp_all

lemma task_create_mem_run:
  assumes "mem_inv w" "mem.fresh w" "task_create (mem_server c) body w = (r, w')"
  shows "mem_market w' = mem_market w \<or> local_task (w_ext w) body (mem_market w) (mem_market w')"
  using mem.spec_run [where g = w_ext, OF mem_sv.task_create_spec assms]
  by (auto simp: answered_def split: sum.splits if_splits)

lemma task_createPaid_mem_run:
  assumes "mem_inv w" "mem.fresh w" "task_createPaid (mem_server c) body w = (r, w')"
  shows "mem_market w' = mem_market w \<or> paid_task (w_ext w) body (mem_market w) (mem_market w')"
  using mem.spec_run [where g = w_ext, OF mem_sv.task_createPaid_spec assms]
  by (auto simp: answered_def split: sum.splits if_splits)

lemma complete_at:
  "hoare (\<lambda>w. mem.in_market M w \<and> w_ext w = x) (task_complete (mem_server c) i body)
     (\<lambda>r. mem.market_in (complete_outcome (mem_server c) x (mk_key M i) body M))
     (\<lambda>e. mem.market_in (complete_outcome (mem_server c) x (mk_key M i) body M))"
  by (rule hoare_weaken [OF mem_sv.complete_spec [where x = x]]) (auto intro: mem.in_market_in)

lemma task_complete_mem_run:
  assumes "mem_inv w" "mem.fresh w" "task_complete (mem_server c) i body w = (r, w')"
  shows "complete_outcome (mem_server c) (w_ext w) i body (mem_market w) (mem_market w')"
  using mem.spec_run [where g = w_ext, OF complete_at assms] by (simp split: sum.splits)

lemma timeout_check_mem_run:
  assumes "mem_inv w" "mem.fresh w" "timeout_check (mem_server c) w = (r, w')"
  shows "\<exists>ids. mem_market w' = expire ids (mem_market w) \<and>
    (\<forall>k \<in> set ids. may_expire (x_date_parse (w_ext w)) (w_now w (w_reads w)) (mem_market w) k)"
proof -
  obtain r1 w1 where run: "timeout_runOnce (mem_server c) w = (r1, w1)" by fastforce
  have "w1 = w'" using assms(3) run by (auto simp: timeout_check_def tryE_apply ret_apply split: sum.splits)
  have pre: "mem.in_market (mem_market w) w \<and> w_ext w = w_ext w \<and> w_now w (w_reads w) = w_now w (w_reads w)"
    using assms(1,2) by (simp add: mem.in_market_def)
  show ?thesis
    using hoareD_Inr [OF mem_sv.timeout_runOnce_spec pre, of c _ w1] hoareD_Inl [OF mem_sv.timeout_runOnce_spec pre, of c _ w1]
      run \<open>w1 = w'\<close>
    by (cases r1) (auto simp: mem_sv.swept_def mem.in_market_def)
qed

lemma task_select_mem_run:
  assumes "mem_inv w" "mem.fresh w" "first_come (mem_market w)" "task_select (mem_server c) i w = (r, w')"
  shows "mem_market w' = mem_market w"
proof -
  obtain r1 w1 where run: "selectWinner mem_task_repo mem_bid_repo i w = (r1, w1)" by fastforce
  note sel = mem.selectWinner_run [OF assms(1) run] first_come_no_pending [OF assms(3), of i]
  then have "mem_market w1 = mem_market w \<and> (\<exists>e. r1 = Inl e)"
    by (cases r1) (auto simp: best_bid_def)
  then show ?thesis using assms(4) run
    by (auto simp: task_select_def prog_run split: exn.splits)
qed

lemma bid_placed_first_come:
  "bid_placed auctioned sv x body M M' \<Longrightarrow> first_come M \<Longrightarrow> first_come M'"
  by (auto simp: bid_placed_def intro: first_come_wins auctioned_wins)

lemma complete_outcome_first_come:
  "complete_outcome (mem_server c) x k body M M' \<Longrightarrow> first_come M \<Longrightarrow> first_come M'"
  by (auto simp: complete_outcome_def may_complete_def taken_def intro!: first_come_status)

lemma may_expire_taken: "may_expire d now M k \<Longrightarrow> taken M k"
  by (auto simp: may_expire_def overdue_def taken_def)

lemma controller_first_come:
  assumes "mem_inv w" "mem.fresh w" "first_come (mem_market w)" "controller (mem_server c) rq w = (r, w')"
  shows "first_come (mem_market w')"
proof -
  have same: "mem_market w' = mem_market w" if "mem.keeps (controller (mem_server c) rq)"
    using mem.keeps_run [OF that assms(1,2,4)] by simp
  show ?thesis
  proof (cases rq)
    case (CreateTask body)
    then show ?thesis using task_create_mem_run [OF assms(1,2), of c body r w'] assms(3,4)
      by (auto simp: local_task_def dest: first_come_new_task)
  next
    case (CreatePaidTask body)
    then show ?thesis using task_createPaid_mem_run [OF assms(1,2), of c body r w'] assms(3,4)
      by (auto simp: paid_task_def dest: first_come_new_task)
  next
    case (PlaceBid body)
    then show ?thesis using bid_create_mem_run [OF assms(1,2), of c body r w'] assms(3,4)
      by (auto simp: answered_def split: sum.splits if_splits intro: bid_placed_first_come)
  next
    case (CompleteTask i body)
    then show ?thesis using task_complete_mem_run [OF assms(1,2), of c i body r w'] assms(3,4)
      by (auto intro: complete_outcome_first_come)
  next
    case (SelectWinner i)
    then show ?thesis using task_select_mem_run [OF assms(1-3), of c i r w'] assms(3,4) by simp
  next
    case TimeoutCheck
    then show ?thesis using timeout_check_mem_run [OF assms(1,2), of c r w'] assms(3,4)
      by (auto intro!: first_come_expire
          may_expire_taken [where d = "x_date_parse (w_ext w)" and now = "w_now w (w_reads w)"])
  qed (use same assms(3) in \<open>simp_all add: mem_sv.task_getById_keeps mem_sv.executor_register_keeps
      mem_sv.result_publish_keeps mem_sv.result_get_keeps\<close>)
qed

lemma serves_first_come:
  assumes "serves (mem_server c) w w'" "mem_inv w" "mem.fresh w" "first_come (mem_market w)"
  shows "first_come (mem_market w')"
  using assms
proof (induction rule: serves.induct)
  case (answers w w1 rq r w2)
  have "mem_inv w1" "mem.fresh w1" using mem_sv.serves_market [OF answers.hyps(1)] answers.prems by simp_all
  moreover obtain r1 where "controller (mem_server c) rq w1 = (r1, w2)"
    using serve_world [OF answers.hyps(2)] by (metis prod.collapse)
  ultimately show ?case using answers by (blast intro: controller_first_come)
qed simp

text \<open>A process that has just started: nothing is stored, and the UUIDs to come are distinct.\<close>

definition mem_start :: "mem_world \<Rightarrow> bool" where
  "mem_start w \<longleftrightarrow> m_tasks w = [] \<and> m_bids w = [] \<and> inj (w_uuid w)"

lemma mem_startD:
  assumes "mem_start w"
  shows "mem_inv w" "mem.fresh w" "first_come (mem_market w)"
  using assms by (auto simp: mem_start_def mem_inv_def mem.fresh_def first_come_def taken_def inj_eq)

lemma mem_start_reached:
  assumes "mem_start w0" "serves (mem_server c) w0 w"
  shows "mem_inv w" "mem.fresh w" "first_come (mem_market w)"
  using mem_sv.serves_market [OF assms(2)] serves_first_come [OF assms(2)] mem_startD [OF assms(1)] by simp_all

section \<open>Correctness\<close>

text \<open>A configuration for the witnesses: the local network with the externals mocked.\<close>

definition sample_config :: app_config where
  "sample_config =
     \<lparr> ac_envLocal = True, ac_escrow = None, ac_usdcContract = ''usdc'', ac_wallet = sample_key (CHR ''M''),
       ac_pauseNewTasks = False, ac_pauseNewBids = False, ac_executorDenylist = [] \<rparr>"

lemma sample_start: "mem_start (sample_mem [] [])"
  by (auto simp: mem_start_def sample_mem_def inj_def dest: arg_cong [where f = length])

lemma sample_serves: "serves sv w (snd (serve sv rq w))"
  by (rule serves.answers [OF serves.idle prod.collapse [symmetric]])

text \<open>
  C24. On the in-memory server, from its start, every request moves the market along the
  lifecycle: no task and no bid disappears, nothing of them changes but their status, and
  statuses only move forward.
\<close>

theorem lifecycle_mem:
  assumes "mem_start w0" "serves (mem_server c) w0 w" "serves (mem_server c) w w'"
  shows "mem_inv w' \<and> market_le (mem_market w) (mem_market w')"
  using mem_sv.serves_market [OF assms(3)] mem_start_reached [OF assms(1,2)] by simp

lemma lifecycle_mem_witness:
  "mem_inv (snd (serve (mem_server sample_config) TimeoutCheck (sample_mem [] [])))"
  using lifecycle_mem [OF sample_start serves.idle sample_serves] by blast

text \<open>
  C6. On PostgreSQL, whatever queries and services fail, a stored task keeps its identifier,
  requester, price, description and deadline; its status only moves forward, and a \<open>COMPLETED\<close>
  or \<open>EXPIRED\<close> task never changes again.
\<close>

theorem lifecycle_pg:
  assumes "pg_inv w" "pg.fresh w" "serves (pg_server c) w w'" "mk_tasks (pg_market w) k = Some t"
  shows "\<exists>s. mk_tasks (pg_market w') k = Some (t\<lparr>task_status := s\<rparr>) \<and> task_status t \<le> s \<and>
    (task_status t \<in> {COMPLETED, EXPIRED} \<longrightarrow> s = task_status t)"
proof -
  have "market_le (pg_market w) (pg_market w')" using pg_sv.serves_market [OF assms(3,1,2)] by simp
  then obtain t' where "mk_tasks (pg_market w') k = Some t'" "task_status t \<le> task_status t'"
    "t' = t\<lparr>task_status := task_status t'\<rparr>"
    using assms(4) by (rule market_le_status)
  then show ?thesis by (intro exI [of _ "task_status t'"]) (auto simp: terminal_status)
qed

lemma sample_pg_fresh: "pg.fresh (sample_pg [sample_task_row ''t'' s] bs fault)" if "\<forall>b \<in> set bs. bw_id b = ''b''"
proof -
  have "List.find (\<lambda>r. bw_id r = CHR ''u'' # xs) bs = None" for xs
    using that by (auto simp: find_None_iff)
  then show ?thesis
    by (auto simp: pg.fresh_def sample_pg_def pg_market_def pg_key_def sample_task_row_def
        dest: arg_cong [where f = length])
qed

lemma lifecycle_pg_witness:
  "\<exists>s. mk_tasks (pg_market (snd (serve (pg_server sample_config) TimeoutCheck
      (sample_pg [sample_task_row ''t'' COMPLETED] [] (\<lambda>n. None))))) ''t'' =
    Some ((row_to_task (sample_task_row ''t'' COMPLETED))\<lparr>task_status := s\<rparr>) \<and> s = COMPLETED"
proof -
  have "pg_inv (sample_pg [sample_task_row ''t'' COMPLETED] [] (\<lambda>n. None))"
    by (rule sample_pg_inv) (simp_all add: sample_task_row_def)
  moreover have "mk_tasks (pg_market (sample_pg [sample_task_row ''t'' COMPLETED] [] (\<lambda>n. None))) ''t'' =
      Some (row_to_task (sample_task_row ''t'' COMPLETED))"
    by (simp add: pg_market_def sample_pg_def sample_task_row_def)
  ultimately show ?thesis
    using lifecycle_pg [OF _ sample_pg_fresh sample_serves, of COMPLETED "[]" "\<lambda>n. None" "''t''"
        "row_to_task (sample_task_row ''t'' COMPLETED)" sample_config TimeoutCheck]
    by (auto simp: row_to_task_def sample_task_row_def)
qed



end
