(* ===== verification/Market.thy ===== *)
theory Market
  imports Lifecycle
begin

text \<open>
  What the handlers of the two servers do to the market: creation, bids, completion and the
  timeout sweep, on every outcome of the services and queries they depend on.
\<close>

section \<open>Creation\<close>



lemma sample_task_pg:
  "pg_inv (sample_pg [sample_task_row ''t'' s] [] fault)" "pg.fresh (sample_pg [sample_task_row ''t'' s] [] fault)"
  "w_ext (sample_pg [sample_task_row ''t'' s] [] fault) = sample_ext"
  by (simp_all add: sample_pg_fresh) (rule sample_pg_inv, simp_all add: sample_task_row_def sample_pg_def)


text \<open>
  The listing fee comes first: while the charge fails, \<open>POST /tasks\<close> of the local network
  stores nothing, whatever the body, and never answers 201.
\<close>

theorem no_fee_no_task:
  assumes "\<And>k price w. \<exists>e w'. sv_charge sv k price w = (Inl e, w') \<and> env_step w w'"
  shows "\<exists>resp w'. task_create sv body w = (Inr resp, w') \<and> fst resp \<noteq> 201 \<and> env.more w' = env.more w"
proof -
  have charge: "\<exists>e w'. sv_charge sv k price (w\<lparr>w_reads := n\<rparr>) = (Inl e, w') \<and> env.more w' = env.more w" for k price n
    using assms [of k price "w\<lparr>w_reads := n\<rparr>"] by (fastforce simp: env_step_def)
  have charged: "\<exists>resp w'. tryE (sv_charge sv k price) f h (w\<lparr>w_reads := n\<rparr>) = (Inr resp, w') \<and> fst resp \<noteq> 201 \<and>
      env.more w' = env.more w"
    if h: "\<And>e w. \<exists>resp. h e w = (Inr resp, w) \<and> fst resp \<noteq> (201 :: nat)" for k price n f h
  proof -
    obtain e w' where c: "sv_charge sv k price (w\<lparr>w_reads := n\<rparr>) = (Inl e, w')" "env.more w' = env.more w"
      using charge by blast
    obtain resp where "h e w' = (Inr resp, w')" "fst resp \<noteq> 201" using h by blast
    with c show ?thesis by (simp add: tryE_apply)
  qed
  have refuse: "\<exists>resp. (case e of InsufficientBalanceError m \<Rightarrow> respond_detail 402 ''payment required'' e
      | _ \<Rightarrow> respond_detail 502 ''listing fee charge failed'' e) w = (Inr resp, w) \<and> fst resp \<noteq> 201"
    for e and w :: "'a env_scheme"
    by (cases e) (simp_all add: ret_apply del: split_paired_Ex)
  show ?thesis
    by (auto simp: task_create_def bindE_apply date_now_def getsE_apply ret_apply paused_tasks_def
        simp del: split_paired_Ex intro!: charged [OF refuse] split: option.splits sum.splits)
qed

definition broke_server :: "'a pg_world_scheme server" where
  "broke_server = (pg_server sample_config)\<lparr>sv_charge := (\<lambda>k price. throw (ChargeNetworkError ''down''))\<rparr>"

lemma no_fee_no_task_witness:
  "\<exists>resp w'. task_create broke_server None (sample_pg [] [] (\<lambda>n. None)) = (Inr resp, w') \<and> fst resp \<noteq> 201 \<and>
     env.more w' = env.more (sample_pg [] [] (\<lambda>n. None))"
  by (rule no_fee_no_task) (simp add: broke_server_def throw_apply env_step_def)

section \<open>Bids\<close>



text \<open>
  The administrator's \<open>POST /tasks/:id/select\<close> never selects anybody on the in-memory
  server: whatever was done before, it answers 404 or 409 and changes nothing.
\<close>

theorem select_never_mem:
  assumes "mem_start w0" "serves (mem_server c) w0 w"
  shows "\<exists>st e. task_select (mem_server c) i w = (Inr (error_response st e), w) \<and> st \<in> {404, 409}"
proof -
  note reached = mem_start_reached [OF assms]
  have "set (filter (\<lambda>b. bid_status b = PENDING) (bids_of_task w i)) = {}"
    using pending_bids_mem [OF reached(1), of i] first_come_no_pending [OF reached(3), of i] by metis
  then have none: "filter (\<lambda>b. bid_status b = PENDING) (bids_of_task w i) = []" by (simp only: set_empty)
  show ?thesis
  proof (cases "jsmap_get (m_tasks w) i")
    case None
    then have "task_select (mem_server c) i w = (Inr (error_response 404 ''task not found''), w)"
      by (simp add: task_select_def prog_run mem_select_refused(1))
    then show ?thesis by blast
  next
    case (Some t)
    then have "\<exists>e. task_select (mem_server c) i w = (Inr (error_response 409 e), w)"
      by (cases "task_status t = OPEN")
        (auto simp: task_select_def prog_run mem_select_refused(2) mem_select_refused(3) [OF _ _ none])
    then show ?thesis by blast
  qed
qed

lemma select_never_mem_witness:
  "\<exists>st e. task_select (mem_server sample_config) ''t'' (sample_mem [] []) =
     (Inr (error_response st e), sample_mem [] []) \<and> st \<in> {404, 409}"
  by (rule select_never_mem [OF sample_start serves.idle])

section \<open>Completion\<close>

text \<open>
  C14. A completion request on PostgreSQL changes the market in one case only: the requester of
  the body asks for their own task, which is \<open>ASSIGNED\<close> and has a selected bid of an executor
  who is not on the denylist; then the task becomes \<open>COMPLETING\<close>, and nothing else changes. This is so
  on every path, those with a failing query included.
\<close>

theorem complete_pg:
  fixes w :: "'a pg_world_scheme"
  assumes "pg_inv w" "pg.fresh w" "task_complete (pg_server c) i body w = (r, w')"
  shows "pg_market w' = pg_market w \<or>
    (\<exists>requester b. complete_requester (w_ext w) (ac_envLocal c) body = Inr requester \<and>
       may_complete (ac_executorDenylist c) (pg_market w) (pg_key w i) requester b \<and>
       pg_market w' = set_status (pg_key w i) COMPLETING (pg_market w))"
proof -
  let ?sv = "pg_server c :: 'a pg_world_scheme server"
  have "hoare (\<lambda>w. pg.in_market M w \<and> w_ext w = x) (task_complete ?sv i body)
     (\<lambda>r. pg.market_in (complete_outcome ?sv x (mk_key M i) body M))
     (\<lambda>e. pg.market_in (complete_outcome ?sv x (mk_key M i) body M))"
    for M and x :: ext
    by (rule hoare_weaken [OF pg_sv.complete_spec [where M = M and x = x]]) (auto intro: pg.in_market_in)
  from pg.spec_run [where g = w_ext, OF this assms] show ?thesis
    by (cases r) (auto simp: complete_outcome_def)
qed

lemma complete_pg_witness:
  "pg_market (snd (task_complete (pg_server sample_config) ''t'' None
     (sample_pg [sample_task_row ''t'' ASSIGNED] [] (\<lambda>n. None)))) =
   pg_market (sample_pg [sample_task_row ''t'' ASSIGNED] [] (\<lambda>n. None))"
  using complete_pg [OF sample_task_pg(1,2) prod.collapse [symmetric], of sample_config "''t''" None ASSIGNED "\<lambda>n. None"]
  by (auto simp: may_complete_def pg_market_def sample_pg_def ran_def)

text \<open>
  Completing an \<open>ASSIGNED\<close> task on the in-memory server: the escrow of its selected bid is
  released first; when the release succeeds the task is \<open>COMPLETED\<close> and the answer is 200 with the
  release, when it throws the answer is 502 and the task stays as it was, ready for another attempt.
\<close>

theorem complete_mem:
  assumes "complete_requester (w_ext w) (ac_envLocal c) body = Inr (task_requesterPublicKey t)"
    and "jsmap_get (m_tasks w) i = Some t" "task_status t = ASSIGNED"
    and "selected_bid (bids_of_task w i) = Some b" "bid_executorPublicKey b \<notin> set (ac_executorDenylist c)"
  shows "task_complete (mem_server c) i body w =
    (case ep_releaseMilestone (app_escrow c) (bid_escrowId b) w of
       (Inl e, w1) \<Rightarrow> (Inr (error_detail 502 ''escrow release failed'' e), w1)
     | (Inr release, w1) \<Rightarrow>
         (Inr (json_response 200 (JObj [(''task'', task_json (t\<lparr>task_status := COMPLETED\<rparr>)),
            (''release'', release_json release)])),
          w1\<lparr>m_tasks := jsmap_set (task_id t) (t\<lparr>task_status := COMPLETED\<rparr>) (m_tasks w1)\<rparr>))"
  using assms
  by (auto simp: task_complete_def complete_assigned_def prog_run mem_run Let_def split: prod.split sum.split)

definition completed_sample :: mem_world where
  "completed_sample = sample_mem [sample_task ''t'' ASSIGNED] [sample_bid ''b'' ''t'' 7 SELECTED]"

definition sample_requester :: "json option" where
  "sample_requester = Some (JObj [(''requester'', JStr (sample_key (CHR ''A''))),
     (''secret'', JStr (CHR ''S'' # replicate 55 (CHR ''A'')))])"

lemma complete_mem_witness:
  "jsmap_get (m_tasks (snd (task_complete (mem_server sample_config) ''t'' sample_requester completed_sample))) ''t'' =
   Some (sample_task ''t'' COMPLETED)"
proof -
  have "complete_requester (w_ext completed_sample) (ac_envLocal sample_config) sample_requester =
      Inr (task_requesterPublicKey (sample_task ''t'' ASSIGNED))" by code_simp
  moreover have "jsmap_get (m_tasks completed_sample) ''t'' = Some (sample_task ''t'' ASSIGNED)" by code_simp
  moreover have "task_status (sample_task ''t'' ASSIGNED) = ASSIGNED" by (simp add: sample_task_def)
  moreover have "selected_bid (bids_of_task completed_sample ''t'') = Some (sample_bid ''b'' ''t'' 7 SELECTED)" by code_simp
  moreover have "bid_executorPublicKey (sample_bid ''b'' ''t'' 7 SELECTED) \<notin> set (ac_executorDenylist sample_config)"
    by (simp add: sample_config_def)
  ultimately show ?thesis
    using complete_mem [of completed_sample sample_config sample_requester "sample_task ''t'' ASSIGNED" "''t''"
        "sample_bid ''b'' ''t'' 7 SELECTED"]
    by (simp add: app_escrow_def sample_config_def mock_escrow_def ret_apply sample_task_def)
qed



section \<open>The timeout sweep\<close>

text \<open>
  C27. The timeout sweep on PostgreSQL, whatever queries and escrow operations fail on the way:
  the tasks it expired were all \<open>ASSIGNED\<close> with a selected bid and past their deadline at the clock
  reading the sweep began with; nothing else of the market changes; and when it returns, it returns
  exactly the tasks it expired.
\<close>

theorem timeout_sweep_pg:
  assumes "pg_inv w" "pg.fresh w" "timeout_runOnce (pg_server c) w = (r, w')"
  shows "\<exists>ids. pg_market w' = expire ids (pg_market w) \<and>
    (\<forall>k \<in> set ids. may_expire (x_date_parse (w_ext w)) (w_now w (w_reads w)) (pg_market w) k) \<and>
    (\<forall>xs. r = Inr xs \<longrightarrow> xs = ids)"
proof -
  have pre: "pg.in_market (pg_market w) w \<and> w_ext w = w_ext w \<and> w_now w (w_reads w) = w_now w (w_reads w)"
    using assms(1,2) by (simp add: pg.in_market_def)
  show ?thesis
    using hoareD_Inr [OF pg_sv.timeout_runOnce_spec pre, of c _ w'] hoareD_Inl [OF pg_sv.timeout_runOnce_spec pre, of c _ w']
      assms(3)
    by (cases r) (auto simp: pg_sv.swept_def pg.in_market_def)
qed

lemma timeout_sweep_pg_witness:
  "\<exists>ids. pg_market (snd (timeout_runOnce (pg_server sample_config) (sample_pg [sample_task_row ''t'' OPEN] [] (\<lambda>n. None)))) =
     expire ids (pg_market (sample_pg [sample_task_row ''t'' OPEN] [] (\<lambda>n. None)))"
  using timeout_sweep_pg [OF sample_task_pg(1,2) prod.collapse [symmetric], of sample_config OPEN "\<lambda>n. None"] by blast

text \<open>The sweep of the in-memory server with the mocked escrow, task by task.\<close>

lemma mem_timeout_task_run:
  "ac_escrow c = None \<Longrightarrow> timeout_task (mem_server c) t ids w =
    (case selected_bid (bids_of_task w (task_id t)) of
       None \<Rightarrow> (Inr ids, w)
     | Some b \<Rightarrow> (Inr (ids @ [task_id t]),
         w\<lparr>m_tasks := jsmap_set (task_id t) (t\<lparr>task_status := EXPIRED\<rparr>) (m_tasks w)\<rparr>))"
  by (auto simp: timeout_task_def prog_run mem_run Let_def app_escrow_def mock_escrow_def emit_if_def
      split: option.split)

lemma mem_timeout_fold_run:
  assumes "ac_escrow c = None"
  shows "\<exists>w'. foldE ts ids (timeout_task (mem_server c)) w =
    (Inr (ids @ map task_id (filter (\<lambda>t. selected_bid (bids_of_task w (task_id t)) \<noteq> None) ts)), w')"
proof (induction ts arbitrary: ids w)
  case Nil
  show ?case by (simp add: ret_apply)
next
  case (Cons t ts)
  have same: "bids_of_task (w\<lparr>m_tasks := x\<rparr>) = bids_of_task w" for x by (simp add: bids_of_task_def fun_eq_iff)
  show ?case
    using Cons.IH [of ids w]
      Cons.IH [of "ids @ [task_id t]" "w\<lparr>m_tasks := jsmap_set (task_id t) (t\<lparr>task_status := EXPIRED\<rparr>) (m_tasks w)\<rparr>"]
    by (cases "selected_bid (bids_of_task w (task_id t))")
      (simp_all add: bindE_apply mem_timeout_task_run [OF assms] same)
qed

lemma first_come_selected:
  assumes "mem_inv w" "first_come (mem_market w)" "taken (mem_market w) k"
  shows "selected_bid (bids_of_task w k) \<noteq> None"
proof -
  obtain j b where b: "jsmap_get (m_bids w) j = Some b" "bid_taskId b = k"
    using assms(2,3) unfolding first_come_def by auto
  then have "bid_status b = SELECTED" using first_comeD(1) [OF assms(2), of j b] by simp
  moreover have "b \<in> set (bids_of_task w k)"
    using b assms(1) by (auto simp: bids_of_task_def mem_inv_def jsmap_values_ran ran_def)
  ultimately show ?thesis by (auto simp: selected_bid_def find_None_iff)
qed

text \<open>
  C28. With the mocked escrow the sweep of the in-memory server misses nothing: it returns, and
  the tasks it expires are exactly those that were \<open>ASSIGNED\<close> and past their deadline.
\<close>

theorem timeout_sweep_mem:
  assumes "mem_start w0" "serves (mem_server c) w0 w" "ac_escrow c = None"
  shows "\<exists>ids w'. timeout_runOnce (mem_server c) w = (Inr ids, w') \<and>
    set ids = {k. \<exists>t. mk_tasks (mem_market w) k = Some t \<and> overdue (x_date_parse (w_ext w)) (w_now w (w_reads w)) t} \<and>
    mem_market w' = expire ids (mem_market w)"
proof -
  note reached = mem_start_reached [OF assms(1,2)]
  let ?over = "overdue (x_date_parse (w_ext w)) (w_now w (w_reads w))"
  let ?ts = "filter ?over (jsmap_values (m_tasks w))"
  let ?sel = "\<lambda>t. selected_bid (bids_of_task w (task_id t)) \<noteq> None"
  obtain w' where run: "timeout_runOnce (mem_server c) w = (Inr (map task_id (filter ?sel ?ts)), w')"
    using mem_timeout_fold_run [OF assms(3), of ?ts "[]" "w\<lparr>w_reads := Suc (w_reads w)\<rparr>"]
    by (auto simp: timeout_runOnce_def bindE_apply date_now_def getsE_apply mem_task_list_def bids_of_task_def)
  have stored: "t \<in> set (jsmap_values (m_tasks w)) \<longleftrightarrow> jsmap_get (m_tasks w) (task_id t) = Some t" for t
    using reached(1) keyed_get [of task_id "m_tasks w"] by (auto simp: mem_inv_def jsmap_values_ran ran_def)
  have sel: "?sel t" if "t \<in> set ?ts" for t
    using that stored [of t] by (intro first_come_selected [OF reached(1,3)]) (simp add: taken_def overdue_def)
  have ids: "set (map task_id (filter ?sel ?ts)) = {k. \<exists>t. mk_tasks (mem_market w) k = Some t \<and> ?over t}"
  proof (intro set_eqI iffI)
    fix k assume "k \<in> set (map task_id (filter ?sel ?ts))"
    then show "k \<in> {k. \<exists>t. mk_tasks (mem_market w) k = Some t \<and> ?over t}" using stored by auto
  next
    fix k assume "k \<in> {k. \<exists>t. mk_tasks (mem_market w) k = Some t \<and> ?over t}"
    then obtain t where t: "jsmap_get (m_tasks w) k = Some t" "?over t" by auto
    then have "task_id t = k" using reached(1) keyed_get [of task_id "m_tasks w"] by (auto simp: mem_inv_def)
    moreover from this have "t \<in> set ?ts" using t stored [of t] by simp
    ultimately show "k \<in> set (map task_id (filter ?sel ?ts))" using sel [of t] by auto
  qed
  have pre: "mem.in_market (mem_market w) w \<and> w_ext w = w_ext w \<and> w_now w (w_reads w) = w_now w (w_reads w)"
    using reached(1,2) by (simp add: mem.in_market_def)
  have "mem_market w' = expire (map task_id (filter ?sel ?ts)) (mem_market w)"
    using hoareD_Inr [OF mem_sv.timeout_runOnce_spec pre run] by (simp add: mem_sv.swept_def mem.in_market_def)
  with run ids show ?thesis by blast
qed

lemma timeout_sweep_mem_witness:
  "\<exists>ids w'. timeout_runOnce (mem_server sample_config) (sample_mem [] []) = (Inr ids, w') \<and>
     mem_market w' = expire ids (mem_market (sample_mem [] []))"
  using timeout_sweep_mem [OF sample_start serves.idle, of sample_config] by (auto simp: sample_config_def)

end
