(* ===== verification/Auth.thy ===== *)
theory Auth
  imports Samples Json JsNumber
begin

text \<open>
  \<open>controllers/authController.ts\<close> and \<open>middlewares/signatureAuth.ts\<close>: nonces issued to a public
  key, kept in Redis until one request uses them, and the check of the signature of a request.
  The environment of the process is a map from names to texts.
\<close>

type_synonym process_env = "string \<Rightarrow> string option"

section \<open>Redis\<close>

text \<open>\<open>getRedisClient\<close>: the first call creates the client and connects it (one command of the server).\<close>

definition getRedisClient :: "process_env \<Rightarrow> ('a env_scheme, unit) prog" where
  "getRedisClient penv =
     (case penv ''REDIS_URL'' of
        None \<Rightarrow> throw (JsError ''REDIS_URL is not set'')
      | Some url \<Rightarrow>
          if url = [] then throw (JsError ''REDIS_URL is not set'')
          else bindE (getsE w_redis_client) (\<lambda>created.
            if created then ret ()
            else bindE (modifyE (\<lambda>w. w\<lparr>w_redis_client := True\<rparr>)) (\<lambda>_.
                 redis_cmd (\<lambda>r. Inr ((), r)))))"

definition incrWithTtl :: "string \<Rightarrow> int \<Rightarrow> ('a env_scheme, nat) prog" where
  "incrWithTtl key ttlSeconds =
     bindE (redis_cmd (rd_INCR key)) (\<lambda>count.
       if count = 1 then bindE (redis_cmd (rd_EXPIRE key ttlSeconds)) (\<lambda>_. ret count)
       else ret count)"

definition metric_inc :: "string \<Rightarrow> string list \<Rightarrow> ('a env_scheme, unit) prog" where
  "metric_inc name labels = call_ext (MetricInc name labels) (\<lambda>x l. Inr ())"

section \<open>Issuing a nonce\<close>

definition authnonce_ip_key :: "string \<Rightarrow> string" where
  "authnonce_ip_key ip = ''tg:authnonce:ip:'' @ ip"

definition nonce_key :: "string \<Rightarrow> string \<Rightarrow> string" where
  "nonce_key publicKey nonce = ''tg:nonce2:'' @ publicKey @ '':'' @ nonce"

definition record_nonce :: "nat \<Rightarrow> ('a env_scheme, unit) prog" where
  "record_nonce st = metric_inc ''tg_auth_nonce_requests_total'' [nat_string st]"

text \<open>\<open>String((req.body ?? {}).publicKey ?? '')\<close>: the text of a string, and \<open>x_num_string\<close> of a number.\<close>

fun js_String :: "(rat \<Rightarrow> string) \<Rightarrow> json \<Rightarrow> string" where
  "js_String num JNull = ''null''"
| "js_String num (JBool b) = (if b then ''true'' else ''false'')"
| "js_String num (JNum x) = num x"
| "js_String num (JStr s) = s"
| "js_String num (JArr xs) = commas (map (\<lambda>x. case x of JNull \<Rightarrow> [] | _ \<Rightarrow> js_String num x) xs)"
| "js_String num (JObj fs) = ''[object Object]''"

definition body_text :: "(rat \<Rightarrow> string) \<Rightarrow> json option \<Rightarrow> string \<Rightarrow> string" where
  "body_text num body k = (case Option.bind body (\<lambda>j. jfield j k) of
      None \<Rightarrow> [] | Some JNull \<Rightarrow> [] | Some v \<Rightarrow> js_String num v)"

definition nonce_json :: "string \<Rightarrow> int \<Rightarrow> string \<Rightarrow> json" where
  "nonce_json publicKey timestamp nonce = JObj
    [(''version'', JNum 1), (''publicKey'', JStr publicKey), (''timestamp'', JNum (of_int timestamp)),
     (''nonce'', JStr nonce), (''ttlSeconds'', JNum 600)]"

definition issueNonce :: "process_env \<Rightarrow> http_request \<Rightarrow> ('a env_scheme, response) prog" where
  "issueNonce penv rq =
     bindE (getsE w_ext) (\<lambda>x.
       let publicKey = body_text (x_num_string x) (rq_body rq) ''publicKey''
       in if publicKey = [] then
            bindE (record_nonce 400) (\<lambda>_. ret (error_response 400 ''publicKey is required''))
          else if \<not> x_key_ok x publicKey then
            bindE (record_nonce 400) (\<lambda>_. ret (error_response 400 ''invalid public key''))
          else bindE (getRedisClient penv) (\<lambda>_.
               bindE (incrWithTtl (authnonce_ip_key (rq_ip rq)) 60) (\<lambda>ipCount.
               if ipCount > 60 then
                 bindE (record_nonce 429) (\<lambda>_. ret (error_response 429 ''rate limit exceeded''))
               else bindE date_now (\<lambda>timestamp.
                    bindE randomUUID (\<lambda>nonce.
                    bindE (redis_cmd (rd_SET_NX_EX (nonce_key publicKey nonce) (int_string timestamp) 600)) (\<lambda>ok.
                    if \<not> ok then
                      bindE (record_nonce 503) (\<lambda>_. ret (error_response 503 ''nonce store unavailable''))
                    else bindE (record_nonce 200) (\<lambda>_.
                      ret (200, JsonBody (nonce_json publicKey timestamp nonce)))))))))"

section \<open>Checking a signature\<close>

record signature_auth_options =
  sa_required :: bool
  sa_matchBodyField :: "string option"
  sa_nonceTtlSeconds :: int
  sa_enforceInLocal :: bool

definition default_auth :: signature_auth_options where
  "default_auth =
     \<lparr> sa_required = True, sa_matchBodyField = None, sa_nonceTtlSeconds = 600, sa_enforceInLocal = False \<rparr>"

definition getRequestPath :: "http_request \<Rightarrow> string" where
  "getRequestPath rq = takeWhile (\<lambda>c. c \<noteq> CHR ''?'') (rq_url rq)"

definition header_text :: "http_request \<Rightarrow> string \<Rightarrow> string" where
  "header_text rq k = (case rq_header rq k of None \<Rightarrow> [] | Some v \<Rightarrow> v)"

definition to_upper :: "char \<Rightarrow> char" where
  "to_upper c = (let n = (of_char c :: nat) in if 97 \<le> n \<and> n \<le> 122 then char_of (n - 32) else c)"

definition raw_body :: "ext \<Rightarrow> http_request \<Rightarrow> string" where
  "raw_body x rq = (case rq_rawBody rq of
      Some buf \<Rightarrow> buf
    | None \<Rightarrow> json_stringify (x_num_string x) (case rq_body rq of None \<Rightarrow> JObj [] | Some JNull \<Rightarrow> JObj [] | Some j \<Rightarrow> j))"

definition newline :: char where
  "newline = CHR 0x0A"

definition signed_payload :: "ext \<Rightarrow> http_request \<Rightarrow> string \<Rightarrow> string \<Rightarrow> string" where
  "signed_payload x rq timestampStr nonce =
     map to_upper (rq_method rq) @ newline # getRequestPath rq @ newline # timestampStr @ newline #
     nonce @ newline # x_sha256 x (raw_body x rq)"

text \<open>\<open>parseSignature\<close>: hexadecimal when it looks like it, else base 64 (which skips what it does not know).\<close>

definition hex_val :: "char \<Rightarrow> nat option" where
  "hex_val c = (let n = (of_char c :: nat) in
     if 48 \<le> n \<and> n \<le> 57 then Some (n - 48) else if 97 \<le> n \<and> n \<le> 102 then Some (n - 87)
     else if 65 \<le> n \<and> n \<le> 70 then Some (n - 55) else None)"

definition looks_hex :: "string \<Rightarrow> bool" where
  "looks_hex s \<longleftrightarrow> s \<noteq> [] \<and> list_all (\<lambda>c. hex_val c \<noteq> None) s \<and> even (length s)"

fun hex_bytes :: "string \<Rightarrow> string" where
  "hex_bytes (a # b # s) = char_of (16 * the (hex_val a) + the (hex_val b)) # hex_bytes s"
| "hex_bytes _ = []"

definition base64_val :: "char \<Rightarrow> nat option" where
  "base64_val c = (let n = (of_char c :: nat) in
     if 65 \<le> n \<and> n \<le> 90 then Some (n - 65) else if 97 \<le> n \<and> n \<le> 122 then Some (n - 71)
     else if 48 \<le> n \<and> n \<le> 57 then Some (n + 4) else if n = 43 \<or> n = 45 then Some 62
     else if n = 47 \<or> n = 95 then Some 63 else None)"

fun base64_bytes :: "nat list \<Rightarrow> string" where
  "base64_bytes (a # b # c # d # s) =
     char_of (4 * a + b div 16) # char_of (16 * (b mod 16) + c div 4) # char_of (64 * (c mod 4) + d) # base64_bytes s"
| "base64_bytes [a, b, c] = [char_of (4 * a + b div 16), char_of (16 * (b mod 16) + c div 4)]"
| "base64_bytes [a, b] = [char_of (4 * a + b div 16)]"
| "base64_bytes _ = []"

definition parseSignature :: "string \<Rightarrow> string" where
  "parseSignature sig =
     (let trimmed = js_trim sig
      in if looks_hex trimmed then hex_bytes trimmed
         else base64_bytes (List.map_filter base64_val (takeWhile (\<lambda>c. c \<noteq> CHR ''='') trimmed)))"

definition route_label :: "http_request \<Rightarrow> string" where
  "route_label rq = (case rq_route rq of None \<Rightarrow> ''unknown'' | Some p \<Rightarrow> p)"

definition record_auth :: "http_request \<Rightarrow> nat \<Rightarrow> string option \<Rightarrow> ('a env_scheme, unit) prog" where
  "record_auth rq st failureReason =
     bindE (metric_inc ''tg_auth_signature_requests_total'' [nat_string st, route_label rq]) (\<lambda>_.
       case failureReason of
         None \<Rightarrow> ret ()
       | Some reason \<Rightarrow> metric_inc ''tg_auth_signature_failures_total'' [reason, route_label rq])"

text \<open>\<open>fail\<close>: 401, or 429 once this address or key has failed too often; a Redis error is ignored.\<close>

definition auth_fail :: "process_env \<Rightarrow> http_request \<Rightarrow> string \<Rightarrow> string \<Rightarrow> ('a env_scheme, response) prog" where
  "auth_fail penv rq publicKey error =
     bindE (catchE
       (bindE (getRedisClient penv) (\<lambda>_.
        bindE (if rq_ip rq \<noteq> [] then incrWithTtl (''tg:authfail:ip:'' @ rq_ip rq) 60 else ret 0) (\<lambda>ipCount.
        bindE (if publicKey \<noteq> [] then incrWithTtl (''tg:authfail:pk:'' @ publicKey) 60 else ret 0) (\<lambda>pkCount.
        ret (ipCount > 30 \<or> pkCount > 10)))))
       (\<lambda>err. ret False)) (\<lambda>limited.
     if limited then
       bindE (record_auth rq 429 (Some ''rate limit exceeded'')) (\<lambda>_. ret (error_response 429 ''rate limit exceeded''))
     else
       bindE (record_auth rq 401 (Some error)) (\<lambda>_. ret (error_response 401 error)))"

text \<open>The nonce: one the server issued (taken out of Redis), or the client's own where that is allowed.\<close>

definition check_nonce ::
  "process_env \<Rightarrow> signature_auth_options \<Rightarrow> string \<Rightarrow> string \<Rightarrow> string \<Rightarrow> ('a env_scheme, string option) prog" where
  "check_nonce penv opts publicKey nonce timestampStr =
     bindE (redis_cmd (rd_GETDEL (nonce_key publicKey nonce))) (\<lambda>serverNonceTimestamp.
       case serverNonceTimestamp of
         Some ts \<Rightarrow> ret (if ts \<noteq> timestampStr then Some ''invalid nonce'' else None)
       | None \<Rightarrow>
           if penv ''TG_ALLOW_CLIENT_NONCE'' = Some ''true'' then
             bindE (redis_cmd (rd_SET_NX_EX (''tg:nonce:'' @ publicKey @ '':'' @ nonce) ''1'' (sa_nonceTtlSeconds opts)))
               (\<lambda>nonceSet. ret (if nonceSet then None else Some ''replayed nonce''))
           else ret (Some ''invalid nonce''))"

text \<open>Everything before the nonce: the error, or the public key, nonce and time stamp of a good signature.\<close>

definition timestamp_error :: "int \<Rightarrow> string \<Rightarrow> string option" where
  "timestamp_error now timestampStr = (case js_to_number timestampStr of
      Fin timestamp \<Rightarrow>
        if \<bar>js_minus (of_int now) timestamp\<bar> > 300000 then Some ''timestamp outside allowed window'' else None
    | _ \<Rightarrow> Some ''invalid timestamp'')"

definition field_mismatch :: "signature_auth_options \<Rightarrow> http_request \<Rightarrow> string \<Rightarrow> string option" where
  "field_mismatch opts rq publicKey = (case sa_matchBodyField opts of
      None \<Rightarrow> None
    | Some f \<Rightarrow> (case Option.bind (rq_body rq) (\<lambda>j. jstring (jfield j f)) of
        None \<Rightarrow> None
      | Some v \<Rightarrow> if v \<noteq> publicKey then Some (''public key mismatch for '' @ f) else None))"

definition auth_bypassed :: "process_env \<Rightarrow> signature_auth_options \<Rightarrow> bool" where
  "auth_bypassed penv opts \<longleftrightarrow>
     \<not> sa_enforceInLocal opts \<and> penv ''NETWORK'' = Some ''local'' \<or> penv ''NODE_ENV'' = Some ''test''"

definition signatureAuth ::
  "process_env \<Rightarrow> signature_auth_options \<Rightarrow> (http_request \<Rightarrow> ('a env_scheme, response) prog) \<Rightarrow>
   http_request \<Rightarrow> ('a env_scheme, response) prog" where
  "signatureAuth penv opts next rq =
     (if auth_bypassed penv opts then next rq
      else
        let publicKey = header_text rq ''x-tg-public-key'';
            timestampStr = header_text rq ''x-tg-timestamp'';
            nonce = header_text rq ''x-tg-nonce'';
            signatureStr = header_text rq ''x-tg-signature'';
            fail = auth_fail penv rq publicKey
        in if publicKey = [] \<or> timestampStr = [] \<or> nonce = [] \<or> signatureStr = [] then
             (if sa_required opts then fail ''missing signature headers'' else next rq)
           else if (case js_to_number timestampStr of Fin t \<Rightarrow> False | _ \<Rightarrow> True) then fail ''invalid timestamp''
           else bindE date_now (\<lambda>now. case timestamp_error now timestampStr of
             Some e \<Rightarrow> fail e
           | None \<Rightarrow> (case field_mismatch opts rq publicKey of
               Some e \<Rightarrow> fail e
             | None \<Rightarrow> bindE (getsE w_ext) (\<lambda>x.
                 if \<not> x_key_ok x publicKey then fail ''invalid public key''
                 else bindE (liftE (x_verify x publicKey (signed_payload x rq timestampStr nonce)
                        (parseSignature signatureStr))) (\<lambda>ok.
                   if \<not> ok then fail ''invalid signature''
                   else tryE (getRedisClient penv)
                     (\<lambda>_. bindE (check_nonce penv opts publicKey nonce timestampStr) (\<lambda>err. case err of
                        Some e \<Rightarrow> fail e
                      | None \<Rightarrow> bindE (record_auth rq 200 None) (\<lambda>_.
                          next (rq\<lparr>rq_authPublicKey := Some publicKey\<rparr>))))
                     (\<lambda>err. bindE (record_auth rq 503 (Some ''nonce store unavailable'')) (\<lambda>_.
                        ret (error_response 503 ''nonce store unavailable''))))))))"

section \<open>Runs\<close>

lemma redis_cmd_cases:
  assumes "redis_cmd cmd w = (r, w')"
  obtains (fault) e where "r = Inl e" "w' = w\<lparr>w_redis := (w_redis w)\<lparr>rd_cmds := Suc (rd_cmds (w_redis w))\<rparr>\<rparr>"
  | (refused) e where "cmd (w_redis w) = Inl e" "r = Inl e"
      "w' = w\<lparr>w_redis := (w_redis w)\<lparr>rd_cmds := Suc (rd_cmds (w_redis w))\<rparr>\<rparr>"
  | (runs) x s where "cmd (w_redis w) = Inr (x, s)" "r = Inr x"
      "w' = w\<lparr>w_redis := s\<lparr>rd_cmds := Suc (rd_cmds s)\<rparr>\<rparr>"
  using assms by (auto simp: redis_cmd_def rd_run_def Let_def split: option.splits sum.splits prod.splits)

text \<open>Without faults a command runs.\<close>

definition redis_up :: "process_env \<Rightarrow> 'a env_scheme \<Rightarrow> bool" where
  "redis_up penv w \<longleftrightarrow> (\<exists>url. penv ''REDIS_URL'' = Some url \<and> url \<noteq> []) \<and> (\<forall>n. rd_fault (w_redis w) n = None)"

lemma redis_cmd_up:
  "(\<forall>n. rd_fault (w_redis w) n = None) \<Longrightarrow> redis_cmd cmd w = (case cmd (w_redis w) of
     Inl e \<Rightarrow> (Inl e, w\<lparr>w_redis := (w_redis w)\<lparr>rd_cmds := Suc (rd_cmds (w_redis w))\<rparr>\<rparr>)
   | Inr (x, s) \<Rightarrow> (Inr x, w\<lparr>w_redis := s\<lparr>rd_cmds := Suc (rd_cmds s)\<rparr>\<rparr>))"
  by (simp add: redis_cmd_def rd_run_def Let_def split: sum.split prod.split)

lemma getRedisClient_keys:
  assumes "getRedisClient penv w = (r, w')"
  shows "rd_keys (w_redis w') = rd_keys (w_redis w)" "w_ext w' = w_ext w"
  using assms
  by (auto simp: getRedisClient_def prog_run split: option.splits if_splits prod.splits sum.splits elim!: redis_cmd_cases)

lemma getRedisClient_up:
  assumes "redis_up penv w"
  shows "\<exists>w'. getRedisClient penv w = (Inr (), w') \<and> redis_up penv w' \<and> w_ext w' = w_ext w"
  using assms by (auto simp: redis_up_def getRedisClient_def bindE_apply getsE_apply modifyE_apply ret_apply redis_cmd_up)

lemma metric_inc_run: "metric_inc name labels w = (Inr (), w\<lparr>w_log := w_log w @ [MetricInc name labels]\<rparr>)"
  by (simp add: metric_inc_def call_ext_def)

text \<open>A refusal: an error response of the middleware, or a thrown error, which becomes a 500.\<close>

definition refused :: "exn + response \<Rightarrow> bool" where
  "refused r = (case r of Inl e \<Rightarrow> True | Inr resp \<Rightarrow> fst resp \<in> {401, 429, 503})"

lemma auth_fail_refuses: "auth_fail penv rq pk e w = (r, w') \<Longrightarrow> refused r"
  by (auto simp: auth_fail_def bindE_apply record_auth_def metric_inc_run ret_apply refused_def error_response_def
      split: prod.splits sum.splits if_splits)

lemma lookup_keys: "rd_lookup r k = Some x \<Longrightarrow> rd_keys r k = Some x"
  by (auto simp: rd_lookup_def split: option.splits if_splits)

lemma set_nx_other:
  assumes "redis_cmd (rd_SET_NX_EX k' v n) w = (r, w')" "k' \<noteq> k"
  shows "rd_keys (w_redis w') k = rd_keys (w_redis w) k"
  using assms(1) by (rule redis_cmd_cases) (use assms(2) in \<open>auto simp: rd_SET_NX_EX_def split: option.splits\<close>)

lemma bindE_Inr: "m w = (Inr x, w') \<Longrightarrow> bindE m f w = f x w'"
  by (simp add: bindE_apply)

lemma bindE_Inl: "m w = (Inl e, w') \<Longrightarrow> bindE m f w = (Inl e, w')"
  by (simp add: bindE_apply)

lemma bindE_returns:
  assumes "bindE m f w = (Inr y, w2)"
  obtains x w1 where "m w = (Inr x, w1)" "f x w1 = (Inr y, w2)"
  using assms by (auto simp: bindE_apply split: prod.splits sum.splits)

lemma check_nonce_accepts:
  assumes "check_nonce penv opts pk nonce ts w = (Inr None, w')"
  shows "rd_keys (w_redis w') (nonce_key pk nonce) = None"
    and "(\<exists>e. rd_keys (w_redis w) (nonce_key pk nonce) = Some (RText ts, e)) \<or> penv ''TG_ALLOW_CLIENT_NONCE'' = Some ''true''"
proof -
  obtain r1 w1 where g: "redis_cmd (rd_GETDEL (nonce_key pk nonce)) w = (r1, w1)" by fastforce
  have other: "''tg:nonce:'' @ s \<noteq> nonce_key pk nonce" for s by (simp add: nonce_key_def)
  have "rd_keys (w_redis w') (nonce_key pk nonce) = None \<and>
    ((\<exists>e. rd_keys (w_redis w) (nonce_key pk nonce) = Some (RText ts, e)) \<or> penv ''TG_ALLOW_CLIENT_NONCE'' = Some ''true'')"
    using g
  proof (cases rule: redis_cmd_cases)
    case (runs x s)
    then have s: "rd_keys s (nonce_key pk nonce) = None"
      and x: "\<And>t. x = Some t \<Longrightarrow> \<exists>e. rd_keys (w_redis w) (nonce_key pk nonce) = Some (RText t, e)"
      by (auto simp: rd_GETDEL_def split: option.splits redis_value.splits prod.splits dest!: lookup_keys)
    show ?thesis
    proof (cases x)
      case (Some t)
      then show ?thesis using assms g runs s x by (auto simp: check_nonce_def bindE_apply ret_apply split: if_splits)
    next
      case None
      let ?set = "redis_cmd (rd_SET_NX_EX (''tg:nonce:'' @ pk @ '':'' @ nonce) ''1'' (sa_nonceTtlSeconds opts))"
      have g': "redis_cmd (rd_GETDEL (nonce_key pk nonce)) w = (Inr None, w1)" using g runs None by simp
      then have run: "penv ''TG_ALLOW_CLIENT_NONCE'' = Some ''true''"
        "bindE ?set (\<lambda>nonceSet. ret (if nonceSet then None else Some ''replayed nonce'')) w1 = (Inr None, w')"
        using assms unfolding check_nonce_def bindE_Inr [where m = "redis_cmd (rd_GETDEL (nonce_key pk nonce))" and w = w, OF g'] by (auto simp: ret_apply split: if_splits)
      obtain b w2 where b: "?set w1 = (Inr b, w2)" "w' = w2"
        using run(2) by (rule bindE_returns) (simp add: ret_apply)
      have "rd_keys (w_redis w') (nonce_key pk nonce) = rd_keys (w_redis w1) (nonce_key pk nonce)"
        unfolding b(2) using b(1) other by (rule set_nx_other)
      then show ?thesis using run(1) s runs by simp
    qed
  qed (use assms g in \<open>auto simp: check_nonce_def bindE_apply\<close>)
  then show "rd_keys (w_redis w') (nonce_key pk nonce) = None"
    "(\<exists>e. rd_keys (w_redis w) (nonce_key pk nonce) = Some (RText ts, e)) \<or> penv ''TG_ALLOW_CLIENT_NONCE'' = Some ''true''"
    by blast+
qed

text \<open>What a request that gets through has shown, from \<open>w\<close> to the world \<open>w1\<close> its handler starts in.\<close>

definition authentic ::
  "process_env \<Rightarrow> signature_auth_options \<Rightarrow> http_request \<Rightarrow> 'a env_scheme \<Rightarrow> 'a env_scheme \<Rightarrow> bool" where
  "authentic penv opts rq w w1 \<longleftrightarrow>
     (let x = w_ext w; pk = header_text rq ''x-tg-public-key''; ts = header_text rq ''x-tg-timestamp'';
          nonce = header_text rq ''x-tg-nonce'';
          key = nonce_key pk nonce
      in x_key_ok x pk \<and>
         x_verify x pk (signed_payload x rq ts nonce) (parseSignature (header_text rq ''x-tg-signature'')) = Inr True \<and>
         timestamp_error (w_now w (w_reads w)) ts = None \<and> field_mismatch opts rq pk = None \<and>
         ((\<exists>e. rd_keys (w_redis w) key = Some (RText ts, e)) \<or> penv ''TG_ALLOW_CLIENT_NONCE'' = Some ''true'') \<and>
         rd_keys (w_redis w1) key = None)"

lemma bindE_date_now: "bindE date_now f w = f (w_now w (w_reads w)) (w\<lparr>w_reads := Suc (w_reads w)\<rparr>)"
  by (simp add: bindE_apply date_now_def)

lemma bindE_getsE: "bindE (getsE g) f w = f (g w) w"
  by (simp add: bindE_apply getsE_apply)

lemma redis_cmd_apply: "redis_cmd cmd w = (case rd_run cmd (w_redis w) of (r, s) \<Rightarrow> (r, w\<lparr>w_redis := s\<rparr>))"
  by (simp add: redis_cmd_def)

lemma bindE_liftE: "bindE (liftE (Inr x)) f w = f x w"
  by (simp add: bindE_apply liftE_apply)

text \<open>The authentication leaves the stores alone.\<close>

lemma env_step_fields: "env_step w (w\<lparr>w_redis_client := b\<rparr>)" "env_step w (w\<lparr>w_reads := n\<rparr>)"
  "env_step (w\<lparr>w_reads := n\<rparr>) w' = env_step w w'"
  by (simp_all add: env_step_def)

lemma env_only_auth [env_only_rules]:
  "env_only (getRedisClient penv)" "env_only (incrWithTtl key n)" "env_only (metric_inc name labels)"
  "env_only (record_auth rq st reason)" "env_only (auth_fail penv rq pk e)" "env_only (check_nonce penv opts pk nonce ts)"
proof -
  show client: "env_only (getRedisClient penv)" for penv
    unfolding getRedisClient_def by (auto intro!: env_only_rules env_step_fields split: option.split)
  show incr: "env_only (incrWithTtl key n)" for key n unfolding incrWithTtl_def by (auto intro!: env_only_rules)
  show "env_only (metric_inc name labels)" for name labels unfolding metric_inc_def by (rule env_only_rules)
  show rec: "env_only (record_auth rq st reason)" for rq st reason
    unfolding record_auth_def metric_inc_def by (auto intro!: env_only_rules split: option.split)
  show "env_only (auth_fail penv rq pk e)"
    unfolding auth_fail_def by (auto intro!: env_only_rules client incr rec)
  show "env_only (check_nonce penv opts pk nonce ts)"
    unfolding check_nonce_def by (auto intro!: env_only_rules split: option.split)
qed

lemma auth_fail_refusal: "auth_fail penv rq pk e w = (r, w') \<Longrightarrow> refused r \<and> env_step w w'"
  using auth_fail_refuses env_onlyD [OF env_only_auth(5)] by blast

lemma signatureAuth_passes:
  assumes "\<not> auth_bypassed penv opts" "sa_required opts" "signatureAuth penv opts next rq w = (r, w')"
  shows "refused r \<and> env_step w w' \<or> (\<exists>w1. authentic penv opts rq w w1 \<and> env_step w w1 \<and>
    next (rq\<lparr>rq_authPublicKey := Some (header_text rq ''x-tg-public-key'')\<rparr>) w1 = (r, w'))"
proof -
  let ?pk = "header_text rq ''x-tg-public-key''" and ?ts = "header_text rq ''x-tg-timestamp''"
    and ?nonce = "header_text rq ''x-tg-nonce''" and ?x = "w_ext w" and ?w = "w\<lparr>w_reads := Suc (w_reads w)\<rparr>"
  let ?ok = "x_verify ?x ?pk (signed_payload ?x rq ?ts ?nonce) (parseSignature (header_text rq ''x-tg-signature''))"
  show ?thesis
  proof (cases "timestamp_error (w_now w (w_reads w)) ?ts = None \<and> field_mismatch opts rq ?pk = None \<and>
      x_key_ok ?x ?pk \<and> ?ok = Inr True \<and> ?pk \<noteq> [] \<and> ?ts \<noteq> [] \<and> ?nonce \<noteq> [] \<and> header_text rq ''x-tg-signature'' \<noteq> []")
    case False
    then show ?thesis using assms
      by (auto simp: signatureAuth_def Let_def bindE_apply date_now_def getsE_apply liftE_apply refused_def [of "Inl _"]
          env_order.refl env_step_fields split: if_splits option.splits sum.splits dest!: auth_fail_refusal)
  next
    case True
    obtain r1 w1 where g: "getRedisClient penv ?w = (r1, w1)" by fastforce
    note keys = getRedisClient_keys [OF g]
    have s1: "env_step w w1" using env_onlyD [OF env_only_auth(1) g] by (simp add: env_step_fields)
    have "(case js_to_number ?ts of Fin t \<Rightarrow> False | _ \<Rightarrow> True) = False"
      using True by (auto simp: timestamp_error_def split: jsnum.splits)
    then have run: "tryE (getRedisClient penv)
         (\<lambda>_. bindE (check_nonce penv opts ?pk ?nonce ?ts) (\<lambda>err. case err of
            Some e \<Rightarrow> auth_fail penv rq ?pk e
          | None \<Rightarrow> bindE (record_auth rq 200 None) (\<lambda>_. next (rq\<lparr>rq_authPublicKey := Some ?pk\<rparr>))))
         (\<lambda>err. bindE (record_auth rq 503 (Some ''nonce store unavailable'')) (\<lambda>_.
            ret (error_response 503 ''nonce store unavailable''))) ?w = (r, w')"
      using assms True by (simp add: signatureAuth_def Let_def bindE_date_now bindE_getsE bindE_liftE)
    show ?thesis
    proof (cases r1)
      case (Inl e)
      then show ?thesis using run g s1
        by (auto simp: tryE_apply bindE_apply record_auth_def metric_inc_run ret_apply refused_def error_response_def env_step_def)
    next
      case (Inr u)
      obtain r2 w2 where c: "check_nonce penv opts ?pk ?nonce ?ts w1 = (r2, w2)" by fastforce
      have s2: "env_step w w2" using env_order.trans [OF s1 env_onlyD [OF env_only_auth(6) c]] .
      show ?thesis
      proof (cases "r2 = Inr None")
        case False
        then show ?thesis using run g Inr c s2
          by (auto simp: tryE_apply bindE_apply refused_def [of "Inl _"] split: sum.splits option.splits
              dest!: auth_fail_refusal intro: env_order.trans)
      next
        case accepted: True
        let ?w3 = "w2\<lparr>w_log := w_log w2 @ [MetricInc ''tg_auth_signature_requests_total'' [nat_string 200, route_label rq]]\<rparr>"
        have "next (rq\<lparr>rq_authPublicKey := Some ?pk\<rparr>) ?w3 = (r, w')"
          using run g Inr c accepted by (simp add: tryE_apply bindE_apply record_auth_def metric_inc_run ret_apply)
        moreover have "authentic penv opts rq w ?w3"
          using True check_nonce_accepts [of penv opts ?pk ?nonce ?ts w1 w2] c accepted keys
          by (simp add: authentic_def Let_def)
        moreover have "env_step w ?w3" using s2 by (simp add: env_step_def)
        ultimately show ?thesis by blast
      qed
    qed
  qed
qed

text \<open>Faults and clock are not the program's to change.\<close>

definition redis_same :: "'a env_scheme \<Rightarrow> 'a env_scheme \<Rightarrow> bool" where
  "redis_same w w' \<longleftrightarrow> rd_fault (w_redis w') = rd_fault (w_redis w) \<and> rd_time (w_redis w') = rd_time (w_redis w)
     \<and> w_ext w' = w_ext w"

interpretation redis_order: world_order redis_same
  by unfold_locales (auto simp: redis_same_def)

lemma redis_same_cmd:
  assumes "\<And>r x s. cmd r = Inr (x, s) \<Longrightarrow> rd_fault s = rd_fault r \<and> rd_time s = rd_time r"
  shows "evolves redis_same (redis_cmd cmd)"
  using assms by (intro evolvesI) (auto simp: redis_same_def elim!: redis_cmd_cases)

lemma redis_same_cmds:
  "evolves redis_same (redis_cmd (rd_INCR k))" "evolves redis_same (redis_cmd (rd_EXPIRE k n))"
  "evolves redis_same (redis_cmd (rd_SET_NX_EX k v n))" "evolves redis_same (redis_cmd (rd_GETDEL k))"
  "evolves redis_same (redis_cmd (\<lambda>r. Inr ((), r)))"
  by (rule redis_same_cmd;
      auto simp: rd_INCR_def rd_EXPIRE_def rd_SET_NX_EX_def rd_GETDEL_def split: option.splits redis_value.splits prod.splits)+

lemma redis_same_env:
  "evolves redis_same date_now" "evolves redis_same randomUUID" "evolves redis_same (call_ext c f)"
  "evolves redis_same (modifyE (w_redis_client_update f'))"
  by (auto simp: evolves_def redis_same_def date_now_def randomUUID_def call_ext_def modifyE_apply)

lemma issueNonce_same: "evolves redis_same (issueNonce penv rq)"
  unfolding issueNonce_def getRedisClient_def incrWithTtl_def record_nonce_def metric_inc_def Let_def
  by (intro redis_order.evolves_intros redis_same_cmds redis_same_env | simp split: if_split | intro conjI impI)+

lemma redis_upD: "redis_up penv w \<Longrightarrow> \<forall>n. rd_fault (w_redis w) n = None"
  by (simp add: redis_up_def)

lemma bindE_randomUUID: "bindE randomUUID f w = f (w_uuid w (w_uuids w)) (w\<lparr>w_uuids := Suc (w_uuids w)\<rparr>)"
  by (simp add: bindE_apply randomUUID_def)

lemma bindE_record_nonce: "bindE (record_nonce st) f w =
    f () (w\<lparr>w_log := w_log w @ [MetricInc ''tg_auth_nonce_requests_total'' [nat_string st]]\<rparr>)"
  by (simp add: bindE_apply record_nonce_def metric_inc_run)

lemma issueNonce_stored:
  assumes "issueNonce penv rq w = (Inr (200, JsonBody (nonce_json publicKey timestamp nonce)), w')"
  shows "rd_keys (w_redis w') (nonce_key publicKey nonce) =
    Some (RText (int_string timestamp), Some (rd_time (w_redis w') (rd_cmds (w_redis w') - 1) + 600000))"
proof -
  let ?pk = "body_text (x_num_string (w_ext w)) (rq_body rq) ''publicKey''"
  have ok: "?pk \<noteq> []" "x_key_ok (w_ext w) ?pk"
    using assms by (auto simp: issueNonce_def bindE_getsE Let_def bindE_record_nonce ret_apply error_response_def
        split: if_splits)
  note run = assms [unfolded issueNonce_def bindE_getsE Let_def, simplified ok if_False not_True_eq_False simp_thms]
  let ?rest = "\<lambda>ipCount. if 60 < ipCount then bindE (record_nonce 429) (\<lambda>_. ret (error_response 429 ''rate limit exceeded''))
      else bindE date_now (\<lambda>timestamp. bindE randomUUID (\<lambda>nonce.
        bindE (redis_cmd (rd_SET_NX_EX (nonce_key ?pk nonce) (int_string timestamp) 600)) (\<lambda>ok.
          if \<not> ok then bindE (record_nonce 503) (\<lambda>_. ret (error_response 503 ''nonce store unavailable''))
          else bindE (record_nonce 200) (\<lambda>_. ret (200, JsonBody (nonce_json ?pk timestamp nonce))))))"
  obtain u w1 where run1: "bindE (incrWithTtl (authnonce_ip_key (rq_ip rq)) 60) ?rest w1 =
      (Inr (200, JsonBody (nonce_json publicKey timestamp nonce)), w')"
    using run by (rule bindE_returns)
  obtain c w2 where run2: "?rest (c :: nat) w2 = (Inr (200, JsonBody (nonce_json publicKey timestamp nonce)), w')"
    using run1 by (rule bindE_returns)
  let ?w3 = "w2\<lparr>w_reads := Suc (w_reads w2), w_uuids := Suc (w_uuids w2)\<rparr>"
  let ?t = "w_now w2 (w_reads w2)" and ?n = "w_uuid w2 (w_uuids w2)"
  have "bindE (redis_cmd (rd_SET_NX_EX (nonce_key ?pk ?n) (int_string ?t) 600)) (\<lambda>ok.
          if \<not> ok then bindE (record_nonce 503) (\<lambda>_. ret (error_response 503 ''nonce store unavailable''))
          else bindE (record_nonce 200) (\<lambda>_. ret (200, JsonBody (nonce_json ?pk ?t ?n)))) ?w3 =
      (Inr (200, JsonBody (nonce_json publicKey timestamp nonce)), w')"
    using run2
    by (auto simp: bindE_record_nonce ret_apply error_response_def bindE_date_now bindE_randomUUID split: if_split_asm
        cong: if_cong)
  then obtain b w4 where set: "redis_cmd (rd_SET_NX_EX (nonce_key ?pk ?n) (int_string ?t) 600) ?w3 = (Inr b, w4)"
    and rest: "(if \<not> b then bindE (record_nonce 503) (\<lambda>_. ret (error_response 503 ''nonce store unavailable''))
      else bindE (record_nonce 200) (\<lambda>_. ret (200, JsonBody (nonce_json ?pk ?t ?n)))) w4 =
      (Inr (200, JsonBody (nonce_json publicKey timestamp nonce)), w')"
    by (rule bindE_returns)
  have eq: "b" "publicKey = ?pk" "timestamp = ?t" "nonce = ?n" "w_redis w' = w_redis w4"
    using rest by (auto simp: bindE_record_nonce ret_apply error_response_def nonce_json_def split: if_splits)
  show ?thesis using set unfolding eq(2-5)
    by (rule redis_cmd_cases) (use eq(1) in \<open>auto simp: rd_SET_NX_EX_def split: option.splits\<close>)
qed

section \<open>Properties\<close>

text \<open>C3. Behind \<open>signatureAuth\<close> a handler runs only for a request that is authentic: its key is a public key,
  its signature verifies for method, path, time stamp, nonce and body, the time stamp is within five minutes
  of the clock, a matched body field names the key, and its nonce was issued with that time stamp (or client
  nonces are allowed) and is used up before the handler starts. Every other request is refused, and the stores stay
  as they are.\<close>

theorem signed_request_checked:
  assumes "\<not> auth_bypassed penv opts" and "sa_required opts"
    and "signatureAuth penv opts next rq w = (r, w')"
  shows "refused r \<and> env.more w' = env.more w \<or> (\<exists>w1. authentic penv opts rq w w1 \<and> env.more w1 = env.more w \<and>
    next (rq\<lparr>rq_authPublicKey := Some (header_text rq ''x-tg-public-key'')\<rparr>) w1 = (r, w'))"
  using signatureAuth_passes [OF assms] unfolding env_step_def by blast

definition sample_penv :: process_env where
  "sample_penv k = (if k = ''REDIS_URL'' then Some ''redis://r'' else None)"

definition sample_request :: http_request where
  "sample_request =
     \<lparr> rq_method = ''POST'', rq_url = ''/bids'', rq_route = Some ''/bids'',
       rq_header = (\<lambda>k. if k = ''x-tg-public-key'' then Some ''G'' else if k = ''x-tg-timestamp'' then Some ''0''
         else if k = ''x-tg-nonce'' then Some ''n'' else if k = ''x-tg-signature'' then Some ''ab'' else None),
       rq_ip = ''ip'', rq_body = None, rq_rawBody = Some ''body'', rq_authPublicKey = None \<rparr>"

definition sample_nonces :: "(string \<Rightarrow> (redis_value \<times> int option) option) \<Rightarrow> mem_world" where
  "sample_nonces keys = (sample_mem [] [])\<lparr>w_redis := sample_redis\<lparr>rd_keys := keys\<rparr>\<rparr>"

lemma sample_not_bypassed: "\<not> auth_bypassed sample_penv default_auth" "sa_required default_auth"
  by (simp_all add: auth_bypassed_def sample_penv_def default_auth_def)

theorem signed_request_checked_witness:
  "let run = signatureAuth sample_penv default_auth (\<lambda>rq. ret (200, InvalidRequest)) sample_request (sample_nonces Map.empty)
   in refused (fst run) \<and> env.more (snd run) = env.more (sample_nonces Map.empty) \<or>
     (\<exists>w1. authentic sample_penv default_auth sample_request (sample_nonces Map.empty) w1 \<and>
       env.more w1 = env.more (sample_nonces Map.empty) \<and> ret (200, InvalidRequest) w1 = run)"
  using signed_request_checked [OF sample_not_bypassed, of "\<lambda>rq. ret (200, InvalidRequest)" sample_request "sample_nonces Map.empty"]
  by (simp add: Let_def) (metis prod.collapse)




text \<open>C17. A nonce the server issues is good for one request: presented with its time stamp before it expires it is
  accepted, and the second time it is not.\<close>

theorem nonce_used_once:
  assumes "redis_up penv w" "penv ''TG_ALLOW_CLIENT_NONCE'' \<noteq> Some ''true''"
    and "issueNonce penv rq w = (Inr (200, JsonBody (nonce_json publicKey timestamp nonce)), w')"
    and "\<And>n. rd_time (w_redis w) n < rd_time (w_redis w) (rd_cmds (w_redis w') - 1) + 600000"
  shows "\<exists>w1 w2. check_nonce penv opts publicKey nonce (int_string timestamp) w' = (Inr None, w1) \<and>
    check_nonce penv opts publicKey nonce (int_string timestamp) w1 = (Inr (Some ''invalid nonce''), w2)"
proof -
  let ?k = "nonce_key publicKey nonce"
  note up = redis_upD [OF assms(1)]
  have same: "redis_same w w'" by (rule evolvesD [OF issueNonce_same assms(3)])
  have stored: "rd_keys (w_redis w') ?k = Some (RText (int_string timestamp), Some (rd_time (w_redis w') (rd_cmds (w_redis w') - 1) + 600000))"
    using assms(3) by (rule issueNonce_stored)
  have look: "rd_lookup (w_redis w') ?k \<noteq> None \<and> fst (the (rd_lookup (w_redis w') ?k)) = RText (int_string timestamp)"
    using stored same assms(4) by (simp add: rd_lookup_def redis_same_def)
  let ?w1 = "w'\<lparr>w_redis := (w_redis w')\<lparr>rd_keys := (rd_keys (w_redis w'))(?k := None), rd_cmds := Suc (rd_cmds (w_redis w'))\<rparr>\<rparr>"
  have faults: "\<forall>n. rd_fault (w_redis w') n = None" "\<forall>n. rd_fault (w_redis ?w1) n = None"
    using up same by (simp_all add: redis_same_def)
  have "redis_cmd (rd_GETDEL ?k) w' = (Inr (Some (int_string timestamp)), ?w1)"
    using look by (auto simp: redis_cmd_up [OF faults(1)] rd_GETDEL_def)
  then have "check_nonce penv opts publicKey nonce (int_string timestamp) w' = (Inr None, ?w1)"
    by (simp add: check_nonce_def bindE_apply ret_apply)
  moreover have "\<exists>w2. check_nonce penv opts publicKey nonce (int_string timestamp) ?w1 = (Inr (Some ''invalid nonce''), w2)"
    using assms(2) by (simp add: check_nonce_def bindE_apply ret_apply redis_cmd_up [OF faults(2)] rd_GETDEL_def rd_lookup_def)
  ultimately show ?thesis by blast
qed

text \<open>A fault between \<open>INCR\<close> and \<open>EXPIRE\<close> leaves a counter without an expiry; once it has reached the limit, the
  address it counts never gets a nonce again, however late it asks.\<close>

theorem address_locked_out:
  assumes "redis_up penv w" "x_key_ok (w_ext w) publicKey" "publicKey \<noteq> []"
    and "rq_body rq = Some (JObj [(''publicKey'', JStr publicKey)])"
    and "rd_keys (w_redis w) (authnonce_ip_key (rq_ip rq)) = Some (RCounter n, None)" "60 \<le> n"
  shows "\<exists>w'. issueNonce penv rq w = (Inr (error_response 429 ''rate limit exceeded''), w') \<and>
    rd_keys (w_redis w') (authnonce_ip_key (rq_ip rq)) = Some (RCounter (Suc n), None) \<and>
    redis_up penv w' \<and> w_ext w' = w_ext w"
proof -
  let ?k = "authnonce_ip_key (rq_ip rq)"
  have pk: "body_text (x_num_string (w_ext w)) (rq_body rq) ''publicKey'' = publicKey"
    using assms(3,4) by (simp add: body_text_def)
  obtain w1 where client: "getRedisClient penv w = (Inr (), w1)" "redis_up penv w1" "w_ext w1 = w_ext w"
    using getRedisClient_up [OF assms(1)] by blast
  have k1: "rd_lookup (w_redis w1) ?k = Some (RCounter n, None)"
    using getRedisClient_keys [OF client(1)] assms(5) by (simp add: rd_lookup_def)
  note up1 = redis_upD [OF client(2)]
  let ?s = "(w_redis w1)\<lparr>rd_keys := (rd_keys (w_redis w1))(?k \<mapsto> (RCounter (Suc n), None))\<rparr>"
  let ?w2 = "w1\<lparr>w_redis := ?s\<lparr>rd_cmds := Suc (rd_cmds ?s)\<rparr>\<rparr>"
  have incr: "incrWithTtl ?k 60 w1 = (Inr (Suc n), ?w2)"
    using k1 assms(6) by (simp add: incrWithTtl_def bindE_apply redis_cmd_up [OF up1] rd_INCR_def ret_apply)
  show ?thesis
    using assms(2,3,6) client incr
    by (simp add: issueNonce_def bindE_getsE pk Let_def bindE_apply [of "getRedisClient penv"] bindE_apply [of "incrWithTtl _ _"] bindE_record_nonce ret_apply
        redis_up_def redis_same_def)
qed

definition sample_nonce_request :: http_request where
  "sample_nonce_request = sample_request\<lparr>rq_body := Some (JObj [(''publicKey'', JStr ''G'')])\<rparr>"

theorem address_locked_out_witness:
  "let w = sample_nonces [authnonce_ip_key ''ip'' \<mapsto> (RCounter 60, None)]
   in \<exists>w'. issueNonce sample_penv sample_nonce_request w = (Inr (error_response 429 ''rate limit exceeded''), w') \<and>
    rd_keys (w_redis w') (authnonce_ip_key ''ip'') = Some (RCounter 61, None)"
proof -
  let ?w = "sample_nonces [authnonce_ip_key ''ip'' \<mapsto> (RCounter 60, None)]"
  have "redis_up sample_penv ?w" "x_key_ok (w_ext ?w) ''G''" "''G'' \<noteq> []" "rq_ip sample_nonce_request = ''ip''"
    "rq_body sample_nonce_request = Some (JObj [(''publicKey'', JStr ''G'')])"
    "rd_keys (w_redis ?w) (authnonce_ip_key (rq_ip sample_nonce_request)) = Some (RCounter 60, None)"
    by (simp_all add: sample_nonces_def sample_defs redis_up_def sample_penv_def sample_nonce_request_def sample_request_def)
  then show ?thesis
    using address_locked_out [of sample_penv ?w "''G''" sample_nonce_request 60] by auto
qed

lemma sample_nonce_issued:
  obtains w' where "issueNonce sample_penv sample_nonce_request (sample_nonces Map.empty)
    = (Inr (200, JsonBody (nonce_json ''G'' 0 ''u'')), w')"
proof -
  have "body_text num (rq_body sample_nonce_request) ''publicKey'' = ''G''" for num
    by (simp add: sample_nonce_request_def body_text_def)
  then show ?thesis
    by (intro that) (simp add: issueNonce_def bindE_getsE Let_def sample_nonces_def sample_defs getRedisClient_def sample_penv_def
        bindE_assoc incrWithTtl_def bindE_apply [of "modifyE _"] bindE_apply [of "redis_cmd _"] redis_cmd_apply rd_run_def modifyE_apply
        rd_INCR_def rd_EXPIRE_def rd_SET_NX_EX_def rd_lookup_def bindE_date_now bindE_randomUUID bindE_record_nonce ret_apply
        nonce_key_def authnonce_ip_key_def)
qed

theorem nonce_used_once_witness:
  "\<exists>w' w1 w2. issueNonce sample_penv sample_nonce_request (sample_nonces Map.empty) =
      (Inr (200, JsonBody (nonce_json ''G'' 0 ''u'')), w') \<and>
    check_nonce sample_penv default_auth ''G'' ''u'' (int_string 0) w' = (Inr None, w1) \<and>
    check_nonce sample_penv default_auth ''G'' ''u'' (int_string 0) w1 = (Inr (Some ''invalid nonce''), w2)"
proof -
  obtain w' where "issueNonce sample_penv sample_nonce_request (sample_nonces Map.empty)
    = (Inr (200, JsonBody (nonce_json ''G'' 0 ''u'')), w')"
    by (rule sample_nonce_issued)
  moreover have "redis_up sample_penv (sample_nonces Map.empty)" "rd_time (w_redis (sample_nonces Map.empty)) n = 0" for n
    by (simp_all add: sample_nonces_def sample_defs redis_up_def sample_penv_def)
  ultimately show ?thesis
    using nonce_used_once [of sample_penv "sample_nonces Map.empty" sample_nonce_request "''G''" 0 "''u''" w' default_auth]
    by (simp add: sample_penv_def)
qed

end
