(* ===== verification/Webhook.thy ===== *)
theory Webhook
  imports Retry JsNumber
begin

text \<open>
  \<open>services/webhookService.ts\<close>: a JSON document is posted, and posted again while the failure is
  worth it. The hook of the caller is told of every attempt. The time limit of an attempt is
  part of the answer of \<open>x_fetch\<close> (an \<open>AbortError\<close>); the numbers of retries and milliseconds are
  the integers the server reads from its environment.
\<close>

section \<open>Failures\<close>

record webhook_options =
  wo_timeoutMs :: int
  wo_maxRetries :: int
  wo_baseBackoffMs :: int

definition parseRetryAfterSeconds :: "string option \<Rightarrow> int option" where
  "parseRetryAfterSeconds header = (case header of
      None \<Rightarrow> None
    | Some raw \<Rightarrow>
        if raw = [] then None
        else let trimmed = js_trim raw
             in if trimmed = [] then None
                else (case js_to_number trimmed of
                    Fin n \<Rightarrow> if n \<ge> 0 \<and> n = of_int \<lfloor>n\<rfloor> then Some (math_trunc n) else None
                  | _ \<Rightarrow> None))"

definition classifyStatus :: "int \<Rightarrow> string" where
  "classifyStatus status =
     (if status \<ge> 500 then ''5xx'' else if status \<ge> 400 then ''4xx''
      else if status \<ge> 300 then ''3xx'' else ''2xx'')"

fun isWebhookRetryableError :: "exn \<Rightarrow> bool" where
  "isWebhookRetryableError (WebhookHttpError m status body ra) \<longleftrightarrow>
     status = 408 \<or> status = 429 \<or> 500 \<le> status \<and> status < 600"
| "isWebhookRetryableError (AbortError m) \<longleftrightarrow> True"
| "isWebhookRetryableError err \<longleftrightarrow>
     matches_ci [''fetch failed'', ''econnreset'', ''etimedout'', ''dns'', ''enotfound'', ''tls'', ''socket'',
       ''aborted'', ''timeout'', ''timed out''] (err_text err)"

text \<open>The class of the status, and the reason of a retry.\<close>

fun classifyWebhookError :: "exn \<Rightarrow> string \<times> string option" where
  "classifyWebhookError (WebhookHttpError m status body ra) =
     (classifyStatus status,
      if status = 429 then Some ''429'' else if status = 408 then Some ''408''
      else if status \<ge> 500 then Some ''5xx'' else None)"
| "classifyWebhookError (AbortError m) = (''timeout'', Some ''timeout'')"
| "classifyWebhookError err = (''network'', Some ''network'')"

fun http_status :: "exn \<Rightarrow> int option" where
  "http_status (WebhookHttpError m status body ra) = Some status"
| "http_status _ = None"

section \<open>Posting\<close>

record attempt_info =
  ai_attemptIndex :: nat
  ai_totalAttempts :: nat
  ai_statusClass :: string
  ai_httpStatus :: "int option"
  ai_willRetry :: bool
  ai_sleepMs :: "int option"
  ai_err :: "exn option"

type_synonym 'w attempt_hook = "attempt_info \<Rightarrow> ('w, unit) prog"

record post_json_result =
  pj_status :: int
  pj_bodyText :: string
  pj_attempts :: nat

definition call_hook :: "'w attempt_hook option \<Rightarrow> attempt_info \<Rightarrow> ('w, unit) prog" where
  "call_hook hooks info = (case hooks of None \<Rightarrow> ret () | Some onAttempt \<Rightarrow> onAttempt info)"

definition max_retries :: "webhook_options \<Rightarrow> nat" where
  "max_retries opts = nat (max 0 (wo_maxRetries opts))"

definition base_backoff :: "webhook_options \<Rightarrow> int" where
  "base_backoff opts = max 50 (wo_baseBackoffMs opts)"

text \<open>What the hook is told after attempt number \<open>k\<close> (from 0).\<close>

definition attempt_outcome ::
  "webhook_options \<Rightarrow> nat \<Rightarrow> string \<Rightarrow> int option \<Rightarrow> exn option \<Rightarrow> attempt_info" where
  "attempt_outcome opts k statusClass httpStatus err =
     \<lparr> ai_attemptIndex = k, ai_totalAttempts = max_retries opts + 1, ai_statusClass = statusClass,
       ai_httpStatus = httpStatus,
       ai_willRetry = (case err of None \<Rightarrow> False | Some e \<Rightarrow> isWebhookRetryableError e \<and> k + 1 \<le> max_retries opts),
       ai_sleepMs = None, ai_err = err \<rparr>"

definition post_attempt ::
  "webhook_options \<Rightarrow> 'a env_scheme attempt_hook option \<Rightarrow> string \<Rightarrow> json \<Rightarrow> nat \<Rightarrow>
   ('a env_scheme, post_json_result) prog" where
  "post_attempt opts hooks url payload k =
     tryE (call_ext (WebhookPost url payload) (\<lambda>x l. x_fetch x l url payload))
       (\<lambda>(status, text, retryAfter).
          bindE (liftE text) (\<lambda>bodyText.
          if 200 \<le> status \<and> status < 300 then
            bindE (call_hook hooks (attempt_outcome opts k (classifyStatus status) (Some status) None)) (\<lambda>_.
              ret \<lparr> pj_status = status, pj_bodyText = bodyText, pj_attempts = k + 1 \<rparr>)
          else
            let err = WebhookHttpError (''webhook failed: '' @ int_string status @ '' '' @ bodyText) status bodyText
                  (parseRetryAfterSeconds retryAfter)
            in bindE (call_hook hooks (attempt_outcome opts k (classifyStatus status) (Some status) (Some err))) (\<lambda>_.
               throw err)))
       (\<lambda>err.
          bindE (call_hook hooks (attempt_outcome opts k
            (case err of AbortError m \<Rightarrow> ''timeout'' | _ \<Rightarrow> ''network'') None (Some err))) (\<lambda>_.
          throw err))"

definition webhook_onRetry ::
  "'a env_scheme attempt_hook option \<Rightarrow> nat \<Rightarrow> nat \<Rightarrow> exn \<Rightarrow> int \<Rightarrow> ('a env_scheme, rat option) prog" where
  "webhook_onRetry hooks attempt totalAttempts lastError computedDelayMs =
     bindE (call_hook hooks
       \<lparr> ai_attemptIndex = attempt + 1, ai_totalAttempts = totalAttempts,
         ai_statusClass = fst (classifyWebhookError lastError), ai_httpStatus = http_status lastError,
         ai_willRetry = True, ai_sleepMs = Some computedDelayMs, ai_err = Some lastError \<rparr>) (\<lambda>_.
     ret None)"

definition webhook_retry :: "webhook_options \<Rightarrow> 'a env_scheme attempt_hook option \<Rightarrow> 'a env_scheme retry_options" where
  "webhook_retry opts hooks =
     \<lparr> ro_retries = max_retries opts, ro_baseDelayMs = base_backoff opts,
       ro_shouldRetry = isWebhookRetryableError, ro_jitterPct = 1 / 2,
       ro_onRetry = Some (webhook_onRetry hooks) \<rparr>"

definition postJson ::
  "webhook_options \<Rightarrow> string \<Rightarrow> json \<Rightarrow> 'a env_scheme attempt_hook option \<Rightarrow> ('a env_scheme, post_json_result) prog" where
  "postJson opts url payload hooks =
     withRetry_counting (post_attempt opts hooks url payload) (webhook_retry opts hooks)"

end
