(* ===== verification/Outbox.thy ===== *)
theory Outbox
  imports Auth Services
begin

text \<open>
  \<open>repositories/outboxRepository.ts\<close> and \<open>services/outboxPublisher.ts\<close>: the events stored with the
  data, and their way to the Redis stream. A command on the stream is given by its words; what Redis
  answers is a parameter. \<open>emit\<close> and \<open>insert\<close> are in the theory of the services.
\<close>

section \<open>The repository\<close>

record outbox_event =
  oe_id :: string
  oe_type :: string
  oe_aggregateType :: string
  oe_aggregateId :: string
  oe_payload :: json
  oe_createdAt :: string
  oe_processedAt :: "string option"
  oe_attempts :: nat
  oe_lastError :: "string option"

definition row_to_event :: "outbox_row \<Rightarrow> outbox_event" where
  "row_to_event r =
     \<lparr> oe_id = ob_id r, oe_type = ob_type r, oe_aggregateType = ob_aggregate_type r,
       oe_aggregateId = ob_aggregate_id r, oe_payload = ob_payload_json r,
       oe_createdAt = toISOString (ob_created_at r),
       oe_processedAt = map_option toISOString (ob_processed_at r),
       oe_attempts = ob_attempts r, oe_lastError = ob_last_error r \<rparr>"

definition unprocessed :: "outbox_row \<Rightarrow> bool" where
  "unprocessed r \<longleftrightarrow> ob_processed_at r = None"

definition pg_outbox_listUnprocessed :: "nat \<Rightarrow> ('a pg_world_scheme, outbox_event list) prog" where
  "pg_outbox_listUnprocessed limit = pg_select (\<lambda>w.
     Inr (map row_to_event (take limit (sort_key ob_created_at (filter unprocessed (pg_outbox w))))))"

definition pg_outbox_countUnprocessed :: "('a pg_world_scheme, nat) prog" where
  "pg_outbox_countUnprocessed = pg_select (\<lambda>w. Inr (length (filter unprocessed (pg_outbox w))))"

definition pg_outbox_countFailed :: "('a pg_world_scheme, nat) prog" where
  "pg_outbox_countFailed = pg_select (\<lambda>w.
     Inr (length (filter (\<lambda>r. unprocessed r \<and> ob_attempts r > 0) (pg_outbox w))))"

definition pg_outbox_findById :: "string \<Rightarrow> ('a pg_world_scheme, outbox_event option) prog" where
  "pg_outbox_findById i = pg_select (\<lambda>w. sum_bind (sql_uuid w i) (\<lambda>u.
     Inr (map_option row_to_event (List.find (\<lambda>r. ob_id r = u) (pg_outbox w)))))"

definition pg_outbox_markProcessed :: "string \<Rightarrow> ('a pg_world_scheme, unit) prog" where
  "pg_outbox_markProcessed i = pg_query (\<lambda>w. sum_bind (sql_uuid w i) (\<lambda>u.
     Inr ((), w\<lparr>pg_outbox := update_where (\<lambda>r. ob_id r = u \<and> unprocessed r)
       (\<lambda>r. r\<lparr>ob_processed_at := Some (sql_now w)\<rparr>) (pg_outbox w)\<rparr>)))"

text \<open>An error without a message is stored as null.\<close>

definition pg_outbox_markFailed :: "string \<Rightarrow> string option \<Rightarrow> ('a pg_world_scheme, unit) prog" where
  "pg_outbox_markFailed i error = pg_query (\<lambda>w. sum_bind (sql_uuid w i) (\<lambda>u.
     Inr ((), w\<lparr>pg_outbox := update_where (\<lambda>r. ob_id r = u)
       (\<lambda>r. r\<lparr>ob_attempts := Suc (ob_attempts r), ob_last_error := error\<rparr>) (pg_outbox w)\<rparr>)))"

section \<open>Commands on the stream\<close>

definition sendCommand :: "string list \<Rightarrow> ('a env_scheme, reply) prog" where
  "sendCommand args = call_ext (RedisStream args) (\<lambda>x l. x_stream x l args)"

definition xadd_event :: "(rat \<Rightarrow> string) \<Rightarrow> string \<Rightarrow> outbox_event \<Rightarrow> string list" where
  "xadd_event num streamKey e =
     [''XADD'', streamKey, ''MAXLEN'', ''~'', ''10000'', ''*'', ''id'', oe_id e, ''type'', oe_type e,
      ''aggregateType'', oe_aggregateType e, ''aggregateId'', oe_aggregateId e,
      ''payload'', json_stringify num (oe_payload e)]"

section \<open>The publisher\<close>

definition publish_event :: "string \<Rightarrow> outbox_event \<Rightarrow> ('a pg_world_scheme, unit) prog" where
  "publish_event streamKey event =
     catchE
       (bindE (getsE (\<lambda>w. x_num_string (w_ext w))) (\<lambda>num.
        bindE (sendCommand (xadd_event num streamKey event)) (\<lambda>_.
        bindE (pg_outbox_markProcessed (oe_id event)) (\<lambda>_.
        metric_inc ''tg_outbox_publish_events_total'' [''success'']))))
       (\<lambda>err.
        bindE (pg_outbox_markFailed (oe_id event) (err_message err)) (\<lambda>_.
        metric_inc ''tg_outbox_publish_events_total'' [''failed'']))"

definition publishOnce :: "string \<Rightarrow> nat \<Rightarrow> ('a pg_world_scheme, nat) prog" where
  "publishOnce streamKey batchSize =
     bindE (pg_outbox_listUnprocessed batchSize) (\<lambda>events.
     bindE (forE events (publish_event streamKey)) (\<lambda>_.
     ret (length events)))"

end
