(* ===== verification/Consumption.thy ===== *)
theory Consumption
  imports Services
begin

text \<open>
  \<open>repositories/eventConsumptionRepository.ts\<close>: which handler has seen which event, how often and with
  what result. \<open>tryStart\<close> is a transaction: what it changed is kept only when its \<open>commit\<close> succeeds.
\<close>

section \<open>Transactions\<close>

text \<open>
  \<open>begin ... commit\<close> on one client, with \<open>rollback\<close> after an error. What was not committed is
  discarded also when the rollback fails.
\<close>

definition sql_noop :: "('a pg_world_scheme, unit) prog" where
  "sql_noop = pg_query (\<lambda>w. Inr ((), w))"

definition discard :: "consumption_row list \<Rightarrow> ('a pg_world_scheme, unit) prog" where
  "discard rows = modifyE (\<lambda>w. w\<lparr>pg_consumptions := rows\<rparr>)"

definition consumption_transaction :: "('a pg_world_scheme, 'b) prog \<Rightarrow> ('a pg_world_scheme, 'b) prog" where
  "consumption_transaction body =
     bindE sql_noop (\<lambda>client.
     bindE (getsE pg_consumptions) (\<lambda>rows.
     catchE (bindE sql_noop (\<lambda>begin. body))
       (\<lambda>err. bindE (discard rows) (\<lambda>_. bindE sql_noop (\<lambda>rollback. throw err)))))"

section \<open>The repository\<close>

record consumption =
  cn_handlerName :: string
  cn_eventId :: string
  cn_streamEntryId :: "string option"
  cn_status :: consumption_status
  cn_attempts :: nat
  cn_lastError :: "string option"
  cn_nextRetryAt :: "string option"
  cn_createdAt :: string
  cn_updatedAt :: string

definition row_to_consumption :: "consumption_row \<Rightarrow> consumption" where
  "row_to_consumption r =
     \<lparr> cn_handlerName = ec_handler_name r, cn_eventId = ec_event_id r,
       cn_streamEntryId = ec_stream_entry_id r, cn_status = ec_status r, cn_attempts = ec_attempts r,
       cn_lastError = ec_last_error r, cn_nextRetryAt = map_option toISOString (ec_next_retry_at r),
       cn_createdAt = toISOString (ec_created_at r), cn_updatedAt = toISOString (ec_updated_at r) \<rparr>"

definition row_is :: "string \<Rightarrow> string \<Rightarrow> consumption_row \<Rightarrow> bool" where
  "row_is handlerName eventId r \<longleftrightarrow> ec_handler_name r = handlerName \<and> ec_event_id r = eventId"

definition consumption_select :: "string \<Rightarrow> string \<Rightarrow> ('a pg_world_scheme, consumption_row option) prog" where
  "consumption_select handlerName eventId = pg_select (\<lambda>w. sum_bind (sql_uuid w eventId) (\<lambda>u.
     Inr (List.find (row_is handlerName u) (pg_consumptions w))))"

definition consumption_insert ::
  "string \<Rightarrow> string \<Rightarrow> string option \<Rightarrow> int option \<Rightarrow> ('a pg_world_scheme, consumption_row) prog" where
  "consumption_insert handlerName eventId streamEntryId nextRetryAt = pg_query (\<lambda>w.
     sum_bind (sql_uuid w eventId) (\<lambda>u.
       let row = \<lparr> ec_handler_name = handlerName, ec_event_id = u, ec_stream_entry_id = streamEntryId,
             ec_status = PROCESSING, ec_attempts = 1, ec_last_error = None, ec_next_retry_at = nextRetryAt,
             ec_created_at = sql_now w, ec_updated_at = sql_now w \<rparr>
       in Inr (row, w\<lparr>pg_consumptions := pg_consumptions w @ [row]\<rparr>)))"

definition restart_row :: "string option \<Rightarrow> int \<Rightarrow> consumption_row \<Rightarrow> consumption_row" where
  "restart_row streamEntryId now r = r\<lparr> ec_status := PROCESSING, ec_attempts := Suc (ec_attempts r),
     ec_stream_entry_id := (case streamEntryId of None \<Rightarrow> ec_stream_entry_id r | Some s \<Rightarrow> Some s),
     ec_updated_at := now \<rparr>"

definition consumption_restart ::
  "string \<Rightarrow> string \<Rightarrow> string option \<Rightarrow> consumption_row \<Rightarrow> ('a pg_world_scheme, consumption_row) prog" where
  "consumption_restart handlerName eventId streamEntryId existing = pg_query (\<lambda>w.
     sum_bind (sql_uuid w eventId) (\<lambda>u.
       Inr (restart_row streamEntryId (sql_now w) existing,
         w\<lparr>pg_consumptions := update_where (row_is handlerName u) (restart_row streamEntryId (sql_now w))
            (pg_consumptions w)\<rparr>)))"

text \<open>\<open>attempts >= maxAttempts\<close>, where \<open>maxAttempts\<close> is a number read from the environment.\<close>

definition attempts_used_up :: "nat \<Rightarrow> jsnum \<Rightarrow> bool" where
  "attempts_used_up attempts maxAttempts = (case maxAttempts of
      NaN \<Rightarrow> False | Infinite neg \<Rightarrow> neg | Fin x \<Rightarrow> of_nat attempts \<ge> x)"

text \<open>The answer: whether the handler may run, and the record.\<close>

definition tryStart ::
  "string \<Rightarrow> string \<Rightarrow> string option \<Rightarrow> jsnum \<Rightarrow> int option \<Rightarrow> ('a pg_world_scheme, bool \<times> consumption) prog" where
  "tryStart handlerName eventId streamEntryId maxAttempts nextRetryAt =
     consumption_transaction
       (bindE (consumption_select handlerName eventId) (\<lambda>select. case select of
          None \<Rightarrow>
            bindE (consumption_insert handlerName eventId streamEntryId nextRetryAt) (\<lambda>inserted.
            bindE sql_noop (\<lambda>commit. ret (True, row_to_consumption inserted)))
        | Some existing \<Rightarrow>
            if ec_status existing = SUCCEEDED then
              bindE sql_noop (\<lambda>commit. ret (False, row_to_consumption existing))
            else if attempts_used_up (ec_attempts existing) maxAttempts then
              bindE sql_noop (\<lambda>commit. ret (False, row_to_consumption existing))
            else bindE date_now (\<lambda>now.
              if (case ec_next_retry_at existing of None \<Rightarrow> False | Some t \<Rightarrow> t > now) then
                bindE sql_noop (\<lambda>commit. ret (False, row_to_consumption existing))
              else
                bindE (consumption_restart handlerName eventId streamEntryId existing) (\<lambda>updated.
                bindE sql_noop (\<lambda>commit. ret (True, row_to_consumption updated))))))"

definition markSucceeded :: "string \<Rightarrow> string \<Rightarrow> ('a pg_world_scheme, unit) prog" where
  "markSucceeded handlerName eventId = pg_query (\<lambda>w. sum_bind (sql_uuid w eventId) (\<lambda>u.
     Inr ((), w\<lparr>pg_consumptions := update_where (row_is handlerName u)
       (\<lambda>r. r\<lparr> ec_status := SUCCEEDED, ec_last_error := None, ec_next_retry_at := None,
               ec_updated_at := sql_now w \<rparr>) (pg_consumptions w)\<rparr>)))"

definition markFailed ::
  "string \<Rightarrow> string \<Rightarrow> string option \<Rightarrow> int option \<Rightarrow> ('a pg_world_scheme, unit) prog" where
  "markFailed handlerName eventId error nextRetryAt = pg_query (\<lambda>w. sum_bind (sql_uuid w eventId) (\<lambda>u.
     Inr ((), w\<lparr>pg_consumptions := update_where (row_is handlerName u)
       (\<lambda>r. r\<lparr> ec_status := FAILED, ec_last_error := error, ec_next_retry_at := nextRetryAt,
               ec_updated_at := sql_now w \<rparr>) (pg_consumptions w)\<rparr>)))"

definition due_at :: "consumption_row \<Rightarrow> int" where
  "due_at r = (case ec_next_retry_at r of None \<Rightarrow> ec_updated_at r | Some t \<Rightarrow> t)"

definition retry_due :: "string \<Rightarrow> int \<Rightarrow> consumption_row \<Rightarrow> bool" where
  "retry_due handlerName now r \<longleftrightarrow> ec_handler_name r = handlerName \<and> ec_status r = FAILED \<and>
     (case ec_next_retry_at r of None \<Rightarrow> True | Some t \<Rightarrow> t \<le> now)"

definition listDueRetries :: "string \<Rightarrow> nat \<Rightarrow> ('a pg_world_scheme, consumption list) prog" where
  "listDueRetries handlerName limit = pg_select (\<lambda>w.
     Inr (map row_to_consumption
       (take limit (sort_key due_at (filter (retry_due handlerName (sql_now w)) (pg_consumptions w))))))"

end
