(* ===== verification/Consumer.thy ===== *)
theory Consumer
  imports Outbox
begin

text \<open>
  \<open>services/eventConsumer.ts\<close>: the reader of the Redis stream in a consumer group. The state of the
  worker process that the consumer and the worker service keep in their objects extends the
  world of the database.
\<close>

record worker_world = pg_world +
  wk_claimCursor :: string
  wk_claiming :: bool
  wk_running :: bool
  wk_lastBacklogSampleAt :: int
  wk_pendingConsumerKeys :: "string list"

section \<open>Replies\<close>

text \<open>\<open>String(reply)\<close>.\<close>

fun reply_string :: "reply \<Rightarrow> string" where
  "reply_string NilReply = ''null''"
| "reply_string (IntReply n) = int_string n"
| "reply_string (TextReply s) = s"
| "reply_string (ArrayReply rs) = commas (map (\<lambda>r. case r of NilReply \<Rightarrow> [] | _ \<Rightarrow> reply_string r) rs)"

text \<open>\<open>Array.isArray(reply) ? reply : undefined\<close>.\<close>

fun reply_array :: "reply \<Rightarrow> reply list option" where
  "reply_array (ArrayReply rs) = Some rs"
| "reply_array _ = None"

record stream_entry =
  se_id :: string
  se_fields :: "string \<Rightarrow> string option"

text \<open>Names and values alternate; a value that is missing is the text of \<open>undefined\<close>.\<close>

fun entry_fields :: "reply list \<Rightarrow> (string \<Rightarrow> string option) \<Rightarrow> string \<Rightarrow> string option" where
  "entry_fields [] m = m"
| "entry_fields [k] m = m(reply_string k \<mapsto> ''undefined'')"
| "entry_fields (k # v # rs) m = entry_fields rs (m(reply_string k \<mapsto> reply_string v))"

fun parse_entry :: "reply \<Rightarrow> stream_entry option" where
  "parse_entry (ArrayReply (i # raw # rest)) = Some
     \<lparr> se_id = reply_string i,
       se_fields = (case raw of ArrayReply rs \<Rightarrow> entry_fields rs Map.empty | _ \<Rightarrow> Map.empty) \<rparr>"
| "parse_entry _ = None"

definition parseEntries :: "reply \<Rightarrow> stream_entry list" where
  "parseEntries raw = (case raw of ArrayReply items \<Rightarrow> List.map_filter parse_entry items | _ \<Rightarrow> [])"

section \<open>Operations\<close>

record consumer_options =
  co_streamKey :: string
  co_group :: string
  co_consumer :: string
  co_blockMs :: nat
  co_count :: nat

definition ensureGroup :: "consumer_options \<Rightarrow> ('a env_scheme, unit) prog" where
  "ensureGroup opts =
     catchE
       (bindE (sendCommand [''XGROUP'', ''CREATE'', co_streamKey opts, co_group opts, ''$'', ''MKSTREAM'']) (\<lambda>_. ret ()))
       (\<lambda>err. if matches_ci [''busygroup''] (err_text err) then ret () else throw err)"

definition ack :: "consumer_options \<Rightarrow> string \<Rightarrow> ('a env_scheme, unit) prog" where
  "ack opts entryId =
     bindE (sendCommand [''XACK'', co_streamKey opts, co_group opts, entryId]) (\<lambda>_. ret ())"

definition pollOnce ::
  "consumer_options \<Rightarrow> (stream_entry \<Rightarrow> ('a env_scheme, unit) prog) \<Rightarrow> ('a env_scheme, nat) prog" where
  "pollOnce opts handler =
     bindE (sendCommand [''XREADGROUP'', ''GROUP'', co_group opts, co_consumer opts, ''COUNT'',
         nat_string (co_count opts), ''BLOCK'', nat_string (co_blockMs opts), ''STREAMS'', co_streamKey opts, ''>'']) (\<lambda>res.
       case res of
         ArrayReply (ArrayReply (name # raw # rest) # streams) \<Rightarrow>
           let entries = parseEntries raw
           in bindE (forE entries handler) (\<lambda>_. ret (length entries))
       | _ \<Rightarrow> ret 0)"

text \<open>\<open>claiming\<close> is set before the command and cleared when its answer has been worked off.\<close>

definition set_claiming :: "bool \<Rightarrow> ('a worker_world_scheme, unit) prog" where
  "set_claiming b = modifyE (\<lambda>w. w\<lparr>wk_claiming := b\<rparr>)"

definition finallyE :: "('w, 'b) prog \<Rightarrow> ('w, unit) prog \<Rightarrow> ('w, 'b) prog" where
  "finallyE m f = tryE m (\<lambda>x. bindE f (\<lambda>_. ret x)) (\<lambda>e. bindE f (\<lambda>_. throw e))"

definition autoClaimOnce ::
  "consumer_options \<Rightarrow> nat \<Rightarrow> (stream_entry \<Rightarrow> ('a worker_world_scheme, unit) prog) \<Rightarrow> ('a worker_world_scheme, nat) prog" where
  "autoClaimOnce opts minIdleMs handler =
     bindE (getsE wk_claiming) (\<lambda>claiming.
     if claiming then ret 0
     else
       bindE (set_claiming True) (\<lambda>_.
       bindE (getsE wk_claimCursor) (\<lambda>claimCursor.
       bindE (sendCommand [''XAUTOCLAIM'', co_streamKey opts, co_group opts, co_consumer opts,
           nat_string minIdleMs, claimCursor, ''COUNT'', nat_string (co_count opts)]) (\<lambda>res.
       finallyE
         (case res of
            ArrayReply (cursor # raw # rest) \<Rightarrow>
              bindE (case cursor of NilReply \<Rightarrow> ret ()
                | _ \<Rightarrow> modifyE (\<lambda>w. w\<lparr>wk_claimCursor := reply_string cursor\<rparr>)) (\<lambda>_.
              let entries = parseEntries raw
              in bindE (forE entries handler) (\<lambda>_. ret (length entries)))
          | _ \<Rightarrow> ret 0)
         (set_claiming False)))))"

end
