(* ===== verification/Worker.thy ===== *)
theory Worker
  imports Webhook Consumer Consumption Controllers
begin

text \<open>
  \<open>services/workerService.ts\<close>: the worker publishes the outbox to the stream, reads the stream in a
  consumer group, runs the handler of each event at most once at a time and records what became of it,
  and repeats failed events after a pause. The interval timer starts \<open>runTick\<close> again and again.
\<close>

record 'w worker =
  wr_streamKey :: string
  wr_consumerGroup :: string
  wr_consumerName :: string
  wr_maxAttempts :: jsnum
  wr_webhookUrl :: "string option"
  wr_backlogSampleIntervalMs :: "int option"
  wr_pauseConsumption :: bool
  wr_webhook :: webhook_options
  wr_escrow :: "'w escrow_provider"

section \<open>Event handlers\<close>

definition computeBackoff :: "nat \<Rightarrow> ('a env_scheme, int) prog" where
  "computeBackoff attempt =
     (let delay = min (5 * 60 * 1000) (2000 * 2 ^ (attempt - 1))
      in bindE date_now (\<lambda>now. ret (now + delay)))"

text \<open>\<open>p.k\<close> where \<open>p\<close> may be null, then \<open>String(p.k ?? '')\<close>.\<close>

definition null_property :: "string \<Rightarrow> exn" where
  "null_property k = JsError (''Cannot read properties of null (reading '' @ CHR 0x27 # k @ CHR 0x27 # '')'')"

definition payload_text :: "json \<Rightarrow> string \<Rightarrow> ('a env_scheme, string) prog" where
  "payload_text p k = (if p = JNull then throw (null_property k)
     else bindE (getsE (\<lambda>w. x_num_string (w_ext w))) (\<lambda>num. ret (body_text num (Some p) k)))"

definition completed_json :: "task \<Rightarrow> release_result \<Rightarrow> string \<Rightarrow> json" where
  "completed_json t release eventId = JObj
     [(''task'', task_json t), (''release'', release_json release), (''sourceEventId'', JStr eventId)]"

definition handleTaskCompletionRequested ::
  "'a pg_world_scheme worker \<Rightarrow> string \<Rightarrow> json \<Rightarrow> ('a pg_world_scheme, unit) prog" where
  "handleTaskCompletionRequested wr eventId p =
     bindE (payload_text p ''taskId'') (\<lambda>taskId.
     bindE (payload_text p ''escrowId'') (\<lambda>escrowId.
     if taskId = [] \<or> escrowId = [] then throw (JsError ''invalid payload'')
     else bindE (pg_task_findById taskId) (\<lambda>found. case found of
         None \<Rightarrow> throw (JsError ''task not found'')
       | Some t \<Rightarrow>
           if task_status t = COMPLETED then ret ()
           else if task_status t \<noteq> COMPLETING then
             throw (JsError (''task is not completing (status: '' @ task_status_text (task_status t) @ '')''))
           else bindE (pg_bid_findByTaskId taskId) (\<lambda>bids. case selected_bid bids of
               None \<Rightarrow> throw (JsError ''no selected bid found for this task'')
             | Some winningBid \<Rightarrow>
                 bindE (ep_releaseMilestone (wr_escrow wr) (bid_escrowId winningBid)) (\<lambda>release.
                 let updatedTask = t\<lparr>task_status := COMPLETED\<rparr>
                 in bindE (pg_task_save updatedTask) (\<lambda>_.
                    pg_emit ''task_completed'' ''task'' (task_id updatedTask)
                      (completed_json updatedTask release eventId)))))))"

text \<open>The hook of the webhook: every call counts an attempt, and a retry when one will follow.\<close>

definition retry_reason :: "exn option \<Rightarrow> string" where
  "retry_reason err =
     (if (case err of Some (WebhookHttpError m st b (Some n)) \<Rightarrow> n > 0 | _ \<Rightarrow> False) then ''retry_after''
      else (case Option.bind err (\<lambda>e. snd (classifyWebhookError e)) of None \<Rightarrow> ''network'' | Some r \<Rightarrow> r))"

definition worker_onAttempt :: "'a env_scheme attempt_hook" where
  "worker_onAttempt info =
     bindE (metric_inc ''tg_webhook_attempts_total'' [''result_published'', ai_statusClass info]) (\<lambda>_.
     if ai_willRetry info then
       metric_inc ''tg_webhook_retries_total'' [''result_published'', retry_reason (ai_err info)]
     else ret ())"

definition last_status_class :: "exn \<Rightarrow> string" where
  "last_status_class err = (case http_status err of
      Some st \<Rightarrow> if st \<ge> 500 then ''5xx'' else if st \<ge> 400 then ''4xx'' else if st \<ge> 300 then ''3xx'' else ''2xx''
    | None \<Rightarrow> fst (classifyWebhookError err))"

definition published_at :: "json \<Rightarrow> ('a env_scheme, string) prog" where
  "published_at p = (case jfield p ''publishedAt'' of
      Some v \<Rightarrow> (if v = JNull then bindE date_now (\<lambda>now. ret (toISOString now))
        else bindE (getsE (\<lambda>w. x_num_string (w_ext w))) (\<lambda>num. ret (js_String num v)))
    | None \<Rightarrow> bindE date_now (\<lambda>now. ret (toISOString now)))"

definition handleResultPublished ::
  "'a env_scheme worker \<Rightarrow> string \<Rightarrow> json \<Rightarrow> ('a env_scheme, unit) prog" where
  "handleResultPublished wr eventId p = (case wr_webhookUrl wr of
      None \<Rightarrow> ret ()
    | Some url \<Rightarrow>
        if url = [] then ret ()
        else
          bindE (payload_text p ''taskId'') (\<lambda>taskId.
          bindE (payload_text p ''executorPublicKey'') (\<lambda>executorPublicKey.
          bindE (payload_text p ''payloadHash'') (\<lambda>payloadHash.
          bindE (published_at p) (\<lambda>publishedAt.
          if taskId = [] \<or> executorPublicKey = [] \<or> payloadHash = [] then throw (JsError ''invalid payload'')
          else
            let webhookPayload = JObj [(''eventId'', JStr eventId), (''type'', JStr ''result_published''),
                  (''taskId'', JStr taskId), (''executorPublicKey'', JStr executorPublicKey),
                  (''payloadHash'', JStr payloadHash), (''publishedAt'', JStr publishedAt)]
            in catchE
              (bindE (postJson (wr_webhook wr) url webhookPayload (Some worker_onAttempt)) (\<lambda>_. ret ()))
              (\<lambda>err. bindE (metric_inc ''tg_webhook_failed_permanent_total''
                  [''result_published'', last_status_class err]) (\<lambda>_. throw err)))))))"

definition dispatch ::
  "'a pg_world_scheme worker \<Rightarrow> string \<Rightarrow> string \<Rightarrow> json \<Rightarrow> ('a pg_world_scheme, unit) prog" where
  "dispatch wr eventId type payload =
     (if type = ''task_completion_requested'' then handleTaskCompletionRequested wr eventId payload
      else if type = ''result_published'' then handleResultPublished wr eventId payload
      else ret ())"

section \<open>Entries of the stream\<close>

definition consumer_of :: "'w worker \<Rightarrow> consumer_options" where
  "consumer_of wr =
     \<lparr> co_streamKey = wr_streamKey wr, co_group = wr_consumerGroup wr, co_consumer = wr_consumerName wr,
       co_blockMs = 2000, co_count = 20 \<rparr>"

definition parse_payload :: "ext \<Rightarrow> string \<Rightarrow> json" where
  "parse_payload x payloadRaw = (case x_json_parse x payloadRaw of None \<Rightarrow> JNull | Some j \<Rightarrow> j)"

text \<open>Run the handler, record what became of it.\<close>

definition run_event ::
  "'a pg_world_scheme worker \<Rightarrow> string \<Rightarrow> string \<Rightarrow> string \<Rightarrow> json \<Rightarrow> string \<Rightarrow> nat \<Rightarrow> ('a pg_world_scheme, unit) prog" where
  "run_event wr handlerName eventId type payload rowEventId attempt =
     catchE
       (bindE (dispatch wr eventId type payload) (\<lambda>_.
        bindE (markSucceeded handlerName rowEventId) (\<lambda>_.
        metric_inc ''tg_worker_dispatch_total'' [type, ''success''])))
       (\<lambda>err.
        bindE (computeBackoff attempt) (\<lambda>nextRetryAt.
        bindE (markFailed handlerName rowEventId (err_message err) (Some nextRetryAt)) (\<lambda>_.
        metric_inc ''tg_worker_dispatch_total'' [type, ''failed''])))"

definition field_or :: "string \<Rightarrow> stream_entry \<Rightarrow> string \<Rightarrow> string" where
  "field_or d entry k = (case se_fields entry k of None \<Rightarrow> d | Some v \<Rightarrow> v)"

definition handle_entry ::
  "'a pg_world_scheme worker \<Rightarrow> stream_entry \<Rightarrow> ('a pg_world_scheme, unit) prog" where
  "handle_entry wr entry =
     (let eventId = field_or [] entry ''id'';
          type = field_or [] entry ''type'';
          payloadRaw = field_or ''null'' entry ''payload'';
          handlerName = ''event:'' @ type
      in if eventId = [] \<or> type = [] then ack (consumer_of wr) (se_id entry)
         else bindE (tryStart handlerName eventId (Some (se_id entry)) (wr_maxAttempts wr) None) (\<lambda>(started, record).
           if \<not> started then ack (consumer_of wr) (se_id entry)
           else bindE (getsE (\<lambda>w. parse_payload (w_ext w) payloadRaw)) (\<lambda>payload.
             finallyE (run_event wr handlerName eventId type payload eventId (cn_attempts record))
               (ack (consumer_of wr) (se_id entry)))))"

section \<open>Failed events\<close>

definition retry_record ::
  "'a pg_world_scheme worker \<Rightarrow> consumption \<Rightarrow> ('a pg_world_scheme, unit) prog" where
  "retry_record wr record =
     bindE (tryStart (cn_handlerName record) (cn_eventId record) None (wr_maxAttempts wr) None) (\<lambda>(started, restarted).
       if \<not> started then ret ()
       else bindE (pg_outbox_findById (cn_eventId record)) (\<lambda>found. case found of
           None \<Rightarrow>
             bindE (computeBackoff (cn_attempts restarted)) (\<lambda>nextRetryAt.
             markFailed (cn_handlerName record) (cn_eventId record) (Some ''outbox event not found'') (Some nextRetryAt))
         | Some event \<Rightarrow>
             run_event wr (cn_handlerName record) (oe_id event) (oe_type event) (oe_payload event)
               (cn_eventId record) (cn_attempts restarted)))"

definition retry_due_events ::
  "'a pg_world_scheme worker \<Rightarrow> string \<Rightarrow> ('a pg_world_scheme, unit) prog" where
  "retry_due_events wr handlerName =
     bindE (listDueRetries handlerName 25) (\<lambda>due.
     bindE (call_ext (MetricSet ''tg_worker_due_retries'' [handlerName] (of_nat (length due))) (\<lambda>x l. Inr ())) (\<lambda>_.
     forE due (retry_record wr)))"

section \<open>Backlog\<close>

text \<open>\<open>Number(reply ?? 0)\<close>, and a gauge that is set when the number is finite.\<close>

fun reply_number :: "reply \<Rightarrow> jsnum" where
  "reply_number NilReply = Fin 0"
| "reply_number (IntReply n) = Fin (of_int n)"
| "reply_number r = js_to_number (reply_string r)"

definition set_gauge :: "string \<Rightarrow> string list \<Rightarrow> jsnum \<Rightarrow> ('a env_scheme, unit) prog" where
  "set_gauge name labels n = (case n of Fin x \<Rightarrow> call_ext (MetricSet name labels x) (\<lambda>x l. Inr ()) | _ \<Rightarrow> ret ())"

definition pending_key :: "'w worker \<Rightarrow> string \<Rightarrow> string" where
  "pending_key wr consumer = wr_streamKey wr @ ''|'' @ wr_consumerGroup wr @ ''|'' @ consumer"

text \<open>One line of the \<open>XPENDING\<close> summary; \<open>nextKeys\<close> is a set in insertion order.\<close>

definition sample_consumer ::
  "'w worker \<Rightarrow> reply \<Rightarrow> string list \<Rightarrow> ('a env_scheme, string list) prog" where
  "sample_consumer wr entry nextKeys =
     (let consumer = (case entry of ArrayReply (c # r) \<Rightarrow> reply_string c | ArrayReply [] \<Rightarrow> ''undefined'' | _ \<Rightarrow> []);
          count = (case entry of ArrayReply (c # n # r) \<Rightarrow> reply_number n | ArrayReply r \<Rightarrow> NaN | _ \<Rightarrow> Fin 0)
      in if consumer = [] then ret nextKeys
         else (case count of
             Fin x \<Rightarrow>
               bindE (set_gauge ''tg_stream_pending_consumer'' [wr_streamKey wr, wr_consumerGroup wr, consumer] count) (\<lambda>_.
               ret (let key = pending_key wr consumer in if key \<in> set nextKeys then nextKeys else nextKeys @ [key]))
           | _ \<Rightarrow> ret nextKeys))"

definition clear_gone_consumer :: "string list \<Rightarrow> string \<Rightarrow> ('a env_scheme, unit) prog" where
  "clear_gone_consumer nextKeys key =
     (if key \<in> set nextKeys then ret ()
      else (case js_split (CHR ''|'') key of
          prevStream # prevGroup # prevConsumer # others \<Rightarrow>
            if prevStream = [] \<or> prevGroup = [] \<or> prevConsumer = [] then ret ()
            else set_gauge ''tg_stream_pending_consumer'' [prevStream, prevGroup, prevConsumer] (Fin 0)
        | _ \<Rightarrow> ret ()))"

definition sample_stream :: "'w worker \<Rightarrow> ('a worker_world_scheme, unit) prog" where
  "sample_stream wr =
     (let stream = wr_streamKey wr; group = wr_consumerGroup wr
      in bindE (sendCommand [''XLEN'', stream]) (\<lambda>lenRes.
         bindE (set_gauge ''tg_stream_length'' [stream, group] (reply_number lenRes)) (\<lambda>_.
         bindE (sendCommand [''XPENDING'', stream, group]) (\<lambda>pendingRes.
         bindE (set_gauge ''tg_stream_pending'' [stream, group]
           (case pendingRes of ArrayReply (n # r) \<Rightarrow> reply_number n | _ \<Rightarrow> Fin 0)) (\<lambda>_.
         bindE (foldE (case pendingRes of ArrayReply (a # b # c # ArrayReply byConsumer # r) \<Rightarrow> byConsumer | _ \<Rightarrow> []) []
           (sample_consumer wr)) (\<lambda>nextKeys.
         bindE (getsE wk_pendingConsumerKeys) (\<lambda>pendingConsumerKeys.
         bindE (forE pendingConsumerKeys (clear_gone_consumer nextKeys)) (\<lambda>_.
         modifyE (\<lambda>w. w\<lparr>wk_pendingConsumerKeys := nextKeys\<rparr>)))))))))"

definition sample_outbox :: "('a pg_world_scheme, unit) prog" where
  "sample_outbox =
     bindE pg_outbox_countUnprocessed (\<lambda>unprocessed.
     bindE (set_gauge ''tg_outbox_unprocessed'' [] (Fin (of_nat unprocessed))) (\<lambda>_.
     bindE pg_outbox_countFailed (\<lambda>failed.
     set_gauge ''tg_outbox_failed'' [] (Fin (of_nat failed)))))"

definition maybeSampleBacklog :: "'w worker \<Rightarrow> ('a worker_world_scheme, unit) prog" where
  "maybeSampleBacklog wr =
     bindE date_now (\<lambda>now.
     bindE (getsE wk_lastBacklogSampleAt) (\<lambda>lastBacklogSampleAt.
     if now - lastBacklogSampleAt < (case wr_backlogSampleIntervalMs wr of None \<Rightarrow> 5000 | Some ms \<Rightarrow> ms) then ret ()
     else
       bindE (modifyE (\<lambda>w. w\<lparr>wk_lastBacklogSampleAt := now\<rparr>)) (\<lambda>_.
       bindE (catchE (sample_stream wr) (\<lambda>err. ret ())) (\<lambda>_.
       catchE sample_outbox (\<lambda>err. ret ())))))"

section \<open>The loop\<close>

definition tick :: "'a worker_world_scheme worker \<Rightarrow> ('a worker_world_scheme, unit) prog" where
  "tick wr =
     bindE (maybeSampleBacklog wr) (\<lambda>_.
     bindE (publishOnce (wr_streamKey wr) 50) (\<lambda>_.
     if wr_pauseConsumption wr then metric_inc ''tg_worker_tick_total'' [''paused'']
     else
       bindE (autoClaimOnce (consumer_of wr) 30000 (handle_entry wr)) (\<lambda>claimed.
       bindE (call_ext (MetricAdd ''tg_worker_autoclaim_entries_total'' claimed) (\<lambda>x l. Inr ())) (\<lambda>_.
       bindE (pollOnce (consumer_of wr) (handle_entry wr)) (\<lambda>polled.
       bindE (call_ext (MetricAdd ''tg_worker_poll_entries_total'' polled) (\<lambda>x l. Inr ())) (\<lambda>_.
       forE [''event:task_completion_requested'', ''event:result_published''] (retry_due_events wr)))))))"

definition set_running :: "bool \<Rightarrow> ('a worker_world_scheme, unit) prog" where
  "set_running b = modifyE (\<lambda>w. w\<lparr>wk_running := b\<rparr>)"

definition runTick :: "'a worker_world_scheme worker \<Rightarrow> ('a worker_world_scheme, unit) prog" where
  "runTick wr =
     bindE (getsE wk_running) (\<lambda>running.
     if running then ret ()
     else
       bindE (set_running True) (\<lambda>_.
       finallyE
         (tryE (tick wr) (\<lambda>_. metric_inc ''tg_worker_tick_total'' [''success''])
           (\<lambda>err. metric_inc ''tg_worker_tick_total'' [''error'']))
         (set_running False)))"

definition worker_start :: "'a worker_world_scheme worker \<Rightarrow> ('a worker_world_scheme, unit) prog" where
  "worker_start wr = bindE (ensureGroup (consumer_of wr)) (\<lambda>_. runTick wr)"

end
