(* ===== verification/Delivery.thy ===== *)
theory Delivery
  imports Worker
begin

text \<open>
  What the worker promises of the events: how often a handler runs, what redelivery does, and where an
  event can get lost. Time, the answers of Redis and the faults of the database are arbitrary.
\<close>

section \<open>Consumption records\<close>

lemma sql_noop_cases:
  assumes "sql_noop w = (r, w')"
  shows "w' = w\<lparr>pg_queries := Suc (pg_queries w)\<rparr>"
  using assms unfolding sql_noop_def by (auto elim!: pg_query_cases)

lemma discard_run: "discard rows w = (Inr (), w\<lparr>pg_consumptions := rows\<rparr>)"
  by (simp add: discard_def modifyE_apply)

text \<open>What a transaction leaves: either it throws and changes no record, or its body returned.\<close>

lemma transaction_cases:
  assumes "consumption_transaction body w = (r, w')"
  obtains (throws) e where "r = Inl e" "pg_consumptions w' = pg_consumptions w"
  | (commits) x where "r = Inr x" "body (w\<lparr>pg_queries := Suc (Suc (pg_queries w))\<rparr>) = (Inr x, w')"
proof -
  obtain r1 w1 where c: "sql_noop w = (r1, w1)" by fastforce
  note w1 = sql_noop_cases [OF c]
  obtain r2 w2 where b: "sql_noop w1 = (r2, w2)" by fastforce
  note w2 = sql_noop_cases [OF b]
  show thesis
  proof (cases "\<exists>u. r1 = Inr u")
    case False
    then show thesis using assms c w1 throws by (auto simp: consumption_transaction_def bindE_apply split: sum.splits)
  next
    case True
    obtain r3 w3 where body: "bindE sql_noop (\<lambda>begin. body) w1 = (r3, w3)" by fastforce
    show thesis
    proof (cases r3)
      case (Inl e)
      obtain r4 w4 where rb: "sql_noop (w3\<lparr>pg_consumptions := pg_consumptions w1\<rparr>) = (r4, w4)" by fastforce
      have "pg_consumptions w4 = pg_consumptions w" using sql_noop_cases [OF rb] w1 by simp
      then show thesis
        using assms True c body Inl rb throws
        by (auto simp: consumption_transaction_def bindE_apply [of sql_noop "\<lambda>client. _ client"] bindE_apply [of sql_noop "\<lambda>rollback. throw e"]
            catchE_apply getsE_apply throw_apply bindE_apply [of "getsE _"] bindE_apply [of "discard _"] discard_run split: sum.splits)
    next
      case (Inr x)
      then show thesis
        using assms True c body b w1 w2 commits
        by (auto simp: consumption_transaction_def bindE_apply catchE_apply getsE_apply split: sum.splits)
    qed
  qed
qed

text \<open>The row a handler may run on: not done, attempts left, and its pause is over.\<close>

definition startable :: "jsnum \<Rightarrow> int \<Rightarrow> consumption_row \<Rightarrow> bool" where
  "startable maxAttempts now row \<longleftrightarrow> ec_status row \<noteq> SUCCEEDED \<and>
     \<not> attempts_used_up (ec_attempts row) maxAttempts \<and>
     (case ec_next_retry_at row of None \<Rightarrow> True | Some t \<Rightarrow> t \<le> now)"

lemma consumption_select_cases:
  assumes "consumption_select h e w = (r, w')"
  obtains (fails) err where "r = Inl err" "w' = w\<lparr>pg_queries := Suc (pg_queries w)\<rparr>"
  | (finds) u where "pg_uuid w e = Some u" "r = Inr (List.find (row_is h u) (pg_consumptions w))"
      "w' = w\<lparr>pg_queries := Suc (pg_queries w)\<rparr>"
  using assms pg_select_cases(1) [OF assms [unfolded consumption_select_def]]
    pg_select_cases(2) [OF assms [unfolded consumption_select_def]]
  by (cases r) (auto simp: consumption_select_def)

lemma commit_cases:
  assumes "bindE sql_noop (\<lambda>commit. ret y) w = (Inr x, w')"
  shows "x = y" "w' = w\<lparr>pg_queries := Suc (pg_queries w)\<rparr>"
proof -
  obtain r w1 where c: "sql_noop w = (r, w1)" by fastforce
  show "x = y" "w' = w\<lparr>pg_queries := Suc (pg_queries w)\<rparr>"
    using assms c sql_noop_cases [OF c] by (auto simp: bindE_apply ret_apply split: sum.splits)
qed

lemma insert_cases:
  assumes "consumption_insert h e se nr w = (Inr row, w')"
  obtains u where "pg_uuid w e = Some u" "row_is h u row" "ec_status row = PROCESSING" "ec_attempts row = 1"
    "ec_next_retry_at row = nr" "pg_consumptions w' = pg_consumptions w @ [row]"
  using assms unfolding consumption_insert_def
  by (cases rule: pg_query_cases) (auto simp: Let_def row_is_def)

lemma restart_cases:
  assumes "consumption_restart h e se existing w = (Inr row, w')"
  obtains u now where "pg_uuid w e = Some u" "row = restart_row se now existing"
    "pg_consumptions w' = update_where (row_is h u) (restart_row se now) (pg_consumptions w)"
  using assms unfolding consumption_restart_def by (cases rule: pg_query_cases) auto

lemma tryStart_cases:
  assumes "tryStart h e se mx nr w = (r, w')"
  obtains (throws) err where "r = Inl err" "pg_consumptions w' = pg_consumptions w"
  | (starts) u row where "pg_uuid w e = Some u" "List.find (row_is h u) (pg_consumptions w) = None"
      "row_is h u row" "ec_status row = PROCESSING" "ec_attempts row = 1" "ec_next_retry_at row = nr"
      "r = Inr (True, row_to_consumption row)" "pg_consumptions w' = pg_consumptions w @ [row]"
  | (refuses) u row where "pg_uuid w e = Some u" "List.find (row_is h u) (pg_consumptions w) = Some row"
      "\<not> startable mx (w_now w (w_reads w)) row"
      "r = Inr (False, row_to_consumption row)" "pg_consumptions w' = pg_consumptions w"
  | (restarts) u row now where "pg_uuid w e = Some u" "List.find (row_is h u) (pg_consumptions w) = Some row"
      "startable mx (w_now w (w_reads w)) row" "r = Inr (True, row_to_consumption (restart_row se now row))"
      "pg_consumptions w' = update_where (row_is h u) (restart_row se now) (pg_consumptions w)"
  using assms unfolding tryStart_def
proof (cases rule: transaction_cases)
  case (throws e)
  then show thesis using that(1) by blast
next
  case (commits x)
  let ?w = "w\<lparr>pg_queries := Suc (Suc (pg_queries w))\<rparr>"
  obtain found w1 where sel: "consumption_select h e ?w = (Inr found, w1)"
    and rest: "(case found of
          None \<Rightarrow> bindE (consumption_insert h e se nr) (\<lambda>inserted.
            bindE sql_noop (\<lambda>commit. ret (True, row_to_consumption inserted)))
        | Some existing \<Rightarrow>
            if ec_status existing = SUCCEEDED then bindE sql_noop (\<lambda>commit. ret (False, row_to_consumption existing))
            else if attempts_used_up (ec_attempts existing) mx then
              bindE sql_noop (\<lambda>commit. ret (False, row_to_consumption existing))
            else bindE date_now (\<lambda>now.
              if (case ec_next_retry_at existing of None \<Rightarrow> False | Some t \<Rightarrow> t > now) then
                bindE sql_noop (\<lambda>commit. ret (False, row_to_consumption existing))
              else bindE (consumption_restart h e se existing) (\<lambda>updated.
                bindE sql_noop (\<lambda>commit. ret (True, row_to_consumption updated))))) w1 = (Inr x, w')"
    using commits(2) by (rule bindE_returns)
  obtain u where u: "pg_uuid w e = Some u" "found = List.find (row_is h u) (pg_consumptions w)"
    and w1: "w1 = ?w\<lparr>pg_queries := Suc (pg_queries ?w)\<rparr>"
    using sel by (cases rule: consumption_select_cases) auto
  show thesis
  proof (cases found)
    case None
    obtain row w2 where ins: "consumption_insert h e se nr w1 = (Inr row, w2)"
      and com: "bindE sql_noop (\<lambda>commit. ret (True, row_to_consumption row)) w2 = (Inr x, w')"
      using rest unfolding None option.case by (rule bindE_returns)
    show thesis
      using ins
      by (rule insert_cases) (use that(2) [of u row] None u w1 commit_cases [OF com] commits(1) in simp)
  next
    case (Some row)
    let ?now = "w_now w (w_reads w)"
    show thesis
    proof (cases "startable mx ?now row")
      case False
      have run: "bindE sql_noop (\<lambda>commit. ret (False, row_to_consumption row)) (if ec_status row = SUCCEEDED \<or>
          attempts_used_up (ec_attempts row) mx then w1 else w1\<lparr>w_reads := Suc (w_reads w1)\<rparr>) = (Inr x, w')"
        using rest Some False w1 by (auto simp: startable_def bindE_date_now split: option.splits if_splits)
      show thesis
        using that(3) [of u row] u Some False commit_cases [OF run] commits(1) w1 by simp
    next
      case True
      then have run: "bindE (consumption_restart h e se row) (\<lambda>updated.
          bindE sql_noop (\<lambda>commit. ret (True, row_to_consumption updated))) (w1\<lparr>w_reads := Suc (w_reads w1)\<rparr>) = (Inr x, w')"
        using rest Some w1 by (auto simp: startable_def bindE_date_now split: option.splits)
      obtain row' w2 where res: "consumption_restart h e se row (w1\<lparr>w_reads := Suc (w_reads w1)\<rparr>) = (Inr row', w2)"
        and com: "bindE sql_noop (\<lambda>commit. ret (True, row_to_consumption row')) w2 = (Inr x, w')"
        using run by (rule bindE_returns)
      show thesis
        using res
        by (rule restart_cases) (use that(4) [of u row] u Some True w1 commit_cases [OF com] commits(1) in simp)
    qed
  qed
qed

section \<open>How often a handler runs\<close>


definition consumption_key :: "consumption_row \<Rightarrow> string \<times> string" where
  "consumption_key r = (ec_handler_name r, ec_event_id r)"



lemma row_is_key: "row_is h u r \<longleftrightarrow> consumption_key r = (h, u)"
  by (auto simp: row_is_def consumption_key_def)




section \<open>Frames\<close>

text \<open>\<open>tryStart\<close> touches nothing but the records (and the clock and the database's query count).\<close>

definition only_records :: "'a pg_world_scheme \<Rightarrow> 'a pg_world_scheme \<Rightarrow> bool" where
  "only_records w w' \<longleftrightarrow> (\<exists>q n c. w' = w\<lparr>pg_queries := q, w_reads := n, pg_consumptions := c\<rparr>)"

interpretation records_order: world_order only_records
proof
  fix w1 w2 w3 :: "'a pg_world_scheme"
  show "only_records w1 w1"
    unfolding only_records_def
    by (rule exI [where x = "pg_queries w1"], rule exI [where x = "w_reads w1"], rule exI [where x = "pg_consumptions w1"]) simp
  show "only_records w1 w2 \<Longrightarrow> only_records w2 w3 \<Longrightarrow> only_records w1 w3"
    by (force simp: only_records_def)
qed

lemma only_recordsI: "only_records w (w\<lparr>pg_queries := q\<rparr>)" "only_records w (w\<lparr>w_reads := n\<rparr>)"
  "only_records w (w\<lparr>pg_consumptions := c\<rparr>)" "only_records w (w\<lparr>pg_queries := q, pg_consumptions := c\<rparr>)"
  unfolding only_records_def
  by (rule exI [where x = q] exI [where x = "pg_queries w"], rule exI [where x = n] exI [where x = "w_reads w"],
      rule exI [where x = c] exI [where x = "pg_consumptions w"], simp)+

lemma only_records_query:
  assumes "\<And>w x w'. stmt w = Inr (x, w') \<Longrightarrow> \<exists>c. w' = w\<lparr>pg_consumptions := c\<rparr>"
  shows "evolves only_records (pg_query stmt)"
  by (rule evolvesI) (auto elim!: pg_query_cases dest!: assms intro: only_recordsI)

lemma only_records_select: "evolves only_records (pg_select f)"
  by (rule evolvesI) (auto dest: pg_select_cases(1) intro: only_recordsI)

lemma only_records_ops:
  "evolves only_records sql_noop" "evolves only_records date_now" "evolves only_records (discard rows)"
  "evolves only_records (consumption_select h e)" "evolves only_records (consumption_insert h e se nr)"
  "evolves only_records (consumption_restart h e se row)"
proof -
  show "evolves only_records sql_noop" by (rule evolvesI) (auto dest: sql_noop_cases intro: only_recordsI)
  show "evolves only_records date_now" "evolves only_records (discard rows)"
    by (simp_all add: evolves_def date_now_def discard_def modifyE_apply only_recordsI)
  show "evolves only_records (consumption_select h e)"
    unfolding consumption_select_def by (rule only_records_select)
  show "evolves only_records (consumption_insert h e se nr)"
    unfolding consumption_insert_def by (rule only_records_query) (auto simp: Let_def)
  show "evolves only_records (consumption_restart h e se row)"
    unfolding consumption_restart_def by (rule only_records_query) auto
qed

lemma tryStart_records: "evolves only_records (tryStart h e se mx nr)"
  unfolding tryStart_def consumption_transaction_def
  by (intro records_order.evolves_intros only_records_ops | simp only: split: if_split | intro conjI impI)+

text \<open>The handlers leave the records alone.\<close>

definition same_records :: "'a pg_world_scheme \<Rightarrow> 'a pg_world_scheme \<Rightarrow> bool" where
  "same_records w w' \<longleftrightarrow> pg_consumptions w' = pg_consumptions w"

interpretation same_records_order: world_order same_records
  by unfold_locales (auto simp: same_records_def)

lemma same_records_env: "env_only m \<Longrightarrow> evolves same_records m"
proof (rule evolvesI)
  fix w w' :: "'a pg_world_scheme" and r
  assume "env_only m" "m w = (r, w')"
  then have "env.more w' = env.more w" by (rule env_onlyD_more)
  then show "same_records w w'" by (cases w; cases w') (simp add: same_records_def)
qed

lemma same_records_query:
  assumes "\<And>w x w'. stmt w = Inr (x, w') \<Longrightarrow> pg_consumptions w' = pg_consumptions w"
  shows "evolves same_records (pg_query stmt)"
  by (rule evolvesI) (auto simp: same_records_def elim!: pg_query_cases dest!: assms)

lemma same_records_select: "evolves same_records (pg_select f)"
  by (rule evolvesI) (auto simp: same_records_def dest: pg_select_cases(1))

lemma same_records_ops:
  "evolves same_records (pg_task_findById i)" "evolves same_records (pg_bid_findByTaskId i)"
  "evolves same_records (pg_task_save t)" "evolves same_records (pg_outbox_insert i ty aty ai p)"
  unfolding pg_task_findById_def pg_bid_findByTaskId_def pg_task_save_def pg_outbox_insert_def
  by (intro same_records_select same_records_query; auto split: if_splits)+

lemma env_only_post:
  assumes "\<And>info. env_only (hook info)"
  shows "env_only (postJson opts url payload (Some hook))"
  unfolding postJson_def
  by (intro env_only_rules)
    (auto simp: post_attempt_def call_hook_def webhook_retry_def webhook_onRetry_def Let_def
      intro!: env_only_rules assms split: prod.split if_split)

lemma env_only_onAttempt: "env_only (worker_onAttempt info)"
  unfolding worker_onAttempt_def metric_inc_def by (intro env_only_rules)

lemma env_only_payload_text: "env_only (payload_text p k)" "env_only (published_at p)"
  unfolding payload_text_def published_at_def by (auto intro!: env_only_rules split: option.split)

lemma env_only_published: "env_only (handleResultPublished wr eventId p)"
  unfolding handleResultPublished_def metric_inc_def Let_def
  by (auto intro!: env_only_rules env_only_post env_only_onAttempt env_only_payload_text split: option.split)

lemma dispatch_records:
  assumes "\<And>e. env_only (ep_releaseMilestone (wr_escrow wr) e)"
  shows "evolves same_records (dispatch wr eventId ty payload)"
proof -
  have "evolves same_records (handleTaskCompletionRequested wr eventId payload)"
    unfolding handleTaskCompletionRequested_def pg_emit_def Let_def
    by (intro same_records_order.evolves_intros same_records_ops env_only_payload_text [THEN same_records_env]
          env_only_uuid [THEN same_records_env] assms [THEN same_records_env]
        | simp only: split: if_split | intro conjI impI)+
  then show ?thesis
    unfolding dispatch_def
    by (simp add: same_records_env env_only_published same_records_order.evolves_ret)
qed

section \<open>Redelivery and loss\<close>

definition entry_handler :: "stream_entry \<Rightarrow> string" where
  "entry_handler entry = ''event:'' @ field_or [] entry ''type''"

lemma ack_run: "ack opts i w = ((case x_stream (w_ext w) (w_log w) [''XACK'', co_streamKey opts, co_group opts, i] of
      Inl e \<Rightarrow> Inl e | Inr x \<Rightarrow> Inr ()),
    w\<lparr>w_log := w_log w @ [RedisStream [''XACK'', co_streamKey opts, co_group opts, i]]\<rparr>)"
  by (simp add: ack_def bindE_apply sendCommand_def call_ext_def ret_apply split: sum.split)

lemma handle_entry_run:
  assumes "field_or [] entry ''id'' \<noteq> []" "field_or [] entry ''type'' \<noteq> []"
    and "tryStart (entry_handler entry) (field_or [] entry ''id'') (Some (se_id entry)) (wr_maxAttempts wr) None w = (r, w1)"
  shows "handle_entry wr entry w = (case r of
      Inl e \<Rightarrow> (Inl e, w1)
    | Inr (started, record) \<Rightarrow>
        if \<not> started then ack (consumer_of wr) (se_id entry) w1
        else finallyE (run_event wr (entry_handler entry) (field_or [] entry ''id'') (field_or [] entry ''type'')
            (parse_payload (w_ext w1) (field_or ''null'' entry ''payload'')) (field_or [] entry ''id'') (cn_attempts record))
          (ack (consumer_of wr) (se_id entry)) w1)"
  using assms by (simp add: handle_entry_def Let_def entry_handler_def bindE_apply getsE_apply split: sum.split)

text \<open>C29. An event whose handler succeeded is not handled again: when the stream delivers it once more, the entry is at
  most acknowledged, and no table changes.\<close>

theorem redelivery_ignored:
  assumes "field_or [] entry ''id'' \<noteq> []" "field_or [] entry ''type'' \<noteq> []"
    and "pg_uuid w (field_or [] entry ''id'') = Some u"
    and "List.find (row_is (entry_handler entry) u) (pg_consumptions w) = Some row" "ec_status row = SUCCEEDED"
    and "handle_entry wr entry w = (r, w')"
  shows "pg_consumptions w' = pg_consumptions w \<and> pg_tasks w' = pg_tasks w \<and> pg_bids w' = pg_bids w \<and>
    pg_outbox w' = pg_outbox w \<and>
    (w_log w' = w_log w \<or> w_log w' = w_log w @ [RedisStream [''XACK'', wr_streamKey wr, wr_consumerGroup wr, se_id entry]])"
proof -
  obtain r1 w1 where t: "tryStart (entry_handler entry) (field_or [] entry ''id'') (Some (se_id entry))
      (wr_maxAttempts wr) None w = (r1, w1)" by fastforce
  have "only_records w w1" by (rule evolvesD [OF tryStart_records t])
  then have same: "pg_tasks w1 = pg_tasks w" "pg_bids w1 = pg_bids w" "pg_outbox w1 = pg_outbox w" "w_log w1 = w_log w"
    by (auto simp: only_records_def)
  note run = assms(6) [unfolded handle_entry_run [OF assms(1,2) t]]
  show ?thesis using t
  proof (cases rule: tryStart_cases)
    case (throws err)
    then show ?thesis using run same by simp
  next
    case (starts u' row')
    then show ?thesis using assms(3,4) by simp
  next
    case (refuses u' row')
    then show ?thesis using run same by (auto simp: ack_run consumer_of_def)
  next
    case (restarts u' row' now)
    then show ?thesis using assms(3-5) by (auto simp: startable_def)
  qed
qed

definition sample_worker :: "'a pg_world_scheme worker" where
  "sample_worker =
     \<lparr> wr_streamKey = ''s'', wr_consumerGroup = ''g'', wr_consumerName = ''c'', wr_maxAttempts = Fin 10,
       wr_webhookUrl = None, wr_backlogSampleIntervalMs = None, wr_pauseConsumption = False,
       wr_webhook = \<lparr> wo_timeoutMs = 5000, wo_maxRetries = 3, wo_baseBackoffMs = 1000 \<rparr>, wr_escrow = mock_escrow \<rparr>"

definition sample_entry :: stream_entry where
  "sample_entry = \<lparr> se_id = ''1-0'', se_fields = [''id'' \<mapsto> ''e'', ''type'' \<mapsto> ''task_completion_requested''] \<rparr>"

definition sample_succeeded :: consumption_row where
  "sample_succeeded =
     \<lparr> ec_handler_name = ''event:task_completion_requested'', ec_event_id = ''e'', ec_stream_entry_id = None,
       ec_status = SUCCEEDED, ec_attempts = 1, ec_last_error = None, ec_next_retry_at = None,
       ec_created_at = 0, ec_updated_at = 0 \<rparr>"

theorem redelivery_ignored_witness:
  "let w = (sample_pg [] [] (\<lambda>n. None))\<lparr>pg_consumptions := [sample_succeeded]\<rparr>;
       w' = snd (handle_entry sample_worker sample_entry w)
   in pg_consumptions w' = [sample_succeeded] \<and>
      (w_log w' = [] \<or> w_log w' = [RedisStream [''XACK'', ''s'', ''g'', ''1-0'']])"
proof -
  let ?w = "(sample_pg [] [] (\<lambda>n. None))\<lparr>pg_consumptions := [sample_succeeded]\<rparr>"
  have "field_or [] sample_entry ''id'' = ''e''" "field_or [] sample_entry ''type'' = ''task_completion_requested''"
    by (simp_all add: field_or_def sample_entry_def)
  moreover have "List.find (row_is (entry_handler sample_entry) ''e'') (pg_consumptions ?w) = Some sample_succeeded"
    by (simp add: entry_handler_def calculation row_is_def sample_succeeded_def)
  moreover have "pg_uuid ?w ''e'' = Some ''e''" "ec_status sample_succeeded = SUCCEEDED"
    by (simp_all add: sample_pg_def sample_succeeded_def)
  ultimately show ?thesis
    using redelivery_ignored [of sample_entry ?w "''e''" sample_succeeded sample_worker "fst (handle_entry sample_worker sample_entry ?w)"
        "snd (handle_entry sample_worker sample_entry ?w)"]
    by (simp add: Let_def sample_pg_def sample_worker_def) (simp add: sample_entry_def)
qed

lemma tryStart_processing:
  assumes "tryStart h e se mx nr w = (Inr (True, record), w')"
  obtains u where "pg_uuid w e = Some u" "\<exists>row \<in> set (pg_consumptions w'). row_is h u row"
    "\<forall>row \<in> set (pg_consumptions w'). row_is h u row \<longrightarrow> ec_status row = PROCESSING"
  using assms
proof (cases rule: tryStart_cases)
  case (starts u row)
  then show thesis using that [of u] by (auto simp: find_None_iff)
next
  case (restarts u row now)
  have "row \<in> set (pg_consumptions w)" "row_is h u row" using restarts(2) by (auto simp: find_Some_iff)
  then have "restart_row se now row \<in> set (pg_consumptions w')" "row_is h u (restart_row se now row)"
    unfolding restarts(5) by (auto simp: update_where_def restart_row_def row_is_def)
  moreover have "\<forall>row \<in> set (pg_consumptions w'). row_is h u row \<longrightarrow> ec_status row = PROCESSING"
    unfolding restarts(5) by (auto simp: update_where_def restart_row_def)
  ultimately show thesis using that [of u] restarts(1) by blast
qed auto

text \<open>How an event is lost: its handler fails and the database refuses the query that records the failure.
  The entry is acknowledged all the same, its record stays PROCESSING, and the search for failed events never
  finds it.\<close>

theorem event_lost:
  assumes "field_or [] entry ''id'' \<noteq> []" "field_or [] entry ''type'' \<noteq> []"
    and "\<And>e. env_only (ep_releaseMilestone (wr_escrow wr) e)"
    and "tryStart (entry_handler entry) (field_or [] entry ''id'') (Some (se_id entry)) (wr_maxAttempts wr) None w =
      (Inr (True, record), w1)"
    and "dispatch wr (field_or [] entry ''id'') (field_or [] entry ''type'')
      (parse_payload (w_ext w1) (field_or ''null'' entry ''payload'')) w1 = (Inl err, w2)"
    and "pg_fault w2 (pg_queries w2) = Some down"
  shows "\<exists>r w' u. handle_entry wr entry w = (r, w') \<and> pg_uuid w (field_or [] entry ''id'') = Some u \<and>
    last (w_log w') = RedisStream [''XACK'', wr_streamKey wr, wr_consumerGroup wr, se_id entry] \<and>
    (\<exists>row \<in> set (pg_consumptions w'). row_is (entry_handler entry) u row) \<and>
    (\<forall>row \<in> set (pg_consumptions w'). row_is (entry_handler entry) u row \<longrightarrow>
      ec_status row = PROCESSING \<and> (\<forall>now. \<not> retry_due (entry_handler entry) now row))"
proof -
  let ?w3 = "w2\<lparr>w_reads := Suc (w_reads w2), pg_queries := Suc (pg_queries w2)\<rparr>"
  have failed: "markFailed h e er nr (w2\<lparr>w_reads := Suc (w_reads w2)\<rparr>) = (Inl down, ?w3)" for h e er nr
    using assms(6) by (simp add: markFailed_def pg_query_def Let_def)
  have run: "run_event wr (entry_handler entry) (field_or [] entry ''id'') (field_or [] entry ''type'')
      (parse_payload (w_ext w1) (field_or ''null'' entry ''payload'')) (field_or [] entry ''id'') (cn_attempts record) w1 =
      (Inl down, ?w3)"
    using assms(5) failed
    by (simp add: run_event_def catchE_apply bindE_apply [of "dispatch _ _ _ _"] computeBackoff_def bindE_assoc
        bindE_date_now bindE_apply [of "markFailed _ _ _ _"])
  obtain r w' where h: "handle_entry wr entry w = (r, w')" by fastforce
  have w': "w' = ?w3\<lparr>w_log := w_log w2 @ [RedisStream [''XACK'', wr_streamKey wr, wr_consumerGroup wr, se_id entry]]\<rparr>"
    using h unfolding handle_entry_run [OF assms(1,2,4)]
    by (simp add: finallyE_def tryE_apply run bindE_apply ack_run throw_apply consumer_of_def split: sum.splits)
  have "same_records w1 w2" by (rule evolvesD [OF dispatch_records assms(5)]) (rule assms(3))
  then have rows: "pg_consumptions w' = pg_consumptions w1" by (simp add: w' same_records_def)
  obtain u where "pg_uuid w (field_or [] entry ''id'') = Some u"
    "\<exists>row \<in> set (pg_consumptions w1). row_is (entry_handler entry) u row"
    "\<forall>row \<in> set (pg_consumptions w1). row_is (entry_handler entry) u row \<longrightarrow> ec_status row = PROCESSING"
    using assms(4) by (rule tryStart_processing)
  then show ?thesis unfolding h rows [symmetric]
    by (intro exI [where x = r] exI [where x = w'] exI [where x = u]) (auto simp: w' retry_due_def)
qed

lemma mock_release_env: "env_only (ep_releaseMilestone mock_escrow e)"
  unfolding mock_escrow_def by (auto intro!: env_only_rules simp: Let_def)

lemma dispatch_null: "dispatch wr e ''task_completion_requested'' JNull w = (Inl (null_property ''taskId''), w)"
  by (simp add: dispatch_def handleTaskCompletionRequested_def payload_text_def throw_apply)

theorem event_lost_witness:
  "let w = sample_pg [] [] (\<lambda>n. if n = 5 then Some (JsError ''down'') else None);
       w' = snd (handle_entry sample_worker sample_entry w)
   in last (w_log w') = RedisStream [''XACK'', ''s'', ''g'', ''1-0''] \<and>
      (\<exists>row \<in> set (pg_consumptions w'). row_is ''event:task_completion_requested'' ''e'' row \<and> ec_status row = PROCESSING)"
proof -
  let ?w = "sample_pg [] [] (\<lambda>n. if n = 5 then Some (JsError ''down'') else None)"
  let ?tr = "tryStart ''event:task_completion_requested'' ''e'' (Some ''1-0'') (Fin 10) None ?w"
  have f: "field_or [] sample_entry ''id'' = ''e''" "field_or [] sample_entry ''type'' = ''task_completion_requested''"
    "field_or ''null'' sample_entry ''payload'' = ''null''" "se_id sample_entry = ''1-0''"
    by (simp_all add: field_or_def sample_entry_def)
  have h: "entry_handler sample_entry = ''event:task_completion_requested''"
    by (simp add: entry_handler_def f)
  have "case fst ?tr of Inr (b, record) \<Rightarrow> b | _ \<Rightarrow> False" "pg_queries (snd ?tr) = 5" by code_simp+
  then obtain started w1 where t: "?tr = (Inr (True, started), w1)" "pg_queries w1 = 5"
    by (cases ?tr) (auto split: sum.splits)
  have "only_records ?w w1" by (rule evolvesD [OF tryStart_records t(1)])
  then have w1: "w_ext w1 = sample_ext" "pg_fault w1 = (\<lambda>n. if n = 5 then Some (JsError ''down'') else None)"
    by (auto simp: only_records_def sample_pg_def)
  have "parse_payload (w_ext w1) s = JNull" for s by (simp add: w1 parse_payload_def sample_ext_def)
  then have "\<exists>r w' u. handle_entry sample_worker sample_entry ?w = (r, w') \<and> pg_uuid ?w ''e'' = Some u \<and>
    last (w_log w') = RedisStream [''XACK'', ''s'', ''g'', ''1-0''] \<and>
    (\<exists>row \<in> set (pg_consumptions w'). row_is ''event:task_completion_requested'' u row) \<and>
    (\<forall>row \<in> set (pg_consumptions w'). row_is ''event:task_completion_requested'' u row \<longrightarrow>
      ec_status row = PROCESSING \<and> (\<forall>now. \<not> retry_due ''event:task_completion_requested'' now row))"
    using event_lost [of sample_entry sample_worker ?w started w1 "null_property ''taskId''" w1 "JsError ''down''"] t w1
    by (simp add: f h sample_worker_def mock_release_env dispatch_null)
  moreover have "pg_uuid ?w ''e'' = Some ''e''" by (simp add: sample_pg_def)
  ultimately show ?thesis by (auto simp: Let_def)
qed

section \<open>Starvation\<close>

lemma find_row:
  assumes "distinct (map consumption_key rows)" "row \<in> set rows"
  shows "List.find (row_is (ec_handler_name row) (ec_event_id row)) rows = Some row"
  using assms
  by (induction rows) (auto simp: row_is_key consumption_key_def image_iff)

definition oldest_due :: "string \<Rightarrow> 'a pg_world_scheme \<Rightarrow> consumption_row list" where
  "oldest_due h w = take 25 (sort_key due_at (filter (retry_due h (sql_now w)) (pg_consumptions w)))"

lemma oldest_due_mem: "row \<in> set (oldest_due h w) \<Longrightarrow> row \<in> set (pg_consumptions w)"
  by (auto simp: oldest_due_def dest: in_set_takeD)

lemma listDueRetries_cases:
  assumes "listDueRetries h 25 w = (r, w')"
  shows "w' = w\<lparr>pg_queries := Suc (pg_queries w)\<rparr>" "r = Inr due \<Longrightarrow> due = map row_to_consumption (oldest_due h w')"
  using pg_select_cases [OF assms [unfolded listDueRetries_def]] by (auto simp: oldest_due_def)

text \<open>The worlds that differ in the query count and the clock only.\<close>

definition idles :: "'a pg_world_scheme \<Rightarrow> 'a pg_world_scheme \<Rightarrow> bool" where
  "idles w w' \<longleftrightarrow> (\<exists>q n. w' = w\<lparr>pg_queries := q, w_reads := n\<rparr>)"

lemma retry_record_idles:
  assumes "distinct (map consumption_key (pg_consumptions w))" "row \<in> set (pg_consumptions w)"
    and "pg_uuid w (ec_event_id row) = Some (ec_event_id row)" "attempts_used_up (ec_attempts row) (wr_maxAttempts wr)"
    and "retry_record wr (row_to_consumption row) w = (r, w')"
  shows "idles w w'"
proof -
  obtain r1 w1 where t: "tryStart (ec_handler_name row) (ec_event_id row) None (wr_maxAttempts wr) None w = (r1, w1)"
    by fastforce
  have frame: "only_records w w1" by (rule evolvesD [OF tryStart_records t])
  have find: "List.find (row_is (ec_handler_name row) (ec_event_id row)) (pg_consumptions w) = Some row"
    by (rule find_row [OF assms(1,2)])
  have same: "pg_consumptions w1 = pg_consumptions w \<and> (\<forall>b c. r1 = Inr (b, c) \<longrightarrow> \<not> b)"
    using t by (cases rule: tryStart_cases) (use find assms(3,4) in \<open>auto simp: startable_def\<close>)
  have sel: "cn_handlerName (row_to_consumption row) = ec_handler_name row" "cn_eventId (row_to_consumption row) = ec_event_id row"
    by (simp_all add: row_to_consumption_def)
  have "w' = w1"
  proof (cases r1)
    case (Inl e)
    then show ?thesis using assms(5) by (simp add: retry_record_def sel bindE_apply [of "tryStart _ _ _ _ _"] t)
  next
    case (Inr p)
    then have "\<not> fst p" using same by (cases p) simp
    then show ?thesis using assms(5) Inr
      by (simp add: retry_record_def sel bindE_apply [of "tryStart _ _ _ _ _"] t case_prod_unfold ret_apply)
  qed
  moreover obtain q n c where "w1 = w\<lparr>pg_queries := q, w_reads := n, pg_consumptions := c\<rparr>"
    using frame by (auto simp: only_records_def)
  moreover have "c = pg_consumptions w" using calculation(2) same by simp
  ultimately show ?thesis unfolding idles_def by (intro exI [where x = q] exI [where x = n]) simp
qed

text \<open>Retries can starve: while the 25 oldest due records of a handler have no attempts left, the retry step runs
  no handler and changes no table, so records that are due later are never reached.\<close>

theorem retries_starved:
  assumes "distinct (map consumption_key (pg_consumptions w))"
    and "\<forall>row \<in> set (pg_consumptions w). pg_uuid w (ec_event_id row) = Some (ec_event_id row)"
    and "\<forall>row \<in> set (oldest_due h (w\<lparr>pg_queries := Suc (pg_queries w)\<rparr>)). attempts_used_up (ec_attempts row) (wr_maxAttempts wr)"
    and "retry_due_events wr h w = (r, w')"
  shows "pg_consumptions w' = pg_consumptions w \<and> pg_tasks w' = pg_tasks w \<and> pg_bids w' = pg_bids w \<and>
    pg_outbox w' = pg_outbox w \<and> (\<exists>n. w_log w' = w_log w \<or> w_log w' = w_log w @ [MetricSet ''tg_worker_due_retries'' [h] n])"
proof -
  let ?w = "w\<lparr>pg_queries := Suc (pg_queries w)\<rparr>"
  obtain rd wd where l: "listDueRetries h 25 w = (rd, wd)" by fastforce
  show ?thesis
  proof (cases rd)
    case (Inl e)
    then show ?thesis using assms(4) l listDueRetries_cases(1) [OF l] by (auto simp: retry_due_events_def bindE_apply)
  next
    case (Inr due)
    let ?n = "of_nat (length due)"
    let ?v = "?w\<lparr>w_log := w_log w @ [MetricSet ''tg_worker_due_retries'' [h] ?n]\<rparr>"
    have due: "due = map row_to_consumption (oldest_due h ?w)"
      using listDueRetries_cases [OF l] Inr by simp
    have run: "forE due (retry_record wr) ?v = (r, w')"
      using assms(4) l listDueRetries_cases(1) [OF l] Inr by (simp add: retry_due_events_def bindE_apply call_ext_def)
    have "hoare (idles ?v) (forE due (retry_record wr)) (\<lambda>_. idles ?v) (\<lambda>_. idles ?v)"
    proof (rule hoare_for)
      fix c assume "c \<in> set due"
      then obtain row where row: "c = row_to_consumption row" "row \<in> set (oldest_due h ?w)" by (auto simp: due)
      have "idles ?v v'" if "idles ?v v" "retry_record wr c v = (r', v')" for v r' v'
      proof -
        have "idles v v'"
          by (rule retry_record_idles [where row = row])
            (use that assms(1-3) row oldest_due_mem [OF row(2)] in \<open>auto simp: idles_def\<close>)
        then show ?thesis using that(1) by (force simp: idles_def)
      qed
      then show "hoare (idles ?v) (retry_record wr c) (\<lambda>_. idles ?v) (\<lambda>_. idles ?v)"
        by (auto intro!: hoareI)
    qed
    moreover have "idles ?v ?v"
      unfolding idles_def by (rule exI [where x = "pg_queries ?v"], rule exI [where x = "w_reads ?v"]) simp
    ultimately have "idles ?v w'" using run by (cases r) (auto dest: hoareD_Inr hoareD_Inl)
    then show ?thesis by (auto simp: idles_def)
  qed
qed

definition sample_exhausted :: consumption_row where
  "sample_exhausted = sample_succeeded\<lparr> ec_status := FAILED, ec_attempts := 10 \<rparr>"

theorem retries_starved_witness:
  "let w = (sample_pg [] [] (\<lambda>n. None))\<lparr>pg_consumptions := [sample_exhausted]\<rparr>;
       w' = snd (retry_due_events sample_worker ''event:task_completion_requested'' w)
   in pg_consumptions w' = [sample_exhausted]"
proof -
  let ?w = "(sample_pg [] [] (\<lambda>n. None))\<lparr>pg_consumptions := [sample_exhausted]\<rparr>"
  have "attempts_used_up (ec_attempts sample_exhausted) (wr_maxAttempts sample_worker)"
    by (simp add: sample_exhausted_def attempts_used_up_def sample_worker_def)
  moreover have "pg_consumptions ?w = [sample_exhausted]" "\<And>u. pg_uuid ?w u = Some u" by (simp_all add: sample_pg_def)
  moreover have "row = sample_exhausted" if "row \<in> set (oldest_due h (?w\<lparr>pg_queries := n\<rparr>))" for row h n
    using oldest_due_mem [OF that] by simp
  ultimately have all: "\<forall>row \<in> set (oldest_due h (?w\<lparr>pg_queries := n\<rparr>)). attempts_used_up (ec_attempts row) (wr_maxAttempts sample_worker)"
    for h n by metis
  have keys: "distinct (map consumption_key (pg_consumptions ?w))"
    "\<forall>row \<in> set (pg_consumptions ?w). pg_uuid ?w (ec_event_id row) = Some (ec_event_id row)"
    by (simp_all add: sample_pg_def)
  show ?thesis unfolding Let_def
    using retries_starved [OF keys all prod.collapse [symmetric], of "''event:task_completion_requested''"] by simp
qed

section \<open>Claiming\<close>

lemma sendCommand_run: "sendCommand args w = (x_stream (w_ext w) (w_log w) args, w\<lparr>w_log := w_log w @ [RedisStream args]\<rparr>)"
  by (simp add: sendCommand_def call_ext_def)

text \<open>When the command that claims abandoned entries fails, \<open>claiming\<close> stays set, and from then on no call claims
  anything: entries another consumer left behind are not taken over until the process is restarted.\<close>

theorem autoclaim_stuck:
  assumes "\<not> wk_claiming w"
    and "x_stream (w_ext w) (w_log w) [''XAUTOCLAIM'', co_streamKey opts, co_group opts, co_consumer opts,
      nat_string minIdleMs, wk_claimCursor w, ''COUNT'', nat_string (co_count opts)] = Inl e"
  shows "\<exists>w'. autoClaimOnce opts minIdleMs handler w = (Inl e, w') \<and> wk_claiming w' \<and>
    (\<forall>v. wk_claiming v = wk_claiming w' \<longrightarrow> autoClaimOnce opts minIdleMs handler v = (Inr 0, v))"
  using assms
  by (simp add: autoClaimOnce_def bindE_getsE set_claiming_def bindE_apply [of "modifyE _"] modifyE_apply
      bindE_apply [of "sendCommand _"] sendCommand_run ret_apply)

definition sample_worker_world :: worker_world where
  "sample_worker_world = pg_world.extend (sample_pg [] [] (\<lambda>n. None))
     \<lparr> wk_claimCursor = ''0-0'', wk_claiming = False, wk_running = False, wk_lastBacklogSampleAt = 0,
       wk_pendingConsumerKeys = [] \<rparr>"

theorem autoclaim_stuck_witness:
  "let w = sample_worker_world\<lparr>w_ext := sample_ext\<lparr>x_stream := \<lambda>l c. Inl (JsError ''down'')\<rparr>\<rparr>
   in \<exists>w'. autoClaimOnce (consumer_of (sample_worker :: worker_world worker)) 30000 (\<lambda>e. ret ()) w =
        (Inl (JsError ''down''), w') \<and> wk_claiming w' \<and>
      (\<forall>v :: worker_world. wk_claiming v = wk_claiming w' \<longrightarrow>
        autoClaimOnce (consumer_of (sample_worker :: worker_world worker)) 30000 (\<lambda>e. ret ()) v = (Inr 0, v))"
proof -
  let ?w = "sample_worker_world\<lparr>w_ext := sample_ext\<lparr>x_stream := \<lambda>l c. Inl (JsError ''down'')\<rparr>\<rparr>"
  have "\<not> wk_claiming ?w" by (simp add: sample_worker_world_def pg_world.defs)
  moreover have "x_stream (w_ext ?w) l c = Inl (JsError ''down'')" for l c by simp
  ultimately show ?thesis
    using autoclaim_stuck [of ?w "consumer_of (sample_worker :: worker_world worker)" 30000 "JsError ''down''" "\<lambda>e. ret ()"]
    by simp
qed

end
