(* ===== verification/Completion.thy ===== *)
theory Completion
  imports Delivery Lifecycle
begin

text \<open>
  The worker and the market: what its handlers do to tasks and bids, the lifecycle along requests and
  ticks in any order, and the release of an escrow that is repeated when its outcome cannot be stored.
\<close>

section \<open>The completion handler\<close>

text \<open>What the worker may do to the market: complete a task that is COMPLETING, after the release of its selected bid's escrow.\<close>

definition worker_completes :: "'a pg_world_scheme worker \<Rightarrow> market \<Rightarrow> market \<Rightarrow> bool" where
  "worker_completes wr M M' \<longleftrightarrow> M' = M \<or>
     (\<exists>k t b w1 rel w2. mk_tasks M k = Some t \<and> task_status t = COMPLETING \<and>
        b \<in> ran (mk_bids M) \<and> bid_taskId b = k \<and> bid_status b = SELECTED \<and>
        ep_releaseMilestone (wr_escrow wr) (bid_escrowId b) w1 = (Inr rel, w2) \<and>
        M' = set_status k COMPLETED M)"

definition released :: "'a pg_world_scheme worker \<Rightarrow> market \<Rightarrow> 'a pg_world_scheme \<Rightarrow> bool" where
  "released wr M w \<longleftrightarrow> (\<exists>M'. pg.in_market M' w \<and> worker_completes wr M M')"

lemma released_same: "pg.in_market M w \<Longrightarrow> released wr M w"
  by (auto simp: released_def worker_completes_def)

lemma pg_server_find:
  "tr_findById (sv_tasks (pg_server c)) = pg_task_findById" "tr_save (sv_tasks (pg_server c)) = pg_task_save"
  "br_findByTaskId (sv_bids (pg_server c)) = pg_bid_findByTaskId"
  by (simp_all add: fun_eq_iff)

lemma release_at:
  assumes "env_only (ep_releaseMilestone e i)"
  shows "hoare (pg.in_market M) (ep_releaseMilestone e i)
    (\<lambda>rel w. pg.in_market M w \<and> (\<exists>w1 w2. ep_releaseMilestone e i w1 = (Inr rel, w2))) (\<lambda>_. pg.in_market M)"
proof (rule hoareI)
  note keep = pg.keeps_hoare [OF pg.env_only_keeps [OF assms], of M]
  fix w x w' assume "pg.in_market M w" "ep_releaseMilestone e i w = (Inr x, w')"
  then show "pg.in_market M w' \<and> (\<exists>w1 w2. ep_releaseMilestone e i w1 = (Inr x, w2))"
    using hoareD_Inr [OF keep] by blast
next
  note keep = pg.keeps_hoare [OF pg.env_only_keeps [OF assms], of M]
  fix w err w' assume "pg.in_market M w" "ep_releaseMilestone e i w = (Inl err, w')"
  then show "pg.in_market M w'" using hoareD_Inl [OF keep] by blast
qed

lemma completion_spec:
  assumes "\<And>i. env_only (ep_releaseMilestone (wr_escrow wr) i)"
  shows "hoare (pg.in_market M) (handleTaskCompletionRequested wr eventId p) (\<lambda>_. released wr M) (\<lambda>_. released wr M)"
proof -
  have saved: "hoare (\<lambda>w. pg.in_market M w \<and> (\<exists>w1 w2. ep_releaseMilestone (wr_escrow wr) (bid_escrowId b) w1 = (Inr rel, w2)))
      (bindE (pg_task_save (t\<lparr>task_status := COMPLETED\<rparr>)) (\<lambda>_. pg_emit ty aty ai j)) (\<lambda>_. released wr M) (\<lambda>_. released wr M)"
    if t: "mk_tasks M k = Some t" "task_status t = COMPLETING" and b: "b \<in> ran (mk_bids M)" "bid_taskId b = k" "bid_status b = SELECTED"
    for k t b rel ty aty ai j
  proof (rule hoare_fact [where \<phi> = "\<exists>w1 w2. ep_releaseMilestone (wr_escrow wr) (bid_escrowId b) w1 = (Inr rel, w2)"])
    assume "\<exists>w1 w2. ep_releaseMilestone (wr_escrow wr) (bid_escrowId b) w1 = (Inr rel, w2)"
    then have "worker_completes wr M (set_status k COMPLETED M)"
      unfolding worker_completes_def using t b by blast
    then have rel: "pg.in_market (set_status k COMPLETED M) w \<Longrightarrow> released wr M w" for w
      by (auto simp: released_def)
    have "hoare (pg.in_market M) (pg_task_save (t\<lparr>task_status := COMPLETED\<rparr>))
        (\<lambda>_. pg.in_market (set_status k COMPLETED M)) (\<lambda>_. pg.in_market M)"
      using pg_sv.save_status_at [OF t(1)] by (simp add: pg_server_find)
    then have "hoare (pg.in_market M) (bindE (pg_task_save (t\<lparr>task_status := COMPLETED\<rparr>)) (\<lambda>_. pg_emit ty aty ai j))
        (\<lambda>_. released wr M) (\<lambda>_. released wr M)"
      by (rule hoare_seq) (rule hoare_weaken [OF pg.keeps_hoare [OF pg_repos_keep(4)]], auto intro: rel released_same)
    then show ?thesis by (rule hoare_weaken) auto
  qed auto
  have sel: "hoare (\<lambda>w. pg.in_market M w \<and> set bids = {b \<in> ran (mk_bids M). bid_taskId b = mk_key M i} \<and> distinct (map bid_id bids))
      (case selected_bid bids of None \<Rightarrow> throw (JsError ''no selected bid found for this task'')
        | Some winningBid \<Rightarrow> bindE (ep_releaseMilestone (wr_escrow wr) (bid_escrowId winningBid)) (\<lambda>release.
            bindE (pg_task_save (t\<lparr>task_status := COMPLETED\<rparr>)) (\<lambda>_.
              pg_emit ''task_completed'' ''task'' (task_id (t\<lparr>task_status := COMPLETED\<rparr>))
                (completed_json (t\<lparr>task_status := COMPLETED\<rparr>) release eventId))))
      (\<lambda>_. released wr M) (\<lambda>_. released wr M)"
    if t: "mk_tasks M (mk_key M i) = Some t" "task_status t = COMPLETING" for i t bids
  proof (rule hoare_fact [where \<phi> = "set bids = {b \<in> ran (mk_bids M). bid_taskId b = mk_key M i}"])
    assume bids: "set bids = {b \<in> ran (mk_bids M). bid_taskId b = mk_key M i}"
    show ?thesis
    proof (cases "selected_bid bids")
      case None
      then show ?thesis by (auto intro: hoare_throw released_same)
    next
      case (Some b)
      then have b: "b \<in> ran (mk_bids M)" "bid_taskId b = mk_key M i" "bid_status b = SELECTED"
        using pg_sv.selected_bid_in [OF Some] bids by auto
      show ?thesis unfolding Some option.case
        by (rule hoare_weaken [where P = "pg.in_market M"], rule hoare_seq [OF release_at [OF assms] saved [OF t b]])
          (auto intro: released_same)
    qed
  qed auto
  have task: "hoare (\<lambda>w. pg.in_market M w \<and> found = mk_tasks M (mk_key M i))
      (case found of None \<Rightarrow> throw (JsError ''task not found'')
        | Some t \<Rightarrow> if task_status t = COMPLETED then ret ()
           else if task_status t \<noteq> COMPLETING then
             throw (JsError (''task is not completing (status: '' @ task_status_text (task_status t) @ '')''))
           else bindE (pg_bid_findByTaskId i) (\<lambda>bids. case selected_bid bids of
               None \<Rightarrow> throw (JsError ''no selected bid found for this task'')
             | Some winningBid \<Rightarrow> bindE (ep_releaseMilestone (wr_escrow wr) (bid_escrowId winningBid)) (\<lambda>release.
                 bindE (pg_task_save (t\<lparr>task_status := COMPLETED\<rparr>)) (\<lambda>_.
                   pg_emit ''task_completed'' ''task'' (task_id (t\<lparr>task_status := COMPLETED\<rparr>))
                     (completed_json (t\<lparr>task_status := COMPLETED\<rparr>) release eventId)))))
      (\<lambda>_. released wr M) (\<lambda>_. released wr M)" for i found
  proof (rule hoare_fact [where \<phi> = "found = mk_tasks M (mk_key M i)"])
    assume found: "found = mk_tasks M (mk_key M i)"
    show ?thesis
    proof (cases found)
      case None
      then show ?thesis by (auto intro: hoare_throw released_same)
    next
      case (Some t)
      have bids: "hoare (pg.in_market M) (pg_bid_findByTaskId i)
          (\<lambda>xs w. pg.in_market M w \<and> set xs = {b \<in> ran (mk_bids M). bid_taskId b = mk_key M i} \<and> distinct (map bid_id xs))
          (\<lambda>_. pg.in_market M)"
        using pg_sv.find_bids_at by (simp add: pg_server_find)
      show ?thesis unfolding Some option.case
        by (rule hoare_weaken [where P = "pg.in_market M"], intro hoare_if)
          (use Some found in \<open>auto intro!: hoare_ret hoare_throw hoare_seq [OF bids sel] intro: released_same\<close>)
    qed
  qed auto
  have find: "hoare (pg.in_market M) (pg_task_findById i) (\<lambda>x w. pg.in_market M w \<and> x = mk_tasks M (mk_key M i)) (\<lambda>_. pg.in_market M)" for i
    using pg_sv.find_task_at by (simp add: pg_server_find)
  show ?thesis unfolding handleTaskCompletionRequested_def Let_def
    by (rule hoare_seq [OF pg.keeps_hoare [OF pg.env_only_keeps [OF env_only_payload_text(1)]]],
        rule hoare_seq [OF pg.keeps_hoare [OF pg.env_only_keeps [OF env_only_payload_text(1)]]],
        intro hoare_if hoare_throw hoare_seq [OF find task] released_same)
      (auto intro: released_same)
qed

section \<open>Requests and ticks\<close>

lemma worker_completes_le: "worker_completes wr M M' \<Longrightarrow> market_le M M'"
  unfolding worker_completes_def
  by (auto intro!: status_step_le set_status_step simp: less_eq_task_status_def)

lemma completion_evolves:
  assumes "\<And>i. env_only (ep_releaseMilestone (wr_escrow wr) i)"
  shows "evolves pg.lifecycle (handleTaskCompletionRequested wr eventId p)"
proof (rule pg.later_evolves)
  fix M
  have "pg.later M w" if "released wr M w" for w
    using that worker_completes_le by (auto simp: released_def pg.in_market_def pg.later_def)
  then show "hoare (pg.in_market M) (handleTaskCompletionRequested wr eventId p) (\<lambda>_. pg.later M) (\<lambda>_. pg.later M)"
    by (intro hoare_weaken [OF completion_spec [OF assms]])
qed

lemma records_keep:
  assumes "evolves only_records m"
  shows "pg.keeps m"
proof (rule pg.keepsI)
  fix w r w' assume w: "pg_inv w" "pg.fresh w" "m w = (r, w')"
  then obtain q n c where "w' = w\<lparr>pg_queries := q, w_reads := n, pg_consumptions := c\<rparr>"
    using evolvesD [OF assms w(3)] by (auto simp: only_records_def)
  then have "pg_market w' = pg_market w" "pg_inv w' = pg_inv w" "w_uuid w' = w_uuid w" "w_uuids w' = w_uuids w"
    by (simp_all add: pg_market_def pg_inv_def pg_key_def fun_eq_iff)
  with w show "pg_inv w' \<and> pg.fresh w' \<and> pg_market w' = pg_market w" by (simp add: pg.fresh_def)
qed

lemma consumption_keeps:
  "pg.keeps (tryStart h e se mx nr)" "pg.keeps (markSucceeded h e)" "pg.keeps (markFailed h e er nr)"
  "pg.keeps (listDueRetries h n)"
  by (auto intro!: records_keep tryStart_records pg_side_keeps pg_select_keeps
      simp: markSucceeded_def markFailed_def listDueRetries_def side_stmt_def)

lemma outbox_keeps:
  "pg.keeps (pg_outbox_listUnprocessed n)" "pg.keeps (pg_outbox_countUnprocessed)" "pg.keeps (pg_outbox_countFailed)"
  "pg.keeps (pg_outbox_findById i)" "pg.keeps (pg_outbox_markProcessed i)" "pg.keeps (pg_outbox_markFailed i er)"
  by (auto intro!: pg_side_keeps pg_select_keeps
      simp: pg_outbox_listUnprocessed_def pg_outbox_countUnprocessed_def pg_outbox_countFailed_def pg_outbox_findById_def
        pg_outbox_markProcessed_def pg_outbox_markFailed_def side_stmt_def)

lemma env_only_worker [env_only_rules]:
  "env_only (sendCommand args)" "env_only (ack opts i)" "env_only (computeBackoff n)" "env_only (metric_inc nm ls)"
  "env_only (set_gauge nm ls v)" "env_only (ensureGroup opts)"
  unfolding sendCommand_def ack_def computeBackoff_def metric_inc_def set_gauge_def ensureGroup_def Let_def
  by (auto intro!: env_only_rules split: jsnum.split)

lemmas worker_evolves = consumption_keeps [THEN pg.keeps_evolves] outbox_keeps [THEN pg.keeps_evolves]
  env_only_worker [THEN pg.env_only_lifecycle] env_only_now [THEN pg.env_only_lifecycle]
  env_only_call [THEN pg.env_only_lifecycle]

lemma finally_evolves: "evolves pg.lifecycle m \<Longrightarrow> evolves pg.lifecycle f \<Longrightarrow> evolves pg.lifecycle (finallyE m f)"
  unfolding finallyE_def by (intro pg.life.evolves_intros)

lemma if_evolves: "evolves pg.lifecycle m \<Longrightarrow> evolves pg.lifecycle m' \<Longrightarrow> evolves pg.lifecycle (if b then m else m')"
  by simp

lemma prod_evolves: "(\<And>x y. evolves pg.lifecycle (f x y)) \<Longrightarrow> evolves pg.lifecycle (case p of (x, y) \<Rightarrow> f x y)"
  by (cases p) simp

lemma dispatch_evolves:
  assumes "\<And>i. env_only (ep_releaseMilestone (wr_escrow wr) i)"
  shows "evolves pg.lifecycle (dispatch wr eventId ty payload)"
  unfolding dispatch_def
  by (simp add: completion_evolves [OF assms] pg.env_only_lifecycle [OF env_only_published] pg.life.evolves_ret)

lemma run_event_evolves:
  assumes "\<And>i. env_only (ep_releaseMilestone (wr_escrow wr) i)"
  shows "evolves pg.lifecycle (run_event wr h eventId ty payload rowId n)"
  unfolding run_event_def
  by (intro pg.life.evolves_intros worker_evolves dispatch_evolves [OF assms])

lemma handle_entry_evolves:
  assumes "\<And>i. env_only (ep_releaseMilestone (wr_escrow wr) i)"
  shows "evolves pg.lifecycle (handle_entry wr entry)"
  unfolding handle_entry_def Let_def
  by (intro pg.life.evolves_intros if_evolves prod_evolves finally_evolves worker_evolves run_event_evolves [OF assms])

lemma retry_due_evolves:
  assumes "\<And>i. env_only (ep_releaseMilestone (wr_escrow wr) i)"
  shows "evolves pg.lifecycle (retry_due_events wr h)"
  unfolding retry_due_events_def retry_record_def
  by (intro pg.life.evolves_intros if_evolves prod_evolves worker_evolves run_event_evolves [OF assms])

lemma publish_evolves: "evolves pg.lifecycle (publishOnce k n)"
  unfolding publishOnce_def publish_event_def
  by (intro pg.life.evolves_intros worker_evolves)

lemma worker_modify_keeps:
  assumes "\<And>w. pg_market (f w) = pg_market w" "\<And>w. pg_inv (f w) = pg_inv w" "\<And>w. env.truncate (f w) = env.truncate w"
  shows "evolves pg.lifecycle (modifyE f)"
proof (intro pg.keeps_evolves pg.keeps_query)
  fix w r w' assume "pg_inv w" "modifyE f w = (r, w')"
  then show "pg_inv w' \<and> pg_market w' = pg_market w \<and> env.truncate w' = env.truncate w"
    using assms [of w] by (auto simp: modifyE_apply)
qed

lemma worker_state_evolves:
  "evolves pg.lifecycle (set_claiming b)" "evolves pg.lifecycle (set_running b)"
  "evolves pg.lifecycle (modifyE (\<lambda>w. w\<lparr>wk_claimCursor := s\<rparr>))"
  "evolves pg.lifecycle (modifyE (\<lambda>w. w\<lparr>wk_pendingConsumerKeys := ks\<rparr>))"
  "evolves pg.lifecycle (modifyE (\<lambda>w. w\<lparr>wk_lastBacklogSampleAt := n\<rparr>))"
  unfolding set_claiming_def set_running_def
  by (rule worker_modify_keeps; simp add: pg_market_def pg_inv_def pg_key_def fun_eq_iff env.truncate_def)+

lemma sample_evolves: "evolves pg.lifecycle (maybeSampleBacklog wr)"
  unfolding maybeSampleBacklog_def sample_stream_def sample_outbox_def Let_def
  by (intro pg.life.evolves_intros if_evolves worker_evolves worker_state_evolves)
    (auto simp: sample_consumer_def clear_gone_consumer_def Let_def
      intro!: pg.life.evolves_intros worker_evolves split: jsnum.split list.split)

lemma consumer_evolves:
  fixes handler :: "stream_entry \<Rightarrow> ('a worker_world_scheme, unit) prog"
  assumes "\<And>entry. evolves pg.lifecycle (handler entry)"
  shows "evolves pg.lifecycle (pollOnce opts handler)" "evolves pg.lifecycle (autoClaimOnce opts ms handler)"
  unfolding pollOnce_def autoClaimOnce_def Let_def
  by (auto intro!: pg.life.evolves_intros finally_evolves worker_evolves worker_state_evolves assms
      split: reply.split list.split)

lemma tick_evolves:
  assumes "\<And>i. env_only (ep_releaseMilestone (wr_escrow wr) i)"
  shows "evolves pg.lifecycle (runTick wr)"
  unfolding runTick_def tick_def
  by (intro pg.life.evolves_intros if_evolves finally_evolves worker_evolves worker_state_evolves sample_evolves
      publish_evolves consumer_evolves handle_entry_evolves [OF assms] retry_due_evolves [OF assms])

text \<open>The API server and a worker on one database, with requests and ticks in any order.\<close>

inductive system :: "app_config \<Rightarrow> 'a worker_world_scheme worker \<Rightarrow> 'a worker_world_scheme \<Rightarrow> 'a worker_world_scheme \<Rightarrow> bool"
  for c wr where
  system_start: "system c wr w w"
| system_request: "system c wr w w1 \<Longrightarrow> serve (pg_server c) rq w1 = (r, w2) \<Longrightarrow> system c wr w w2"
| system_tick: "system c wr w w1 \<Longrightarrow> runTick wr w1 = (r', w2) \<Longrightarrow> system c wr w w2"

lemma system_lifecycle:
  assumes "system c wr w w'" "\<And>i. env_only (ep_releaseMilestone (wr_escrow wr) i)"
  shows "pg.lifecycle w w'"
  using assms(1)
proof (induction rule: system.induct)
  case (system_start w)
  show ?case by (rule pg.lifecycle_refl)
next
  case (system_request w w1 rq r w2)
  then show ?case using pg_sv.serve_lifecycle pg.lifecycle_trans by blast
next
  case (system_tick w w1 r w2)
  then show ?case using evolvesD [OF tick_evolves [OF assms(2)]] pg.lifecycle_trans by blast
qed

text \<open>C5. With the worker running, through any sequence of requests, ticks, failures and faults, a stored task keeps
  everything but its status, the status only moves forward, and COMPLETED and EXPIRED tasks stay what they are.\<close>

theorem lifecycle_worker:
  assumes "pg_inv w" "pg.fresh w" "system c wr w w'" "wr_escrow wr = app_escrow c"
    and "mk_tasks (pg_market w) i = Some t"
  shows "\<exists>s. mk_tasks (pg_market w') i = Some (t\<lparr>task_status := s\<rparr>) \<and> task_status t \<le> s \<and>
    (task_status t \<in> {COMPLETED, EXPIRED} \<longrightarrow> s = task_status t)"
proof -
  have "pg.lifecycle w w'" by (rule system_lifecycle [OF assms(3)]) (simp add: assms(4) app_escrow_env_only)
  then have "market_le (pg_market w) (pg_market w')" using assms(1,2) by (simp add: pg.lifecycle_def)
  then obtain t' where "mk_tasks (pg_market w') i = Some t'" "task_status t \<le> task_status t'"
    "t' = t\<lparr>task_status := task_status t'\<rparr>"
    using assms(5) by (rule market_le_status)
  then show ?thesis by (intro exI [of _ "task_status t'"]) (auto simp: terminal_status)
qed

definition system_world :: "task_row list \<Rightarrow> bid_row list \<Rightarrow> (nat \<Rightarrow> exn option) \<Rightarrow> worker_world" where
  "system_world ts bs fault = pg_world.extend (sample_pg ts bs fault)
     \<lparr> wk_claimCursor = ''0-0'', wk_claiming = False, wk_running = False, wk_lastBacklogSampleAt = 0,
       wk_pendingConsumerKeys = [] \<rparr>"

lemma system_world_market:
  "pg_market (system_world ts bs fault) = pg_market (sample_pg ts bs fault)"
  "pg_inv (system_world ts bs fault) = pg_inv (sample_pg ts bs fault)"
  "pg.fresh (system_world ts bs fault) = pg.fresh (sample_pg ts bs fault)"
  by (simp_all add: system_world_def pg_world.defs pg_market_def pg_inv_def pg_key_def pg.fresh_def fun_eq_iff)

lemma system_world_ready:
  "pg_inv (system_world [sample_task_row ''t'' s] [] fault)" "pg.fresh (system_world [sample_task_row ''t'' s] [] fault)"
  "mk_tasks (pg_market (system_world [sample_task_row ''t'' s] [] fault)) ''t'' = Some (row_to_task (sample_task_row ''t'' s))"
proof -
  show "pg_inv (system_world [sample_task_row ''t'' s] [] fault)"
    unfolding system_world_market by (rule sample_pg_inv) (simp_all add: sample_task_row_def)
  show "pg.fresh (system_world [sample_task_row ''t'' s] [] fault)"
    unfolding system_world_market by (rule sample_pg_fresh) simp
  show "mk_tasks (pg_market (system_world [sample_task_row ''t'' s] [] fault)) ''t'' = Some (row_to_task (sample_task_row ''t'' s))"
    unfolding system_world_market by (simp add: sample_task_row_def pg_market_def sample_pg_def)
qed

theorem lifecycle_worker_witness:
  "let wr = sample_worker\<lparr>wr_escrow := app_escrow sample_config\<rparr>
   in \<exists>s. mk_tasks (pg_market (snd (runTick wr (system_world [sample_task_row ''t'' COMPLETED] [] (\<lambda>n. None))))) ''t'' =
     Some ((row_to_task (sample_task_row ''t'' COMPLETED))\<lparr>task_status := s\<rparr>) \<and> s = COMPLETED"
proof -
  let ?wr = "sample_worker\<lparr>wr_escrow := app_escrow sample_config\<rparr> :: worker_world worker"
  let ?w = "system_world [sample_task_row ''t'' COMPLETED] [] (\<lambda>n. None)"
  have "system sample_config ?wr ?w (snd (runTick ?wr ?w))"
    by (rule system_tick [OF system_start prod.collapse [symmetric]])
  then show ?thesis
    using lifecycle_worker [OF system_world_ready(1,2) _ _ system_world_ready(3), where c = sample_config and wr = ?wr
        and w' = "snd (runTick ?wr ?w)"]
    by (auto simp: Let_def row_to_task_def sample_task_row_def)
qed

text \<open>C2. The worker completes a task only when it is COMPLETING and the release of the escrow of its selected bid has
  returned; whatever else happens, the market stays as it is.\<close>

theorem completed_after_release:
  assumes "pg_inv w" "pg.fresh w" "\<And>i. env_only (ep_releaseMilestone (wr_escrow wr) i)"
    and "handleTaskCompletionRequested wr eventId payload w = (r, w')"
  shows "pg_market w' = pg_market w \<or>
    (\<exists>k t b w1 rel w2. mk_tasks (pg_market w) k = Some t \<and> task_status t = COMPLETING \<and>
       b \<in> ran (mk_bids (pg_market w)) \<and> bid_taskId b = k \<and> bid_status b = SELECTED \<and>
       ep_releaseMilestone (wr_escrow wr) (bid_escrowId b) w1 = (Inr rel, w2) \<and>
       pg_market w' = set_status k COMPLETED (pg_market w))"
proof -
  have "pg.in_market (pg_market w) w" using assms(1,2) by (simp add: pg.in_market_def)
  then have "released wr (pg_market w) w'"
    using completion_spec [OF assms(3), of "pg_market w" eventId payload] assms(4)
    by (cases r) (auto dest: hoareD_Inr hoareD_Inl)
  then show ?thesis by (simp add: released_def worker_completes_def pg.in_market_def)
qed

theorem completed_after_release_witness:
  "let w = sample_pg [sample_task_row ''t'' ASSIGNED] [] (\<lambda>n. None)
   in pg_market (snd (handleTaskCompletionRequested sample_worker ''e'' JNull w)) = pg_market w"
proof -
  let ?w = "sample_pg [sample_task_row ''t'' ASSIGNED] [] (\<lambda>n. None)"
  have "pg_inv ?w" by (rule sample_pg_inv) (simp_all add: sample_task_row_def)
  moreover have "pg.fresh ?w" by (rule sample_pg_fresh) simp
  moreover have "mk_tasks (pg_market ?w) k = Some t \<Longrightarrow> task_status t \<noteq> COMPLETING" for k t
    by (auto simp: pg_market_def sample_pg_def sample_task_row_def row_to_task_def split: if_splits)
  moreover have "env_only (ep_releaseMilestone (wr_escrow (sample_worker :: pg_world worker)) i)" for i
    by (simp add: sample_worker_def mock_release_env)
  ultimately show ?thesis
    using completed_after_release [OF _ _ _ prod.collapse [symmetric], of ?w sample_worker "''e''" JNull]
    by (simp add: Let_def) blast
qed

section \<open>A release that is repeated\<close>

lemma pg_select_up:
  "pg_fault w (pg_queries w) = None \<Longrightarrow> pg_select f w = (f (w\<lparr>pg_queries := Suc (pg_queries w)\<rparr>), w\<lparr>pg_queries := Suc (pg_queries w)\<rparr>)"
  by (auto simp: pg_select_def pg_query_def Let_def split: sum.split)

definition completion_payload :: "string \<Rightarrow> string \<Rightarrow> json" where
  "completion_payload taskId escrowId = JObj [(''taskId'', JStr taskId), (''escrowId'', JStr escrowId)]"

text \<open>The task is COMPLETING and \<open>b\<close> is the selected bid the worker finds.\<close>

definition awaits_release :: "'a pg_world_scheme \<Rightarrow> string \<Rightarrow> task \<Rightarrow> bid \<Rightarrow> bool" where
  "awaits_release w i t b \<longleftrightarrow> i \<noteq> [] \<and> pg_uuid w i = Some i \<and> mk_tasks (pg_market w) i = Some t \<and>
     task_status t = COMPLETING \<and>
     selected_bid (map row_to_bid (sort_key bw_created_at (filter (\<lambda>r. bw_task_id r = i) (pg_bids w)))) = Some b"

lemma payload_texts:
  "payload_text (completion_payload i e) ''taskId'' w = (Inr i, w)"
  "payload_text (completion_payload i e) ''escrowId'' w = (Inr e, w)"
  by (simp_all add: payload_text_def completion_payload_def bindE_getsE ret_apply body_text_def)

lemma completion_until_save:
  assumes "awaits_release w i t b" "e \<noteq> []" "wr_escrow wr = trustless_work_escrow cfg True"
    and "pg_fault w (pg_queries w) = None" "pg_fault w (Suc (pg_queries w)) = None"
    and "\<And>l. x_tw_release (w_ext w) l (bid_escrowId b) = Inr rel"
  shows "handleTaskCompletionRequested wr eventId (completion_payload i e) w =
    bindE (pg_task_save (t\<lparr>task_status := COMPLETED\<rparr>)) (\<lambda>_. pg_emit ''task_completed'' ''task'' (task_id t)
      (completed_json (t\<lparr>task_status := COMPLETED\<rparr>) rel eventId))
    (w\<lparr>pg_queries := Suc (Suc (pg_queries w)), w_log := w_log w @ [TwRelease (bid_escrowId b)]\<rparr>)"
proof -
  let ?w1 = "w\<lparr>pg_queries := Suc (pg_queries w)\<rparr>" and ?w2 = "w\<lparr>pg_queries := Suc (Suc (pg_queries w))\<rparr>"
  have task: "pg_task_findById i w = (Inr (Some t), ?w1)"
    using assms(1,4) by (simp add: pg_task_findById_def pg_select_up awaits_release_def pg_market_def sql_uuid_def sum_bind_def)
  have bids: "pg_bid_findByTaskId i ?w1 =
      (Inr (map row_to_bid (sort_key bw_created_at (filter (\<lambda>r. bw_task_id r = i) (pg_bids w)))), ?w2)"
    using assms(1,5) by (simp add: pg_bid_findByTaskId_def pg_select_up awaits_release_def sql_uuid_def sum_bind_def)
  have rel: "ep_releaseMilestone (wr_escrow wr) (bid_escrowId b) ?w2 =
      (Inr rel, ?w2\<lparr>w_log := w_log w @ [TwRelease (bid_escrowId b)]\<rparr>)"
    using assms(6) by (simp add: assms(3) trustless_work_escrow_def tw_releaseMilestone_def getClient_def call_ext_def)
  show ?thesis
    using assms(1,2) task bids rel
    by (simp add: handleTaskCompletionRequested_def awaits_release_def Let_def bindE_apply [of "payload_text _ _"] payload_texts
        bindE_apply [of "pg_task_findById _"] bindE_apply [of "pg_bid_findByTaskId _"] bindE_apply [of "ep_releaseMilestone _ _"])
qed

lemma save_emit_log:
  assumes "bindE (pg_task_save t) (\<lambda>_. pg_emit ty aty ai j) w = (r, w')"
  shows "w_log w' = w_log w"
proof -
  have "w_log w' = w_log w" if "pg_task_save t w = (r, w')" for r w'
    using that unfolding pg_task_save_def by (auto elim!: pg_query_cases)
  moreover have "w_log w' = w_log w" if "pg_emit ty aty ai j w = (r, w')" for r and w w' :: "'a pg_world_scheme"
    using that unfolding pg_emit_def bindE_randomUUID pg_outbox_insert_def by (auto elim!: pg_query_cases split: if_splits)
  ultimately show ?thesis
    using assms by (auto simp: bindE_apply split: prod.splits sum.splits)
qed

text \<open>C30. The escrow can be released twice: when the query that stores COMPLETED fails after the release, the task is
  still COMPLETING, and handling the event again releases the escrow of the same bid a second time.\<close>

theorem release_repeated:
  assumes "awaits_release w i t b" "e \<noteq> []" "wr_escrow wr = trustless_work_escrow cfg True"
    and "\<And>l. x_tw_release (w_ext w) l (bid_escrowId b) = Inr rel"
    and "pg_fault w = (\<lambda>n. if n = pg_queries w + 2 then Some down else None)"
  shows "\<exists>w1 r w2. handleTaskCompletionRequested wr eventId (completion_payload i e) w = (Inl down, w1) \<and>
    pg_market w1 = pg_market w \<and>
    handleTaskCompletionRequested wr eventId (completion_payload i e) w1 = (r, w2) \<and>
    w_log w2 = w_log w @ [TwRelease (bid_escrowId b), TwRelease (bid_escrowId b)]"
proof -
  let ?w1 = "w\<lparr>pg_queries := Suc (Suc (Suc (pg_queries w))), w_log := w_log w @ [TwRelease (bid_escrowId b)]\<rparr>"
  have first: "handleTaskCompletionRequested wr eventId (completion_payload i e) w = (Inl down, ?w1)"
    using assms(5) by (simp add: completion_until_save [OF assms(1-3) _ _ assms(4)] bindE_apply pg_task_save_def pg_query_def Let_def)
  have "awaits_release ?w1 i t b" using assms(1) by (simp add: awaits_release_def pg_market_def)
  then have again: "handleTaskCompletionRequested wr eventId (completion_payload i e) ?w1 =
    bindE (pg_task_save (t\<lparr>task_status := COMPLETED\<rparr>)) (\<lambda>_. pg_emit ''task_completed'' ''task'' (task_id t)
      (completed_json (t\<lparr>task_status := COMPLETED\<rparr>) rel eventId))
    (?w1\<lparr>pg_queries := Suc (Suc (pg_queries ?w1)), w_log := w_log ?w1 @ [TwRelease (bid_escrowId b)]\<rparr>)"
    using assms(2-5) by (intro completion_until_save) simp_all
  obtain r w2 where second: "handleTaskCompletionRequested wr eventId (completion_payload i e) ?w1 = (r, w2)" by fastforce
  then have "w_log w2 = w_log w @ [TwRelease (bid_escrowId b), TwRelease (bid_escrowId b)]"
    using save_emit_log [OF second [unfolded again]] by simp
  moreover have "pg_market ?w1 = pg_market w" by (simp add: pg_market_def pg_key_def fun_eq_iff)
  ultimately show ?thesis using first second by blast
qed

definition release_worker :: "pg_world worker" where
  "release_worker = sample_worker\<lparr>wr_escrow := trustless_work_escrow
     \<lparr> cfg_apiKey = ''k'', cfg_network = Testnet, cfg_marketplaceWallet = ''m'', cfg_usdcIssuer = ''i'' \<rparr> True\<rparr>"

definition release_world :: pg_world where
  "release_world = sample_pg [sample_task_row ''t'' COMPLETING] [sample_bid_row ''b'' ''t'' 90 SELECTED]
      (\<lambda>n. if n = 0 + 2 then Some (JsError ''down'') else None)"

lemma release_world_awaits:
  "awaits_release release_world ''t'' (row_to_task (sample_task_row ''t'' COMPLETING))
     (row_to_bid (sample_bid_row ''b'' ''t'' 90 SELECTED))"
  by (simp add: awaits_release_def release_world_def sample_pg_def pg_market_def sample_task_row_def sample_bid_row_def
      row_to_task_def row_to_bid_def selected_bid_def sort_key_def)

theorem release_repeated_witness:
  "let b = row_to_bid (sample_bid_row ''b'' ''t'' 90 SELECTED); w = release_world;
       handle = handleTaskCompletionRequested release_worker ''e'' (completion_payload ''t'' ''escrow'')
   in \<exists>w1 r w2. handle w = (Inl (JsError ''down''), w1) \<and> pg_market w1 = pg_market w \<and> handle w1 = (r, w2) \<and>
    w_log w2 = w_log w @ [TwRelease (bid_escrowId b), TwRelease (bid_escrowId b)]"
proof -
  have "x_tw_release (w_ext release_world) l i = Inr \<lparr> rr_success = True, rr_transactionHash = ''tx'',
      rr_amountReleased = 1, rr_receiver = ''r'' \<rparr>" for l i
    by (simp add: release_world_def sample_pg_def sample_ext_def)
  moreover have "pg_fault release_world = (\<lambda>n. if n = pg_queries release_world + 2 then Some (JsError ''down'') else None)"
    by (simp add: release_world_def sample_pg_def)
  ultimately show ?thesis
    using release_repeated [OF release_world_awaits _ _ _ , of "''escrow''" release_worker]
    by (simp add: release_worker_def)
qed

end
