(* ===== verification/Idempotency.thy ===== *)
theory Idempotency
  imports Auth Servers
begin

text \<open>
  \<open>middlewares/idempotency.ts\<close> and \<open>PgIdempotencyRepository\<close>: the answer given to a request with
  an \<open>Idempotency-Key\<close> is stored and given again when the request is repeated.
\<close>

section \<open>The table\<close>

record idempotency_record =
  ir_key :: string
  ir_scope :: string
  ir_publicKey :: "string option"
  ir_requestHash :: string
  ir_responseCode :: nat
  ir_responseBody :: body
  ir_createdAt :: string

definition row_to_idempotency :: "idempotency_row \<Rightarrow> idempotency_record" where
  "row_to_idempotency r =
     \<lparr> ir_key = ik_key r, ir_scope = ik_scope r, ir_publicKey = ik_public_key r,
       ir_requestHash = ik_request_hash r, ir_responseCode = ik_response_code r,
       ir_responseBody = ik_response_body r, ir_createdAt = toISOString (ik_created_at r) \<rparr>"

definition pg_idempotency_find :: "string \<Rightarrow> ('a pg_world_scheme, idempotency_record option) prog" where
  "pg_idempotency_find key = pg_select (\<lambda>w.
     Inr (map_option row_to_idempotency (List.find (\<lambda>r. ik_key r = key) (pg_idempotency w))))"

definition pg_idempotency_insert ::
  "string \<Rightarrow> string \<Rightarrow> string option \<Rightarrow> string \<Rightarrow> nat \<Rightarrow> body \<Rightarrow> ('a pg_world_scheme, unit) prog" where
  "pg_idempotency_insert key scope publicKey requestHash responseCode responseBody = pg_query (\<lambda>w.
     case pg_body w responseBody of
       None \<Rightarrow> Inl (JsError ''unsupported Unicode escape sequence'')
     | Some stored \<Rightarrow>
         if key \<in> ik_key ` set (pg_idempotency w)
         then Inl (JsError ''duplicate key value violates unique constraint idempotency_keys_pkey'')
         else Inr ((), w\<lparr>pg_idempotency := pg_idempotency w @
           [\<lparr> ik_key = key, ik_scope = scope, ik_public_key = publicKey, ik_request_hash = requestHash,
              ik_response_code = responseCode, ik_response_body = stored, ik_created_at = sql_now w \<rparr>]\<rparr>))"

section \<open>The middleware\<close>

text \<open>Whose key it is: the key \<open>signatureAuth\<close> found, or the text of a field of the body.\<close>

datatype public_key_from = FromAuth | FromBodyField string

record idempotency_options =
  io_scope :: string
  io_publicKeyFrom :: "public_key_from option"
  io_requireHeader :: bool

definition idempotency_owner :: "idempotency_options \<Rightarrow> http_request \<Rightarrow> string option" where
  "idempotency_owner opts rq = (case io_publicKeyFrom opts of
      None \<Rightarrow> None
    | Some FromAuth \<Rightarrow> rq_authPublicKey rq
    | Some (FromBodyField f) \<Rightarrow> Option.bind (rq_body rq) (\<lambda>j. jstring (jfield j f)))"

definition request_hash :: "ext \<Rightarrow> http_request \<Rightarrow> string" where
  "request_hash x rq =
     x_sha256 x (map to_upper (rq_method rq) @ newline # getRequestPath rq @ newline # x_sha256 x (raw_body x rq))"

definition idempotency_replay ::
  "idempotency_options \<Rightarrow> string option \<Rightarrow> string \<Rightarrow> idempotency_record \<Rightarrow> response" where
  "idempotency_replay opts publicKey requestHash existing =
     (if ir_scope existing \<noteq> io_scope opts then error_response 409 ''idempotency key scope mismatch''
      else if ir_publicKey existing \<noteq> publicKey then error_response 409 ''idempotency key owner mismatch''
      else if ir_requestHash existing \<noteq> requestHash
      then error_response 409 ''idempotency key reused with different request''
      else (ir_responseCode existing, ir_responseBody existing))"

text \<open>
  What the \<open>finish\<close> listener does once the response is out: every answer below 500 is stored, and an
  error of the insertion is ignored. An error of a handler is answered by \<open>errorHandler\<close>, with a 500.
\<close>

definition idempotency_store ::
  "idempotency_options \<Rightarrow> string \<Rightarrow> string option \<Rightarrow> string \<Rightarrow> response \<Rightarrow> ('a pg_world_scheme, unit) prog" where
  "idempotency_store opts key publicKey requestHash resp =
     (if fst resp \<ge> 500 then ret ()
      else catchE (pg_idempotency_insert key (io_scope opts) publicKey requestHash (fst resp) (snd resp)) (\<lambda>err. ret ()))"

definition idempotency ::
  "idempotency_options \<Rightarrow> (http_request \<Rightarrow> ('a pg_world_scheme, response) prog) \<Rightarrow>
   http_request \<Rightarrow> ('a pg_world_scheme, response) prog" where
  "idempotency opts next rq =
     (let key = header_text rq ''idempotency-key''
      in if key = [] then
           (if io_requireHeader opts then ret (error_response 400 ''missing Idempotency-Key header'') else next rq)
         else
           bindE (getsE w_ext) (\<lambda>x.
           let publicKey = idempotency_owner opts rq; requestHash = request_hash x rq
           in bindE (pg_idempotency_find key) (\<lambda>existing. case existing of
                Some e \<Rightarrow> ret (idempotency_replay opts publicKey requestHash e)
              | None \<Rightarrow>
                  bindE (handled (next rq)) (\<lambda>resp.
                  bindE (idempotency_store opts key publicKey requestHash resp) (\<lambda>_.
                  ret resp)))))"

section \<open>What the table may become\<close>

text \<open>Rows are only added, keys stay distinct, and no answer of 500 or more is kept.\<close>

definition idem_step :: "'a pg_world_scheme \<Rightarrow> 'a pg_world_scheme \<Rightarrow> bool" where
  "idem_step w w' \<longleftrightarrow> (\<exists>rows. pg_idempotency w' = pg_idempotency w @ rows \<and> (\<forall>r \<in> set rows. ik_response_code r < 500)) \<and>
     (distinct (map ik_key (pg_idempotency w)) \<longrightarrow> distinct (map ik_key (pg_idempotency w')))"

interpretation idem_order: world_order idem_step
proof unfold_locales
  show "idem_step w w" for w :: "'a pg_world_scheme" by (simp add: idem_step_def)
  show "idem_step u w" if "idem_step u v" "idem_step v w" for u v w :: "'a pg_world_scheme"
  proof -
    have uv: "idem_step u v" and vw: "idem_step v w" using that by auto
    obtain r1 where r1: "pg_idempotency v = pg_idempotency u @ r1" "\<forall>r \<in> set r1. ik_response_code r < 500"
      using uv unfolding idem_step_def by blast
    obtain r2 where r2: "pg_idempotency w = pg_idempotency v @ r2" "\<forall>r \<in> set r2. ik_response_code r < 500"
      using vw unfolding idem_step_def by blast
    have "pg_idempotency w = pg_idempotency u @ r1 @ r2" using r1 r2 by simp
    moreover have "\<forall>r \<in> set (r1 @ r2). ik_response_code r < 500" using r1 r2 by auto
    ultimately show ?thesis using that unfolding idem_step_def by blast
  qed
qed

lemma idem_step_query: "idem_step w (w\<lparr>pg_queries := n\<rparr>)"
  by (simp add: idem_step_def)

lemma find_run:
  "pg_idempotency_find key w = (r, w') \<Longrightarrow> w' = w\<lparr>pg_queries := Suc (pg_queries w)\<rparr> \<and>
    (\<forall>found. r = Inr found \<longrightarrow> found = map_option row_to_idempotency (List.find (\<lambda>r. ik_key r = key) (pg_idempotency w)))"
  using pg_select_cases [of _ w r w'] by (fastforce simp: pg_idempotency_find_def)

lemma store_run:
  assumes "idempotency_store opts key pk h resp w = (r, w')"
  shows "r = Inr () \<and> (pg_idempotency w' = pg_idempotency w \<or>
    fst resp < 500 \<and> key \<notin> ik_key ` set (pg_idempotency w) \<and>
    (\<exists>row. pg_idempotency w' = pg_idempotency w @ [row] \<and> ik_key row = key \<and> ik_scope row = io_scope opts \<and>
       ik_public_key row = pk \<and> ik_request_hash row = h \<and> ik_response_code row = fst resp \<and>
       pg_body w (snd resp) = Some (ik_response_body row)))"
  using assms
  by (auto simp: idempotency_store_def pg_idempotency_insert_def catchE_apply ret_apply pg_query_def Let_def
      split: if_splits option.splits prod.splits sum.splits)

lemma idem_evolves_store: "evolves idem_step (idempotency_store opts key pk h resp)"
proof (rule evolvesI)
  fix w r w' assume "idempotency_store opts key pk h resp w = (r, w')"
  then show "idem_step w w'" by (auto dest!: store_run simp: idem_step_def)
qed

lemma idem_evolves_find: "evolves idem_step (pg_idempotency_find key)"
proof (rule evolvesI)
  fix w r w' assume "pg_idempotency_find key w = (r, w')"
  then show "idem_step w w'" by (auto dest!: find_run simp: idem_step_query)
qed

lemma idem_evolves:
  assumes "evolves idem_step (next rq)"
  shows "evolves idem_step (idempotency opts next rq)"
proof -
  have "evolves idem_step (handled (next rq))"
    unfolding handled_def by (intro idem_order.evolves_catch assms idem_order.evolves_ret)
  then show ?thesis
    unfolding idempotency_def Let_def using assms
    by (auto intro!: idem_order.evolves_bind idem_order.evolves_gets idem_order.evolves_ret idem_evolves_find
        idem_evolves_store split: option.split)
qed

section \<open>What the handlers leave alone\<close>

text \<open>
  An observation of the database that the shared part of the world has no effect on is the same
  after everything that only reads the database, and \<open>signatureAuth\<close> lets the handler decide.
\<close>

locale observation =
  fixes obs :: "'a pg_world_scheme \<Rightarrow> 'b"
  assumes obs_env: "env.more w' = env.more w \<Longrightarrow> obs w' = obs w"
    and obs_queries: "obs (w\<lparr>pg_queries := n\<rparr>) = obs w"
begin

abbreviation same :: "'a pg_world_scheme \<Rightarrow> 'a pg_world_scheme \<Rightarrow> bool" where
  "same w w' \<equiv> obs w' = obs w"

end

sublocale observation \<subseteq> world_order same
  by unfold_locales auto

context observation
begin

lemma same_env: "env_only m \<Longrightarrow> evolves same m"
  by (rule evolvesI) (auto dest: env_onlyD_more intro: obs_env)

lemma same_query: "(\<And>w x w'. stmt w = Inr (x, w') \<Longrightarrow> same w w') \<Longrightarrow> evolves same (pg_query stmt)"
  by (rule evolvesI) (auto simp: obs_queries elim!: pg_query_cases)

lemma same_select: "evolves same (pg_select f)"
  by (rule evolvesI) (auto simp: obs_queries dest: pg_select_cases(1))

lemma same_signatureAuth:
  assumes "\<And>k. evolves same (next (rq\<lparr>rq_authPublicKey := k\<rparr>))"
  shows "evolves same (signatureAuth penv opts next rq)"
  using assms [of "rq_authPublicKey rq"] unfolding signatureAuth_def Let_def
  by (auto intro!: evolves_intros assms env_only_auth [THEN same_env] env_only_now [THEN same_env] split: option.split if_split)

lemma same_handled: "evolves same m \<Longrightarrow> evolves same (handled m)"
  unfolding handled_def by (intro evolves_catch evolves_ret)

end

text \<open>One that the idempotency keys have no effect on is left to the handler by \<open>idempotency\<close> as well.\<close>

locale behind_middlewares = observation +
  assumes obs_idempotency: "obs (w\<lparr>pg_idempotency := rows\<rparr>) = obs w"
begin

lemma same_idempotency:
  assumes "evolves same (next rq)"
  shows "evolves same (idempotency opts next rq)"
proof -
  have "evolves same (pg_idempotency_find key)" for key
    unfolding pg_idempotency_find_def by (rule same_select)
  moreover have "evolves same (pg_idempotency_insert key sc pk h st b)" for key sc pk h st b
    unfolding pg_idempotency_insert_def by (rule same_query) (auto simp: obs_idempotency split: option.splits if_splits)
  ultimately show ?thesis
    unfolding idempotency_def idempotency_store_def Let_def
    by (auto intro!: evolves_intros assms same_handled split: option.split if_split)
qed

end

text \<open>One that the tables of the marketplace have no effect on is the same after every handler of the server.\<close>

locale side_table = observation +
  assumes obs_tasks: "obs (w\<lparr>pg_tasks := ts\<rparr>) = obs w"
    and obs_bids: "obs (w\<lparr>pg_bids := bs\<rparr>) = obs w"
    and obs_results: "obs (w\<lparr>pg_results := rs\<rparr>) = obs w"
    and obs_executors: "obs (w\<lparr>pg_executors := es\<rparr>) = obs w"
    and obs_outbox: "obs (w\<lparr>pg_outbox := os\<rparr>) = obs w"
begin

lemma same_repos:
  "evolves same (pg_task_save t)" "evolves same (pg_task_findById i)" "evolves same pg_task_list"
  "evolves same (pg_bid_save b)" "evolves same (pg_bid_findByTaskId i)" "evolves same (pg_bid_findById i)"
  "evolves same (pg_result_upsert i payload hash)" "evolves same (pg_result_findByTaskId i)"
  "evolves same (pg_executor_save e)" "evolves same (pg_outbox_insert i ty aty ai payload)"
  unfolding pg_task_save_def pg_task_findById_def pg_task_list_def pg_bid_save_def pg_bid_findByTaskId_def
    pg_bid_findById_def pg_result_upsert_def pg_result_findByTaskId_def pg_executor_save_def pg_outbox_insert_def
  by (intro same_select same_query;
      auto simp: sum_bind_def obs_tasks obs_bids obs_results obs_executors obs_outbox Let_def split: if_splits sum.splits option.splits)+

lemma same_emit: "evolves same (pg_emit ty aty ai payload)"
  unfolding pg_emit_def by (intro evolves_bind same_repos env_only_uuid [THEN same_env])

lemma same_emit_if: "evolves same (emit_if (sv_outbox (pg_server c)) ty aty ai payload)"
  "evolves same (emit_if (Some pg_emit) ty aty ai payload)"
  by (simp_all add: emit_if_def same_emit)

lemmas same_rules = evolves_intros same_repos same_emit same_emit_if env_only_uuid [THEN same_env] env_only_now [THEN same_env]
  app_registry_env_only [THEN same_env] app_escrow_env_only [THEN same_env] app_charge_env_only [THEN same_env]

lemma same_selectWinner: "evolves same (selectWinner pg_task_repo pg_bid_repo taskId)"
  unfolding selectWinner_def pg_task_repo_def pg_bid_repo_def
  by (auto intro!: same_rules simp: Let_def split: option.split)

lemma same_bid_create: "evolves same (bid_create (pg_server c) body)"
  unfolding bid_create_def bid_place_def authorizeExecutorPayment_def Let_def
  by (auto intro!: same_rules same_selectWinner [unfolded pg_task_repo_def pg_bid_repo_def] simp: pg_task_repo_def pg_bid_repo_def
      split: option.split sum.split exn.split if_split prod.split)

lemma same_task_save: "evolves same (saveAndPublish (pg_server c) input)"
  unfolding saveAndPublish_def publishTask_def Let_def
  by (auto intro!: same_rules env_only_modify [THEN same_env] env_only_call [THEN same_env]
      simp: pg_task_repo_def env_step_def)

lemma same_tasks:
  "evolves same (task_create (pg_server c) body)" "evolves same (task_createPaid (pg_server c) body)"
  "evolves same (task_complete (pg_server c) i body)" "evolves same (task_select (pg_server c) i)"
  "evolves same (task_getById (pg_server c) i)"
  unfolding task_create_def task_createPaid_def task_complete_def complete_assigned_def task_select_def task_getById_def
    Let_def
  by (auto intro!: same_rules same_task_save same_selectWinner [unfolded pg_task_repo_def pg_bid_repo_def]
      simp: pg_task_repo_def pg_bid_repo_def split: option.split sum.split exn.split if_split prod.split)

lemma same_executors: "evolves same (executor_register (pg_server c) body)"
  unfolding executor_register_def save_executor_def Let_def
  by (auto intro!: same_rules simp: pg_executor_repo_def split: option.split if_split)

lemma same_results:
  "evolves same (result_publish (pg_server c) i body)" "evolves same (result_get (pg_server c) i)"
  unfolding result_publish_def result_get_def publish_result_def Let_def
  by (auto intro!: same_rules simp: pg_task_repo_def pg_bid_repo_def pg_result_repo_def split: option.split if_split)

lemma same_timeout: "evolves same (timeout_check (pg_server c))"
  unfolding timeout_check_def timeout_runOnce_def timeout_task_def Let_def
  by (auto intro!: same_rules simp: pg_task_repo_def pg_bid_repo_def split: option.split if_split)

lemmas same_handlers = same_bid_create same_tasks same_executors same_results same_timeout

end

abbreviation idem_same :: "'a pg_world_scheme \<Rightarrow> 'a pg_world_scheme \<Rightarrow> bool" where
  "idem_same w w' \<equiv> (pg_idempotency w', pg_body w') = (pg_idempotency w, pg_body w)"

interpretation idem_table: side_table "\<lambda>w. (pg_idempotency w, pg_body w)"
proof unfold_locales
  show "env.more w' = env.more w \<Longrightarrow> (pg_idempotency w', pg_body w') = (pg_idempotency w, pg_body w)"
    for w w' :: "'a pg_world_scheme" by (cases w; cases w') simp
qed simp_all

text \<open>The market, as the middlewares leave it.\<close>

interpretation pg_market_behind: behind_middlewares pg_market
proof unfold_locales
  show "env.more w' = env.more w \<Longrightarrow> pg_market w' = pg_market w"
    for w w' :: "'a pg_world_scheme" by (cases w; cases w') (simp add: pg_market_def pg_key_def fun_eq_iff)
qed (simp_all add: pg_market_def pg_key_def fun_eq_iff)

lemma find_key: "key \<in> ik_key ` set rows \<Longrightarrow> distinct (map ik_key rows) \<Longrightarrow> row \<in> set rows \<Longrightarrow> ik_key row = key \<Longrightarrow>
    List.find (\<lambda>r. ik_key r = key) rows = Some row"
  by (induction rows) (auto simp: image_iff)

lemma known_key:
  assumes "header_text rq ''idempotency-key'' = ik_key row" "ik_key row \<noteq> []"
    and "row \<in> set (pg_idempotency w)" "distinct (map ik_key (pg_idempotency w))" "pg_fault w (pg_queries w) = None"
  shows "idempotency opts next rq w =
    (Inr (idempotency_replay opts (idempotency_owner opts rq) (request_hash (w_ext w) rq) (row_to_idempotency row)),
     w\<lparr>pg_queries := Suc (pg_queries w)\<rparr>)"
proof -
  have "List.find (\<lambda>r. ik_key r = ik_key row) (pg_idempotency w) = Some row" using assms(3,4) by (intro find_key) auto
  then have "pg_idempotency_find (ik_key row) w =
      (Inr (Some (row_to_idempotency row)), w\<lparr>pg_queries := Suc (pg_queries w)\<rparr>)"
    using assms(5) by (simp add: pg_idempotency_find_def pg_select_def pg_query_def Let_def)
  then show ?thesis using assms(1,2) by (simp add: idempotency_def bindE_getsE bindE_Inr ret_apply Let_def)
qed

text \<open>What the first request with a key leaves when its answer was stored.\<close>

lemma first_stored:
  assumes "idempotency opts next rq w = (Inr resp, w')" "evolves idem_same (next rq)"
    and "header_text rq ''idempotency-key'' = key" "key \<noteq> []"
    and "key \<notin> ik_key ` set (pg_idempotency w)" "key \<in> ik_key ` set (pg_idempotency w')"
  obtains row where "pg_idempotency w' = pg_idempotency w @ [row]" "ik_key row = key" "ik_scope row = io_scope opts"
    "ik_public_key row = idempotency_owner opts rq" "ik_request_hash row = request_hash (w_ext w) rq"
    "ik_response_code row = fst resp" "fst resp < 500" "pg_body w (snd resp) = Some (ik_response_body row)"
proof -
  obtain found w1 where f: "pg_idempotency_find key w = (Inr found, w1)"
    and rest: "(case found of Some e \<Rightarrow> ret (idempotency_replay opts (idempotency_owner opts rq) (request_hash (w_ext w) rq) e)
      | None \<Rightarrow> bindE (handled (next rq)) (\<lambda>resp. bindE (idempotency_store opts key (idempotency_owner opts rq)
          (request_hash (w_ext w) rq) resp) (\<lambda>_. ret resp))) w1 = (Inr resp, w')"
    using assms(1,3,4) by (auto simp: idempotency_def bindE_getsE Let_def elim!: bindE_returns)
  have w1: "w1 = w\<lparr>pg_queries := Suc (pg_queries w)\<rparr>" and "found = None"
    using find_run [OF f] assms(5) by (auto simp: find_None_iff image_iff)
  then obtain r2 w2 where h: "handled (next rq) w1 = (Inr r2, w2)"
    and s: "bindE (idempotency_store opts key (idempotency_owner opts rq) (request_hash (w_ext w) rq) r2) (\<lambda>_. ret r2) w2 = (Inr resp, w')"
    using rest by (auto elim: bindE_returns)
  have "evolves idem_same (handled (next rq))"
    unfolding handled_def by (intro idem_table.evolves_catch assms idem_table.evolves_ret)
  then have "idem_same w1 w2" using h by (rule evolvesD)
  then have same: "pg_idempotency w2 = pg_idempotency w" "pg_body w2 = pg_body w"
    using w1 by auto
  obtain r3 where st: "idempotency_store opts key (idempotency_owner opts rq) (request_hash (w_ext w) rq) r2 w2 = (r3, w')"
    and "r2 = resp" using s by (auto elim!: bindE_returns simp: ret_apply)
  then show ?thesis using store_run [OF st] same assms(5,6) that by auto
qed

section \<open>The properties\<close>

text \<open>C8. Exactly-once effect of a repeated request: when the answer to the first request with a key was stored, every
  later request with the same key, owner, method, path and body gets that answer (as the database gives the body back),
  and neither the handler nor anything else runs; an answer of 500 or more is never the stored one.\<close>

theorem repeated_request:
  assumes first: "idempotency opts next rq w = (Inr resp, w')" and "evolves idem_same (next rq)"
    and key: "header_text rq ''idempotency-key'' = key" "key \<noteq> []"
    and "distinct (map ik_key (pg_idempotency w))"
    and "key \<notin> ik_key ` set (pg_idempotency w)" "key \<in> ik_key ` set (pg_idempotency w')"
    and later: "idem_step w' w2" "pg_fault w2 (pg_queries w2) = None"
    and again: "header_text rq2 ''idempotency-key'' = key" "idempotency_owner opts rq2 = idempotency_owner opts rq"
      "request_hash (w_ext w2) rq2 = request_hash (w_ext w) rq"
  shows "fst resp < 500 \<and> (\<exists>stored. pg_body w (snd resp) = Some stored \<and>
    idempotency opts next2 rq2 w2 = (Inr (fst resp, stored), w2\<lparr>pg_queries := Suc (pg_queries w2)\<rparr>))"
proof -
  obtain row where row: "pg_idempotency w' = pg_idempotency w @ [row]" "ik_key row = key" "ik_scope row = io_scope opts"
    "ik_public_key row = idempotency_owner opts rq" "ik_request_hash row = request_hash (w_ext w) rq"
    "ik_response_code row = fst resp" "fst resp < 500" "pg_body w (snd resp) = Some (ik_response_body row)"
    using first_stored [OF assms(1-4,6,7)] by metis
  then have "distinct (map ik_key (pg_idempotency w'))" using assms(5,6) by auto
  then have "distinct (map ik_key (pg_idempotency w2))" "row \<in> set (pg_idempotency w2)"
    using later(1) row(1) by (auto simp: idem_step_def)
  then show ?thesis
    using known_key [of rq2 row w2 opts next2] later(2) again key(2) row(2-8)
    by (simp add: idempotency_replay_def row_to_idempotency_def)
qed

definition select_once :: idempotency_options where
  "select_once = \<lparr> io_scope = ''select_bid'', io_publicKeyFrom = None, io_requireHeader = True \<rparr>"

definition select_request :: "string \<Rightarrow> http_request" where
  "select_request url =
     \<lparr> rq_method = ''POST'', rq_url = url, rq_route = None,
       rq_header = (\<lambda>k. if k = ''idempotency-key'' then Some ''k'' else None), rq_ip = ''ip'',
       rq_body = None, rq_rawBody = None, rq_authPublicKey = None \<rparr>"

definition select_row :: idempotency_row where
  "select_row =
     \<lparr> ik_key = ''k'', ik_scope = ''select_bid'', ik_public_key = None,
       ik_request_hash = request_hash sample_ext (select_request ''/tasks/t/select''), ik_response_code = 404,
       ik_response_body = ErrorBody ''task not found'' None, ik_created_at = 3 \<rparr>"

text \<open>The selection of a task that does not exist is answered 404, and the answer is stored.\<close>

lemma select_missing:
  assumes "pg_tasks w = []" "pg_fault w (pg_queries w) = None" "pg_uuid w i = Some u"
  shows "task_select (pg_server c) i w = (Inr (error_response 404 ''task not found''), w\<lparr>pg_queries := Suc (pg_queries w)\<rparr>)"
proof -
  have "pg_task_findById i w = (Inr None, w\<lparr>pg_queries := Suc (pg_queries w)\<rparr>)"
    using assms by (simp add: pg_task_findById_def pg_select_def pg_query_def Let_def sql_uuid_def sum_bind_def)
  then show ?thesis
    by (simp add: task_select_def selectWinner_def catchE_apply bindE_apply throw_apply ret_apply pg_task_repo_def)
qed

definition select_world :: pg_world where
  "select_world = sample_pg [] [] (\<lambda>n. None)"

definition select_server :: "pg_world server" where
  "select_server = pg_server \<lparr> ac_envLocal = True, ac_escrow = None, ac_usdcContract = [], ac_wallet = [],
     ac_pauseNewTasks = False, ac_pauseNewBids = False, ac_executorDenylist = [] \<rparr>"

lemma select_world_sel:
  "pg_tasks select_world = []" "pg_fault select_world n = None" "pg_queries select_world = 0" "pg_uuid select_world i = Some i"
  "pg_idempotency select_world = []" "w_ext select_world = sample_ext" "pg_body select_world b = Some b" "pg_now select_world n = int n"
  by (simp_all add: select_world_def sample_pg_def)

lemma select_run:
  "idempotency select_once (\<lambda>rq. task_select select_server ''t'') (select_request ''/tasks/t/select'') select_world =
     (Inr (error_response 404 ''task not found''), select_world\<lparr>pg_queries := 3, pg_idempotency := [select_row]\<rparr>)"
  by (simp add: idempotency_def select_once_def select_request_def header_text_def bindE_apply getsE_apply Let_def
      pg_idempotency_find_def pg_select_def pg_query_def select_world_sel handled_def catchE_apply ret_apply select_server_def
      select_missing idempotency_store_def pg_idempotency_insert_def error_response_def idempotency_owner_def select_row_def
      sql_now_def)

theorem repeated_request_witness:
  "let w2 = snd (idempotency select_once (\<lambda>rq. task_select select_server ''t'') (select_request ''/tasks/t/select'') select_world)
   in \<forall>next2. idempotency select_once next2 (select_request ''/tasks/t/select?again'') w2 =
        (Inr (error_response 404 ''task not found''), w2\<lparr>pg_queries := 4\<rparr>)"
proof -
  let ?w2 = "select_world\<lparr>pg_queries := 3, pg_idempotency := [select_row]\<rparr>"
  have "evolves idem_same (task_select select_server ''t'')"
    unfolding select_server_def by (rule idem_table.same_handlers)
  moreover have "request_hash sample_ext (select_request ''/tasks/t/select?again'') = request_hash sample_ext (select_request ''/tasks/t/select'')"
    by (simp add: request_hash_def select_request_def getRequestPath_def raw_body_def)
  ultimately have "idempotency select_once next2 (select_request ''/tasks/t/select?again'') ?w2 =
        (Inr (error_response 404 ''task not found''), ?w2\<lparr>pg_queries := 4\<rparr>)" for next2
    using repeated_request [OF select_run, of "''k''" ?w2 "select_request ''/tasks/t/select?again''" next2]
    by (simp add: select_world_sel idem_order.refl select_row_def select_request_def header_text_def idempotency_owner_def
        select_once_def error_response_def)
  then show ?thesis by (simp add: select_run)
qed



end
