(* ===== verification/Config.thy ===== *)
theory Config
  imports Auth Servers
begin

text \<open>
  \<open>config/safetyFeatures.ts\<close>, \<open>config/stellar.ts\<close>, \<open>config/usdc.ts\<close> and the part of \<open>createApp\<close>
  (\<open>app.ts\<close>) that reads the environment and chooses the services, without the overrides the
  tests use. The environment is fixed while the process runs, so the cache of
  \<open>loadSafetyFeatures\<close> is not visible. Lower case is that of ASCII text.
\<close>

section \<open>Reading the environment\<close>

definition env_set :: "process_env \<Rightarrow> string \<Rightarrow> bool" where
  "env_set penv k \<longleftrightarrow> (\<exists>v. penv k = Some v \<and> v \<noteq> [])"

text \<open>\<open>process.env.K || d\<close> and \<open>process.env.K ?? d\<close>.\<close>

definition env_or :: "process_env \<Rightarrow> string \<Rightarrow> string \<Rightarrow> string" where
  "env_or penv k d = (case penv k of None \<Rightarrow> d | Some v \<Rightarrow> if v = [] then d else v)"

definition env_default :: "process_env \<Rightarrow> string \<Rightarrow> string \<Rightarrow> string" where
  "env_default penv k d = (case penv k of None \<Rightarrow> d | Some v \<Rightarrow> v)"

definition quoted :: "string \<Rightarrow> string" where
  "quoted s = CHR 0x22 # s @ [CHR 0x22]"

section \<open>Safety features\<close>

record safety_features =
  sf_pauseNewTasks :: bool
  sf_pauseNewBids :: bool
  sf_pauseWorkerConsumption :: bool
  sf_executorDenylist :: "string list"
  sf_escrowImplementation :: escrow_implementation
  sf_trustlessWorkWebhookPublicKey :: "string option"

definition parseBoolEnv :: "process_env \<Rightarrow> string \<Rightarrow> bool \<Rightarrow> exn + bool" where
  "parseBoolEnv penv name defaultValue = (case penv name of
      None \<Rightarrow> Inr defaultValue
    | Some raw \<Rightarrow>
        if raw = [] then Inr defaultValue
        else let lower = map to_lower (js_trim raw)
          in if lower \<in> {''1'', ''true'', ''yes'', ''on''} then Inr True
             else if lower \<in> {''0'', ''false'', ''no'', ''off''} then Inr False
             else Inl (JsError (''[safetyFeatures] Invalid boolean for '' @ name @
               '': expected true/false/1/0/yes/no/on/off, got '' @ quoted raw)))"

fun join_with :: "string \<Rightarrow> string list \<Rightarrow> string" where
  "join_with sep [] = []"
| "join_with sep [s] = s"
| "join_with sep (s # t # ts) = s @ sep @ join_with sep (t # ts)"

text \<open>The set keeps the order of insertion; the first of equal entries counts.\<close>

definition set_insert :: "'a list \<Rightarrow> 'a \<Rightarrow> 'a list" where
  "set_insert s x = (if x \<in> set s then s else s @ [x])"

definition parseExecutorDenylist :: "string option \<Rightarrow> exn + string list" where
  "parseExecutorDenylist raw = (case raw of
      None \<Rightarrow> Inr []
    | Some r \<Rightarrow>
        if js_trim r = [] then Inr []
        else let items = filter (\<lambda>s. s \<noteq> []) (map js_trim (js_split (CHR '','') r));
                 invalid = filter (\<lambda>s. \<not> strkey_syntax (CHR ''G'') s) items
          in if invalid \<noteq> [] then
               Inl (JsError (''[safetyFeatures] EXECUTOR_DENYLIST contains invalid Stellar addresses: '' @
                 join_with '', '' invalid))
             else Inr (foldl set_insert [] items))"

definition parseEscrowImplementation :: "string option \<Rightarrow> exn + escrow_implementation" where
  "parseEscrowImplementation raw =
     (let lower = map to_lower (js_trim (case raw of None \<Rightarrow> ''trustlesswork'' | Some r \<Rightarrow> r))
      in if lower = ''trustlesswork'' then Inr TrustlessWorkImpl
         else if lower = ''mock'' then Inr MockImpl
         else if lower = ''ourown'' then Inr OurOwnImpl
         else Inl (JsError (''[safetyFeatures] Invalid ESCROW_IMPLEMENTATION: expected '' @ quoted ''trustlesswork'' @ '', '' @
           quoted ''mock'' @ '' or '' @ quoted ''ourown'' @ '', got '' @
           quoted (case raw of None \<Rightarrow> ''undefined'' | Some r \<Rightarrow> r))))"

definition parseOptionalStringMinLen :: "string option \<Rightarrow> string \<Rightarrow> nat \<Rightarrow> exn + string option" where
  "parseOptionalStringMinLen raw envName minLen = (case raw of
      None \<Rightarrow> Inr None
    | Some r \<Rightarrow>
        if r = [] then Inr None
        else let trimmed = js_trim r
          in if length trimmed < minLen then
               Inl (JsError (''[safetyFeatures] '' @ envName @ '' too short: expected >= '' @ nat_string minLen @
                 '' chars when set, got '' @ nat_string (length trimmed)))
             else Inr (Some trimmed))"

definition loadSafetyFeatures :: "process_env \<Rightarrow> exn + safety_features" where
  "loadSafetyFeatures penv =
     sum_bind (parseBoolEnv penv ''PAUSE_NEW_TASKS'' False) (\<lambda>pauseNewTasks.
     sum_bind (parseBoolEnv penv ''PAUSE_NEW_BIDS'' False) (\<lambda>pauseNewBids.
     sum_bind (parseBoolEnv penv ''PAUSE_WORKER_CONSUMPTION'' False) (\<lambda>pauseWorkerConsumption.
     sum_bind (parseExecutorDenylist (penv ''EXECUTOR_DENYLIST'')) (\<lambda>executorDenylist.
     sum_bind (parseEscrowImplementation (penv ''ESCROW_IMPLEMENTATION'')) (\<lambda>escrowImplementation.
     sum_bind (parseOptionalStringMinLen (penv ''TRUSTLESS_WORK_WEBHOOK_PUBLIC_KEY'')
         ''TRUSTLESS_WORK_WEBHOOK_PUBLIC_KEY'' 32) (\<lambda>webhookPublicKey.
     Inr \<lparr> sf_pauseNewTasks = pauseNewTasks, sf_pauseNewBids = pauseNewBids,
           sf_pauseWorkerConsumption = pauseWorkerConsumption, sf_executorDenylist = executorDenylist,
           sf_escrowImplementation = escrowImplementation,
           sf_trustlessWorkWebhookPublicKey = webhookPublicKey \<rparr>))))))"

section \<open>The Stellar network\<close>

text \<open>\<open>Networks\<close> of the Stellar SDK; the name of the network is an unchecked cast of the text.\<close>

datatype network_passphrase = STANDALONE | TESTNET | PUBLIC

definition passphraseFor :: "string \<Rightarrow> network_passphrase" where
  "passphraseFor network =
     (if network = ''testnet'' then TESTNET else if network = ''pubnet'' then PUBLIC else STANDALONE)"

record stellar_config =
  sc_network :: string
  sc_rpcUrl :: string
  sc_horizonUrl :: string
  sc_networkPassphrase :: network_passphrase
  sc_allowHttp :: bool

definition loadStellarConfig :: "process_env \<Rightarrow> stellar_config" where
  "loadStellarConfig penv =
     (let network = env_or penv ''NETWORK'' ''local''
      in \<lparr> sc_network = network,
           sc_rpcUrl = env_or penv ''STELLAR_RPC_URL'' ''http://localhost:8000/soroban/rpc'',
           sc_horizonUrl = env_or penv ''STELLAR_HORIZON_URL'' ''http://localhost:8000'',
           sc_networkPassphrase = passphraseFor network, sc_allowHttp = (network \<noteq> ''pubnet'') \<rparr>)"

definition shouldMockExternals :: "process_env \<Rightarrow> bool" where
  "shouldMockExternals penv \<longleftrightarrow> penv ''MOCK_EXTERNALS'' = Some ''true''"

text \<open>
  What the Stellar SDK computes at start: \<open>Keypair.fromSecret(s).publicKey()\<close>, and the id of
  the contract of the asset \<open>USDC\<close> of an issuer on a network; either may throw.
\<close>

record boot_ext =
  be_publicKey :: "string \<Rightarrow> exn + string"
  be_contractId :: "string \<Rightarrow> network_passphrase \<Rightarrow> exn + string"

definition getUsdcSacContractId :: "boot_ext \<Rightarrow> process_env \<Rightarrow> stellar_config \<Rightarrow> exn + string" where
  "getUsdcSacContractId bx penv config =
     sum_bind (require_env ''USDC_ISSUER'' (penv ''USDC_ISSUER'')) (\<lambda>issuer.
     be_contractId bx issuer (sc_networkPassphrase config))"

section \<open>Choosing the services\<close>

record listing_fee_gate_options =
  lf_network :: string
  lf_rpcUrl :: string
  lf_currency :: string
  lf_recipient :: string
  lf_mppSecretKey :: string

record x402_gate_config =
  xg_network :: string
  xg_recipient :: string
  xg_price :: string
  xg_ozApiKey :: string
  xg_facilitatorUrl :: string
  xg_route :: string
  xg_description :: string

record app =
  ap_config :: stellar_config
  ap_safety :: safety_features
  ap_controllers :: app_config
  ap_registryContractId :: "string option"
  ap_pool :: bool
  ap_feedSigningKey :: "string option"
  ap_listingFeeGate :: "listing_fee_gate_options option"
  ap_trustProxyHops :: int
  ap_resultGate :: "x402_gate_config option"

definition admin_public_key :: "boot_ext \<Rightarrow> process_env \<Rightarrow> exn + string option" where
  "admin_public_key bx penv =
     (if env_set penv ''ADMIN_SECRET'' then sum_bind (be_publicKey bx (the (penv ''ADMIN_SECRET''))) (\<lambda>k. Inr (Some k))
      else Inr None)"

definition marketplace_wallet :: "boot_ext \<Rightarrow> process_env \<Rightarrow> exn + string" where
  "marketplace_wallet bx penv =
     sum_bind (case penv ''MARKETPLACE_WALLET'' of Some w \<Rightarrow> Inr (Some w) | None \<Rightarrow> admin_public_key bx penv) (\<lambda>wallet.
     if wallet = None \<or> wallet = Some [] then Inl (JsError ''MARKETPLACE_WALLET or ADMIN_SECRET must be set'')
     else Inr (the wallet))"

definition tw_network_of :: "stellar_config \<Rightarrow> tw_network" where
  "tw_network_of config = (if sc_network config = ''pubnet'' then Mainnet else Testnet)"

text \<open>The settings of the real escrow service; the worker of \<open>server.ts\<close> reads its wallet from the environment.\<close>

definition escrow_settings :: "process_env \<Rightarrow> stellar_config \<Rightarrow> exn + string \<Rightarrow> exn + escrow_config" where
  "escrow_settings penv config wallet =
     sum_bind (require_env ''TRUSTLESS_WORK_API_KEY'' (penv ''TRUSTLESS_WORK_API_KEY'')) (\<lambda>apiKey.
     sum_bind (require_env ''USDC_ISSUER'' (penv ''USDC_ISSUER'')) (\<lambda>issuer.
     sum_bind wallet (\<lambda>w.
     Inr \<lparr> cfg_apiKey = apiKey, cfg_network = tw_network_of config, cfg_marketplaceWallet = w,
           cfg_usdcIssuer = issuer \<rparr>)))"

text \<open>\<open>toMppNetworkId\<close> (\<open>config/mppCharge.ts\<close>).\<close>

definition toMppNetworkId :: "string \<Rightarrow> string" where
  "toMppNetworkId network = (if network = ''pubnet'' then ''stellar:pubnet'' else ''stellar:testnet'')"

definition listing_fee_gate_settings ::
  "boot_ext \<Rightarrow> process_env \<Rightarrow> stellar_config \<Rightarrow> string \<Rightarrow> exn + listing_fee_gate_options option" where
  "listing_fee_gate_settings bx penv config wallet =
     (if sc_network config = ''local'' then Inr None
      else if \<not> env_set penv ''MPP_SECRET_KEY'' then
        Inl (JsError ''MPP_SECRET_KEY is not set (required for POST /tasks on testnet/pubnet)'')
      else sum_bind (getUsdcSacContractId bx penv config) (\<lambda>usdc.
        Inr (Some \<lparr> lf_network = toMppNetworkId (sc_network config), lf_rpcUrl = sc_rpcUrl config,
          lf_currency = usdc, lf_recipient = wallet, lf_mppSecretKey = the (penv ''MPP_SECRET_KEY'') \<rparr>)))"

definition result_gate_settings :: "process_env \<Rightarrow> string \<Rightarrow> x402_gate_config option" where
  "result_gate_settings penv wallet =
     (if \<not> env_set penv ''OZ_API_KEY'' then None
      else Some \<lparr> xg_network = env_default penv ''X402_NETWORK'' ''stellar:testnet'',
        xg_recipient = env_default penv ''EXECUTOR_WALLET'' wallet,
        xg_price = env_default penv ''EXECUTOR_RESULT_PRICE'' ''$0.05'',
        xg_ozApiKey = the (penv ''OZ_API_KEY''),
        xg_facilitatorUrl = env_default penv ''X402_FACILITATOR_URL'' ''https://channels.openzeppelin.com/x402/testnet'',
        xg_route = ''GET /executor/tasks/:taskId/result'', xg_description = ''Task result delivery'' \<rparr>)"

definition trust_proxy_hops :: "process_env \<Rightarrow> int" where
  "trust_proxy_hops penv =
     (case (case penv ''TRUST_PROXY_HOPS'' of None \<Rightarrow> Fin 0 | Some s \<Rightarrow> js_to_number s) of
        Fin x \<Rightarrow> if x \<ge> 0 then math_trunc x else 0
      | _ \<Rightarrow> 0)"

definition createApp :: "boot_ext \<Rightarrow> process_env \<Rightarrow> exn + app" where
  "createApp bx penv =
     (let config = loadStellarConfig penv;
          mockExternals = (shouldMockExternals penv \<and> sc_network config = ''local'');
          pool = env_set penv ''DATABASE_URL''
      in sum_bind (loadSafetyFeatures penv) (\<lambda>safety.
         sum_bind (marketplace_wallet bx penv) (\<lambda>wallet.
         sum_bind (if mockExternals then Inr None
           else sum_bind (require_env ''REGISTRY_CONTRACT_ID'' (penv ''REGISTRY_CONTRACT_ID'')) (\<lambda>i. Inr (Some i))) (\<lambda>registry.
         if \<not> pool \<and> sc_network config \<noteq> ''local'' \<and> penv ''NODE_ENV'' \<noteq> Some ''test''
         then Inl (JsError ''DATABASE_URL is not set (required for non-local networks)'')
         else
         sum_bind (admin_public_key bx penv) (\<lambda>feedSigningKey.
         sum_bind (if mockExternals then Inr [] else getUsdcSacContractId bx penv config) (\<lambda>usdc.
         sum_bind (listing_fee_gate_settings bx penv config wallet) (\<lambda>feeGate.
         sum_bind (if mockExternals then Inr None
           else sum_bind (escrow_settings penv config (Inr wallet)) (\<lambda>e. Inr (Some e))) (\<lambda>escrow.
         Inr \<lparr> ap_config = config, ap_safety = safety,
           ap_controllers =
             \<lparr> ac_envLocal = (penv ''NETWORK'' = Some ''local''), ac_escrow = escrow, ac_usdcContract = usdc,
               ac_wallet = wallet, ac_pauseNewTasks = sf_pauseNewTasks safety,
               ac_pauseNewBids = sf_pauseNewBids safety,
               ac_executorDenylist = sf_executorDenylist safety \<rparr>,
           ap_registryContractId = registry, ap_pool = pool, ap_feedSigningKey = feedSigningKey,
           ap_listingFeeGate = feeGate, ap_trustProxyHops = trust_proxy_hops penv,
           ap_resultGate = result_gate_settings penv wallet \<rparr>))))))))"

section \<open>Properties\<close>

lemma foldl_set_insert: "set (foldl set_insert acc xs) = set acc \<union> set xs \<and> (distinct acc \<longrightarrow> distinct (foldl set_insert acc xs))"
  by (induction xs arbitrary: acc) (auto simp: set_insert_def)

text \<open>The entries of the list: the parts between commas without their surrounding blanks, empty ones left out.\<close>

definition denylist_entries :: "string \<Rightarrow> string list" where
  "denylist_entries r = filter (\<lambda>s. s \<noteq> []) (map js_trim (js_split (CHR '','') r))"

text \<open>C32. \<open>EXECUTOR_DENYLIST\<close>: a list that is not blank is accepted exactly when every entry is a public key, and the
  set then holds exactly its entries, each once; it is refused exactly when some entry is no public key.\<close>

theorem denylist_parsed:
  "case parseExecutorDenylist (Some r) of
     Inl e \<Rightarrow> js_trim r \<noteq> [] \<and> list_ex (\<lambda>s. \<not> strkey_syntax (CHR ''G'') s) (denylist_entries r)
   | Inr keys \<Rightarrow> distinct keys \<and> list_all (strkey_syntax (CHR ''G'')) keys \<and>
       set keys = (if js_trim r = [] then {} else set (denylist_entries r))"
  by (auto simp: parseExecutorDenylist_def denylist_entries_def Let_def foldl_set_insert filter_empty_conv list_ex_iff list_all_iff)

lemma denylist_set:
  "parseExecutorDenylist (Some r) = Inr keys \<Longrightarrow> js_trim r \<noteq> [] \<Longrightarrow> set keys = set (denylist_entries r)"
  by (auto simp: parseExecutorDenylist_def denylist_entries_def Let_def foldl_set_insert split: if_splits)

section \<open>Real networks\<close>

lemma sum_bind_InrE:
  assumes "sum_bind r f = Inr y"
  obtains x where "r = Inr x" "f x = Inr y"
  using assms by auto

text \<open>What the parts of a server that starts hold.\<close>

lemma createApp_parts:
  assumes "createApp bx penv = Inr app"
  shows "ap_config app = loadStellarConfig penv" "loadSafetyFeatures penv = Inr (ap_safety app)"
    "marketplace_wallet bx penv = Inr (ac_wallet (ap_controllers app))"
    "listing_fee_gate_settings bx penv (ap_config app) (ac_wallet (ap_controllers app)) = Inr (ap_listingFeeGate app)"
    "ap_pool app = env_set penv ''DATABASE_URL''"
    "ac_envLocal (ap_controllers app) = (penv ''NETWORK'' = Some ''local'')"
    "ac_executorDenylist (ap_controllers app) = sf_executorDenylist (ap_safety app)"
    "ac_pauseNewTasks (ap_controllers app) = sf_pauseNewTasks (ap_safety app)"
    "ac_pauseNewBids (ap_controllers app) = sf_pauseNewBids (ap_safety app)"
    "ap_pool app \<or> sc_network (ap_config app) = ''local'' \<or> penv ''NODE_ENV'' = Some ''test''"
    "ac_escrow (ap_controllers app) = None \<longleftrightarrow> shouldMockExternals penv \<and> sc_network (ap_config app) = ''local''"
    "ac_escrow (ap_controllers app) = None \<or>
       (\<exists>e. escrow_settings penv (ap_config app) (Inr (ac_wallet (ap_controllers app))) = Inr e \<and> ac_escrow (ap_controllers app) = Some e)"
  using assms unfolding createApp_def Let_def by (auto elim!: sum_bind_InrE split: if_splits)

lemma listing_gate_on:
  assumes "listing_fee_gate_settings bx penv config wallet = Inr g" "sc_network config \<noteq> ''local''"
  shows "\<exists>gate. g = Some gate \<and> lf_recipient gate = wallet \<and> lf_network gate = toMppNetworkId (sc_network config) \<and>
    lf_mppSecretKey gate \<noteq> []"
  using assms by (auto simp: listing_fee_gate_settings_def env_set_def split: if_splits)

text \<open>C33. A server that starts on a network other than \<open>local\<close> never works with the mocks and never lists a task
  without payment: its escrow is Trustless Work on the network's side, the listing fee is gated and goes to the
  marketplace's wallet, and without a database it only starts under test.\<close>

theorem real_network:
  assumes "createApp bx penv = Inr app" and "sc_network (ap_config app) \<noteq> ''local''"
  shows "\<exists>e gate. ac_escrow (ap_controllers app) = Some e \<and> ap_listingFeeGate app = Some gate \<and>
    cfg_marketplaceWallet e = ac_wallet (ap_controllers app) \<and> lf_recipient gate = ac_wallet (ap_controllers app) \<and>
    ac_wallet (ap_controllers app) \<noteq> [] \<and> lf_mppSecretKey gate \<noteq> [] \<and>
    (cfg_network e = Mainnet \<longleftrightarrow> lf_network gate = ''stellar:pubnet'') \<and>
    (ap_pool app \<or> penv ''NODE_ENV'' = Some ''test'')"
proof -
  note parts = createApp_parts [OF assms(1)]
  obtain e where e: "ac_escrow (ap_controllers app) = Some e"
    "escrow_settings penv (ap_config app) (Inr (ac_wallet (ap_controllers app))) = Inr e"
    using parts(11,12) assms(2) by auto
  then have "cfg_marketplaceWallet e = ac_wallet (ap_controllers app)" "cfg_network e = tw_network_of (ap_config app)"
    by (auto simp: escrow_settings_def)
  moreover obtain gate where "ap_listingFeeGate app = Some gate" "lf_recipient gate = ac_wallet (ap_controllers app)"
    "lf_network gate = toMppNetworkId (sc_network (ap_config app))" "lf_mppSecretKey gate \<noteq> []"
    using listing_gate_on [OF parts(4) assms(2)] by blast
  moreover have "ac_wallet (ap_controllers app) \<noteq> []"
    using parts(3) by (auto simp: marketplace_wallet_def split: if_splits)
  ultimately show ?thesis using e parts(10) assms(2) by (auto simp: tw_network_of_def toMppNetworkId_def)
qed

definition sample_boot :: boot_ext where
  "sample_boot = \<lparr> be_publicKey = (\<lambda>s. Inr (CHR ''G'' # tl s)), be_contractId = (\<lambda>i n. Inr ''usdc'') \<rparr>"

definition testnet_env :: process_env where
  "testnet_env = [''NETWORK'' \<mapsto> ''testnet'', ''ADMIN_SECRET'' \<mapsto> ''S1'', ''REGISTRY_CONTRACT_ID'' \<mapsto> ''C'',
     ''DATABASE_URL'' \<mapsto> ''postgres://d'', ''USDC_ISSUER'' \<mapsto> ''I'', ''MPP_SECRET_KEY'' \<mapsto> ''m'',
     ''TRUSTLESS_WORK_API_KEY'' \<mapsto> ''k'']"

lemma testnet_starts:
  "\<exists>app. createApp sample_boot testnet_env = Inr app \<and> sc_network (ap_config app) = ''testnet''"
  by (simp add: createApp_def testnet_env_def sample_boot_def loadStellarConfig_def env_or_def shouldMockExternals_def
      env_set_def loadSafetyFeatures_def parseBoolEnv_def parseExecutorDenylist_def parseEscrowImplementation_def Let_def
      parseOptionalStringMinLen_def marketplace_wallet_def admin_public_key_def require_env_def getUsdcSacContractId_def
      listing_fee_gate_settings_def escrow_settings_def sum_bind_def js_trim_def js_space_def to_lower_def)

theorem real_network_witness:
  "\<exists>app e gate. createApp sample_boot testnet_env = Inr app \<and> ac_escrow (ap_controllers app) = Some e \<and>
     ap_listingFeeGate app = Some gate \<and> cfg_marketplaceWallet e = lf_recipient gate"
proof -
  obtain app where app: "createApp sample_boot testnet_env = Inr app" "sc_network (ap_config app) = ''testnet''"
    using testnet_starts by blast
  moreover have "sc_network (ap_config app) \<noteq> ''local''" using app(2) by simp
  ultimately show ?thesis using real_network [of sample_boot testnet_env app] by fastforce
qed

section \<open>What the settings do not do\<close>

lemma load_other_escrow:
  assumes "loadSafetyFeatures penv = Inr s" "loadSafetyFeatures (penv(''ESCROW_IMPLEMENTATION'' \<mapsto> v)) = Inr s'"
  shows "sf_pauseNewTasks s' = sf_pauseNewTasks s" "sf_pauseNewBids s' = sf_pauseNewBids s"
    "sf_executorDenylist s' = sf_executorDenylist s"
  using assms by (auto simp: loadSafetyFeatures_def parseBoolEnv_def)

text \<open>\<open>ESCROW_IMPLEMENTATION\<close> is read and checked, but chooses nothing: two servers whose environments differ in it
  alone have the same escrow, registry and charge services and the same settings.\<close>

theorem escrow_choice_ignored:
  assumes "createApp bx penv = Inr app" "createApp bx (penv(''ESCROW_IMPLEMENTATION'' \<mapsto> v)) = Inr app'"
  shows "ap_controllers app' = ap_controllers app"
proof -
  let ?penv = "penv(''ESCROW_IMPLEMENTATION'' \<mapsto> v)"
  note p = createApp_parts [OF assms(1)] and p' = createApp_parts [OF assms(2)]
  have admin: "admin_public_key bx ?penv = admin_public_key bx penv" by (simp add: admin_public_key_def env_set_def)
  have same: "loadStellarConfig ?penv = loadStellarConfig penv" "shouldMockExternals ?penv = shouldMockExternals penv"
    "marketplace_wallet bx ?penv = marketplace_wallet bx penv" "escrow_settings ?penv = escrow_settings penv"
    "getUsdcSacContractId bx ?penv = getUsdcSacContractId bx penv"
    by (simp_all add: loadStellarConfig_def env_or_def shouldMockExternals_def marketplace_wallet_def admin
        escrow_settings_def getUsdcSacContractId_def fun_eq_iff split: option.split)
  have "loadSafetyFeatures penv = Inr (ap_safety app)" "loadSafetyFeatures ?penv = Inr (ap_safety app')"
    by (rule p(2) p'(2))+
  note safety = load_other_escrow [OF this]
  have "ac_usdcContract (ap_controllers app') = ac_usdcContract (ap_controllers app)"
    using assms same unfolding createApp_def Let_def by (auto elim!: sum_bind_InrE split: if_splits)
  moreover have "ac_escrow (ap_controllers app') = ac_escrow (ap_controllers app)"
    using p(1,3,11,12) p'(1,3,11,12) same by auto
  ultimately show ?thesis
    using safety p(1,3,6-9) p'(1,3,6-9) same by (intro app_config.equality) auto
qed

definition mock_choice_env :: process_env where
  "mock_choice_env = testnet_env(''ESCROW_IMPLEMENTATION'' \<mapsto> ''mock'')"

lemma mock_choice_starts: "\<exists>app. createApp sample_boot mock_choice_env = Inr app"
  by (simp add: createApp_def mock_choice_env_def testnet_env_def sample_boot_def loadStellarConfig_def env_or_def
      env_set_def loadSafetyFeatures_def parseBoolEnv_def parseExecutorDenylist_def parseEscrowImplementation_def Let_def
      parseOptionalStringMinLen_def marketplace_wallet_def admin_public_key_def require_env_def getUsdcSacContractId_def
      listing_fee_gate_settings_def escrow_settings_def sum_bind_def js_trim_def js_space_def to_lower_def
      shouldMockExternals_def)

theorem escrow_choice_ignored_witness:
  "\<exists>app app'. createApp sample_boot testnet_env = Inr app \<and> createApp sample_boot mock_choice_env = Inr app' \<and>
     ap_controllers app' = ap_controllers app"
  using testnet_starts mock_choice_starts escrow_choice_ignored [of sample_boot testnet_env _ "''mock''"]
  unfolding mock_choice_env_def by blast

text \<open>A server never starts without a wallet: when \<open>MARKETPLACE_WALLET\<close> is blank, whatever \<open>ADMIN_SECRET\<close> is, or when
  neither is set, \<open>createApp\<close> throws, on the local network and with mocked externals as well.\<close>

theorem wallet_required:
  assumes "penv ''MARKETPLACE_WALLET'' = Some [] \<or> penv ''MARKETPLACE_WALLET'' = None \<and> \<not> env_set penv ''ADMIN_SECRET''"
  shows "\<exists>e. createApp bx penv = Inl e"
proof -
  have "marketplace_wallet bx penv = Inl (JsError ''MARKETPLACE_WALLET or ADMIN_SECRET must be set'')"
    using assms by (auto simp: marketplace_wallet_def admin_public_key_def sum_bind_def)
  then show ?thesis by (auto simp: createApp_def Let_def sum_bind_def split: sum.split)
qed

theorem wallet_required_witness:
  "\<exists>e. createApp sample_boot [''NETWORK'' \<mapsto> ''local'', ''ADMIN_SECRET'' \<mapsto> ''S1'', ''MARKETPLACE_WALLET'' \<mapsto> []] = Inl e"
  by (rule wallet_required) simp

end
