(* ===== verification/App.thy ===== *)
theory App
  imports Config Idempotency Lifecycle
begin

text \<open>
  The routes of \<open>app.ts\<close> with the middlewares in front of each, \<open>config/mppCharge.ts\<close>,
  \<open>config/x402.ts\<close> and \<open>services/healthCheckService.ts\<close>. Express finds the route and its
  parameters and reads the JSON body; \<open>/metrics\<close>, \<open>/api-docs\<close> and \<open>/feed/stream\<close> answer with
  text, whose source is the log of the calls made, and are left out.
\<close>

type_synonym 'w handler = "http_request \<Rightarrow> ('w, response) prog"

section \<open>The listing fee gate\<close>

text \<open>
  \<open>getMppx\<close>: the promise of the loaded modules is kept, also when it was rejected. The gate of
  \<open>mppx\<close> answers the request (with a challenge, for instance) or passes it on.
\<close>

definition getMppx :: "('a env_scheme, unit) prog" where
  "getMppx =
     bindE (getsE w_mpp) (\<lambda>mppxPromise. case mppxPromise of
         Some settled \<Rightarrow> liftE settled
       | None \<Rightarrow> (\<lambda>w. case call_ext MppLoad (\<lambda>x. x_mpp_load x) w of
           (settled, w') \<Rightarrow> (settled, w'\<lparr>w_mpp := Some settled\<rparr>)))"

definition listing_fee_gate :: "'a env_scheme handler \<Rightarrow> 'a env_scheme handler" where
  "listing_fee_gate next rq =
     bindE date_now (\<lambda>now.
     bindE (getsE w_ext) (\<lambda>x.
     case createTaskSchema (x_date_parse x) now (rq_body rq) of
       None \<Rightarrow> invalid_request
     | Some input \<Rightarrow>
         bindE (liftE (parseUsdcDecimalToStroops (cti_reservePrice input))) (\<lambda>reservePriceStroops.
         let feeStroops = calculateListingFeeStroops reservePriceStroops;
             amount = formatUsdcStroopsToDecimal feeStroops;
             description = ''Listing fee for task by '' @ cti_requester input
         in bindE getMppx (\<lambda>_.
            bindE (call_ext (MppCharge amount description) (\<lambda>x l. x_mpp_gate x l amount description rq)) (\<lambda>answer.
            case answer of Some response \<Rightarrow> ret response | None \<Rightarrow> next rq)))))"

section \<open>The gate of the results\<close>

text \<open>The synchronisation with the facilitator is done once; one that fails is forgotten.\<close>

definition x402_init :: "('a env_scheme, unit) prog" where
  "x402_init =
     bindE (getsE w_x402) (\<lambda>initialized.
       if initialized then ret ()
       else bindE (call_ext X402Init (\<lambda>x. x_x402_init x)) (\<lambda>_. modifyE (\<lambda>w. w\<lparr>w_x402 := True\<rparr>)))"

definition result_payment_gate :: "'a env_scheme handler \<Rightarrow> 'a env_scheme handler" where
  "result_payment_gate next rq =
     (let unavailable = (\<lambda>err. respond_detail 503 ''payment gate unavailable'' err)
      in tryE x402_init (\<lambda>_.
         tryE (call_ext X402Gate (\<lambda>x l. x_x402_gate x l rq))
           (\<lambda>answer. case answer of Some response \<Rightarrow> ret response | None \<Rightarrow> next rq)
           unavailable)
         unavailable)"

section \<open>Health\<close>

datatype dependency_status = Up | Down | NotConfigured

record dependency_health =
  dh_status :: dependency_status
  dh_latencyMs :: "int option"
  dh_detail :: "string option"

record detailed_health =
  hl_degraded :: bool
  hl_stellarRpc :: dependency_health
  hl_redis :: dependency_health

definition checkStellarRpc :: "('a env_scheme, dependency_health) prog" where
  "checkStellarRpc =
     bindE date_now (\<lambda>start.
     tryE (call_ext RpcHealth (\<lambda>x. x_rpc_health x))
       (\<lambda>health. bindE date_now (\<lambda>now. ret
          \<lparr> dh_status = (if health = ''healthy'' then Up else Down), dh_latencyMs = Some (now - start), dh_detail = None \<rparr>))
       (\<lambda>err. bindE date_now (\<lambda>now. ret
          \<lparr> dh_status = Down, dh_latencyMs = Some (now - start), dh_detail = err_message err \<rparr>)))"

text \<open>\<open>connect\<close>, \<open>ping\<close> and \<open>quit\<close> change no key.\<close>

definition rd_touch :: "unit redis_cmd" where
  "rd_touch r = Inr ((), r)"

definition checkRedis :: "process_env \<Rightarrow> ('a env_scheme, dependency_health) prog" where
  "checkRedis penv =
     (if \<not> env_set penv ''REDIS_URL''
      then ret \<lparr> dh_status = NotConfigured, dh_latencyMs = None, dh_detail = None \<rparr>
      else bindE date_now (\<lambda>start.
        bindE (tryE (bindE (redis_cmd rd_touch) (\<lambda>_. redis_cmd rd_touch))
          (\<lambda>_. bindE date_now (\<lambda>now. ret
             \<lparr> dh_status = Up, dh_latencyMs = Some (now - start), dh_detail = None \<rparr>))
          (\<lambda>err. bindE date_now (\<lambda>now. ret
             \<lparr> dh_status = Down, dh_latencyMs = Some (now - start), dh_detail = err_message err \<rparr>))) (\<lambda>health.
        bindE (catchE (redis_cmd rd_touch) (\<lambda>err. ret ())) (\<lambda>_. ret health))))"

definition health_check :: "process_env \<Rightarrow> ('a env_scheme, detailed_health) prog" where
  "health_check penv =
     bindE checkStellarRpc (\<lambda>stellarRpc.
     bindE (checkRedis penv) (\<lambda>redis.
     ret \<lparr> hl_degraded = (dh_status stellarRpc = Down \<or> dh_status redis = Down),
           hl_stellarRpc = stellarRpc, hl_redis = redis \<rparr>))"

fun dependency_status_text :: "dependency_status \<Rightarrow> string" where
  "dependency_status_text Up = ''up''"
| "dependency_status_text Down = ''down''"
| "dependency_status_text NotConfigured = ''not_configured''"

definition dependency_json :: "dependency_health \<Rightarrow> json" where
  "dependency_json d = JObj ([(''status'', JStr (dependency_status_text (dh_status d)))] @
     (case dh_latencyMs d of None \<Rightarrow> [] | Some ms \<Rightarrow> [(''latencyMs'', JNum (of_int ms))]) @
     (case dh_detail d of None \<Rightarrow> [] | Some m \<Rightarrow> [(''detail'', JStr m)]))"

definition health_json :: "detailed_health \<Rightarrow> json" where
  "health_json h = JObj
     [(''status'', JStr (if hl_degraded h then ''degraded'' else ''ok'')),
      (''dependencies'', JObj [(''stellarRpc'', dependency_json (hl_stellarRpc h)), (''redis'', dependency_json (hl_redis h))])]"

definition health_detailed :: "process_env \<Rightarrow> ('a env_scheme, response) prog" where
  "health_detailed penv =
     bindE (health_check penv) (\<lambda>health.
     ret (json_response (if hl_degraded health then 503 else 200) (health_json health)))"

section \<open>Routes\<close>

datatype endpoint =
    GetHealth
  | PostAuthNonce
  | PostSignedSmoke
  | GetHealthDetailed
  | PostExecutorsRegister
  | PostTasks
  | PostTaskSelect string
  | GetTask string
  | PostTaskComplete string
  | PostBids
  | PostTimeoutCheck
  | GetResult string
  | PostResult string

text \<open>\<open>signatureAuth({ matchBodyField: f })\<close> and \<open>idempotencyMw({ scope, publicKeyFrom: { bodyField: f } })\<close>.\<close>

definition signed_by :: "string \<Rightarrow> signature_auth_options" where
  "signed_by f = default_auth\<lparr>sa_matchBodyField := Some f\<rparr>"

definition once_by :: "string \<Rightarrow> string \<Rightarrow> idempotency_options" where
  "once_by scope f = \<lparr> io_scope = scope, io_publicKeyFrom = Some (FromBodyField f), io_requireHeader = True \<rparr>"

definition admin_only :: "process_env \<Rightarrow> 'w handler \<Rightarrow> 'w handler" where
  "admin_only penv next rq = adminAuth (penv ''ADMIN_SECRET'') (rq_header rq ''x-admin-secret'') (next rq)"

definition smoke_handler :: "'w handler" where
  "smoke_handler rq = ret (json_response 200 (JObj ([(''ok'', JBool True)] @
     (case rq_authPublicKey rq of None \<Rightarrow> [] | Some k \<Rightarrow> [(''publicKey'', JStr k)]))))"

text \<open>\<open>idempotencyMw\<close>: without a database requests pass through.\<close>

type_synonym 'w idempotency_mw = "idempotency_options \<Rightarrow> 'w handler \<Rightarrow> 'w handler"

definition no_idempotency :: "'w idempotency_mw" where
  "no_idempotency opts next = next"

text \<open>The handler chain of each route.\<close>

definition tasks_route ::
  "process_env \<Rightarrow> app \<Rightarrow> 'a env_scheme server \<Rightarrow> 'a env_scheme idempotency_mw \<Rightarrow> 'a env_scheme handler" where
  "tasks_route penv app sv once =
     (if ap_listingFeeGate app \<noteq> None
      then listing_fee_gate (signatureAuth penv (signed_by ''requester'')
        (once (once_by ''create_task'' ''requester'') (\<lambda>rq. task_createPaid sv (rq_body rq))))
      else once (once_by ''create_task'' ''requester'') (\<lambda>rq. task_create sv (rq_body rq)))"

definition select_route ::
  "process_env \<Rightarrow> 'a env_scheme server \<Rightarrow> 'a env_scheme idempotency_mw \<Rightarrow> string \<Rightarrow> 'a env_scheme handler" where
  "select_route penv sv once i =
     admin_only penv (once \<lparr> io_scope = ''select_bid'', io_publicKeyFrom = None, io_requireHeader = True \<rparr>
       (\<lambda>rq. task_select sv i))"

definition complete_route ::
  "process_env \<Rightarrow> 'a env_scheme server \<Rightarrow> 'a env_scheme idempotency_mw \<Rightarrow> string \<Rightarrow> 'a env_scheme handler" where
  "complete_route penv sv once i =
     signatureAuth penv (signed_by ''requester'')
       (once (once_by ''complete_task'' ''requester'') (\<lambda>rq. task_complete sv i (rq_body rq)))"

definition bids_route ::
  "process_env \<Rightarrow> 'a env_scheme server \<Rightarrow> 'a env_scheme idempotency_mw \<Rightarrow> 'a env_scheme handler" where
  "bids_route penv sv once =
     signatureAuth penv (signed_by ''executor'')
       (once (once_by ''place_bid'' ''executor'') (\<lambda>rq. bid_create sv (rq_body rq)))"

definition register_route ::
  "process_env \<Rightarrow> 'a env_scheme server \<Rightarrow> 'a env_scheme idempotency_mw \<Rightarrow> 'a env_scheme handler" where
  "register_route penv sv once =
     signatureAuth penv (signed_by ''publicKey'')
       (once (once_by ''executor_register'' ''publicKey'') (\<lambda>rq. executor_register sv (rq_body rq)))"

definition timeout_route :: "process_env \<Rightarrow> 'a env_scheme server \<Rightarrow> 'a env_scheme handler" where
  "timeout_route penv sv = admin_only penv (\<lambda>rq. timeout_check sv)"

text \<open>Not mounted without a payment gate.\<close>

definition result_route :: "app \<Rightarrow> 'a env_scheme server \<Rightarrow> string \<Rightarrow> 'a env_scheme handler option" where
  "result_route app sv i =
     (case ap_resultGate app of None \<Rightarrow> None | Some g \<Rightarrow> Some (result_payment_gate (\<lambda>rq. result_get sv i)))"

definition publish_route ::
  "process_env \<Rightarrow> 'a env_scheme server \<Rightarrow> 'a env_scheme idempotency_mw \<Rightarrow> string \<Rightarrow> 'a env_scheme handler" where
  "publish_route penv sv once i =
     signatureAuth penv (signed_by ''executorPublicKey'')
       (once (once_by ''publish_result'' ''executorPublicKey'') (\<lambda>rq. result_publish sv i (rq_body rq)))"

definition smoke_route :: "process_env \<Rightarrow> 'a env_scheme handler" where
  "smoke_route penv = signatureAuth penv ((signed_by ''publicKey'')\<lparr>sa_enforceInLocal := True\<rparr>) smoke_handler"

definition route ::
  "process_env \<Rightarrow> app \<Rightarrow> 'a env_scheme server \<Rightarrow> 'a env_scheme idempotency_mw \<Rightarrow> endpoint \<Rightarrow>
   'a env_scheme handler option" where
  "route penv app sv once endpoint =
     (case endpoint of
        GetHealth \<Rightarrow> Some (\<lambda>rq. ret (json_response 200 (JObj [(''status'', JStr ''ok'')])))
      | PostAuthNonce \<Rightarrow> Some (issueNonce penv)
      | PostSignedSmoke \<Rightarrow> Some (smoke_route penv)
      | GetHealthDetailed \<Rightarrow> Some (\<lambda>rq. health_detailed penv)
      | PostExecutorsRegister \<Rightarrow> Some (register_route penv sv once)
      | PostTasks \<Rightarrow> Some (tasks_route penv app sv once)
      | PostTaskSelect i \<Rightarrow> Some (select_route penv sv once i)
      | GetTask i \<Rightarrow> Some (\<lambda>rq. task_getById sv i)
      | PostTaskComplete i \<Rightarrow> Some (complete_route penv sv once i)
      | PostBids \<Rightarrow> Some (bids_route penv sv once)
      | PostTimeoutCheck \<Rightarrow> Some (timeout_route penv sv)
      | GetResult i \<Rightarrow> result_route app sv i
      | PostResult i \<Rightarrow> Some (publish_route penv sv once i))"

lemmas route_defs = route_def tasks_route_def select_route_def complete_route_def bids_route_def register_route_def
  timeout_route_def result_route_def publish_route_def smoke_route_def

text \<open>A request answered by the server with the database, and by the one without it.\<close>

definition pg_app :: "process_env \<Rightarrow> app \<Rightarrow> endpoint \<Rightarrow> 'a pg_world_scheme handler option" where
  "pg_app penv app endpoint =
     map_option (\<lambda>h rq. handled (h rq)) (route penv app (pg_server (ap_controllers app)) idempotency endpoint)"

definition mem_app :: "process_env \<Rightarrow> app \<Rightarrow> endpoint \<Rightarrow> mem_world handler option" where
  "mem_app penv app endpoint =
     map_option (\<lambda>h rq. handled (h rq)) (route penv app (mem_server (ap_controllers app)) no_idempotency endpoint)"

section \<open>Health and the gates\<close>







lemma x402_init_run: "\<not> w_x402 w \<Longrightarrow> x402_init w = (case x_x402_init (w_ext w) (w_log w) of
      Inl e \<Rightarrow> (Inl e, w\<lparr>w_log := w_log w @ [X402Init]\<rparr>)
    | Inr u \<Rightarrow> (Inr (), w\<lparr>w_log := w_log w @ [X402Init], w_x402 := True\<rparr>))"
  by (simp add: x402_init_def bindE_apply getsE_apply call_ext_def modifyE_apply split: sum.split)

lemma result_gate_run:
  assumes "\<not> w_x402 w"
  shows "x_x402_init (w_ext w) (w_log w) = Inl e \<Longrightarrow> result_payment_gate next rq w =
      (Inr (error_detail 503 ''payment gate unavailable'' e), w\<lparr>w_log := w_log w @ [X402Init]\<rparr>)"
    and "x_x402_init (w_ext w) (w_log w) = Inr () \<Longrightarrow> x_x402_gate (w_ext w) (w_log w @ [X402Init]) rq = Inr None \<Longrightarrow>
      result_payment_gate next rq w = next rq (w\<lparr>w_x402 := True, w_log := w_log w @ [X402Init, X402Gate]\<rparr>)"
  using assms by (simp_all add: result_payment_gate_def Let_def tryE_apply x402_init_run ret_apply call_ext_def)

text \<open>A failed synchronisation with the x402 facilitator is not kept: the request is answered 503, and the next one,
  when the facilitator answers and the gate passes it on, reaches the handler.\<close>

theorem x402_recovers:
  assumes "\<not> w_x402 w" "x_x402_init (w_ext w) (w_log w) = Inl e"
    and "x_x402_init (w_ext w) (w_log w @ [X402Init]) = Inr ()"
    and "x_x402_gate (w_ext w) (w_log w @ [X402Init, X402Init]) rq = Inr None"
  shows "\<exists>w1 w2. result_payment_gate next rq w = (Inr (error_detail 503 ''payment gate unavailable'' e), w1) \<and>
    env.more w1 = env.more w \<and> result_payment_gate next rq w1 = next rq w2 \<and> env.more w2 = env.more w \<and> w_x402 w2"
proof -
  let ?w1 = "w\<lparr>w_log := w_log w @ [X402Init]\<rparr>"
  have "result_payment_gate next rq ?w1 = next rq (?w1\<lparr>w_x402 := True, w_log := w_log ?w1 @ [X402Init, X402Gate]\<rparr>)"
    using assms by (intro result_gate_run(2)) simp_all
  moreover note result_gate_run(1) [OF assms(1,2), of "next" rq]
  ultimately show ?thesis by fastforce
qed

definition bare_request :: "json option \<Rightarrow> http_request" where
  "bare_request body =
     \<lparr> rq_method = ''POST'', rq_url = ''/'', rq_route = None, rq_header = Map.empty, rq_ip = [],
       rq_body = body, rq_rawBody = None, rq_authPublicKey = None \<rparr>"

theorem x402_recovers_witness:
  "let w = (sample_mem [] [])\<lparr>w_ext := sample_ext\<lparr>x_x402_init := \<lambda>l. if l = [] then Inl (JsError ''down'') else Inr ()\<rparr>\<rparr>;
       gate = result_payment_gate (\<lambda>rq. result_get (mem_server sample_config) ''t'') (bare_request None)
   in \<exists>w1 w2. gate w = (Inr (error_detail 503 ''payment gate unavailable'' (JsError ''down'')), w1) \<and> w_x402 w2 \<and>
        gate w1 = result_get (mem_server sample_config) ''t'' w2"
proof -
  let ?w = "(sample_mem [] [])\<lparr>w_ext := sample_ext\<lparr>x_x402_init := \<lambda>l. if l = [] then Inl (JsError ''down'') else Inr ()\<rparr>\<rparr>"
  have "\<not> w_x402 ?w" "x_x402_init (w_ext ?w) (w_log ?w) = Inl (JsError ''down'')"
    "x_x402_init (w_ext ?w) (w_log ?w @ [X402Init]) = Inr ()"
    "x_x402_gate (w_ext ?w) (w_log ?w @ [X402Init, X402Init]) (bare_request None) = Inr None"
    by (simp_all add: sample_mem_def sample_ext_def)
  from x402_recovers [OF this, of "\<lambda>rq. result_get (mem_server sample_config) ''t''"]
  show ?thesis unfolding Let_def by blast
qed

text \<open>A failure to load \<open>mppx\<close> is kept for ever: once the promise was rejected, every later \<open>POST /tasks\<close> with a
  valid body fails with the same error, whatever the modules would do now, until the process is restarted.\<close>

theorem mpp_stuck:
  assumes "w_mpp w = Some (Inl e)"
  shows "\<exists>r w'. handled (listing_fee_gate next rq) w = (Inr r, w') \<and> w_mpp w' = Some (Inl e) \<and> env.more w' = env.more w \<and>
    (r = (400, InvalidRequest) \<or> fst r = 500)"
proof -
  have "getMppx v = (Inl e, v)" if "w_mpp v = Some (Inl e)" for v :: "'a env_scheme"
    using that by (simp add: getMppx_def bindE_getsE liftE_apply)
  then show ?thesis using assms
    by (auto simp: handled_def catchE_apply listing_fee_gate_def bindE_date_now bindE_getsE bindE_apply [of "liftE _"]
        bindE_apply [of getMppx] liftE_apply ret_apply Let_def errorHandler_def split: option.split sum.split)
qed

theorem mpp_stuck_witness:
  "let w = (sample_mem [] [])\<lparr>w_mpp := Some (Inl (JsError ''no module''))\<rparr>
   in \<exists>r w'. handled (listing_fee_gate (\<lambda>rq. task_createPaid (mem_server sample_config) (rq_body rq)) (bare_request None)) w = (Inr r, w') \<and>
        w_mpp w' = Some (Inl (JsError ''no module''))"
proof -
  let ?w = "(sample_mem [] [])\<lparr>w_mpp := Some (Inl (JsError ''no module''))\<rparr>"
  have "w_mpp ?w = Some (Inl (JsError ''no module''))" by simp
  from mpp_stuck [OF this, of "\<lambda>rq. task_createPaid (mem_server sample_config) (rq_body rq)" "bare_request None"]
  show ?thesis unfolding Let_def by blast
qed

section \<open>Guarded routes\<close>

text \<open>The routes behind \<open>signatureAuth\<close>, with the field of the body that names the signer.\<close>

definition signed_field :: "endpoint \<Rightarrow> string option" where
  "signed_field ep = (case ep of
      PostExecutorsRegister \<Rightarrow> Some ''publicKey''
    | PostTaskComplete i \<Rightarrow> Some ''requester''
    | PostBids \<Rightarrow> Some ''executor''
    | PostResult i \<Rightarrow> Some ''executorPublicKey''
    | _ \<Rightarrow> None)"

lemma signed_by_sel [simp]: "auth_bypassed penv (signed_by f) = auth_bypassed penv default_auth" "sa_required (signed_by f)"
  by (simp_all add: signed_by_def auth_bypassed_def default_auth_def)

lemma signed_route:
  assumes "signed_field ep = Some f" "pg_app penv app ep = Some h"
  obtains nxt where "h = (\<lambda>rq. handled (signatureAuth penv (signed_by f) nxt rq))"
  using assms by (cases ep) (auto simp: signed_field_def pg_app_def route_defs Let_def)

text \<open>C18. On the server with a database, a request to place a bid, complete a task, register or publish a result that is
  not authentic is refused (401, 429, 503, or 500 for an error), and no table changes.\<close>

theorem unsigned_changes_nothing:
  assumes "\<not> auth_bypassed penv default_auth" "signed_field ep = Some f" "pg_app penv app ep = Some h"
    and "\<nexists>w1. authentic penv (signed_by f) rq w w1" and "h rq w = (r, w')"
  shows "env.more w' = env.more w \<and> (\<exists>resp. r = Inr resp \<and> fst resp \<in> {401, 429, 500, 503})"
proof -
  obtain nxt where h: "h = (\<lambda>rq. handled (signatureAuth penv (signed_by f) nxt rq))"
    using signed_route [OF assms(2,3)] .
  obtain r1 w1 where run: "signatureAuth penv (signed_by f) nxt rq w = (r1, w1)" by fastforce
  then have "refused r1 \<and> env_step w w1"
    using signatureAuth_passes [OF _ _ run] assms(1,4) by auto
  then show ?thesis using assms(5) run
    by (auto simp: h handled_def catchE_apply ret_apply env_step_def refused_def errorHandler_def split: sum.splits)
qed

lemma bare_not_authentic: "\<not> authentic penv opts (bare_request body) (sample_pg ts bs f) w1"
proof -
  have "signed_payload sample_ext (bare_request body) [] [] \<noteq> parseSignature []"
    by (simp add: signed_payload_def bare_request_def parseSignature_def js_trim_def looks_hex_def)
  then show ?thesis by (auto simp: authentic_def Let_def bare_request_def header_text_def sample_pg_def sample_ext_def)
qed

lemma testnet_checks: "\<not> auth_bypassed testnet_env default_auth"
  by (simp add: auth_bypassed_def testnet_env_def default_auth_def)

theorem unsigned_changes_nothing_witness:
  "\<exists>app h. createApp sample_boot testnet_env = Inr app \<and> pg_app testnet_env app PostBids = Some h \<and>
     env.more (snd (h (bare_request None) (sample_pg [] [] (\<lambda>n. None)))) = env.more (sample_pg [] [] (\<lambda>n. None))"
proof -
  obtain app where app: "createApp sample_boot testnet_env = Inr app" using testnet_starts by blast
  obtain h :: "pg_world handler" where h: "pg_app testnet_env app PostBids = Some h"
    by (simp add: pg_app_def route_defs Let_def)
  have "signed_field PostBids = Some ''executor''" by (simp add: signed_field_def)
  then show ?thesis
    using app h unsigned_changes_nothing [OF testnet_checks _ h _ prod.collapse [symmetric]] bare_not_authentic by blast
qed

text \<open>The admin's routes answer 401 and do nothing unless the request carries the secret of the environment, which
  must not be empty.\<close>

theorem admin_secret_needed:
  assumes "pg_app penv app ep = Some h" "ep = PostTimeoutCheck \<or> ep = PostTaskSelect i"
    and "\<not> env_set penv ''ADMIN_SECRET'' \<or> rq_header rq ''x-admin-secret'' \<noteq> penv ''ADMIN_SECRET''"
  shows "h rq w = (Inr (error_response 401 ''unauthorized''), w)"
  using assms
  by (auto simp: pg_app_def route_defs Let_def admin_only_def adminAuth_def handled_def catchE_apply ret_apply env_set_def)

theorem admin_secret_needed_witness:
  "\<exists>app h. createApp sample_boot testnet_env = Inr app \<and> pg_app testnet_env app PostTimeoutCheck = Some h \<and>
     (\<forall>w :: pg_world. h (bare_request None) w = (Inr (error_response 401 ''unauthorized''), w))"
proof -
  obtain app where app: "createApp sample_boot testnet_env = Inr app" using testnet_starts by blast
  obtain h :: "pg_world handler" where h: "pg_app testnet_env app PostTimeoutCheck = Some h"
    by (simp add: pg_app_def route_defs Let_def)
  have "rq_header (bare_request None) ''x-admin-secret'' \<noteq> testnet_env ''ADMIN_SECRET''"
    by (simp add: bare_request_def testnet_env_def)
  then show ?thesis using app h admin_secret_needed [OF h] by blast
qed

section \<open>Switches of the operator\<close>

lemma loadSafetyFeatures_parts:
  assumes "loadSafetyFeatures penv = Inr s"
  shows "parseBoolEnv penv ''PAUSE_NEW_BIDS'' False = Inr (sf_pauseNewBids s)"
    "parseBoolEnv penv ''PAUSE_NEW_TASKS'' False = Inr (sf_pauseNewTasks s)"
    "parseExecutorDenylist (penv ''EXECUTOR_DENYLIST'') = Inr (sf_executorDenylist s)"
  using assms unfolding loadSafetyFeatures_def by auto

lemma bid_request_executor:
  "bid_request x local body = Inr input \<Longrightarrow> body_string body ''executor'' = Some (cbi_executor input)"
  by (auto simp: bid_request_def createBidLocalSchema_def createBidSignedSchema_def
      split: if_splits option.splits)

lemma env_set_literal: "penv k = Some v \<Longrightarrow> v \<noteq> [] \<Longrightarrow> env_set penv k"
  by (simp add: env_set_def)

text \<open>C35. The operator's switches reach the bids: while \<open>PAUSE_NEW_BIDS\<close> is \<open>true\<close>, or for an executor that is an entry of
  \<open>EXECUTOR_DENYLIST\<close>, no request to place a bid changes the market, signed or not.\<close>

theorem operator_stops_bids:
  assumes "createApp bx penv = Inr app" "pg_app penv app PostBids = Some h"
    and "penv ''PAUSE_NEW_BIDS'' = Some ''true'' \<or>
      (\<exists>list k. penv ''EXECUTOR_DENYLIST'' = Some list \<and> k \<in> set (denylist_entries list) \<and> js_trim list \<noteq> [] \<and>
         body_string (rq_body rq) ''executor'' = Some k)"
    and "h rq w = (r, w')"
  shows "pg_market w' = pg_market w"
proof -
  note parts = createApp_parts [OF assms(1)]
  note safety = loadSafetyFeatures_parts [OF parts(2)]
  have "ac_pauseNewBids (ap_controllers app) \<or>
      (\<exists>k. body_string (rq_body rq) ''executor'' = Some k \<and> k \<in> set (ac_executorDenylist (ap_controllers app)))"
    using assms(3)
  proof
    assume "penv ''PAUSE_NEW_BIDS'' = Some ''true''"
    then show ?thesis using safety(1) parts(9)
      by (simp add: parseBoolEnv_def js_trim_def js_space_def to_lower_def)
  next
    assume "\<exists>list k. penv ''EXECUTOR_DENYLIST'' = Some list \<and> k \<in> set (denylist_entries list) \<and> js_trim list \<noteq> [] \<and>
         body_string (rq_body rq) ''executor'' = Some k"
    then show ?thesis using safety(3) parts(7) denylist_set by fastforce
  qed
  then have "evolves (\<lambda>w w'. pg_market w' = pg_market w) (bid_create (pg_server (ap_controllers app)) (rq_body rq))"
    by (auto simp: bid_create_def evolves_def ret_apply bindE_getsE dest: bid_request_executor split: sum.split)
  then have "evolves (\<lambda>w w'. pg_market w' = pg_market w) (h rq)"
    using assms(2) unfolding pg_app_def route_defs
    by (auto simp: Let_def intro!: pg_market_behind.same_handled pg_market_behind.same_signatureAuth
        pg_market_behind.same_idempotency)
  then show ?thesis using assms(4) by (rule evolvesD)
qed

definition paused_env :: process_env where
  "paused_env = testnet_env(''PAUSE_NEW_BIDS'' \<mapsto> ''true'')"

lemma paused_starts: "\<exists>app. createApp sample_boot paused_env = Inr app"
  by (simp add: createApp_def paused_env_def testnet_env_def sample_boot_def loadStellarConfig_def env_or_def shouldMockExternals_def
      env_set_def loadSafetyFeatures_def parseBoolEnv_def parseExecutorDenylist_def parseEscrowImplementation_def Let_def
      parseOptionalStringMinLen_def marketplace_wallet_def admin_public_key_def require_env_def getUsdcSacContractId_def
      listing_fee_gate_settings_def escrow_settings_def sum_bind_def js_trim_def js_space_def to_lower_def)

theorem operator_stops_bids_witness:
  "\<exists>app h. createApp sample_boot paused_env = Inr app \<and> pg_app paused_env app PostBids = Some h \<and>
     (\<forall>w :: pg_world. pg_market (snd (h (bare_request None) w)) = pg_market w)"
proof -
  obtain app where app: "createApp sample_boot paused_env = Inr app" using paused_starts by blast
  obtain h :: "pg_world handler" where h: "pg_app paused_env app PostBids = Some h"
    by (simp add: pg_app_def route_defs Let_def)
  have "paused_env ''PAUSE_NEW_BIDS'' = Some ''true''" by (simp add: paused_env_def)
  then show ?thesis using app h operator_stops_bids [OF app h _ prod.collapse [symmetric]] by blast
qed

section \<open>Payment before the other checks\<close>

definition log_grows :: "'a env_scheme \<Rightarrow> 'a env_scheme \<Rightarrow> bool" where
  "log_grows w w' \<longleftrightarrow> (\<exists>l. w_log w' = w_log w @ l)"

interpretation log_order: world_order log_grows
  by unfold_locales (auto simp: log_grows_def)

lemma log_grows_env:
  "evolves log_grows date_now" "evolves log_grows (call_ext c f)" "evolves log_grows (redis_cmd cmd)"
  "evolves log_grows (modifyE (\<lambda>w. w\<lparr>w_redis_client := True\<rparr>))"
  by (auto simp: evolves_def log_grows_def date_now_def call_ext_def redis_cmd_def modifyE_apply split: prod.split)

lemma log_grows_auth: "evolves log_grows (auth_fail penv rq pk e)"
  unfolding auth_fail_def getRedisClient_def incrWithTtl_def record_auth_def metric_inc_def
  by (auto intro!: log_order.evolves_intros log_grows_env split: option.split if_split)

lemma signature_missing:
  assumes "\<not> auth_bypassed penv opts" "sa_required opts" "header_text rq ''x-tg-signature'' = []"
  shows "signatureAuth penv opts next rq = auth_fail penv rq (header_text rq ''x-tg-public-key'') ''missing signature headers''"
  using assms by (simp add: signatureAuth_def Let_def)

lemma catch_ret: "catchE m (\<lambda>err. ret x) w = (Inr (case fst (m w) of Inl e \<Rightarrow> x | Inr b \<Rightarrow> b), snd (m w))"
  by (simp add: catchE_apply ret_apply split: prod.split sum.split)

lemma auth_fail_answers: "\<exists>resp w'. auth_fail penv rq pk e w = (Inr resp, w') \<and> fst resp \<in> {401, 429}"
  unfolding auth_fail_def bindE_apply [of "catchE _ _"] catch_ret
  by (simp add: record_auth_def bindE_apply metric_inc_run ret_apply error_response_def)

lemma bindE_call_Inr: "f (w_ext w) (w_log w) = Inr x \<Longrightarrow> bindE (call_ext c f) g w = g x (w\<lparr>w_log := w_log w @ [c]\<rparr>)"
  by (simp add: bindE_apply call_ext_def)

text \<open>The gate, when it passes a request on.\<close>

lemma listing_fee_passes:
  assumes "createTaskSchema (x_date_parse (w_ext w)) (w_now w (w_reads w)) (rq_body rq) = Some input"
    and "w_mpp w = Some (Inr ())" "\<And>l a d. x_mpp_gate (w_ext w) l a d rq = Inr None"
  shows "\<exists>amount descr. listing_fee_gate next rq w =
    next rq (w\<lparr>w_reads := Suc (w_reads w), w_log := w_log w @ [MppCharge amount descr]\<rparr>)"
proof -
  obtain n where "parseUsdcDecimalToStroops (cti_reservePrice input) = Inr n"
    using createTask_parses(1) [OF assms(1)] by (rule positive_usdcE)
  moreover have "getMppx v = (Inr (), v)" if "w_mpp v = Some (Inr ())" for v :: "'a env_scheme"
    using that by (simp add: getMppx_def bindE_getsE liftE_apply)
  ultimately have "listing_fee_gate next rq w = next rq (w\<lparr>w_reads := Suc (w_reads w), w_log := w_log w @
      [MppCharge (formatUsdcStroopsToDecimal (calculateListingFeeStroops n)) (''Listing fee for task by '' @ cti_requester input)]\<rparr>)"
    using assms
    by (simp add: listing_fee_gate_def bindE_date_now bindE_getsE bindE_liftE Let_def bindE_apply [of getMppx] bindE_call_Inr)
  then show ?thesis by blast
qed

text \<open>C36. The listing fee is taken before the signature is looked at: a paid \<open>POST /tasks\<close> without a signature has gone
  through the payment gate when it is refused, and no task is created.\<close>

theorem paid_unsigned:
  assumes "\<not> auth_bypassed penv default_auth" "ap_listingFeeGate app \<noteq> None" "pg_app penv app PostTasks = Some h"
    and "w_mpp w = Some (Inr ())" "header_text rq ''x-tg-signature'' = []"
    and "createTaskSchema (x_date_parse (w_ext w)) (w_now w (w_reads w)) (rq_body rq) = Some input"
    and "\<And>l a d. x_mpp_gate (w_ext w) l a d rq = Inr None"
  shows "\<exists>resp w' amount descr. h rq w = (Inr resp, w') \<and> fst resp \<in> {401, 429} \<and>
    MppCharge amount descr \<in> set (w_log w') \<and> env.more w' = env.more w"
proof -
  obtain nxt where h: "h = (\<lambda>rq. handled (listing_fee_gate (signatureAuth penv (signed_by ''requester'') nxt) rq))"
    using assms(2,3) by (auto simp: pg_app_def route_defs Let_def)
  obtain amount descr where gate: "listing_fee_gate (signatureAuth penv (signed_by ''requester'') nxt) rq w =
      signatureAuth penv (signed_by ''requester'') nxt rq
        (w\<lparr>w_reads := Suc (w_reads w), w_log := w_log w @ [MppCharge amount descr]\<rparr>)"
    (is "_ = signatureAuth _ _ _ _ ?w1")
    using listing_fee_passes [OF assms(6,4,7)] by metis
  obtain resp w' where fail: "auth_fail penv rq (header_text rq ''x-tg-public-key'') ''missing signature headers'' ?w1 = (Inr resp, w')"
    "fst resp \<in> {401, 429}" using auth_fail_answers by metis
  have "log_grows ?w1 w'" using log_grows_auth fail(1) by (rule evolvesD)
  then have "MppCharge amount descr \<in> set (w_log w')" by (auto simp: log_grows_def)
  moreover have "env.more w' = env.more w" using env_onlyD_more [OF env_only_auth(5) fail(1)] by simp
  moreover have "h rq w = (Inr resp, w')"
    using gate fail(1) signature_missing [of penv "signed_by ''requester''" rq nxt] assms(1,5)
    by (simp add: h handled_def catchE_apply)
  ultimately show ?thesis using fail(2) by blast
qed

definition paid_body :: json where
  "paid_body = JObj [(''requester'', JStr (sample_key (CHR ''A''))), (''reservePrice'', JStr (formatUsdcStroopsToDecimal 10000000)),
     (''description'', JStr ''work''), (''deadline'', JStr ''2030-01-01T00:00:00.000Z'')]"

lemma paid_body_valid: "createTaskSchema (x_date_parse sample_ext) 0 (Some paid_body) =
    Some \<lparr> cti_requester = sample_key (CHR ''A''), cti_reservePrice = formatUsdcStroopsToDecimal 10000000, cti_description = ''work'',
      cti_deadline = ''2030-01-01T00:00:00.000Z'' \<rparr>"
proof -
  have parsed: "parseUsdcDecimalToStroops (formatUsdcStroopsToDecimal 10000000) = Inr 10000000"
    using parse_format_nat [of 10000000] by simp
  moreover have "formatUsdcStroopsToDecimal 10000000 \<noteq> []"
    using parsed by (auto simp: parseUsdcDecimalToStroops_def js_trim_def decimal_syntax_def Let_def)
  ultimately show ?thesis
    by (simp add: createTaskSchema_def body_string_def paid_body_def positive_usdc_def strkey_syntax_def sample_key_def
        base32_char_def sample_ext_def less_eq_char_def list_all_iff Suc_le_eq)
qed

theorem paid_unsigned_witness:
  "\<exists>app h resp w' amount descr. createApp sample_boot testnet_env = Inr app \<and> pg_app testnet_env app PostTasks = Some h \<and>
     h (bare_request (Some paid_body)) ((sample_pg [] [] (\<lambda>n. None))\<lparr>w_mpp := Some (Inr ())\<rparr>) = (Inr resp, w') \<and>
     fst resp \<in> {401, 429} \<and> MppCharge amount descr \<in> set (w_log w') \<and> pg_tasks w' = []"
proof -
  let ?w = "(sample_pg [] [] (\<lambda>n. None))\<lparr>w_mpp := Some (Inr ())\<rparr>"
  obtain app where app: "createApp sample_boot testnet_env = Inr app" "sc_network (ap_config app) = ''testnet''"
    using testnet_starts by blast
  then have gate: "ap_listingFeeGate app \<noteq> None" using real_network [OF app(1)] by fastforce
  obtain h :: "pg_world handler" where h: "pg_app testnet_env app PostTasks = Some h"
    by (simp add: pg_app_def route_defs Let_def)
  have "createTaskSchema (x_date_parse (w_ext ?w)) (w_now ?w (w_reads ?w)) (rq_body (bare_request (Some paid_body))) =
      Some \<lparr> cti_requester = sample_key (CHR ''A''), cti_reservePrice = formatUsdcStroopsToDecimal 10000000, cti_description = ''work'',
        cti_deadline = ''2030-01-01T00:00:00.000Z'' \<rparr>"
    using paid_body_valid by (simp add: sample_pg_def bare_request_def)
  moreover have "w_mpp ?w = Some (Inr ())" "header_text (bare_request (Some paid_body)) ''x-tg-signature'' = []"
    "\<And>l a d. x_mpp_gate (w_ext ?w) l a d (bare_request (Some paid_body)) = Inr None"
    by (simp_all add: header_text_def bare_request_def sample_pg_def sample_ext_def)
  ultimately obtain resp w' amount descr where run: "h (bare_request (Some paid_body)) ?w = (Inr resp, w')"
    "fst resp \<in> {401, 429}" "MppCharge amount descr \<in> set (w_log w')" "env.more w' = env.more ?w"
    using paid_unsigned [OF testnet_checks gate h] by metis
  have "pg_tasks w' = []" using run(4) by (cases w') (simp add: sample_pg_def)
  then show ?thesis using app(1) h run(1-3) by blast
qed

end
