(* ===== verification/Migrate.thy ===== *)
theory Migrate
  imports PgStore
begin

text \<open>
  \<open>db/migrate.ts\<close>: the SQL files of a directory are run once each, in the order of their names,
  every file in a transaction that also records it. What the SQL does is kept as the list of
  the texts that ran; the queries of one migration use one connection.
\<close>

section \<open>The database\<close>










section \<open>Migrations\<close>








section \<open>Runs\<close>











section \<open>Properties\<close>









end
