(* ===== verification/Startup.thy ===== *)
theory Startup
  imports Config Worker Migrate
begin

text \<open>
  \<open>server.ts\<close>: what happens before the server listens, with \<open>services/accountService.ts\<close>; and
  the client side of the result payment (\<open>services/x402PaymentService.ts\<close>) and the smart-account
  settings (\<open>config/smartAccount.ts\<close>). The timers (the sweep every five minutes, the worker's
  interval) repeat operations modelled elsewhere.
\<close>

section \<open>Accounts\<close>

record account_balance =
  ab_assetType :: string
  ab_assetCode :: "string option"
  ab_assetIssuer :: "string option"
  ab_balance :: string

definition to_account_balance :: "horizon_balance \<Rightarrow> account_balance" where
  "to_account_balance b =
     \<lparr> ab_assetType = hb_asset_type b, ab_assetCode = hb_asset_code b, ab_assetIssuer = hb_asset_issuer b,
       ab_balance = hb_balance b \<rparr>"

definition getBalances :: "string \<Rightarrow> ('a env_scheme, account_balance list) prog" where
  "getBalances publicKey =
     bindE (call_ext (LoadAccount publicKey) (\<lambda>x l. x_load_account x l publicKey)) (\<lambda>balances.
     ret (map to_account_balance balances))"

definition balance_or_zero :: "account_balance option \<Rightarrow> string" where
  "balance_or_zero b = (case b of None \<Rightarrow> ''0'' | Some x \<Rightarrow> ab_balance x)"

definition getXlmBalance :: "string \<Rightarrow> ('a env_scheme, string) prog" where
  "getXlmBalance publicKey =
     bindE (getBalances publicKey) (\<lambda>balances.
     ret (balance_or_zero (List.find (\<lambda>b. ab_assetType b = ''native'') balances)))"

definition getUsdcBalance :: "string \<Rightarrow> string \<Rightarrow> ('a env_scheme, string) prog" where
  "getUsdcBalance publicKey usdcIssuer =
     bindE (getBalances publicKey) (\<lambda>balances.
     ret (balance_or_zero (List.find
       (\<lambda>b. ab_assetCode b = Some ''USDC'' \<and> ab_assetIssuer b = Some usdcIssuer) balances)))"

section \<open>Connectivity\<close>

definition response_ok :: "int \<Rightarrow> bool" where
  "response_ok status \<longleftrightarrow> 200 \<le> status \<and> status < 300"

definition http_get :: "string \<Rightarrow> ('a env_scheme, int \<times> (exn + string)) prog" where
  "http_get url = call_ext (HttpGet url) (\<lambda>x l. x_http_get x l url)"

definition fundOnFriendbot :: "string \<Rightarrow> string \<Rightarrow> ('a env_scheme, unit) prog" where
  "fundOnFriendbot horizonUrl publicKey =
     bindE (http_get (horizonUrl @ ''/friendbot?addr='' @ publicKey)) (\<lambda>(status, body).
     if response_ok status then ret ()
     else bindE (liftE body) (\<lambda>s.
       throw (JsError (''Friendbot funding failed: '' @ int_string status @ '' '' @ s))))"

definition connectivity_retry :: "(exn \<Rightarrow> bool) \<Rightarrow> 'w retry_options" where
  "connectivity_retry shouldRetry =
     \<lparr> ro_retries = 8, ro_baseDelayMs = 500, ro_shouldRetry = shouldRetry, ro_jitterPct = 0, ro_onRetry = None \<rparr>"

definition friendbot_retryable :: "exn \<Rightarrow> bool" where
  "friendbot_retryable err \<longleftrightarrow> isTransientNetworkError err \<or> contains ''Friendbot funding failed: 5'' (err_text err)"

text \<open>Without \<open>ADMIN_SECRET\<close> a random key pair is made, whose public key is given.\<close>

definition checkStellarConnectivity ::
  "boot_ext \<Rightarrow> process_env \<Rightarrow> string \<Rightarrow> ('a env_scheme, unit) prog" where
  "checkStellarConnectivity bx penv randomKey =
     (let config = loadStellarConfig penv
      in bindE (liftE (admin_public_key bx penv)) (\<lambda>admin.
         let adminPublicKey = (case admin of None \<Rightarrow> randomKey | Some k \<Rightarrow> k)
         in bindE (if sc_network config = ''local''
              then catchE (withRetry (fundOnFriendbot (sc_horizonUrl config) adminPublicKey)
                     (connectivity_retry friendbot_retryable)) (\<lambda>err. ret ())
              else ret ()) (\<lambda>_.
            catchE (bindE (withRetry (getXlmBalance adminPublicKey) (connectivity_retry isTransientNetworkError))
                (\<lambda>xlmBalance. ret ()))
              (\<lambda>err. ret ()))))"

section \<open>The worker's settings\<close>

text \<open>\<open>Number(process.env.K)\<close>, where an unset variable is \<open>NaN\<close>, and \<open>Number(process.env.K ?? d)\<close>.\<close>

definition env_number :: "process_env \<Rightarrow> string \<Rightarrow> jsnum" where
  "env_number penv k = (case penv k of None \<Rightarrow> NaN | Some s \<Rightarrow> js_to_number s)"

definition env_number_default :: "process_env \<Rightarrow> string \<Rightarrow> rat \<Rightarrow> jsnum" where
  "env_number_default penv k d = (case penv k of None \<Rightarrow> Fin d | Some s \<Rightarrow> js_to_number s)"

text \<open>A number that is finite and not below a bound, truncated, or else the default.\<close>

definition at_least :: "rat \<Rightarrow> int \<Rightarrow> jsnum \<Rightarrow> int" where
  "at_least lo d n = (case n of Fin x \<Rightarrow> if x \<ge> lo then math_trunc x else d | _ \<Rightarrow> d)"

record worker_settings =
  ws_streamKey :: string
  ws_publishIntervalMs :: jsnum
  ws_consumerGroup :: string
  ws_consumerName :: string
  ws_maxAttempts :: jsnum
  ws_webhookUrl :: "string option"
  ws_backlogSampleIntervalMs :: int
  ws_webhookTimeoutMs :: jsnum
  ws_webhookMaxRetries :: int
  ws_webhookBaseBackoffMs :: int
  ws_escrow :: "escrow_config option"
  ws_pauseConsumption :: bool

definition worker_enabled :: "process_env \<Rightarrow> bool" where
  "worker_enabled penv \<longleftrightarrow>
     env_set penv ''DATABASE_URL'' \<and> env_set penv ''REDIS_URL'' \<and> penv ''WORKER_ENABLED'' \<noteq> Some ''false''"

definition load_worker_settings :: "process_env \<Rightarrow> safety_features \<Rightarrow> nat \<Rightarrow> exn + worker_settings" where
  "load_worker_settings penv safety pid =
     (let config = loadStellarConfig penv;
          mockExternals = (shouldMockExternals penv \<and> sc_network config = ''local'')
      in sum_bind (if mockExternals then Inr None
           else sum_bind (escrow_settings penv config (require_env ''MARKETPLACE_WALLET'' (penv ''MARKETPLACE_WALLET'')))
             (\<lambda>e. Inr (Some e))) (\<lambda>escrow.
         Inr \<lparr> ws_streamKey = env_default penv ''OUTBOX_STREAM_KEY'' ''tg:events'',
           ws_publishIntervalMs = env_number_default penv ''WORKER_POLL_MS'' 2000,
           ws_consumerGroup = env_default penv ''OUTBOX_CONSUMER_GROUP'' ''tg-workers'',
           ws_consumerName = env_default penv ''OUTBOX_CONSUMER_NAME'' (''worker-'' @ nat_string pid),
           ws_maxAttempts = env_number_default penv ''WORKER_MAX_ATTEMPTS'' 10,
           ws_webhookUrl = penv ''RESULT_PUBLISHED_WEBHOOK_URL'',
           ws_backlogSampleIntervalMs = at_least 1000 5000 (env_number penv ''OUTBOX_BACKLOG_SAMPLE_MS''),
           ws_webhookTimeoutMs = env_number_default penv ''WEBHOOK_TIMEOUT_MS'' 5000,
           ws_webhookMaxRetries = at_least 0 3 (env_number penv ''WEBHOOK_MAX_RETRIES''),
           ws_webhookBaseBackoffMs = at_least 50 1000 (env_number penv ''WEBHOOK_BASE_BACKOFF_MS''),
           ws_escrow = escrow, ws_pauseConsumption = sf_pauseWorkerConsumption safety \<rparr>))"

text \<open>The delay \<open>setTimeout\<close> uses.\<close>

definition timer_ms :: "jsnum \<Rightarrow> int" where
  "timer_ms n = (case n of Fin x \<Rightarrow> if 1 \<le> x \<and> x \<le> 2147483647 then math_trunc x else 1 | _ \<Rightarrow> 1)"

definition worker_of :: "worker_settings \<Rightarrow> 'a env_scheme worker" where
  "worker_of s =
     \<lparr> wr_streamKey = ws_streamKey s, wr_consumerGroup = ws_consumerGroup s, wr_consumerName = ws_consumerName s,
       wr_maxAttempts = ws_maxAttempts s, wr_webhookUrl = ws_webhookUrl s,
       wr_backlogSampleIntervalMs = Some (ws_backlogSampleIntervalMs s), wr_pauseConsumption = ws_pauseConsumption s,
       wr_webhook = \<lparr> wo_timeoutMs = timer_ms (ws_webhookTimeoutMs s), wo_maxRetries = ws_webhookMaxRetries s,
         wo_baseBackoffMs = ws_webhookBaseBackoffMs s \<rparr>,
       wr_escrow = (case ws_escrow s of None \<Rightarrow> mock_escrow | Some e \<Rightarrow> trustless_work_escrow e False) \<rparr>"

section \<open>main\<close>

text \<open>
  \<open>main\<close> up to \<open>app.listen\<close>; it returns the server that listens. The migrations are given, and
  the timeout sweep is scheduled when the server was created.
\<close>

definition main ::
  "boot_ext \<Rightarrow> process_env \<Rightarrow> string \<Rightarrow> nat \<Rightarrow> ('a worker_world_scheme, unit) prog \<Rightarrow> ('a worker_world_scheme, app) prog" where
  "main bx penv randomKey pid migrations =
     bindE (liftE (loadSafetyFeatures penv)) (\<lambda>safety.
     bindE (checkStellarConnectivity bx penv randomKey) (\<lambda>_.
     bindE (if env_set penv ''DATABASE_URL'' then migrations else ret ()) (\<lambda>_.
     bindE (liftE (createApp bx penv)) (\<lambda>app.
     bindE (if worker_enabled penv
       then bindE (liftE (load_worker_settings penv safety pid)) (\<lambda>settings.
            bindE (getRedisClient penv) (\<lambda>_.
            worker_start (worker_of settings)))
       else ret ()) (\<lambda>_.
     ret app)))))"

section \<open>Paying for a result\<close>

definition strip_slash :: "string \<Rightarrow> string" where
  "strip_slash s = (if s \<noteq> [] \<and> last s = CHR ''/'' then butlast s else s)"

text \<open>\<open>fetchWithPayment\<close> pays where it is asked to, and gives the response; \<open>response.json()\<close> throws a \<open>SyntaxError\<close>.\<close>

definition payForResult ::
  "'a env_scheme registry_service option \<Rightarrow> string \<Rightarrow> string \<Rightarrow> string option \<Rightarrow> ('a env_scheme, json) prog" where
  "payForResult policy taskId executorEndpoint executorPublicKey =
     bindE (case (policy, executorPublicKey) of
         (Some rg, Some k) \<Rightarrow> if k = [] then ret () else authorizeExecutorPayment rg k
       | _ \<Rightarrow> ret ()) (\<lambda>_.
     bindE (http_get (strip_slash executorEndpoint @ ''/executor/tasks/'' @ taskId @ ''/result'')) (\<lambda>(status, body).
     bindE (liftE body) (\<lambda>s.
     if \<not> response_ok status
     then throw (JsError (''Payment for task result failed: '' @ int_string status @ '' '' @ s))
     else bindE (getsE (\<lambda>w. x_json_parse (w_ext w) s)) (\<lambda>parsed. case parsed of
         None \<Rightarrow> throw (JsError ''Unexpected token in JSON'')
       | Some j \<Rightarrow> ret j))))"

section \<open>Smart accounts\<close>

definition DEFAULT_DAILY_USDC_LIMIT :: rat where
  "DEFAULT_DAILY_USDC_LIMIT = 100"

definition LEDGERS_PER_DAY :: nat where
  "LEDGERS_PER_DAY = 17280"

record spending_limit_params =
  sl_spending_limit :: int
  sl_period_ledgers :: nat

definition buildSpendingLimitPolicyParams :: "rat \<Rightarrow> spending_limit_params" where
  "buildSpendingLimitPolicyParams dailyLimitUsdc =
     \<lparr> sl_spending_limit = \<lfloor>math_round (js_mult dailyLimitUsdc (10 ^ USDC_DECIMALS))\<rfloor>,
       sl_period_ledgers = LEDGERS_PER_DAY \<rparr>"

section \<open>Properties\<close>

lemma fails_first: "\<exists>e w'. m w = (Inl e, w') \<Longrightarrow> \<exists>e w'. bindE m f w = (Inl e, w')"
  by (auto simp: bindE_apply)

lemma fails_then: "(\<And>x w. \<exists>e w'. f x w = (Inl e, w')) \<Longrightarrow> \<exists>e w'. bindE m f w = (Inl e, w')"
  by (auto simp: bindE_apply split: prod.split sum.split)

definition mock_local_env :: process_env where
  "mock_local_env = [''NETWORK'' \<mapsto> ''local'', ''MOCK_EXTERNALS'' \<mapsto> ''true'']"

definition safety_defaults :: safety_features where
  "safety_defaults =
     \<lparr> sf_pauseNewTasks = False, sf_pauseNewBids = False, sf_pauseWorkerConsumption = False,
       sf_executorDenylist = [], sf_escrowImplementation = TrustlessWorkImpl,
       sf_trustlessWorkWebhookPublicKey = None \<rparr>"

lemma math_trunc_ge: "of_int lo \<le> x \<Longrightarrow> 0 \<le> lo \<Longrightarrow> lo \<le> math_trunc x"
  by (auto simp: math_trunc_def le_floor_iff)

lemma at_least_bound: "0 \<le> lo \<Longrightarrow> lo \<le> d \<Longrightarrow> lo \<le> at_least (of_int lo) d n"
  by (auto simp: at_least_def math_trunc_ge split: jsnum.split)

text \<open>C38. Whatever the environment holds, a worker that starts waits at least a second between two samples of the backlog,
  repeats a webhook a number of times that is no negative number, from a pause of at least 50 ms, and is paused exactly
  when the operator says so; but a \<open>WORKER_MAX_ATTEMPTS\<close> that is no number gives the handlers unlimited attempts.\<close>

theorem worker_settings_bounds:
  assumes "load_worker_settings penv safety pid = Inr s"
  shows "1000 \<le> ws_backlogSampleIntervalMs s \<and> 0 \<le> ws_webhookMaxRetries s \<and> 50 \<le> ws_webhookBaseBackoffMs s \<and>
    ws_pauseConsumption s = sf_pauseWorkerConsumption safety \<and>
    ((\<exists>n. attempts_used_up n (ws_maxAttempts s)) \<longleftrightarrow> env_number_default penv ''WORKER_MAX_ATTEMPTS'' 10 \<notin> {NaN, Infinite False})"
proof -
  have "(\<exists>n. attempts_used_up n m) \<longleftrightarrow> m \<notin> {NaN, Infinite False}" for m
    by (cases m) (auto simp: attempts_used_up_def intro: real_arch_simple)
  then show ?thesis
    using assms at_least_bound [of 1000 5000] at_least_bound [of 0 3] at_least_bound [of 50 1000]
    by (auto simp: load_worker_settings_def Let_def)
qed

text \<open>The worker does not take its wallet from \<open>ADMIN_SECRET\<close>: on a network other than \<open>local\<close>, with the worker enabled and
  \<open>MARKETPLACE_WALLET\<close> unset, the process never listens, although \<open>createApp\<close> accepts the same environment.\<close>

theorem main_needs_wallet:
  assumes "worker_enabled penv" "sc_network (loadStellarConfig penv) \<noteq> ''local''" "penv ''MARKETPLACE_WALLET'' = None"
  shows "\<exists>e w'. main bx penv randomKey pid migrations w = (Inl e, w')"
proof -
  have none: "\<exists>e. load_worker_settings penv safety pid = Inl e" for safety
    using assms(2,3) by (auto simp: load_worker_settings_def Let_def escrow_settings_def require_env_def sum_bind_def
        split: sum.split option.split)
  have "\<exists>e w'. bindE (liftE (load_worker_settings penv safety pid)) f w = (Inl e, w')" for safety f and w :: "'a worker_world_scheme"
    using none [of safety] by (auto simp: bindE_apply liftE_apply)
  then have last: "\<exists>e w'. bindE (if worker_enabled penv
       then bindE (liftE (load_worker_settings penv safety pid)) (\<lambda>settings.
            bindE (getRedisClient penv) (\<lambda>_. worker_start (worker_of settings)))
       else ret ()) (\<lambda>_. ret app) w = (Inl e, w')" for safety app and w :: "'a worker_world_scheme"
    using assms(1) by (intro fails_first) simp
  show ?thesis unfolding main_def by (rule fails_then, rule fails_then, rule fails_then, rule fails_then, rule last)
qed

text \<open>The witnesses.\<close>

theorem worker_settings_bounds_witness:
  "\<exists>s. load_worker_settings (mock_local_env(''WORKER_MAX_ATTEMPTS'' \<mapsto> ''ten'')) safety_defaults 1 = Inr s \<and>
     50 \<le> ws_webhookBaseBackoffMs s \<and> (\<nexists>n. attempts_used_up n (ws_maxAttempts s))"
proof -
  have "js_to_number ''ten'' = NaN"
    by (simp add: js_to_number_def js_trim_def js_space_def unsigned_number_def decimal_value_def is_digit_def Let_def less_eq_char_def)
  then show ?thesis
    using worker_settings_bounds [of "mock_local_env(''WORKER_MAX_ATTEMPTS'' \<mapsto> ''ten'')" safety_defaults 1]
    by (auto simp: load_worker_settings_def loadStellarConfig_def env_or_def shouldMockExternals_def mock_local_env_def
        sum_bind_def env_number_default_def Let_def)
qed

theorem main_needs_wallet_witness:
  "\<forall>w :: worker_world. \<exists>e w'. main sample_boot (testnet_env(''REDIS_URL'' \<mapsto> ''redis://r'')) [] 1 (ret ()) w = (Inl e, w')"
proof -
  let ?penv = "testnet_env(''REDIS_URL'' \<mapsto> ''redis://r'')"
  have "worker_enabled ?penv" "sc_network (loadStellarConfig ?penv) \<noteq> ''local''" "?penv ''MARKETPLACE_WALLET'' = None"
    by (simp_all add: worker_enabled_def env_set_def testnet_env_def loadStellarConfig_def env_or_def Let_def)
  from main_needs_wallet [OF this] show ?thesis by blast
qed

end
