(* ===== verification/Results.thy ===== *)
theory Results
  imports Samples Services
begin

text \<open>
  The hash of a result: whoever receives the payload, with its properties in whatever order the
  database or a parser left them, computes the hash that was published with it.
\<close>

section \<open>A publication on PostgreSQL\<close>

lemma find_upsert_new:
  assumes "\<And>r. same r \<Longrightarrow> same (upd r)" "same new"
  shows "\<exists>r. List.find same (upsert same upd new rs) = Some r \<and> (r = new \<or> (\<exists>r0. r = upd r0))"
  using assms by (induction rs) auto

lemma publish_result_pg:
  assumes "publish_result pg_result_repo i payload w = (Inr stored, w')"
  obtains v where "pg_jsonb w payload = Some v" "res_payload stored = v"
    "res_payloadHash stored = canonical_hash (w_ext w) payload"
proof -
  let ?hash = "canonical_hash (w_ext w) payload"
  obtain r1 w1 where up: "pg_result_upsert i payload ?hash w = (r1, w1)" by fastforce
  have rest: "bindE (pg_result_findByTaskId i) (\<lambda>found. case found of
      None \<Rightarrow> throw (JsError ''failed to persist result'') | Some s \<Rightarrow> ret s) w1 = (Inr stored, w')" and r1: "r1 = Inr ()"
    using assms up by (auto simp: publish_result_def pg_result_repo_def bindE_apply getsE_apply split: sum.splits)
  obtain u v where u: "pg_uuid w i = Some u" "pg_jsonb w payload = Some v"
    and w1: "pg_uuid w1 = pg_uuid w" "pg_results w1 = upsert (\<lambda>r. rw_task_id r = u)
       (\<lambda>r. r\<lparr> rw_payload_json := v, rw_payload_hash := ?hash \<rparr>)
       \<lparr> rw_task_id = u, rw_payload_json = v, rw_payload_hash = ?hash,
         rw_created_at = sql_now (w\<lparr>pg_queries := Suc (pg_queries w)\<rparr>) \<rparr> (pg_results w)"
    using up unfolding pg_result_upsert_def
    by (rule pg_query_cases) (auto simp: r1 split: if_splits)
  let ?upd = "\<lambda>r. r\<lparr> rw_payload_json := v, rw_payload_hash := ?hash \<rparr>"
  let ?new = "\<lparr> rw_task_id = u, rw_payload_json = v, rw_payload_hash = ?hash,
    rw_created_at = sql_now (w\<lparr>pg_queries := Suc (pg_queries w)\<rparr>) \<rparr>"
  have "\<exists>r. List.find (\<lambda>r. rw_task_id r = u) (pg_results w1) = Some r \<and> (r = ?new \<or> (\<exists>r0. r = ?upd r0))"
    unfolding w1(2) by (rule find_upsert_new) simp_all
  then obtain r where r: "List.find (\<lambda>r. rw_task_id r = u) (pg_results w1) = Some r"
    "rw_payload_json r = v" "rw_payload_hash r = ?hash" by auto
  have "pg_result_findByTaskId i w1 = (Inr (Some stored), w')"
    using rest by (auto simp: bindE_apply throw_apply ret_apply split: prod.splits sum.splits option.splits)
  then have "stored = row_to_result r"
    unfolding pg_result_findByTaskId_def using u(1) w1(1) r(1) by (auto dest!: pg_select_cases(2) [OF _ refl])
  then show ?thesis using r(2,3) u(2) by (intro that) (simp_all add: row_to_result_def)
qed

section \<open>Properties\<close>

text \<open>C10. A published result can be checked: the hash stored with it is the hash of the payload the database gives
  back, and of every payload that differs from the published one in the order of properties only, at any depth. It rests
  on \<open>jsonb\<close> keeping a value up to that order, and on \<open>localeCompare\<close> ordering the keys of the payload linearly.\<close>

theorem result_verifiable:
  assumes "publish_result pg_result_repo i payload w = (Inr stored, w')"
    and "\<And>v. pg_jsonb w payload = Some v \<Longrightarrow> json_equiv payload v"
    and "linear_on (json_keys payload) (x_locale_le (w_ext w))"
    and "json_equiv payload received"
  shows "res_payloadHash stored = canonical_hash (w_ext w) received \<and>
    res_payloadHash stored = canonical_hash (w_ext w) (res_payload stored)"
proof -
  obtain v where v: "pg_jsonb w payload = Some v" "res_payload stored = v"
    "res_payloadHash stored = canonical_hash (w_ext w) payload"
    using assms(1) by (rule publish_result_pg)
  have "json_equiv payload other \<Longrightarrow> canonical_hash (w_ext w) payload = canonical_hash (w_ext w) other" for other
    using canonicalize_equiv [OF _ assms(3) order_refl] by (simp add: canonical_hash_def)
  from this [OF assms(4)] this [OF assms(2) [OF v(1)]] show ?thesis unfolding v(2,3) by simp
qed

text \<open>The witness: a nested payload, which the database gives back in another order.\<close>

definition report :: json where
  "report = JObj [(''b'', JObj [(''y'', JNull), (''x'', JBool True)]), (''a'', JStr ''s'')]"

definition report_stored :: json where
  "report_stored = JObj [(''a'', JStr ''s''), (''b'', JObj [(''x'', JBool True), (''y'', JNull)])]"

lemma report_equiv: "json_equiv report report_stored"
proof -
  have inner: "json_equiv (JObj [(''y'', JNull), (''x'', JBool True)]) (JObj [(''x'', JBool True), (''y'', JNull)])"
    by (rule json_equiv.obj [where hs = "[(''y'', JNull), (''x'', JBool True)]"]) (auto intro: json_equiv.atom)
  show ?thesis unfolding report_def report_stored_def
    by (rule json_equiv.obj [where hs = "[(''b'', JObj [(''x'', JBool True), (''y'', JNull)]), (''a'', JStr ''s'')]"])
      (auto intro: json_equiv.atom inner)
qed

definition report_world :: pg_world where
  "report_world = (sample_pg [sample_task_row ''t'' ASSIGNED] [] (\<lambda>n. None))\<lparr>pg_jsonb := (\<lambda>j. Some report_stored)\<rparr>"

theorem result_verifiable_witness:
  "\<exists>stored w'. publish_result pg_result_repo ''t'' report report_world = (Inr stored, w') \<and>
    res_payload stored = report_stored \<and> res_payloadHash stored = canonical_hash sample_ext report_stored"
proof -
  have x: "w_ext report_world = sample_ext" by (simp add: report_world_def sample_pg_def)
  have "\<exists>stored w'. publish_result pg_result_repo ''t'' report report_world = (Inr stored, w') \<and> res_payload stored = report_stored"
    by (simp add: publish_result_def pg_result_repo_def bindE_apply getsE_apply pg_result_upsert_def pg_query_def
        pg_result_findByTaskId_def pg_select_def report_world_def sample_pg_def sample_task_row_def sql_uuid_def
        sql_jsonb_def row_to_result_def ret_apply)
  then obtain stored w' where run: "publish_result pg_result_repo ''t'' report report_world = (Inr stored, w')"
    "res_payload stored = report_stored" by blast
  have "linear_on (json_keys report) (x_locale_le sample_ext)"
    by (auto simp: linear_on_def sample_ext_def)
  then show ?thesis
    using result_verifiable [OF run(1), of report_stored] run report_equiv x
    by (auto simp: report_world_def)
qed

end
