(* ===== verification/Refinement.thy ===== *)
theory Refinement
  imports Lifecycle
begin

text \<open>
  What a server promises of the market, as a step relation on abstract markets that mentions neither
  repositories nor services: which changes a request may make, and with which answer. Both servers
  are proved to implement it, over whole runs.
\<close>

section \<open>The abstract market\<close>

text \<open>What the settings of a server contribute to the rules.\<close>

record policy =
  po_local :: bool
  po_denylist :: "string list"
  po_outbox :: bool

definition policy_of :: "'w server \<Rightarrow> policy" where
  "policy_of sv = \<lparr> po_local = sv_local sv, po_denylist = sv_executorDenylist sv, po_outbox = has_outbox sv \<rparr>"

text \<open>The answers that promise a change.\<close>

fun commits :: "request \<Rightarrow> response \<Rightarrow> bool" where
  "commits (CreateTask body) resp = (fst resp = 201)"
| "commits (CreatePaidTask body) resp = (fst resp = 201)"
| "commits (PlaceBid body) resp = (fst resp = 201)"
| "commits (SelectWinner i) resp = (fst resp = 200)"
| "commits rq resp = False"

text \<open>
  One request, with the answers of the environment (the parsers and keys of \<open>x\<close>, the clock \<open>now\<close>). A task
  is created with 201, or stored with a 500 when its event could not be; likewise a bid, which runs the auction; a
  task is assigned to a best pending bid, completed by its requester, or expired.
\<close>

inductive market_step :: "policy \<Rightarrow> ext \<Rightarrow> int \<Rightarrow> request \<Rightarrow> response \<Rightarrow> market \<Rightarrow> market \<Rightarrow> bool" for P x now where
  quiet: "\<not> commits rq resp \<Longrightarrow> market_step P x now rq resp M M"
| create: "local_task x body M M' \<Longrightarrow> fst resp = 201 \<or> fst resp = 500 \<Longrightarrow> market_step P x now (CreateTask body) resp M M'"
| create_paid: "paid_task x body M M' \<Longrightarrow> fst resp = 201 \<or> fst resp = 500 \<Longrightarrow>
    market_step P x now (CreatePaidTask body) resp M M'"
| bid: "bid_request x (po_local P) body = Inr input \<Longrightarrow> cbi_executor input \<notin> set (po_denylist P) \<Longrightarrow>
    placed input M M' \<Longrightarrow> fst resp = 201 \<Longrightarrow> market_step P x now (PlaceBid body) resp M M'"
| bid_stored: "bid_request x (po_local P) body = Inr input \<Longrightarrow> cbi_executor input \<notin> set (po_denylist P) \<Longrightarrow>
    new_bid input M M' \<Longrightarrow> po_outbox P \<Longrightarrow> fst resp = 500 \<Longrightarrow> market_step P x now (PlaceBid body) resp M M'"
| win: "mk_tasks M (mk_key M i) = Some t \<Longrightarrow> task_status t = OPEN \<Longrightarrow> best_bid (pending_bids M (mk_key M i)) b \<Longrightarrow>
    M' = settle (mk_key M i) b M \<Longrightarrow> market_step P x now (SelectWinner i) resp M M'"
| partly: "status_step M M' \<Longrightarrow> fst resp \<noteq> 200 \<Longrightarrow> market_step P x now (SelectWinner i) resp M M'"
| complete: "complete_requester x (po_local P) body = Inr requester \<Longrightarrow>
    may_complete (po_denylist P) M (mk_key M i) requester b \<Longrightarrow>
    M' = set_status (mk_key M i) (if po_outbox P then COMPLETING else COMPLETED) M \<Longrightarrow>
    market_step P x now (CompleteTask i body) resp M M'"
| expire: "\<forall>k \<in> set ids. may_expire (x_date_parse x) now M k \<Longrightarrow> M' = expire ids M \<Longrightarrow>
    fst resp = 200 \<Longrightarrow> resp = json_response 200 (JObj [(''expiredTaskIds'', JArr (map JStr ids))]) \<Longrightarrow>
    market_step P x now TimeoutCheck resp M M'"
| expire_fails: "\<forall>k \<in> set ids. may_expire (x_date_parse x) now M k \<Longrightarrow> M' = expire ids M \<Longrightarrow>
    fst resp = 500 \<Longrightarrow> market_step P x now TimeoutCheck resp M M'"

lemma market_step_same [simp]: "\<not> commits rq resp \<Longrightarrow> market_step P x now rq resp M M"
  by (rule)

text \<open>A run: the requests with the environment they met and the answers they got.\<close>

type_synonym exchange = "ext \<times> int \<times> request \<times> response"

inductive market_run :: "policy \<Rightarrow> exchange list \<Rightarrow> market \<Rightarrow> market \<Rightarrow> bool" for P where
  still: "market_run P [] M M"
| steps: "market_step P x now rq resp M M1 \<Longrightarrow> market_run P es M1 M' \<Longrightarrow> market_run P ((x, now, rq, resp) # es) M M'"

inductive server_run :: "'a env_scheme server \<Rightarrow> exchange list \<Rightarrow> 'a env_scheme \<Rightarrow> 'a env_scheme \<Rightarrow> bool" for sv where
  still: "server_run sv [] w w"
| steps: "serve sv rq w = (Inr resp, w1) \<Longrightarrow> server_run sv es w1 w' \<Longrightarrow>
    server_run sv ((w_ext w, w_now w (w_reads w), rq, resp) # es) w w'"

section \<open>The simulation\<close>

lemma serve_cases:
  assumes "serve sv rq w = (Inr resp, w')"
  obtains (returns) "controller sv rq w = (Inr resp, w')"
  | (throws) e where "controller sv rq w = (Inl e, w')" "fst resp = 500"
  using assms by (auto simp: serve_def handled_def catchE_apply ret_apply errorHandler_def split: prod.splits sum.splits)

context server_store
begin

lemma created_step:
  assumes "inv w" "fresh w" "serve sv (CreateTask body) w = (Inr resp, w')"
  shows "market_step (policy_of sv) (w_ext w) now (CreateTask body) resp (abs w) (abs w')"
  using assms(3)
proof (cases rule: serve_cases)
  case returns
  then have "answered 201 (local_task (w_ext w) body) (abs w) resp (abs w')"
    using spec_run [where g = w_ext, OF task_create_spec assms(1,2)] by fastforce
  then show ?thesis by (auto simp: answered_def split: if_splits intro: market_step.create)
next
  case (throws e)
  then have "abs w' = abs w \<or> local_task (w_ext w) body (abs w) (abs w')"
    using spec_run [where g = w_ext, OF task_create_spec assms(1,2)] by fastforce
  then show ?thesis using throws by (auto intro: market_step.create)
qed

lemma created_paid_step:
  assumes "inv w" "fresh w" "serve sv (CreatePaidTask body) w = (Inr resp, w')"
  shows "market_step (policy_of sv) (w_ext w) now (CreatePaidTask body) resp (abs w) (abs w')"
  using assms(3)
proof (cases rule: serve_cases)
  case returns
  then have "answered 201 (paid_task (w_ext w) body) (abs w) resp (abs w')"
    using spec_run [where g = w_ext, OF task_createPaid_spec assms(1,2)] by fastforce
  then show ?thesis by (auto simp: answered_def split: if_splits intro: market_step.create_paid)
next
  case (throws e)
  then have "abs w' = abs w \<or> paid_task (w_ext w) body (abs w) (abs w')"
    using spec_run [where g = w_ext, OF task_createPaid_spec assms(1,2)] by fastforce
  then show ?thesis using throws by (auto intro: market_step.create_paid)
qed

lemma bid_step:
  assumes "inv w" "fresh w" "serve sv (PlaceBid body) w = (Inr resp, w')"
  shows "market_step (policy_of sv) (w_ext w) now (PlaceBid body) resp (abs w) (abs w')"
  using assms(3)
proof (cases rule: serve_cases)
  case returns
  then have "answered 201 (bid_placed placed sv (w_ext w) body) (abs w) resp (abs w')"
    using spec_run [where g = w_ext, OF bid_create_spec [OF auction_makes_placed] assms(1,2)] by fastforce
  then show ?thesis
    by (auto simp: answered_def bid_placed_def policy_of_def split: if_splits intro: market_step.bid)
next
  case (throws e)
  then have "abs w' = abs w \<or> has_outbox sv \<and> bid_placed new_bid sv (w_ext w) body (abs w) (abs w')"
    using spec_run [where g = w_ext, OF bid_create_spec [OF auction_makes_placed] assms(1,2)] by fastforce
  then show ?thesis using throws
    by (auto simp: bid_placed_def policy_of_def intro: market_step.bid_stored)
qed

lemma completed_step:
  assumes "inv w" "fresh w" "serve sv (CompleteTask i body) w = (Inr resp, w')"
  shows "market_step (policy_of sv) (w_ext w) now (CompleteTask i body) resp (abs w) (abs w')"
proof -
  have spec: "hoare (\<lambda>w. in_market M w \<and> w_ext w = x) (task_complete sv i body)
      (\<lambda>_. market_in (complete_outcome sv x (mk_key M i) body M))
      (\<lambda>_. market_in (complete_outcome sv x (mk_key M i) body M))" for M x
    by (rule hoare_weaken [OF complete_spec [where x = x]]) (auto simp: in_market_in)
  obtain r where "task_complete sv i body w = (r, w')"
    using assms(3) by (cases rule: serve_cases) auto
  then have "complete_outcome sv (w_ext w) (mk_key (abs w) i) body (abs w) (abs w')"
    using spec_run [where g = w_ext, OF spec assms(1,2)] by (fastforce split: sum.splits)
  then show ?thesis
    by (auto simp: complete_outcome_def policy_of_def has_outbox_def
        intro: market_step.complete [where P = "policy_of sv", unfolded policy_of_def has_outbox_def, simplified])
qed

lemma selected_step:
  assumes "inv w" "fresh w" "serve sv (SelectWinner i) w = (Inr resp, w')"
  shows "market_step (policy_of sv) (w_ext w) now (SelectWinner i) resp (abs w) (abs w')"
proof -
  obtain r1 w1 where sel: "selectWinner (sv_tasks sv) (sv_bids sv) i w = (r1, w1)" by fastforce
  note run = selectWinner_run [OF assms(1) sel]
  have w1: "inv w1" "fresh w1" using run fresh_status_step [OF assms(2)] by auto
  show ?thesis
  proof (cases r1)
    case (Inl e)
    then have "w' = w1" "fst resp \<noteq> 200"
      using assms(3) sel by (auto simp: serve_def handled_def task_select_def prog_run error_response_def error_detail_def
          errorHandler_def split: exn.splits)
    then show ?thesis using run by (auto intro: market_step.partly)
  next
    case (Inr tb)
    obtain t b where tb: "tb = (t, b)" by fastforce
    obtain r2 w2 where emit: "emit_if (sv_outbox sv) ''task_assigned'' ''task'' (task_id t) (selection_json t b) w1 = (r2, w2)"
      by fastforce
    have "abs w2 = abs w1" using keeps_run [OF emit_if_keeps w1 emit] by simp
    moreover have "w' = w2"
      using assms(3) sel Inr tb emit
      by (cases r2) (auto simp: serve_def handled_def task_select_def prog_run split: exn.splits)
    ultimately show ?thesis using run Inr tb by (auto intro: market_step.win)
  qed
qed

lemma expired_step:
  assumes "inv w" "fresh w" "serve sv TimeoutCheck w = (Inr resp, w')"
  shows "market_step (policy_of sv) (w_ext w) (w_now w (w_reads w)) TimeoutCheck resp (abs w) (abs w')"
proof -
  obtain r1 w1 where run: "timeout_runOnce sv w = (r1, w1)" by fastforce
  have pre: "in_market (abs w) w \<and> w_ext w = w_ext w \<and> w_now w (w_reads w) = w_now w (w_reads w)"
    using assms(1,2) by (simp add: in_market_def)
  have w': "w1 = w'" and resp: "resp = (case r1 of Inr ids \<Rightarrow> json_response 200 (JObj [(''expiredTaskIds'', JArr (map JStr ids))])
      | Inl err \<Rightarrow> error_detail 500 ''timeout check failed'' err)"
    using assms(3) run
    by (auto simp: serve_def handled_def timeout_check_def tryE_apply catchE_apply ret_apply split: sum.splits)
  show ?thesis
  proof (cases r1)
    case (Inr ids)
    then have "swept (x_date_parse (w_ext w)) (w_now w (w_reads w)) (abs w) ids w'"
      using hoareD_Inr [OF timeout_runOnce_spec pre] run w' by blast
    then show ?thesis using resp Inr
      by (auto simp: swept_def in_market_def json_response_def intro!: market_step.expire)
  next
    case (Inl e)
    then obtain ids where "swept (x_date_parse (w_ext w)) (w_now w (w_reads w)) (abs w) ids w'"
      using hoareD_Inl [OF timeout_runOnce_spec pre] run w' by blast
    then show ?thesis using resp Inl
      by (auto simp: swept_def in_market_def error_detail_def intro!: market_step.expire_fails)
  qed
qed

text \<open>One request.\<close>

lemma serve_refines:
  assumes "inv w" "fresh w" "serve sv rq w = (Inr resp, w')"
  shows "market_step (policy_of sv) (w_ext w) (w_now w (w_reads w)) rq resp (abs w) (abs w') \<and> inv w' \<and> fresh w'"
proof -
  have next_inv: "inv w' \<and> fresh w'" using serve_lifecycle [OF assms(3)] assms(1,2) by (simp add: lifecycle_def)
  have same: "abs w' = abs w" if "keeps (controller sv rq)"
    using serve_world [OF assms(3)] keeps_run [OF that assms(1,2) prod.collapse [symmetric]] by simp
  have "market_step (policy_of sv) (w_ext w) (w_now w (w_reads w)) rq resp (abs w) (abs w')"
    by (cases rq)
      (use assms created_step created_paid_step bid_step completed_step selected_step expired_step same in
        \<open>auto simp: task_getById_keeps executor_register_keeps result_publish_keeps result_get_keeps
          \<close>)
  with next_inv show ?thesis by simp
qed

text \<open>And runs.\<close>

lemma run_refines:
  assumes "server_run sv es w w'" "inv w" "fresh w"
  shows "market_run (policy_of sv) es (abs w) (abs w') \<and> inv w' \<and> fresh w'"
  using assms
proof (induction rule: server_run.induct)
  case (steps rq w resp w1 es w')
  then show ?case using serve_refines [OF _ _ steps.hyps(1)] by (blast intro: market_run.steps)
qed (simp add: market_run.still)

end


section \<open>Properties\<close>





end
