(* ===== verification/Client.thy ===== *)
theory Client
  imports App Startup
begin

text \<open>
  The clients of the API: \<open>frontend/src/api.ts\<close>, which signs the requests of the web page, and
  \<open>scripts/validate-signed-requests.ts\<close>, which checks a signed request against the middlewares; and
  how each fares with \<open>issueNonce\<close> and \<open>signatureAuth\<close>.
\<close>

section \<open>The browser\<close>

text \<open>A call of \<open>fetch\<close>; it answers with a status and what \<open>response.json()\<close> gives, or throws.\<close>

record fetch_init =
  fi_method :: "string option"
  fi_headers :: "(string \<times> string) list"
  fi_body :: "string option"

text \<open>
  What the page uses: the variables of its build, \<open>fetch\<close>, the clock, random UUIDs, the SHA-256 of a
  text (its bytes), the public key of a secret (which may throw), the base 64 text of a signature, and the text of a number.
\<close>

record 'w browser =
  br_env :: process_env
  br_fetch :: "string \<Rightarrow> fetch_init \<Rightarrow> ('w, int \<times> (exn + json)) prog"
  br_now :: "('w, int) prog"
  br_uuid :: "('w, string) prog"
  br_digest :: "string \<Rightarrow> nat list"
  br_publicKey :: "string \<Rightarrow> exn + string"
  br_sign :: "string \<Rightarrow> string \<Rightarrow> string"
  br_num_string :: "rat \<Rightarrow> string"

definition API :: "'w browser \<Rightarrow> string" where
  "API br = env_or (br_env br) ''VITE_API_URL'' []"

definition USE_SIGNING :: "'w browser \<Rightarrow> bool" where
  "USE_SIGNING br \<longleftrightarrow> env_or (br_env br) ''VITE_NETWORK'' ''local'' \<noteq> ''local''"

text \<open>\<open>body.error || body.detail || JSON.stringify(body)\<close>, as the text of an error.\<close>

fun truthy :: "json \<Rightarrow> bool" where
  "truthy JNull = False"
| "truthy (JBool b) = b"
| "truthy (JNum x) = (x \<noteq> 0)"
| "truthy (JStr s) = (s \<noteq> [])"
| "truthy _ = True"

definition property :: "json \<Rightarrow> string \<Rightarrow> exn + json option" where
  "property j k = (if j = JNull then Inl (JsError (''Cannot read properties of null (reading '' @ k @ '')''))
     else Inr (jfield j k))"

definition error_of :: "(rat \<Rightarrow> string) \<Rightarrow> json \<Rightarrow> exn" where
  "error_of num body = (case property body ''error'' of
      Inl e \<Rightarrow> e
    | Inr error \<Rightarrow> JsError (case (error, jfield body ''detail'') of
        (Some e, d) \<Rightarrow> if truthy e then js_String num e
          else (case d of Some d \<Rightarrow> if truthy d then js_String num d else json_stringify num body
            | None \<Rightarrow> json_stringify num body)
      | (None, Some d) \<Rightarrow> if truthy d then js_String num d else json_stringify num body
      | (None, None) \<Rightarrow> json_stringify num body))"

definition api_request :: "'w browser \<Rightarrow> string \<Rightarrow> fetch_init \<Rightarrow> ('w, json) prog" where
  "api_request br path init =
     bindE (br_fetch br (API br @ path) init) (\<lambda>(status, json).
     bindE (liftE json) (\<lambda>body.
     if \<not> response_ok status then throw (error_of (br_num_string br) body) else ret body))"

definition hex_byte :: "nat \<Rightarrow> string" where
  "hex_byte b = [hex_digit (b div 16), hex_digit (b mod 16)]"

definition sha256Hex :: "'w browser \<Rightarrow> string \<Rightarrow> string" where
  "sha256Hex br input = concat (map hex_byte (br_digest br input))"

section \<open>Signed requests\<close>

text \<open>\<open>Headers\<close>: names are compared without their case.\<close>

definition to_lower :: "char \<Rightarrow> char" where
  "to_lower c = (let n = (of_char c :: nat) in if 65 \<le> n \<and> n \<le> 90 then char_of (n + 32) else c)"

definition header_set :: "string \<Rightarrow> string \<Rightarrow> (string \<times> string) list \<Rightarrow> (string \<times> string) list" where
  "header_set k v hs = (map to_lower k, v) # filter (\<lambda>h. map to_lower (fst h) \<noteq> map to_lower k) hs"

definition header_get :: "(string \<times> string) list \<Rightarrow> string \<Rightarrow> string option" where
  "header_get hs k = map_of (map (\<lambda>(k, v). (map to_lower k, v)) hs) (map to_lower k)"

definition nonce_init :: "(rat \<Rightarrow> string) \<Rightarrow> string \<Rightarrow> fetch_init" where
  "nonce_init num publicKey = \<lparr> fi_method = Some ''POST'', fi_headers = [(''Content-Type'', ''application/json'')],
     fi_body = Some (json_stringify num (JObj [(''publicKey'', JStr publicKey)])) \<rparr>"

text \<open>The text of a property of the answer; a missing one is \<open>undefined\<close>.\<close>

definition text_of :: "(rat \<Rightarrow> string) \<Rightarrow> json option \<Rightarrow> string" where
  "text_of num v = (case v of None \<Rightarrow> ''undefined'' | Some j \<Rightarrow> js_String num j)"

definition canonical_text :: "string \<Rightarrow> string \<Rightarrow> string \<Rightarrow> string \<Rightarrow> string \<Rightarrow> string" where
  "canonical_text httpMethod path timestamp nonce bodyHash =
     httpMethod @ newline # path @ newline # timestamp @ newline # nonce @ newline # bodyHash"

definition method_of :: "fetch_init \<Rightarrow> string" where
  "method_of init = (case fi_method init of None \<Rightarrow> ''GET'' | Some m \<Rightarrow> if m = [] then ''GET'' else m)"

definition body_hash :: "'w browser \<Rightarrow> fetch_init \<Rightarrow> string" where
  "body_hash br init = (case fi_body init of None \<Rightarrow> [] | Some b \<Rightarrow> if b = [] then [] else sha256Hex br b)"

definition signed_init ::
  "'w browser \<Rightarrow> string \<Rightarrow> string \<Rightarrow> string \<Rightarrow> fetch_init \<Rightarrow> string \<Rightarrow> string \<Rightarrow> fetch_init" where
  "signed_init br secretKey publicKey path init timestamp nonce =
     (let payload = canonical_text (method_of init) path timestamp nonce (body_hash br init);
          signature = br_sign br secretKey payload
      in init\<lparr>fi_headers := header_set ''x-tg-signature'' signature (header_set ''x-tg-nonce'' nonce
           (header_set ''x-tg-timestamp'' timestamp (header_set ''x-tg-public-key'' publicKey (fi_headers init))))\<rparr>)"

definition signedRequest :: "'w browser \<Rightarrow> string \<Rightarrow> fetch_init \<Rightarrow> string option \<Rightarrow> ('w, json) prog" where
  "signedRequest br path init secretKey =
     (case secretKey of
        None \<Rightarrow> api_request br path init
      | Some secret \<Rightarrow>
          if \<not> USE_SIGNING br \<or> secret = [] then api_request br path init
          else bindE (liftE (br_publicKey br secret)) (\<lambda>publicKey.
               bindE (api_request br ''/auth/nonce'' (nonce_init (br_num_string br) publicKey)) (\<lambda>nonceRes.
               bindE (br_now br) (\<lambda>timestamp.
               bindE (liftE (property nonceRes ''nonce'')) (\<lambda>nonce.
               api_request br path (signed_init br secret publicKey path init (int_string timestamp)
                 (text_of (br_num_string br) nonce)))))))"

section \<open>The calls of the page\<close>

definition plain_init :: fetch_init where
  "plain_init = \<lparr> fi_method = None, fi_headers = [], fi_body = None \<rparr>"

definition getHealth :: "'w browser \<Rightarrow> ('w, json) prog" where
  "getHealth br = api_request br ''/health'' plain_init"

definition getTask :: "'w browser \<Rightarrow> string \<Rightarrow> ('w, json) prog" where
  "getTask br taskId = api_request br (''/tasks/'' @ taskId) plain_init"

definition getHealthDetailed :: "'w browser \<Rightarrow> ('w, json) prog" where
  "getHealthDetailed br = api_request br ''/health/detailed'' plain_init"

definition getNonce :: "'w browser \<Rightarrow> string \<Rightarrow> ('w, json) prog" where
  "getNonce br publicKey = api_request br ''/auth/nonce'' (nonce_init (br_num_string br) publicKey)"

definition json_post :: "'w browser \<Rightarrow> json \<Rightarrow> ('w, fetch_init) prog" where
  "json_post br body = bindE (br_uuid br) (\<lambda>key. ret
     \<lparr> fi_method = Some ''POST'', fi_headers = [(''Content-Type'', ''application/json''), (''Idempotency-Key'', key)],
       fi_body = Some (json_stringify (br_num_string br) body) \<rparr>)"

definition registerExecutor :: "'w browser \<Rightarrow> string \<Rightarrow> string \<Rightarrow> ('w, json) prog" where
  "registerExecutor br secret metadataUri =
     (if USE_SIGNING br
      then bindE (br_uuid br) (\<lambda>key.
           bindE (liftE (br_publicKey br secret)) (\<lambda>publicKey.
           signedRequest br ''/executors/register''
             \<lparr> fi_method = Some ''POST'', fi_headers = [(''Content-Type'', ''application/json''), (''Idempotency-Key'', key)],
               fi_body = Some (json_stringify (br_num_string br)
                 (JObj [(''publicKey'', JStr publicKey), (''metadataUri'', JStr metadataUri)])) \<rparr> (Some secret)))
      else bindE (json_post br (JObj [(''secret'', JStr secret), (''metadataUri'', JStr metadataUri)])) (\<lambda>init.
           api_request br ''/executors/register'' init))"

definition createTask ::
  "'w browser \<Rightarrow> string \<Rightarrow> string \<Rightarrow> string \<Rightarrow> string \<Rightarrow> string \<Rightarrow> ('w, json) prog" where
  "createTask br requester secret reservePrice description deadline =
     bindE (json_post br (JObj ([(''requester'', JStr requester)] @
         (if USE_SIGNING br then [] else [(''secret'', JStr secret)]) @
         [(''reservePrice'', JStr reservePrice), (''description'', JStr description), (''deadline'', JStr deadline)]))) (\<lambda>init.
     signedRequest br ''/tasks'' init (Some secret))"

definition placeBid ::
  "'w browser \<Rightarrow> string \<Rightarrow> string \<Rightarrow> string \<Rightarrow> string \<Rightarrow> string \<Rightarrow> ('w, json) prog" where
  "placeBid br taskId executor secret amount collateral =
     bindE (json_post br (JObj ([(''taskId'', JStr taskId), (''executor'', JStr executor)] @
         (if USE_SIGNING br then [] else [(''secret'', JStr secret)]) @
         [(''amount'', JStr amount), (''collateral'', JStr collateral)]))) (\<lambda>init.
     signedRequest br ''/bids'' init (Some secret))"

definition selectBid :: "'w browser \<Rightarrow> string \<Rightarrow> string \<Rightarrow> ('w, json) prog" where
  "selectBid br taskId adminSecret =
     bindE (br_uuid br) (\<lambda>key.
     api_request br (''/tasks/'' @ taskId @ ''/select'')
       \<lparr> fi_method = Some ''POST'', fi_headers = [(''Content-Type'', ''application/json''),
           (''x-admin-secret'', adminSecret), (''Idempotency-Key'', key)], fi_body = None \<rparr>)"

definition publishResult ::
  "'w browser \<Rightarrow> string \<Rightarrow> string \<Rightarrow> json \<Rightarrow> string option \<Rightarrow> ('w, json) prog" where
  "publishResult br taskId executorPublicKey payload secret =
     bindE (json_post br (JObj [(''executorPublicKey'', JStr executorPublicKey), (''payload'', payload)])) (\<lambda>init.
     signedRequest br (''/executor/tasks/'' @ taskId @ ''/result'') init secret)"

definition completeTask :: "'w browser \<Rightarrow> string \<Rightarrow> string \<Rightarrow> string \<Rightarrow> ('w, json) prog" where
  "completeTask br taskId requester secret =
     bindE (json_post br (JObj ([(''requester'', JStr requester)] @
         (if USE_SIGNING br then [] else [(''secret'', JStr secret)])))) (\<lambda>init.
     signedRequest br (''/tasks/'' @ taskId @ ''/complete'') init (Some secret))"

definition getResult :: "'w browser \<Rightarrow> string \<Rightarrow> ('w, json) prog" where
  "getResult br taskId = api_request br (''/executor/tasks/'' @ taskId @ ''/result'') plain_init"

section \<open>On the wire\<close>

text \<open>
  How a call of \<open>fetch\<close> becomes a request the server sees, and what \<open>response.json()\<close> makes of the
  answer: Express and HTTP, a parameter. A request has arrived as it was sent when path, method,
  headers (in lower case) and body are those of the call.
\<close>

record network =
  net_deliver :: "string \<Rightarrow> fetch_init \<Rightarrow> http_request"
  net_read :: "body \<Rightarrow> exn + json"

definition fetch_from ::
  "network \<Rightarrow> 'w handler \<Rightarrow> string \<Rightarrow> fetch_init \<Rightarrow> ('w, int \<times> (exn + json)) prog" where
  "fetch_from net handler url init =
     bindE (handler (net_deliver net url init)) (\<lambda>(status, body). ret (int status, net_read net body))"

definition arrives :: "string \<Rightarrow> fetch_init \<Rightarrow> http_request \<Rightarrow> bool" where
  "arrives path init rq \<longleftrightarrow> getRequestPath rq = path \<and> rq_method rq = method_of init \<and>
     (\<forall>k. map to_lower k = k \<longrightarrow> rq_header rq k = header_get (fi_headers init) k) \<and> rq_rawBody rq = fi_body init"

text \<open>The part of the server a signed request meets: the route of the nonces, and a handler behind \<open>signatureAuth\<close>.\<close>

definition site :: "process_env \<Rightarrow> signature_auth_options \<Rightarrow> 'a env_scheme handler \<Rightarrow> 'a env_scheme handler" where
  "site penv opts next rq = handled
     (if getRequestPath rq = ''/auth/nonce'' then issueNonce penv rq else signatureAuth penv opts next rq)"

lemma to_lower_idem [simp]: "to_lower (to_lower c) = to_lower c"
  by (simp add: to_lower_def Let_def)

lemma map_lower_idem [simp]: "map to_lower (map to_lower k) = map to_lower k"
  by (simp add: comp_def)

lemma header_get_set [simp]:
  "header_get (header_set k v hs) k' = (if map to_lower k' = map to_lower k then Some v else header_get hs k')"
proof (cases "map to_lower k' = map to_lower k")
  case False
  then have "map_of (map (\<lambda>(k, v). (map to_lower k, v)) (filter (\<lambda>h. map to_lower (fst h) \<noteq> map to_lower k) hs)) (map to_lower k') =
      map_of (map (\<lambda>(k, v). (map to_lower k, v)) hs) (map to_lower k')"
    by (induction hs) auto
  with False show ?thesis by (auto simp: header_get_def header_set_def comp_def)
qed (simp add: header_get_def header_set_def comp_def)

lemma signed_headers:
  assumes "arrives path (signed_init br secret pk path init ts nonce) rq"
  shows "header_text rq ''x-tg-public-key'' = pk" "header_text rq ''x-tg-timestamp'' = ts"
    "header_text rq ''x-tg-nonce'' = nonce" "header_text rq ''x-tg-signature'' = br_sign br secret
       (canonical_text (method_of init) path ts nonce (body_hash br init))"
    "getRequestPath rq = path" "rq_method rq = method_of init" "rq_rawBody rq = fi_body init"
proof -
  have lower: "map to_lower ''x-tg-public-key'' = ''x-tg-public-key''" "map to_lower ''x-tg-timestamp'' = ''x-tg-timestamp''"
    "map to_lower ''x-tg-nonce'' = ''x-tg-nonce''" "map to_lower ''x-tg-signature'' = ''x-tg-signature''"
    by code_simp+
  show "header_text rq ''x-tg-public-key'' = pk" "header_text rq ''x-tg-timestamp'' = ts"
    "header_text rq ''x-tg-nonce'' = nonce" "header_text rq ''x-tg-signature'' = br_sign br secret
       (canonical_text (method_of init) path ts nonce (body_hash br init))"
    using assms lower by (simp_all add: arrives_def header_text_def signed_init_def Let_def)
  show "getRequestPath rq = path" "rq_method rq = method_of init" "rq_rawBody rq = fi_body init"
    using assms by (simp_all add: arrives_def signed_init_def Let_def method_of_def)
qed

lemma nat_string_inj: "nat_string m = nat_string n \<longleftrightarrow> m = n"
  by (metis digits_value_nat_string)

lemma int_string_inj: "int_string m = int_string n \<longleftrightarrow> m = n"
proof -
  have "\<not> is_digit (CHR ''-'')" by code_simp
  then have "CHR ''-'' # s \<noteq> nat_string k" for s k
    using nat_string_digits [of k] by (metis list.pred_inject(2))
  then show ?thesis by (auto simp: int_string_def nat_string_inj dest: sym)
qed

section \<open>Issuing, again\<close>

lemma env_only_issueNonce: "env_only (issueNonce penv rq)"
  unfolding issueNonce_def record_nonce_def Let_def
  by (intro env_only_rules env_only_bind | simp split: if_split | intro conjI impI)+

text \<open>An answer with a good status is a nonce.\<close>

lemma issueNonce_answer:
  assumes "issueNonce penv rq w = (Inr resp, w')" "fst resp < 300"
  obtains timestamp nonce where
    "resp = (200, JsonBody (nonce_json (body_text (x_num_string (w_ext w)) (rq_body rq) ''publicKey'') timestamp nonce))"
proof -
  let ?pk = "body_text (x_num_string (w_ext w)) (rq_body rq) ''publicKey''"
  have "\<forall>resp w'. issueNonce penv rq w = (Inr resp, w') \<longrightarrow> fst resp < 300 \<longrightarrow>
      (\<exists>t n. resp = (200, JsonBody (nonce_json ?pk t n)))"
    unfolding issueNonce_def bindE_getsE Let_def
    by (auto simp: bindE_record_nonce ret_apply error_response_def elim!: bindE_returns split: if_splits) blast
  then show ?thesis using assms that by blast
qed

section \<open>The page and the server\<close>

text \<open>A page whose calls reach \<open>handler\<close> as they were sent; a path has no query.\<close>

definition page_of :: "'a env_scheme browser \<Rightarrow> network \<Rightarrow> 'a env_scheme handler \<Rightarrow> bool" where
  "page_of br net handler \<longleftrightarrow> br_fetch br = fetch_from net handler \<and> br_now br = date_now \<and>
     (\<forall>path init. CHR ''?'' \<notin> set path \<longrightarrow> arrives path init (net_deliver net (API br @ path) init)) \<and>
     (\<forall>j. net_read net (JsonBody j) = Inr j)"

lemma page_arrives:
  "page_of br net handler \<Longrightarrow> CHR ''?'' \<notin> set path \<Longrightarrow> arrives path init (net_deliver net (API br @ path) init)"
  by (simp add: page_of_def)

lemma request_page:
  assumes "page_of br net handler" "handler (net_deliver net (API br @ path) init) w = (Inr resp, w')"
  shows "api_request br path init w = (case net_read net (snd resp) of
      Inl e \<Rightarrow> (Inl e, w')
    | Inr body \<Rightarrow> if response_ok (int (fst resp)) then (Inr body, w') else (Inl (error_of (br_num_string br) body), w'))"
  using assms
  by (cases resp) (auto simp: api_request_def page_of_def fetch_from_def bindE_apply ret_apply liftE_apply throw_apply split: sum.split)

lemma site_nonce:
  assumes "page_of br net (site penv opts next)"
    and "api_request br ''/auth/nonce'' init w = (Inr (nonce_json pk t nonce), w1)"
  shows "\<exists>rq. issueNonce penv rq w = (Inr (200, JsonBody (nonce_json pk t nonce)), w1)"
proof -
  let ?rq = "net_deliver net (API br @ ''/auth/nonce'') init"
  have path: "getRequestPath ?rq = ''/auth/nonce''" using assms(1) by (simp add: page_of_def arrives_def)
  obtain r w2 where run: "issueNonce penv ?rq w = (r, w2)" by fastforce
  show ?thesis
  proof (cases r)
    case (Inl e)
    then have "site penv opts next ?rq w = (Inr (errorHandler e), w2)"
      using run path by (simp add: site_def handled_def catchE_apply ret_apply)
    then show ?thesis using request_page [OF assms(1)] assms(2)
      by (auto simp: errorHandler_def response_ok_def split: sum.splits)
  next
    case (Inr resp)
    then have site: "site penv opts next ?rq w = (Inr resp, w2)"
      using run path by (simp add: site_def handled_def catchE_apply)
    note req = request_page [OF assms(1) site] assms(2)
    then have ok: "fst resp < 300" "w2 = w1" by (auto simp: response_ok_def split: sum.splits if_splits)
    obtain t' nonce' where resp: "resp = (200, JsonBody (nonce_json
        (body_text (x_num_string (w_ext w)) (rq_body ?rq) ''publicKey'') t' nonce'))"
      using issueNonce_answer [OF run [unfolded Inr] ok(1)] .
    have "nonce_json (body_text (x_num_string (w_ext w)) (rq_body ?rq) ''publicKey'') t' nonce' = nonce_json pk t nonce"
      using req resp assms(1) by (simp add: page_of_def response_ok_def)
    then show ?thesis using run Inr resp ok(2) by metis
  qed
qed

lemma signedRequest_run:
  assumes "br_now br = date_now" "USE_SIGNING br" "secret \<noteq> []" "br_publicKey br secret = Inr pk"
    and "api_request br ''/auth/nonce'' (nonce_init (br_num_string br) pk) w = (Inr (nonce_json pk t nonce), w1)"
  shows "signedRequest br path init (Some secret) w =
    api_request br path (signed_init br secret pk path init (int_string (w_now w1 (w_reads w1))) nonce)
      (w1\<lparr>w_reads := Suc (w_reads w1)\<rparr>)"
  using assms
  by (simp add: signedRequest_def liftE_apply bindE_apply date_now_def property_def nonce_json_def text_of_def)

text \<open>C12. The page signs with its own clock. A nonce is stored with the time at which it was issued, and \<open>signatureAuth\<close>
  wants the time stamp of the request to be that one: unless the clock of the browser shows the same millisecond as the
  clock of the server did, a signed call of the page throws, and no table changes.\<close>

theorem own_clock_refused:
  assumes "page_of br net (site penv opts next)" "USE_SIGNING br" "secret \<noteq> []" "br_publicKey br secret = Inr pk"
    and "\<not> auth_bypassed penv opts" "sa_required opts" "penv ''TG_ALLOW_CLIENT_NONCE'' \<noteq> Some ''true''"
    and "path \<noteq> ''/auth/nonce''" "CHR ''?'' \<notin> set path"
    and "api_request br ''/auth/nonce'' (nonce_init (br_num_string br) pk) w = (Inr (nonce_json pk t nonce), w1)"
    and "w_now w1 (w_reads w1) \<noteq> t"
  shows "\<exists>e w'. signedRequest br path init (Some secret) w = (Inl e, w') \<and> env.more w' = env.more w"
proof -
  obtain rq0 where issued: "issueNonce penv rq0 w = (Inr (200, JsonBody (nonce_json pk t nonce)), w1)"
    using site_nonce [OF assms(1,10)] by blast
  let ?w2 = "w1\<lparr>w_reads := Suc (w_reads w1)\<rparr>"
    and ?init = "signed_init br secret pk path init (int_string (w_now w1 (w_reads w1))) nonce"
  let ?rq = "net_deliver net (API br @ path) ?init"
  have now: "br_now br = date_now" and arrived: "arrives path ?init ?rq"
    using assms(1,9) by (simp_all add: page_of_def)
  note hdr = signed_headers [OF arrived]
  obtain r w3 where run: "signatureAuth penv opts next ?rq ?w2 = (r, w3)" by fastforce
  have "\<not> authentic penv opts ?rq ?w2 w4" for w4
    using issueNonce_stored [OF issued] assms(7,11) by (auto simp: authentic_def Let_def hdr int_string_inj)
  then have refused: "refused r" "env_step ?w2 w3" using signatureAuth_passes [OF assms(5,6) run] by blast+
  have "env.more w1 = env.more w" using env_onlyD_more [OF env_only_issueNonce issued] .
  then have more: "env.more w3 = env.more w" using refused(2) by (simp add: env_step_def)
  have "site penv opts next ?rq ?w2 = (Inr (case r of Inl e \<Rightarrow> errorHandler e | Inr resp \<Rightarrow> resp), w3)"
    using run hdr(5) assms(8) by (simp add: site_def handled_def catchE_apply ret_apply split: sum.split)
  from request_page [OF assms(1) this] have "\<exists>e. api_request br path ?init ?w2 = (Inl e, w3)"
    using refused(1) by (auto simp: refused_def errorHandler_def response_ok_def split: sum.splits)
  then show ?thesis using signedRequest_run [OF now assms(2-4,10)] more by metis
qed

section \<open>A request signed with the nonce's time\<close>

text \<open>What a request does not change of the world.\<close>

definition same_world :: "'a env_scheme \<Rightarrow> 'a env_scheme \<Rightarrow> bool" where
  "same_world w w' \<longleftrightarrow> w_ext w' = w_ext w \<and> w_now w' = w_now w \<and> w_uuid w' = w_uuid w \<and>
     rd_fault (w_redis w') = rd_fault (w_redis w) \<and> rd_time (w_redis w') = rd_time (w_redis w)"

lemma client_up:
  assumes "redis_up penv w"
  obtains w1 where "getRedisClient penv w = (Inr (), w1)" "same_world w w1" "w_reads w1 = w_reads w"
    "w_uuids w1 = w_uuids w" "rd_keys (w_redis w1) = rd_keys (w_redis w)"
  using assms
  by (cases "w_redis_client w")
    (auto simp: redis_up_def getRedisClient_def bindE_apply getsE_apply modifyE_apply ret_apply redis_cmd_up same_world_def)

lemma up_same: "redis_up penv w \<Longrightarrow> same_world w w' \<Longrightarrow> redis_up penv w'"
  by (simp add: redis_up_def same_world_def)

text \<open>The first nonce for an address and a key.\<close>

lemma issueNonce_runs:
  assumes "redis_up penv w" "body_text (x_num_string (w_ext w)) (rq_body rq) ''publicKey'' = pk" "pk \<noteq> []" "x_key_ok (w_ext w) pk"
    and "rd_keys (w_redis w) (authnonce_ip_key (rq_ip rq)) = None" "rd_keys (w_redis w) (nonce_key pk (w_uuid w (w_uuids w))) = None"
  obtains w' where "issueNonce penv rq w =
      (Inr (200, JsonBody (nonce_json pk (w_now w (w_reads w)) (w_uuid w (w_uuids w)))), w')"
    "same_world w w'" "w_reads w' = Suc (w_reads w)"
proof -
  let ?ip = "authnonce_ip_key (rq_ip rq)" and ?key = "nonce_key pk (w_uuid w (w_uuids w))" and ?t = "w_now w (w_reads w)"
  have keys: "?key \<noteq> ?ip" by (simp add: nonce_key_def authnonce_ip_key_def)
  obtain w1 where w1: "getRedisClient penv w = (Inr (), w1)" "same_world w w1" "w_reads w1 = w_reads w"
    "w_uuids w1 = w_uuids w" "rd_keys (w_redis w1) = rd_keys (w_redis w)" using client_up [OF assms(1)] .
  have up1: "\<forall>n. rd_fault (w_redis w1) n = None" using redis_upD [OF up_same [OF assms(1) w1(2)]] .
  obtain w2 where w2: "incrWithTtl ?ip 60 w1 = (Inr 1, w2)" "same_world w1 w2" "w_reads w2 = w_reads w1"
    "w_uuids w2 = w_uuids w1" "rd_keys (w_redis w2) ?key = rd_keys (w_redis w1) ?key"
    using up1 w1(5) assms(5) keys
    by (auto simp: incrWithTtl_def bindE_apply redis_cmd_up rd_INCR_def rd_EXPIRE_def rd_lookup_def ret_apply same_world_def)
  let ?w3 = "w2\<lparr>w_reads := Suc (w_reads w2), w_uuids := Suc (w_uuids w2)\<rparr>"
  have up3: "\<forall>n. rd_fault (w_redis ?w3) n = None" using up1 w2(2) by (simp add: same_world_def)
  have none: "rd_lookup (w_redis ?w3) ?key = None" using w2(5) w1(5) assms(6) by (simp add: rd_lookup_def)
  obtain w4 where w4: "redis_cmd (rd_SET_NX_EX ?key (int_string ?t) 600) ?w3 = (Inr True, w4)" "same_world ?w3 w4"
    "w_reads w4 = w_reads ?w3"
    using none by (auto simp: redis_cmd_up [OF up3] rd_SET_NX_EX_def same_world_def)
  let ?w5 = "w4\<lparr>w_log := w_log w4 @ [MetricInc ''tg_auth_nonce_requests_total'' [nat_string 200]]\<rparr>"
  have now: "w_now w2 (w_reads w2) = ?t" "w_uuid w2 (w_uuids w2) = w_uuid w (w_uuids w)"
    using w1 w2 by (simp_all add: same_world_def)
  have "issueNonce penv rq w = (Inr (200, JsonBody (nonce_json pk ?t (w_uuid w (w_uuids w)))), ?w5)"
    using w1(1) w2(1) w4(1) now assms(2-4)
    by (simp add: issueNonce_def bindE_getsE Let_def bindE_apply [of "getRedisClient penv"] bindE_apply [of "incrWithTtl _ _"]
        bindE_date_now bindE_randomUUID bindE_apply [of "redis_cmd _"] bindE_record_nonce ret_apply)
  moreover have "same_world w ?w5" using w1(2) w2(2) w4(2) by (simp add: same_world_def)
  ultimately show ?thesis using w1(3) w2(3) w4(3) by (intro that [of ?w5]) simp_all
qed

lemma signatureAuth_accepts:
  assumes "redis_up penv w" "\<not> auth_bypassed penv opts" "pk \<noteq> []" "nonce \<noteq> []" "ts \<noteq> []" "sig \<noteq> []"
    and hdr: "header_text rq ''x-tg-public-key'' = pk" "header_text rq ''x-tg-timestamp'' = ts"
      "header_text rq ''x-tg-nonce'' = nonce" "header_text rq ''x-tg-signature'' = sig"
    and "timestamp_error (w_now w (w_reads w)) ts = None" "field_mismatch opts rq pk = None" "x_key_ok (w_ext w) pk"
    and "x_verify (w_ext w) pk (signed_payload (w_ext w) rq ts nonce) (parseSignature sig) = Inr True"
    and "rd_keys (w_redis w) (nonce_key pk nonce) = Some (RText ts, Some expiry)" "\<And>n. rd_time (w_redis w) n < expiry"
  shows "\<exists>w1. signatureAuth penv opts next rq w = next (rq\<lparr>rq_authPublicKey := Some pk\<rparr>) w1 \<and> same_world w w1"
proof -
  let ?w0 = "w\<lparr>w_reads := Suc (w_reads w)\<rparr>"
  have up0: "redis_up penv ?w0" using assms(1) by (simp add: redis_up_def)
  obtain w1 where w1: "getRedisClient penv ?w0 = (Inr (), w1)" "same_world ?w0 w1" "rd_keys (w_redis w1) = rd_keys (w_redis ?w0)"
    using client_up [OF up0] by metis
  have up1: "\<forall>n. rd_fault (w_redis w1) n = None" using redis_upD [OF up_same [OF up0 w1(2)]] .
  have "rd_lookup (w_redis w1) (nonce_key pk nonce) = Some (RText ts, Some expiry)"
    using w1(2,3) assms(15,16) by (simp add: rd_lookup_def same_world_def)
  then obtain w2 where w2: "check_nonce penv opts pk nonce ts w1 = (Inr None, w2)" "same_world w1 w2"
    by (auto simp: check_nonce_def bindE_apply redis_cmd_up [OF up1] rd_GETDEL_def ret_apply same_world_def)
  let ?w3 = "w2\<lparr>w_log := w_log w2 @ [MetricInc ''tg_auth_signature_requests_total'' [nat_string 200, route_label rq]]\<rparr>"
  have num: "(case js_to_number ts of Fin t \<Rightarrow> False | _ \<Rightarrow> True) = False"
    using assms(11) by (auto simp: timestamp_error_def split: jsnum.splits)
  have "signatureAuth penv opts next rq w = next (rq\<lparr>rq_authPublicKey := Some pk\<rparr>) ?w3"
    using assms(2-14) num w1(1) w2(1)
    by (simp add: signatureAuth_def Let_def bindE_date_now bindE_getsE bindE_liftE tryE_apply bindE_apply [of "check_nonce _ _ _ _ _"]
        record_auth_def bindE_apply [of "metric_inc _ _"] metric_inc_run ret_apply bindE_assoc)
  moreover have "same_world w ?w3" using w1(2) w2(2) by (simp add: same_world_def)
  ultimately show ?thesis by blast
qed

subsection \<open>The validation script\<close>

definition validation_app :: "process_env \<Rightarrow> 'a env_scheme handler" where
  "validation_app penv = site penv (default_auth\<lparr>sa_matchBodyField := Some ''publicKey''\<rparr>)
     (\<lambda>rq. ret (json_response 200 (JObj ([(''ok'', JBool True)] @
       (case rq_authPublicKey rq of None \<Rightarrow> [] | Some k \<Rightarrow> [(''authPublicKey'', JStr k)])))))"

definition signed_body :: "string \<Rightarrow> json" where
  "signed_body publicKey = JObj [(''publicKey'', JStr publicKey), (''hello'', JStr ''world'')]"

definition smoke_init :: "(rat \<Rightarrow> string) \<Rightarrow> string \<Rightarrow> fetch_init" where
  "smoke_init num publicKey = \<lparr> fi_method = Some ''POST'', fi_headers = [(''Content-Type'', ''application/json'')],
     fi_body = Some (json_stringify num (signed_body publicKey)) \<rparr>"

text \<open>The text of a response is the text of the JSON value it holds.\<close>

definition failed :: "(rat \<Rightarrow> string) \<Rightarrow> string \<Rightarrow> int \<Rightarrow> exn + json \<Rightarrow> ('w, 'b) prog" where
  "failed num what status json = bindE (liftE json) (\<lambda>j.
     throw (JsError (what @ '' failed: '' @ int_string status @ '' '' @ json_stringify num j)))"

definition validate_main :: "process_env \<Rightarrow> 'w browser \<Rightarrow> string \<Rightarrow> string \<Rightarrow> ('w, json) prog" where
  "validate_main penv br baseUrl secret =
     (if \<not> env_set penv ''REDIS_URL'' then throw (JsError ''REDIS_URL is required'')
      else if \<not> env_set penv ''NETWORK'' \<or> penv ''NETWORK'' = Some ''local''
      then throw (JsError ''NETWORK must be set to testnet/pubnet (not local)'')
      else if penv ''NODE_ENV'' = Some ''test''
      then throw (JsError ''NODE_ENV must not be test (signatureAuth bypasses in test)'')
      else let num = br_num_string br; path = ''/__smoke/signed''
        in bindE (liftE (br_publicKey br secret)) (\<lambda>publicKey.
           bindE (br_fetch br (baseUrl @ ''/auth/nonce'') (nonce_init num publicKey)) (\<lambda>(status, json).
           if \<not> response_ok status then failed num ''nonce'' status json
           else bindE (liftE json) (\<lambda>nonceJson.
           bindE (liftE (property nonceJson ''timestamp'')) (\<lambda>timestamp.
           bindE (liftE (property nonceJson ''nonce'')) (\<lambda>nonce.
           bindE (br_fetch br (baseUrl @ path) (signed_init br secret publicKey path (smoke_init num publicKey)
               (text_of num timestamp) (text_of num nonce))) (\<lambda>(status, json).
           if \<not> response_ok status then failed num ''signed request'' status json
           else bindE (liftE json) (\<lambda>signedJson.
           bindE (liftE (property signedJson ''ok'')) (\<lambda>ok.
           if (case ok of None \<Rightarrow> False | Some j \<Rightarrow> truthy j) \<and> jfield signedJson ''authPublicKey'' = Some (JStr publicKey)
           then ret (JObj [(''ok'', JBool True), (''publicKey'', JStr publicKey)])
           else throw (JsError (''unexpected response: '' @ json_stringify num signedJson)))))))))))"

lemma js_to_number_int:
  assumes "0 \<le> t" "t < 2 ^ 53"
  shows "js_to_number (int_string t) = Fin (of_int t)"
proof -
  let ?s = "nat_string (nat t)"
  have digits: "list_all is_digit ?s" and s: "?s \<noteq> []" by (simp_all add: nat_string_digits)
  have sign: "\<not> is_digit (CHR ''-'')" "\<not> is_digit (CHR ''+'')" "\<not> is_digit (CHR ''I'')" "\<not> is_digit (CHR ''x'')"
    "\<not> is_digit (CHR ''X'')" "\<not> is_digit (CHR ''o'')" "\<not> is_digit (CHR ''O'')" "\<not> is_digit (CHR ''b'')" "\<not> is_digit (CHR ''B'')"
    by code_simp+
  have no_prefix: "take 2 ?s \<noteq> [c, d]" if "\<not> is_digit d" for c d
    using digits that by (metis in_set_takeD list.set_intros list_all_iff)
  have plain: "takeWhile is_digit ?s = ?s" "dropWhile is_digit ?s = []"
    using digits by (simp_all add: list_all_iff takeWhile_eq_all_conv dropWhile_eq_Nil_conv)
  have dec: "decimal_value ?s = Some (of_nat (nat t))"
    by (simp add: decimal_value_def Let_def plain exponent_value_def)
  have "fl (of_int t) = of_int t" by (rule fl_of_int) (use assms in simp)
  then have "fin (of_nat (nat t)) = Fin (of_int t)"
  proof -
    have "of_nat (nat t) = (of_int t :: rat)" using assms(1) by simp
    moreover have "\<bar>of_int t :: rat\<bar> < 2 ^ 1024"
    proof -
      have "\<bar>of_int t :: rat\<bar> < of_int (2 ^ 53)" using assms by simp
      also have "(of_int (2 ^ 53) :: rat) \<le> 2 ^ 1024" by simp
      finally show ?thesis .
    qed
    ultimately show ?thesis using \<open>fl (of_int t) = of_int t\<close> by (simp add: fin_def)
  qed
  moreover have "?s \<noteq> ''Infinity''" using digits sign(3) by auto
  ultimately have num: "unsigned_number ?s = Fin (of_int t)" by (simp add: unsigned_number_def dec)
  obtain c r where cr: "?s = c # r" using s by (cases ?s) auto
  have "c \<noteq> CHR ''-''" "c \<noteq> CHR ''+''" using digits cr sign(1,2) by auto
  moreover have "take 2 (c # r) \<noteq> ''0x''" "take 2 (c # r) \<noteq> ''0X''" "take 2 (c # r) \<noteq> ''0o''"
    "take 2 (c # r) \<noteq> ''0O''" "take 2 (c # r) \<noteq> ''0b''" "take 2 (c # r) \<noteq> ''0B''"
    using no_prefix [OF sign(4)] no_prefix [OF sign(5)] no_prefix [OF sign(6)] no_prefix [OF sign(7)]
      no_prefix [OF sign(8)] no_prefix [OF sign(9)] unfolding cr by blast+
  moreover have "js_trim (c # r) = c # r" using digits_trim [OF digits] unfolding cr .
  ultimately show ?thesis using assms(1) num unfolding int_string_def cr js_to_number_def Let_def
    by (simp add: cr) (intro conjI impI; (elim conjE disjE)?; simp)
qed

text \<open>What the two sides share: keys, signatures, hashes and the texts of whole numbers; and clocks that are close.\<close>

definition crypto_agrees :: "'w browser \<Rightarrow> ext \<Rightarrow> string \<Rightarrow> string \<Rightarrow> bool" where
  "crypto_agrees br x secret pk \<longleftrightarrow> br_publicKey br secret = Inr pk \<and> pk \<noteq> [] \<and> x_key_ok x pk \<and>
     (\<forall>text. br_sign br secret text \<noteq> [] \<and> x_verify x pk text (parseSignature (br_sign br secret text)) = Inr True) \<and>
     (\<forall>s. x_sha256 x s = sha256Hex br s) \<and> (\<forall>n. 0 \<le> n \<and> n < 2 ^ 53 \<longrightarrow> br_num_string br (of_int n) = int_string n)"

definition clocks_close :: "'a env_scheme \<Rightarrow> bool" where
  "clocks_close w \<longleftrightarrow> (\<forall>m n. 0 \<le> w_now w n \<and> w_now w n < 2 ^ 53 \<and> \<bar>w_now w m - w_now w n\<bar> \<le> 300000) \<and>
     (\<forall>m n. rd_time (w_redis w) m < rd_time (w_redis w) n + 600000)"

definition parses :: "'w browser \<Rightarrow> network \<Rightarrow> string \<Rightarrow> json \<Rightarrow> bool" where
  "parses br net path j \<longleftrightarrow> (\<forall>init. fi_body init = Some (json_stringify (br_num_string br) j) \<longrightarrow>
     rq_body (net_deliver net (API br @ path) init) = Some j)"

lemma close_timestamp:
  assumes "clocks_close w"
  shows "timestamp_error (w_now w m) (int_string (w_now w n)) = None"
proof -
  have n: "0 \<le> w_now w n" "w_now w n < 2 ^ 53" "\<bar>w_now w m - w_now w n\<bar> \<le> 300000"
    using assms by (auto simp: clocks_close_def)
  have "fl (of_int (w_now w m - w_now w n)) = of_int (w_now w m - w_now w n)"
  proof (rule fl_of_int)
    have "(300000 :: int) < 2 ^ 53" by simp
    then show "\<bar>w_now w m - w_now w n\<bar> < 2 ^ 53" using n(3) by linarith
  qed
  moreover have "\<bar>of_int (w_now w m - w_now w n) :: rat\<bar> \<le> 300000"
  proof -
    have "of_int \<bar>w_now w m - w_now w n\<bar> \<le> (of_int 300000 :: rat)" using n(3) by (simp only: of_int_le_iff)
    then show ?thesis by simp
  qed
  ultimately show ?thesis
    by (simp add: timestamp_error_def js_to_number_int [OF n(1,2)] js_minus_def del: of_int_diff)
      (simp add: of_int_diff [symmetric] del: of_int_diff)
qed

lemma smoke_payload:
  assumes "arrives path (signed_init br secret pk path (smoke_init num pk) ts nonce) rq" "\<forall>s. x_sha256 x s = sha256Hex br s"
  shows "signed_payload x rq ts nonce = canonical_text ''POST'' path ts nonce (body_hash br (smoke_init num pk))"
proof -
  have "map to_upper ''POST'' = ''POST''" by code_simp
  then show ?thesis using assms signed_headers(5-7) [OF assms(1)]
    by (simp add: signed_payload_def raw_body_def canonical_text_def body_hash_def smoke_init_def method_of_def signed_body_def)
qed

text \<open>The second request of the script, in a world where the nonce of the first is stored.\<close>

lemma smoke_accepted:
  fixes br :: "'a env_scheme browser" and w :: "'a env_scheme"
  defines "num \<equiv> br_num_string br" and "path \<equiv> ''/__smoke/signed''"
  assumes "redis_up penv w" "crypto_agrees br (w_ext w) secret pk" "clocks_close w" "nonce \<noteq> []"
    and "penv ''NETWORK'' \<noteq> Some ''local''" "penv ''NODE_ENV'' \<noteq> Some ''test''"
    and "arrives path (signed_init br secret pk path (smoke_init num pk) (int_string (w_now w t)) nonce) rq"
    and "rq_body rq = Some (signed_body pk)"
    and "rd_keys (w_redis w) (nonce_key pk nonce) = Some (RText (int_string (w_now w t)), Some (rd_time (w_redis w) c + 600000))"
  shows "\<exists>w2. signatureAuth penv (default_auth\<lparr>sa_matchBodyField := Some ''publicKey''\<rparr>) next rq w =
    next (rq\<lparr>rq_authPublicKey := Some pk\<rparr>) w2 \<and> same_world w w2"
proof -
  let ?t = "int_string (w_now w t)" and ?sig = "br_sign br secret (canonical_text ''POST'' path (int_string (w_now w t)) nonce
    (body_hash br (smoke_init num pk)))"
  have hash: "\<forall>s. x_sha256 (w_ext w) s = sha256Hex br s" using assms(4) by (simp add: crypto_agrees_def)
  have "method_of (smoke_init num pk) = ''POST''" by (simp add: smoke_init_def method_of_def)
  note hdr = signed_headers(1-4) [OF assms(9), unfolded this]
  show ?thesis
  proof (rule signatureAuth_accepts [OF assms(3) _ _ assms(6) _ _ hdr])
    show "\<not> auth_bypassed penv (default_auth\<lparr>sa_matchBodyField := Some ''publicKey''\<rparr>)"
      using assms(7,8) by (simp add: auth_bypassed_def default_auth_def)
    show "?t \<noteq> []" by (simp add: int_string_def)
    show "pk \<noteq> []" "x_key_ok (w_ext w) pk" "?sig \<noteq> []" using assms(4) by (simp_all add: crypto_agrees_def)
    show "timestamp_error (w_now w (w_reads w)) ?t = None" by (rule close_timestamp [OF assms(5)])
    show "field_mismatch (default_auth\<lparr>sa_matchBodyField := Some ''publicKey''\<rparr>) rq pk = None"
      by (simp add: field_mismatch_def default_auth_def assms(10) signed_body_def)
    show "x_verify (w_ext w) pk (signed_payload (w_ext w) rq ?t nonce) (parseSignature ?sig) = Inr True"
      using assms(4) unfolding smoke_payload [OF assms(9) [unfolded num_def] hash, folded num_def] by (simp add: crypto_agrees_def)
    show "rd_keys (w_redis w) (nonce_key pk nonce) = Some (RText ?t, Some (rd_time (w_redis w) c + 600000))" by (rule assms(11))
    show "rd_time (w_redis w) n < rd_time (w_redis w) c + 600000" for n using assms(5) by (simp add: clocks_close_def)
  qed
qed

text \<open>C11. The signed flow works end to end for a client that signs with the time stamp of its nonce: with a fresh Redis that
  is up, clocks within five minutes of each other and keys, signatures and hashes that agree, the script that validates
  signed requests always succeeds: the nonce is issued, the signature it makes is the one \<open>signatureAuth\<close> checks, and
  the handler sees its key.\<close>

theorem signed_flow_works:
  assumes "page_of br net (validation_app penv)" "crypto_agrees br (w_ext w) secret pk" "clocks_close w"
    and "parses br net ''/auth/nonce'' (JObj [(''publicKey'', JStr pk)])" "parses br net ''/__smoke/signed'' (signed_body pk)"
    and "redis_up penv w" "rd_keys (w_redis w) = Map.empty" "w_uuid w (w_uuids w) \<noteq> []"
    and "env_set penv ''NETWORK''" "penv ''NETWORK'' \<noteq> Some ''local''" "penv ''NODE_ENV'' \<noteq> Some ''test''"
  shows "\<exists>w'. validate_main penv br (API br) secret w =
    (Inr (JObj [(''ok'', JBool True), (''publicKey'', JStr pk)]), w')"
proof -
  let ?num = "br_num_string br" and ?path = "''/__smoke/signed''" and ?t = "w_now w (w_reads w)" and ?n = "w_uuid w (w_uuids w)"
  let ?ask = "net_deliver net (API br @ ''/auth/nonce'') (nonce_init ?num pk)"
  let ?init = "signed_init br secret pk ?path (smoke_init ?num pk) (int_string ?t) ?n"
  let ?send = "net_deliver net (API br @ ?path) ?init" and ?opts = "default_auth\<lparr>sa_matchBodyField := Some ''publicKey''\<rparr>"
  let ?next = "\<lambda>rq. ret (json_response 200 (JObj ([(''ok'', JBool True)] @
       (case rq_authPublicKey rq of None \<Rightarrow> [] | Some k \<Rightarrow> [(''authPublicKey'', JStr k)]))))"
  have key: "br_publicKey br secret = Inr pk" "pk \<noteq> []" "x_key_ok (w_ext w) pk"
    and hash: "\<forall>s. x_sha256 (w_ext w) s = sha256Hex br s" using assms(2) by (simp_all add: crypto_agrees_def)
  have fetch: "br_fetch br = fetch_from net (validation_app penv)" "\<And>j. net_read net (JsonBody j) = Inr j"
    and arrive0: "arrives ''/auth/nonce'' (nonce_init ?num pk) ?ask" and arrive: "arrives ?path ?init ?send"
    using assms(1) by (simp_all add: page_of_def)
  have body0: "rq_body ?ask = Some (JObj [(''publicKey'', JStr pk)])" and body: "rq_body ?send = Some (signed_body pk)"
    using assms(4,5) by (simp_all add: parses_def nonce_init_def signed_init_def smoke_init_def Let_def)
  obtain w1 where w1: "issueNonce penv ?ask w = (Inr (200, JsonBody (nonce_json pk ?t ?n)), w1)" "same_world w w1"
    using issueNonce_runs [OF assms(6) _ key(2,3), of ?ask] assms(7) body0 by (auto simp: body_text_def)
  have up1: "redis_up penv w1" using up_same [OF assms(6) w1(2)] .
  have same1: "w_ext w1 = w_ext w" "w_now w1 = w_now w" "rd_time (w_redis w1) = rd_time (w_redis w)"
    using w1(2) by (simp_all add: same_world_def)
  have nonce: "br_fetch br (API br @ ''/auth/nonce'') (nonce_init ?num pk) w = (Inr (200, Inr (nonce_json pk ?t ?n)), w1)"
    using w1(1) arrive0
    by (simp add: fetch fetch_from_def validation_app_def site_def arrives_def handled_def catchE_apply bindE_apply ret_apply)
  have t: "?num (of_int ?t) = int_string ?t" "int_string ?t \<noteq> []"
  proof -
    have rng: "0 \<le> ?t" "?t < 2 ^ 53" using assms(3) unfolding clocks_close_def by blast+
    then show "?num (of_int ?t) = int_string ?t" using assms(2) rng unfolding crypto_agrees_def by blast
    show "int_string ?t \<noteq> []" by (simp add: int_string_def)
  qed
  have agrees: "crypto_agrees br (w_ext w1) secret pk" and close: "clocks_close w1"
    using assms(2,3) same1 by (simp_all add: clocks_close_def)
  have "\<exists>w2. signatureAuth penv ?opts ?next ?send w1 = ?next (?send\<lparr>rq_authPublicKey := Some pk\<rparr>) w2 \<and> same_world w1 w2"
    by (rule smoke_accepted [OF up1 agrees close assms(8,10,11) _ body issueNonce_stored [OF w1(1), folded same1(2)]])
      (simp only: arrive same1)
  then obtain w2 where w2: "signatureAuth penv ?opts ?next ?send w1 = ?next (?send\<lparr>rq_authPublicKey := Some pk\<rparr>) w2" by blast
  let ?answer = "JObj [(''ok'', JBool True), (''authPublicKey'', JStr pk)]"
  have signed: "br_fetch br (API br @ ?path) ?init w1 = (Inr (200, Inr ?answer), w2)"
    using w2 arrive
    by (simp add: fetch fetch_from_def validation_app_def site_def arrives_def handled_def catchE_apply bindE_apply ret_apply
        json_response_def)
  show ?thesis using assms(6,9-11) nonce signed key(1) t(1)
    by (simp add: validate_main_def redis_up_def env_set_def Let_def bindE_apply liftE_apply response_ok_def property_def
        nonce_json_def text_of_def ret_apply)
qed

subsection \<open>The witnesses\<close>

definition page_num :: "rat \<Rightarrow> string" where
  "page_num x = int_string \<lfloor>x\<rfloor>"

definition key_json :: json where
  "key_json = JObj [(''publicKey'', JStr ''G'')]"

definition sample_net :: network where
  "sample_net =
    \<lparr> net_deliver = (\<lambda>url init.
        \<lparr> rq_method = method_of init, rq_url = url, rq_route = None, rq_header = header_get (fi_headers init), rq_ip = ''ip'',
          rq_body = (if fi_body init = Some (json_stringify page_num key_json) then Some key_json
            else if fi_body init = Some (json_stringify page_num (signed_body ''G'')) then Some (signed_body ''G'') else None),
          rq_rawBody = fi_body init, rq_authPublicKey = None \<rparr>),
      net_read = (\<lambda>b. case b of JsonBody j \<Rightarrow> Inr j | _ \<Rightarrow> Inr JNull) \<rparr>"

definition sample_page :: "mem_world handler \<Rightarrow> mem_world browser" where
  "sample_page handler =
    \<lparr> br_env = [''VITE_NETWORK'' \<mapsto> ''testnet''], br_fetch = fetch_from sample_net handler, br_now = date_now,
      br_uuid = randomUUID, br_digest = (\<lambda>s. []), br_publicKey = (\<lambda>s. Inr ''G''), br_sign = (\<lambda>s m. ''ab''),
      br_num_string = page_num \<rparr>"

definition page_penv :: process_env where
  "page_penv = [''NETWORK'' \<mapsto> ''testnet'', ''REDIS_URL'' \<mapsto> ''redis://r'']"

definition page_world :: "(nat \<Rightarrow> int) \<Rightarrow> mem_world" where
  "page_world clock = (sample_mem [] [])\<lparr>w_now := clock, w_ext := sample_ext\<lparr>x_verify := \<lambda>k m s. Inr True, x_sha256 := \<lambda>s. []\<rparr>\<rparr>"

lemma page_world_sel:
  "w_now (page_world clock) = clock" "w_reads (page_world clock) = 0" "w_uuids (page_world clock) = 0"
  "w_uuid (page_world clock) 0 = ''u''" "w_redis (page_world clock) = sample_redis"
  "w_ext (page_world clock) = sample_ext\<lparr>x_verify := \<lambda>k m s. Inr True, x_sha256 := \<lambda>s. []\<rparr>"
  by (simp_all add: page_world_def sample_mem_def)

lemma page_up: "redis_up page_penv (page_world clock)"
  by (simp add: redis_up_def page_penv_def page_world_sel sample_redis_def)

lemma sample_page_of: "page_of (sample_page handler) sample_net handler"
proof -
  have "API (sample_page handler) = []" by (simp add: API_def sample_page_def env_or_def)
  moreover have "takeWhile (\<lambda>c. c \<noteq> CHR ''?'') path = path" if "CHR ''?'' \<notin> set path" for path
    using that by (auto simp: takeWhile_eq_all_conv)
  ultimately show ?thesis
    by (auto simp: page_of_def arrives_def getRequestPath_def sample_net_def sample_page_def)
qed

lemma sample_signs: "USE_SIGNING (sample_page handler)"
  by (simp add: USE_SIGNING_def sample_page_def env_or_def)

lemma sample_page_sel: "br_num_string (sample_page handler) = page_num" "br_publicKey (sample_page handler) s = Inr ''G''"
  by (simp_all add: sample_page_def)

lemma page_nonce:
  obtains w1 where "api_request (sample_page (site page_penv opts next)) ''/auth/nonce'' (nonce_init page_num ''G'') (page_world clock) =
      (Inr (nonce_json ''G'' (clock 0) ''u''), w1)" "w_now w1 (w_reads w1) = clock 1"
proof -
  let ?page = "sample_page (site page_penv opts next)"
  let ?ask = "net_deliver sample_net (API ?page @ ''/auth/nonce'') (nonce_init page_num ''G'')"
  have ask: "rq_body ?ask = Some key_json" by (simp add: sample_net_def nonce_init_def key_json_def)
  have path: "getRequestPath ?ask = ''/auth/nonce''"
    using page_arrives [OF sample_page_of, of "''/auth/nonce''"] by (simp add: arrives_def)
  obtain w1 where w1: "issueNonce page_penv ?ask (page_world clock) = (Inr (200, JsonBody (nonce_json ''G'' (clock 0) ''u'')), w1)"
    "same_world (page_world clock) w1" "w_reads w1 = 1"
    using issueNonce_runs [OF page_up, of clock ?ask "''G''"] ask
    by (auto simp: body_text_def key_json_def page_world_sel sample_ext_def sample_redis_def)
  have "site page_penv opts next ?ask (page_world clock) = (Inr (200, JsonBody (nonce_json ''G'' (clock 0) ''u'')), w1)"
    using w1(1) path by (simp add: site_def handled_def catchE_apply)
  note answer = request_page [of ?page sample_net "site page_penv opts next" "''/auth/nonce''" "nonce_init page_num ''G''"
      "page_world clock", OF sample_page_of this]
  from answer have "api_request ?page ''/auth/nonce'' (nonce_init page_num ''G'') (page_world clock) =
      (Inr (nonce_json ''G'' (clock 0) ''u''), w1)" by (simp add: sample_net_def response_ok_def)
  moreover have "w_now w1 (w_reads w1) = clock 1" using w1(2,3) by (simp add: same_world_def page_world_sel)
  ultimately show ?thesis by (rule that)
qed

text \<open>A browser whose clock is a millisecond late.\<close>

theorem own_clock_refused_witness:
  "\<exists>e w'. signedRequest (sample_page (site page_penv default_auth (\<lambda>rq. ret (json_response 201 JNull)))) ''/bids''
     plain_init (Some ''S'') (page_world int) = (Inl e, w') \<and> env.more w' = env.more (page_world int)"
proof -
  let ?next = "\<lambda>rq. ret (json_response 201 JNull) :: (mem_world, response) prog"
  obtain w1 where "api_request (sample_page (site page_penv default_auth ?next)) ''/auth/nonce'' (nonce_init page_num ''G'') (page_world int) =
      (Inr (nonce_json ''G'' 0 ''u''), w1)" "w_now w1 (w_reads w1) = 1"
    using page_nonce [of default_auth ?next int] by auto
  moreover have "\<not> auth_bypassed page_penv default_auth" "sa_required default_auth" "page_penv ''TG_ALLOW_CLIENT_NONCE'' \<noteq> Some ''true''"
    by (simp_all add: auth_bypassed_def default_auth_def page_penv_def)
  ultimately show ?thesis
    using own_clock_refused [OF sample_page_of sample_signs, where pk = "''G''"] sample_page_sel by simp
qed

theorem signed_flow_works_witness:
  "\<exists>w'. validate_main page_penv (sample_page (validation_app page_penv)) [] ''S'' (page_world (\<lambda>n. 0)) =
    (Inr (JObj [(''ok'', JBool True), (''publicKey'', JStr ''G'')]), w')"
proof -
  let ?page = "sample_page (validation_app page_penv)" and ?w = "page_world (\<lambda>n. 0)"
  have api: "API ?page = []" by (simp add: API_def sample_page_def env_or_def)
  have texts: "json_stringify page_num (signed_body ''G'') \<noteq> json_stringify page_num key_json"
    by (simp add: signed_body_def key_json_def)
  have "crypto_agrees ?page (w_ext ?w) ''S'' ''G''"
    by (simp add: crypto_agrees_def sample_page_def page_world_sel sample_ext_def sha256Hex_def page_num_def)
  moreover have "clocks_close ?w" by (simp add: clocks_close_def page_world_sel sample_redis_def)
  moreover have "parses ?page sample_net ''/auth/nonce'' (JObj [(''publicKey'', JStr ''G'')])"
    "parses ?page sample_net ''/__smoke/signed'' (signed_body ''G'')"
    using texts by (auto simp: parses_def sample_net_def sample_page_def key_json_def)
  moreover have "rd_keys (w_redis ?w) = Map.empty" "w_uuid ?w (w_uuids ?w) \<noteq> []" "env_set page_penv ''NETWORK''"
    "page_penv ''NETWORK'' \<noteq> Some ''local''" "page_penv ''NODE_ENV'' \<noteq> Some ''test''"
    by (simp_all add: page_world_sel sample_redis_def page_penv_def env_set_def)
  ultimately show ?thesis
    using signed_flow_works [of ?page sample_net page_penv ?w "''S''" "''G''", OF sample_page_of _ _ _ _ page_up] unfolding api by blast
qed

end
