(* ===== verification/Flow.thy ===== *)
theory Flow
  imports Client
begin

text \<open>
  \<open>frontend/src/components/TaskFlow.tsx\<close>: the run of a whole task the page offers, step by step over
  the calls of \<open>Client\<close>, with the state the component shows. Layout, texts of details and log entries,
  and the stop watch are left out.
\<close>

section \<open>The state of the component\<close>

datatype step_status = Pending | Running | Done | Failed

datatype step_id = Register | Create | Bid | Assign | Publish | Complete

datatype role = Requester | Executor | Protocol

text \<open>The terms of the run, and the steps with their titles, roles and descriptions.\<close>

definition TERMS_reserve :: string where "TERMS_reserve = ''10''"

definition TERMS_bid :: string where "TERMS_bid = ''9''"

definition TERMS_collateral :: string where "TERMS_collateral = ''10''"

definition TERMS_listingFeeBps :: string where "TERMS_listingFeeBps = ''0.5%''"

record step_info =
  si_id :: step_id
  si_title :: string
  si_role :: role
  si_description :: string

definition STEP_INFO :: "step_info list" where
  "STEP_INFO =
    [\<lparr> si_id = Register, si_title = ''Register executor'', si_role = Executor, si_description =
        ''The executor publishes its metadata URI and joins the on-chain executor registry, making it eligible to bid.'' \<rparr>,
     \<lparr> si_id = Create, si_title = ''Create task'', si_role = Requester, si_description =
        ''The requester posts the job with a $'' @ TERMS_reserve @ '' reserve price and pays the '' @ TERMS_listingFeeBps @
        '' listing fee in USDC.'' \<rparr>,
     \<lparr> si_id = Bid, si_title = ''Bid and lock collateral'', si_role = Executor, si_description =
        ''The executor bids $'' @ TERMS_bid @ '' and locks $'' @ TERMS_collateral @
        '' of collateral in escrow as a performance bond.'' \<rparr>,
     \<lparr> si_id = Assign, si_title = ''Automatic assignment'', si_role = Protocol, si_description =
        ''The first valid bid at or under the reserve price wins. No manual selection, no auction window '' @ em_dash @
        '' the task moves to ASSIGNED.'' \<rparr>,
     \<lparr> si_id = Publish, si_title = ''Publish result'', si_role = Executor, si_description =
        ''The executor submits the deliverable. The payload is hashed with SHA-256 and stored so the result can be verified later.'' \<rparr>,
     \<lparr> si_id = Complete, si_title = ''Approve and settle'', si_role = Requester, si_description =
        ''The requester approves the result. The settlement worker then releases payment to the executor and returns the collateral.'' \<rparr>]"

definition STEPS :: "step_id list" where
  "STEPS = map si_id STEP_INFO"

lemma STEPS_eq: "STEPS = [Register, Create, Bid, Assign, Publish, Complete]"
  by (simp add: STEPS_def STEP_INFO_def)

record keypair =
  kp_public :: string
  kp_secret :: string

record run_result =
  rs_taskId :: string
  rs_payloadHash :: "json option"
  rs_requester :: keypair
  rs_executor :: keypair

record flow =
  fl_steps :: "(step_id \<times> step_status) list"
  fl_result :: "run_result option"
  fl_parties :: "(string \<times> string) option"
  fl_taskState :: "json option"
  fl_error :: "string option"
  fl_loading :: bool

text \<open>The tab: its browser, and \<open>setTimeout\<close> in a promise.\<close>

record 'w tab =
  tb_browser :: "'w browser"
  tb_sleep :: "int \<Rightarrow> ('w, unit) prog"

definition net :: "('w, 'a) prog \<Rightarrow> ('w \<times> flow, 'a) prog" where
  "net m = (\<lambda>(w, f). case m w of (r, w') \<Rightarrow> (r, (w', f)))"

definition set_state :: "(flow \<Rightarrow> flow) \<Rightarrow> ('w \<times> flow, unit) prog" where
  "set_state g = modifyE (\<lambda>(w, f). (w, g f))"

definition patch :: "step_id \<Rightarrow> step_status \<Rightarrow> flow \<Rightarrow> flow" where
  "patch i s f = f\<lparr>fl_steps := map (\<lambda>(j, t). if j = i then (j, s) else (j, t)) (fl_steps f)\<rparr>"

definition fail_running :: "flow \<Rightarrow> flow" where
  "fail_running f = f\<lparr>fl_steps := map (\<lambda>(j, t). if t = Running then (j, Failed) else (j, t)) (fl_steps f)\<rparr>"

definition doneCount :: "flow \<Rightarrow> nat" where
  "doneCount f = length (filter (\<lambda>s. snd s = Done) (fl_steps f))"

definition progress :: "flow \<Rightarrow> int" where
  "progress f = \<lfloor>(of_nat (doneCount f) + (if \<exists>s \<in> set (fl_steps f). snd s = Running then 1 / 2 else 0)) /
     of_nat (length STEPS) * 100 + 1 / 2 :: rat\<rfloor>"

text \<open>\<open>x.slice(...)\<close> of a property, which texts and arrays have.\<close>

definition sliced :: "json \<Rightarrow> string \<Rightarrow> exn + json option" where
  "sliced j k = sum_bind (property j k) (\<lambda>v. case v of
      Some (JStr s) \<Rightarrow> Inr v
    | Some (JArr xs) \<Rightarrow> Inr v
    | _ \<Rightarrow> Inl (JsError (''Cannot read slice of '' @ k)))"

section \<open>Waiting for the settlement\<close>

text \<open>
  The loop of \<open>pollUntilSettled\<close>, with a bound on its rounds: \<open>None\<close> while it has not ended.
\<close>

fun poll_rounds :: "nat \<Rightarrow> 'w tab \<Rightarrow> string \<Rightarrow> (int \<Rightarrow> flow \<Rightarrow> flow) \<Rightarrow> int \<Rightarrow> int \<Rightarrow> ('w \<times> flow, json option) prog" where
  "poll_rounds 0 tab taskId onTick timeoutMs startedAt = ret None"
| "poll_rounds (Suc n) tab taskId onTick timeoutMs startedAt =
     bindE (net (br_now (tb_browser tab))) (\<lambda>now.
     if now - startedAt < timeoutMs
     then bindE (net (getTask (tb_browser tab) taskId)) (\<lambda>task.
          bindE (liftE (property task ''status'')) (\<lambda>status.
          if status = Some (JStr ''COMPLETED'') \<or> status = Some (JStr ''EXPIRED'') then ret (Some task)
          else bindE (net (br_now (tb_browser tab))) (\<lambda>now.
               bindE (set_state (onTick \<lfloor>of_int (now - startedAt) / 1000 + 1 / 2 :: rat\<rfloor>)) (\<lambda>_.
               bindE (net (tb_sleep tab 2000)) (\<lambda>_.
               poll_rounds n tab taskId onTick timeoutMs startedAt)))))
     else bindE (net (getTask (tb_browser tab) taskId)) (\<lambda>task. ret (Some task)))"

definition pollUntilSettled ::
  "nat \<Rightarrow> 'w tab \<Rightarrow> string \<Rightarrow> (int \<Rightarrow> flow \<Rightarrow> flow) \<Rightarrow> ('w \<times> flow, json option) prog" where
  "pollUntilSettled rounds tab taskId onTick =
     bindE (net (br_now (tb_browser tab))) (\<lambda>startedAt. poll_rounds rounds tab taskId onTick 90000 startedAt)"

section \<open>The run\<close>

definition run_payload :: json where
  "run_payload = JObj [(''summary'', JStr ''Document summarized successfully''), (''pages'', JNum 12)]"

definition step :: "step_id \<Rightarrow> ('w, 'a) prog \<Rightarrow> ('a \<Rightarrow> ('w \<times> flow, 'b) prog) \<Rightarrow> ('w \<times> flow, 'b) prog" where
  "step i m k = bindE (set_state (patch i Running)) (\<lambda>_. bindE (net m) k)"

definition finish :: "'w tab \<Rightarrow> step_id \<Rightarrow> int \<Rightarrow> ('w \<times> flow, unit) prog" where
  "finish tab i ms = bindE (set_state (patch i Done)) (\<lambda>_. net (tb_sleep tab ms))"

text \<open>The body of the \<open>try\<close>; whether it has ended within the rounds.\<close>

definition run_steps :: "nat \<Rightarrow> 'w tab \<Rightarrow> keypair \<Rightarrow> keypair \<Rightarrow> ('w \<times> flow, bool) prog" where
  "run_steps rounds tab requester executor =
     (let br = tb_browser tab; text = text_of (br_num_string br)
      in bindE (set_state (\<lambda>f. f\<lparr>fl_parties := Some (kp_public requester, kp_public executor)\<rparr>)) (\<lambda>_.
         bindE (net (br_now br)) (\<lambda>now.
         let deadline = toISOString (now + 7 * 86400000)
         in step Register (registerExecutor br (kp_secret executor) ''https://executor.example.com/meta.json'') (\<lambda>registration.
         bindE (liftE (sliced registration ''publicKey'')) (\<lambda>_.
         bindE (finish tab Register 400) (\<lambda>_.
         step Create (createTask br (kp_public requester) (kp_secret requester) TERMS_reserve ''Summarize this document'' deadline) (\<lambda>task.
         bindE (liftE (property task ''status'')) (\<lambda>status.
         bindE (set_state (\<lambda>f. f\<lparr>fl_taskState := status\<rparr>)) (\<lambda>_.
         bindE (liftE (sliced task ''id'')) (\<lambda>id.
         let taskId = text id
         in bindE (finish tab Create 400) (\<lambda>_.
         step Bid (placeBid br taskId (kp_public executor) (kp_secret executor) TERMS_bid TERMS_collateral) (\<lambda>bid.
         bindE (liftE (sliced bid ''id'')) (\<lambda>_.
         bindE (set_state (patch Bid Done)) (\<lambda>_.
         step Assign (tb_sleep tab 500) (\<lambda>_.
         bindE (set_state (\<lambda>f. f\<lparr>fl_taskState := Some (JStr ''ASSIGNED'')\<rparr>)) (\<lambda>_.
         bindE (finish tab Assign 400) (\<lambda>_.
         step Publish (publishResult br taskId (kp_public executor) run_payload (Some (kp_secret executor))) (\<lambda>published.
         bindE (liftE (sliced published ''payloadHash'')) (\<lambda>hash.
         bindE (finish tab Publish 400) (\<lambda>_.
         step Complete (completeTask br taskId (kp_public requester) (kp_secret requester)) (\<lambda>completion.
         bindE (liftE (property completion ''status'')) (\<lambda>status.
         bindE (set_state (\<lambda>f. f\<lparr>fl_taskState := Some (case status of
             None \<Rightarrow> JStr ''COMPLETING'' | Some JNull \<Rightarrow> JStr ''COMPLETING'' | Some j \<Rightarrow> j)\<rparr>)) (\<lambda>_.
         bindE (pollUntilSettled rounds tab taskId (\<lambda>seconds. patch Complete Running)) (\<lambda>polled. case polled of
           None \<Rightarrow> ret False
         | Some settled \<Rightarrow>
             bindE (liftE (property settled ''status'')) (\<lambda>status.
             bindE (set_state (\<lambda>f. f\<lparr>fl_taskState := status\<rparr>)) (\<lambda>_.
             bindE (set_state (patch Complete Done)) (\<lambda>_.
             bindE (set_state (\<lambda>f. f\<lparr>fl_result := Some \<lparr> rs_taskId = taskId, rs_payloadHash = hash,
                 rs_requester = requester, rs_executor = executor \<rparr>\<rparr>)) (\<lambda>_.
             ret True))))))))))))))))))))))))))))"

definition start :: "nat \<Rightarrow> 'w tab \<Rightarrow> keypair \<Rightarrow> keypair \<Rightarrow> ('w \<times> flow, bool) prog" where
  "start rounds tab requester executor =
     bindE (set_state (\<lambda>f. f\<lparr>fl_loading := True, fl_error := None, fl_result := None, fl_taskState := None,
       fl_steps := map (\<lambda>i. (i, Pending)) STEPS\<rparr>)) (\<lambda>_.
     bindE (catchE (run_steps rounds tab requester executor)
       (\<lambda>e. bindE (set_state (\<lambda>f. fail_running (f\<lparr>fl_error := Some (err_text e)\<rparr>))) (\<lambda>_. ret True))) (\<lambda>ended.
     if ended then bindE (set_state (\<lambda>f. f\<lparr>fl_loading := False\<rparr>)) (\<lambda>_. ret True) else ret False))"

section \<open>The clock\<close>

text \<open>
  What \<open>Date.now()\<close> and \<open>setTimeout\<close> promise: reading the clock and sleeping return, a sleep of \<open>ms\<close>
  milliseconds takes at least as long, and time does not go back while a request is under way.
\<close>

definition clock_ok :: "'w tab \<Rightarrow> ('w \<Rightarrow> int) \<Rightarrow> bool" where
  "clock_ok tab time \<longleftrightarrow>
     (\<forall>w. \<exists>w'. br_now (tb_browser tab) w = (Inr (time w), w') \<and> time w \<le> time w') \<and>
     (\<forall>ms w. \<exists>w'. tb_sleep tab ms w = (Inr (), w') \<and> time w + ms \<le> time w') \<and>
     (\<forall>url init w. time w \<le> time (snd (br_fetch (tb_browser tab) url init w)))"

lemma clock_okD:
  assumes "clock_ok tab time"
  shows "\<exists>w'. br_now (tb_browser tab) w = (Inr (time w), w') \<and> time w \<le> time w'"
    and "\<exists>w'. tb_sleep tab ms w = (Inr (), w') \<and> time w + ms \<le> time w'"
    and "time w \<le> time (snd (br_fetch (tb_browser tab) url init w))"
  using assms by (auto simp: clock_ok_def)

lemma getTask_time:
  assumes "clock_ok tab time" "getTask (tb_browser tab) i w = (r, w')"
  shows "time w \<le> time w'"
  using assms(2) clock_okD(3) [OF assms(1), of w]
  by (auto simp: getTask_def api_request_def bindE_apply liftE_apply throw_apply ret_apply split: prod.splits sum.splits if_splits)
    (metis snd_conv)+

lemma poll_ends:
  assumes "clock_ok tab time" "timeoutMs \<le> time w - startedAt + 2000 * int n"
  shows "fst (poll_rounds (Suc n) tab taskId onTick timeoutMs startedAt (w, f)) \<noteq> Inr None"
  using assms(2)
proof (induction n arbitrary: w f)
  case 0
  obtain w1 where "br_now (tb_browser tab) w = (Inr (time w), w1)" using clock_okD(1) [OF assms(1)] by blast
  then show ?case using 0 by (auto simp: bindE_apply net_def ret_apply split: prod.splits sum.splits)
next
  case (Suc n)
  obtain w1 where w1: "br_now (tb_browser tab) w = (Inr (time w), w1)" "time w \<le> time w1" using clock_okD(1) [OF assms(1)] by blast
  obtain r2 w2 where w2: "getTask (tb_browser tab) taskId w1 = (r2, w2)" by fastforce
  obtain w3 where w3: "br_now (tb_browser tab) w2 = (Inr (time w2), w3)" "time w2 \<le> time w3" using clock_okD(1) [OF assms(1)] by blast
  obtain w4 where w4: "tb_sleep tab 2000 w3 = (Inr (), w4)" "time w3 + 2000 \<le> time w4" using clock_okD(2) [OF assms(1)] by blast
  have "time w1 \<le> time w2" by (rule getTask_time [OF assms(1) w2])
  then have "timeoutMs \<le> time w4 - startedAt + 2000 * int n" using w1(2) w3(2) w4(2) Suc.prems by simp
  note later = Suc.IH [OF this]
  show ?case
    using w1(1) w2 w3(1) w4(1) later
    by (subst poll_rounds.simps)
      (auto simp: bindE_apply net_def ret_apply liftE_apply set_state_def modifyE_apply simp del: poll_rounds.simps split: sum.splits)
qed

lemma poll_settles:
  assumes "clock_ok tab time" "46 \<le> rounds" "pollUntilSettled rounds tab taskId onTick (w, f) = (r, x)"
  shows "r \<noteq> Inr None"
proof -
  obtain w1 where w1: "br_now (tb_browser tab) w = (Inr (time w), w1)" "time w \<le> time w1" using clock_okD(1) [OF assms(1)] by blast
  obtain n where n: "rounds = Suc n" "45 \<le> n" using assms(2) by (cases rounds) auto
  have "90000 \<le> time w1 - time w + 2000 * int n" using w1(2) n(2) by linarith
  from poll_ends [OF assms(1) this, of taskId onTick f] show ?thesis
    using assms(3) by (simp add: pollUntilSettled_def bindE_apply net_def w1(1) n(1) del: poll_rounds.simps)
qed

text \<open>Waiting for the settlement always ends: whatever the server answers, after at most 45 rounds of two seconds
  the loop has returned a task or thrown, provided the browser's clock and timer keep their promises.\<close>

theorem poll_terminates:
  assumes "clock_ok tab time" "46 \<le> rounds"
  shows "\<exists>r x. pollUntilSettled rounds tab taskId onTick (w, f) = (r, x) \<and> r \<noteq> Inr None"
  using poll_settles [OF assms, of taskId onTick w f] by (metis surj_pair)

section \<open>What the page shows\<close>

text \<open>The steps before the \<open>k\<close>-th are done, the \<open>k\<close>-th has the status \<open>s\<close>, and the later ones wait.\<close>

definition steps_at :: "nat \<Rightarrow> step_status \<Rightarrow> (step_id \<times> step_status) list" where
  "steps_at k s = zip STEPS (replicate k Done @ s # replicate (5 - k) Pending)"

definition stage :: "nat \<Rightarrow> step_status \<Rightarrow> 'w \<times> flow \<Rightarrow> bool" where
  "stage k s x \<longleftrightarrow> fl_steps (snd x) = steps_at k s \<and> fl_result (snd x) = None \<and> fl_error (snd x) = None"

definition broken :: "exn \<Rightarrow> 'w \<times> flow \<Rightarrow> bool" where
  "broken e x \<longleftrightarrow> (\<exists>k < 6. stage k Running x)"

lemma six:
  assumes "k < 6"
  obtains "k = 0" | "k = 1" | "k = 2" | "k = 3" | "k = 4" | "k = (5 :: nat)"
  using assms by linarith

lemma steps_at_simps [simp]:
  "steps_at 0 s = [(Register, s), (Create, Pending), (Bid, Pending), (Assign, Pending), (Publish, Pending), (Complete, Pending)]"
  "steps_at 1 s = [(Register, Done), (Create, s), (Bid, Pending), (Assign, Pending), (Publish, Pending), (Complete, Pending)]"
  "steps_at 2 s = [(Register, Done), (Create, Done), (Bid, s), (Assign, Pending), (Publish, Pending), (Complete, Pending)]"
  "steps_at 3 s = [(Register, Done), (Create, Done), (Bid, Done), (Assign, s), (Publish, Pending), (Complete, Pending)]"
  "steps_at 4 s = [(Register, Done), (Create, Done), (Bid, Done), (Assign, Done), (Publish, s), (Complete, Pending)]"
  "steps_at 5 s = [(Register, Done), (Create, Done), (Bid, Done), (Assign, Done), (Publish, Done), (Complete, s)]"
  by (simp_all add: steps_at_def STEPS_eq eval_nat_numeral)

lemma patch_other [simp]:
  "fl_result (patch i s f) = fl_result f" "fl_error (patch i s f) = fl_error f"
  by (simp_all add: patch_def)

lemma patch_at: "k < 6 \<Longrightarrow> fl_steps f = steps_at k t \<Longrightarrow> fl_steps (patch (STEPS ! k) s f) = steps_at k s"
  by (elim six) (simp_all add: patch_def STEPS_eq flip: One_nat_def)

lemma patch_next: "k < 5 \<Longrightarrow> fl_steps f = steps_at k Done \<Longrightarrow> fl_steps (patch (STEPS ! Suc k) s f) = steps_at (Suc k) s"
  by (rule six [of k]) (simp_all add: patch_def STEPS_eq flip: One_nat_def)

lemma fail_running_at: "k < 6 \<Longrightarrow> fl_steps f = steps_at k Running \<Longrightarrow> fl_steps (fail_running f) = steps_at k Failed"
  by (elim six) (simp_all add: fail_running_def flip: One_nat_def)

section \<open>The run\<close>

text \<open>Computations of the page that leave the state of the component alone.\<close>

lemma hoare_net:
  "hoare (stage k Running) (net m) (\<lambda>_. stage k Running) broken" if "k < 6"
  using that by (auto simp: hoare_def net_def stage_def broken_def split: prod.splits sum.splits)

lemma hoare_liftE:
  "hoare (stage k Running) (liftE x) (\<lambda>_. stage k Running) broken" if "k < 6"
  using that by (auto simp: hoare_def liftE_def broken_def ret_def throw_def split: sum.splits)

lemma hoare_show:
  "(\<And>f. fl_steps (g f) = fl_steps f \<and> fl_result (g f) = fl_result f \<and> fl_error (g f) = fl_error f) \<Longrightarrow>
   hoare (stage k s) (set_state g) (\<lambda>_. stage k s) E"
  by (auto simp: hoare_def set_state_def modifyE_apply stage_def)

lemma hoare_patch:
  "k < 6 \<Longrightarrow> i = STEPS ! k \<Longrightarrow> hoare (stage k t) (set_state (patch i s)) (\<lambda>_. stage k s) E"
  by (auto simp: hoare_def set_state_def modifyE_apply stage_def patch_at)

lemma hoare_returns:
  assumes "\<And>w. \<exists>x w'. m w = (Inr x, w')"
  shows "hoare (stage k s) (net m) (\<lambda>_. stage k s) E"
proof -
  obtain g h where "\<forall>w. m w = (Inr (g w), h w)" using assms by metis
  then show ?thesis by (simp add: hoare_def net_def stage_def split_beta)
qed

lemma hoare_now:
  "clock_ok tab time \<Longrightarrow> hoare (stage k s) (net (br_now (tb_browser tab))) (\<lambda>_. stage k s) E"
  by (rule hoare_returns) (use clock_okD(1) [of tab time] in blast)

lemma hoare_sleep:
  "clock_ok tab time \<Longrightarrow> hoare (stage k s) (net (tb_sleep tab ms)) (\<lambda>_. stage k s) E"
  by (rule hoare_returns) (use clock_okD(2) [of tab time] in blast)

lemma hoare_step:
  assumes "k < 5" "i = STEPS ! Suc k" "\<And>x. hoare (stage (Suc k) Running) (c x) Q broken"
  shows "hoare (stage k Done) (step i m c) Q broken"
proof -
  have "hoare (stage k Done) (set_state (patch i Running)) (\<lambda>_. stage (Suc k) Running) broken"
    using assms(1,2) by (auto simp: hoare_def set_state_def modifyE_apply stage_def patch_next)
  moreover have "hoare (stage (Suc k) Running) (bindE (net m) c) Q broken"
    by (rule hoare_bind [OF hoare_net assms(3)]) (simp add: assms(1))
  ultimately show ?thesis unfolding step_def by (rule hoare_bind)
qed

lemma hoare_first:
  assumes "i = STEPS ! 0" "\<And>x. hoare (stage 0 Running) (c x) Q broken"
  shows "hoare (stage 0 Pending) (step i m c) Q broken"
  unfolding step_def by (rule hoare_bind [OF hoare_patch], use assms(1) in simp_all) (rule hoare_bind [OF hoare_net assms(2)]; simp)

lemma hoare_finish:
  assumes "clock_ok tab time" "k < 6" "i = STEPS ! k"
  shows "hoare (stage k Running) (finish tab i ms) (\<lambda>_. stage k Done) broken"
  unfolding finish_def by (rule hoare_bind [OF hoare_patch [OF assms(2,3)] hoare_sleep [OF assms(1)]])

lemma hoare_poll:
  fixes tab :: "'w tab"
  assumes "clock_ok tab time" "\<And>i. hoare (stage k Running :: 'w \<times> flow \<Rightarrow> bool) (set_state (onTick i)) (\<lambda>_. stage k Running) broken" "k < 6"
  shows "hoare (stage k Running) (poll_rounds n tab taskId onTick timeoutMs startedAt) (\<lambda>_. stage k Running) broken"
proof (induction n)
  case (Suc n)
  show ?case
    by (subst poll_rounds.simps)
      (rule hoare_bind hoare_now [OF assms(1)] hoare_sleep [OF assms(1)] hoare_net [OF assms(3)] hoare_liftE [OF assms(3)]
        assms(2) Suc.IH hoare_if hoare_ret | assumption)+

qed (simp add: hoare_ret)

lemma hoare_settled:
  assumes "clock_ok tab time" "46 \<le> rounds" "k < 6" "STEPS ! k = Complete"
  shows "hoare (stage k Running) (pollUntilSettled rounds tab taskId (\<lambda>seconds. patch Complete Running))
    (\<lambda>p x. p \<noteq> None \<and> stage k Running x) broken"
proof -
  have tick: "hoare (stage k Running) (set_state (patch Complete Running)) (\<lambda>_. stage k Running) broken"
    by (rule hoare_patch) (simp_all add: assms(3,4))
  have "hoare (stage k Running) (pollUntilSettled rounds tab taskId (\<lambda>seconds. patch Complete Running)) (\<lambda>_. stage k Running) broken"
    unfolding pollUntilSettled_def by (rule hoare_bind hoare_now [OF assms(1)] hoare_poll [OF assms(1) tick assms(3)])+
  moreover have "\<not> (pollUntilSettled rounds tab taskId (\<lambda>seconds. patch Complete Running) (w, f) = (Inr None, x))" for w f x
    using poll_settles [OF assms(1,2)] by blast
  ultimately show ?thesis by (fastforce simp: hoare_def split: prod.splits sum.splits)
qed

lemma hoare_case_settled:
  "(\<And>y. hoare P (g y) Q E) \<Longrightarrow> hoare (\<lambda>x. p \<noteq> None \<and> P x) (case p of None \<Rightarrow> m | Some y \<Rightarrow> g y) Q E"
  by (cases p) (simp_all add: hoare_def)

definition complete_run :: "'w \<times> flow \<Rightarrow> bool" where
  "complete_run x \<longleftrightarrow> fl_steps (snd x) = steps_at 5 Done \<and> fl_result (snd x) \<noteq> None \<and> fl_error (snd x) = None"

lemma hoare_result:
  "k = 5 \<Longrightarrow> hoare (stage k Done) (set_state (\<lambda>f. f\<lparr>fl_result := Some r\<rparr>)) (\<lambda>_. complete_run) E"
  by (auto simp: hoare_def set_state_def modifyE_apply stage_def complete_run_def)

lemma hoare_run_steps:
  assumes "clock_ok tab time" "46 \<le> rounds"
  shows "hoare (stage 0 Pending) (run_steps rounds tab requester executor) (\<lambda>b x. b \<and> complete_run x) broken"
  unfolding run_steps_def Let_def
  by (rule hoare_bind hoare_now [OF assms(1)] hoare_sleep [OF assms(1)] hoare_first hoare_step hoare_finish [OF assms(1)]
      hoare_settled [OF assms] hoare_case_settled hoare_result hoare_liftE hoare_patch hoare_show hoare_ret
    | simp add: STEPS_eq)+

text \<open>C39. A run of the page ends, whatever the server answers, and what it shows is consistent: either every step is done,
  there is a result and no error, or exactly one step has failed, the ones before it are done, the ones after it were never
  started, and there is an error and no result. The page is no longer loading.\<close>

theorem start_outcome:
  assumes "clock_ok tab time" "46 \<le> rounds"
  shows "\<exists>w' f'. start rounds tab requester executor (w, f) = (Inr True, (w', f')) \<and> \<not> fl_loading f' \<and>
    (fl_error f' = None \<and> fl_result f' \<noteq> None \<and> fl_steps f' = map (\<lambda>i. (i, Done)) STEPS \<or>
     fl_error f' \<noteq> None \<and> fl_result f' = None \<and>
       (\<exists>k < 6. fl_steps f' = zip STEPS (replicate k Done @ Failed # replicate (5 - k) Pending)))"
proof -
  define f0 where "f0 = f\<lparr>fl_loading := True, fl_error := None, fl_result := None, fl_taskState := None,
     fl_steps := map (\<lambda>i. (i, Pending)) STEPS\<rparr>"
  have f0: "stage 0 Pending (w, f0)" by (simp add: stage_def f0_def STEPS_eq)
  obtain r w1 f1 where run: "run_steps rounds tab requester executor (w, f0) = (r, (w1, f1))" by (metis surj_pair)
  have start: "start rounds tab requester executor (w, f) = bindE (catchE (run_steps rounds tab requester executor)
      (\<lambda>e. bindE (set_state (\<lambda>f. fail_running (f\<lparr>fl_error := Some (err_text e)\<rparr>))) (\<lambda>_. ret True)))
      (\<lambda>ended. if ended then bindE (set_state (\<lambda>f. f\<lparr>fl_loading := False\<rparr>)) (\<lambda>_. ret True) else ret False) (w, f0)"
    by (simp add: start_def bindE_apply set_state_def modifyE_apply f0_def)
  show ?thesis
  proof (cases r)
    case (Inl e)
    obtain k where k: "k < 6" "stage k Running (w1, f1)"
      using hoareD_Inl [OF hoare_run_steps [OF assms] f0 run [unfolded Inl]] by (auto simp: broken_def)
    moreover have "fl_steps (fail_running (f1\<lparr>fl_error := Some m\<rparr>)) = steps_at k Failed" for m
      by (rule fail_running_at) (use k in \<open>simp_all add: stage_def\<close>)
    ultimately show ?thesis unfolding start using run Inl
      by (auto simp: bindE_apply catchE_apply set_state_def modifyE_apply ret_apply stage_def fail_running_def steps_at_def)
  next
    case (Inr b)
    have "b" "complete_run (w1, f1)" using hoareD_Inr [OF hoare_run_steps [OF assms] f0 run [unfolded Inr]] by auto
    then show ?thesis unfolding start using run Inr
      by (simp add: bindE_apply catchE_apply set_state_def modifyE_apply ret_apply complete_run_def STEPS_eq)
  qed
qed

subsection \<open>The witnesses\<close>

text \<open>A tab in the background, whose world is the time and whose timers are late, and a server that gives every
  request the same answer after ten milliseconds.\<close>

definition sample_tab :: "string \<Rightarrow> int tab" where
  "sample_tab status =
    \<lparr> tb_browser = \<lparr> br_env = Map.empty,
        br_fetch = (\<lambda>url init now. (Inr (200, Inr (JObj [(''id'', JStr ''t''), (''publicKey'', JStr ''G''),
          (''payloadHash'', JStr ''h''), (''status'', JStr status)])), now + 10)),
        br_now = (\<lambda>now. (Inr now, now)), br_uuid = ret ''u'', br_digest = (\<lambda>s. []), br_publicKey = (\<lambda>s. Inr ''G''),
        br_sign = (\<lambda>s m. ''ab''), br_num_string = page_num \<rparr>,
      tb_sleep = (\<lambda>ms now. (Inr (), now + ms + 28000)) \<rparr>"

definition sample_flow :: flow where
  "sample_flow = \<lparr> fl_steps = [], fl_result = None, fl_parties = None, fl_taskState = None, fl_error = None, fl_loading = False \<rparr>"

definition sample_key :: keypair where
  "sample_key = \<lparr> kp_public = ''G'', kp_secret = ''S'' \<rparr>"

lemma sample_clock: "clock_ok (sample_tab status) id"
  by (simp add: clock_ok_def sample_tab_def)

theorem poll_terminates_witness:
  "\<exists>r x. pollUntilSettled 46 (sample_tab ''COMPLETING'') ''t'' (\<lambda>seconds. patch Complete Running) (0, sample_flow) = (r, x) \<and> r \<noteq> Inr None"
  by (rule poll_terminates [OF sample_clock order_refl])

theorem start_outcome_witness:
  "\<exists>w' f'. start 46 (sample_tab ''EXPIRED'') sample_key sample_key (0, sample_flow) = (Inr True, (w', f')) \<and> \<not> fl_loading f' \<and>
    (fl_error f' = None \<and> fl_result f' \<noteq> None \<and> fl_steps f' = map (\<lambda>i. (i, Done)) STEPS \<or>
     fl_error f' \<noteq> None \<and> fl_result f' = None \<and>
       (\<exists>k < 6. fl_steps f' = zip STEPS (replicate k Done @ Failed # replicate (5 - k) Pending)))"
  by (rule start_outcome [OF sample_clock order_refl])

text \<open>The page takes the end of the wait for the settlement: after a minute and a half of \<open>COMPLETING\<close> it shows a
  complete run, with a result, though nothing has been paid.\<close>

lemma unsettled_shown_done:
  "let f = snd (snd (start 46 (sample_tab ''COMPLETING'') sample_key sample_key (0, sample_flow)))
   in fl_taskState f = Some (JStr ''COMPLETING'') \<and> progress f = 100 \<and> fl_error f = None \<and> fl_result f \<noteq> None"
  by code_simp

end
