(* ===== verification/Deploy.thy ===== *)
theory Deploy
  imports Client
begin

text \<open>
  Setting a network up by hand: \<open>utils/envFile.ts\<close>, \<open>utils/keypair.ts\<close>, \<open>services/registryDeployer.ts\<close>,
  \<open>services/smartAccountService.ts\<close> and the scripts \<open>scripts/deploy-registry.ts\<close>,
  \<open>scripts/deploy-smart-account.ts\<close> and \<open>scripts/testnet-setup.ts\<close>, with the file of the environment
  they write. The Stellar SDK, the network and other files are parameters.
\<close>

section \<open>The file of the environment\<close>

definition line_end :: "char \<Rightarrow> bool" where
  "line_end c \<longleftrightarrow> c = newline \<or> c = CHR 0x0D"

text \<open>
  The match of \<open>^KEY=.*$\<close> with the flag \<open>m\<close>, for a key without special characters: what precedes it, the
  match, and what follows.
\<close>

definition starts_with :: "string \<Rightarrow> string \<Rightarrow> bool" where
  "starts_with p s \<longleftrightarrow> take (length p) s = p"

fun env_match :: "bool \<Rightarrow> string \<Rightarrow> string \<Rightarrow> (string \<times> string \<times> string) option" where
  "env_match start key s =
     (if start \<and> starts_with (key @ ''='') s
      then Some ([], takeWhile (\<lambda>c. \<not> line_end c) s, dropWhile (\<lambda>c. \<not> line_end c) s)
      else case s of
        [] \<Rightarrow> None
      | c # cs \<Rightarrow> map_option (\<lambda>(before, match, after). (c # before, match, after)) (env_match (line_end c) key cs))"

declare env_match.simps [simp del]

text \<open>The replacement text of \<open>String.prototype.replace\<close>, where some pairs with a dollar stand for something else.\<close>

fun replacement :: "string \<Rightarrow> string \<Rightarrow> string \<Rightarrow> string \<Rightarrow> string" where
  "replacement before match after (c # d # s) =
     (if c \<noteq> CHR ''$'' then c # replacement before match after (d # s)
      else if d = CHR ''$'' then CHR ''$'' # replacement before match after s
      else if d = CHR ''&'' then match @ replacement before match after s
      else if d = CHR 0x60 then before @ replacement before match after s
      else if d = CHR 0x27 then after @ replacement before match after s
      else c # replacement before match after (d # s))"
| "replacement before match after s = s"

definition strip_newlines :: "string \<Rightarrow> string" where
  "strip_newlines s = rev (dropWhile (\<lambda>c. c = newline) (rev s))"

definition env_line :: "string \<Rightarrow> string \<Rightarrow> string" where
  "env_line key val = key @ ''='' @ val"

definition upsert_content :: "string \<Rightarrow> string \<Rightarrow> string option \<Rightarrow> string" where
  "upsert_content key val content = (case content of
      None \<Rightarrow> env_line key val @ [newline]
    | Some content \<Rightarrow> (case env_match True key content of
        Some (before, match, after) \<Rightarrow> before @ replacement before match after (env_line key val) @ after
      | None \<Rightarrow> strip_newlines content @ newline # env_line key val @ [newline]))"

text \<open>The scripts work on the network and on the file, which is there or not.\<close>

definition upsertEnvVar :: "string \<Rightarrow> string \<Rightarrow> ('w \<times> string option, unit) prog" where
  "upsertEnvVar key val = modifyE (\<lambda>(w, content). (w, Some (upsert_content key val content)))"

definition outside :: "('w, 'a) prog \<Rightarrow> ('w \<times> string option, 'a) prog" where
  "outside m = (\<lambda>(w, content). case m w of (r, w') \<Rightarrow> (r, (w', content)))"

section \<open>Key pairs and the SDK\<close>

record key_pair =
  key_public :: string
  key_secret :: string

record tx_options =
  tx_publicKey :: string
  tx_rpcUrl :: string
  tx_networkPassphrase :: network_passphrase
  tx_allowHttp :: bool
  tx_simulate :: bool

record ('w, 't) stellar_sdk =
  ss_random :: "('w, key_pair) prog"
  ss_fromSecret :: "string \<Rightarrow> exn + key_pair"
  ss_exists :: "string \<Rightarrow> ('w, bool) prog"
  ss_readFile :: "string \<Rightarrow> ('w, string) prog"
  ss_fetch :: "string \<Rightarrow> ('w, int \<times> (exn + string)) prog"
  ss_getContractInstance :: "string \<Rightarrow> bool \<Rightarrow> string \<Rightarrow> ('w, unit) prog"
  ss_buildUpload :: "string \<Rightarrow> tx_options \<Rightarrow> ('w, 't) prog"
  ss_buildDeploy :: "json option \<Rightarrow> string \<Rightarrow> tx_options \<Rightarrow> ('w, 't) prog"
  ss_sendForBytes :: "'t \<Rightarrow> bool \<Rightarrow> ('w, nat list) prog"
  ss_sendForContract :: "'t \<Rightarrow> bool \<Rightarrow> ('w, string) prog"
  ss_loadAccount :: "string \<Rightarrow> string \<Rightarrow> ('w, 't) prog"
  ss_trustUsdc :: "'t \<Rightarrow> string \<Rightarrow> key_pair \<Rightarrow> exn + 't"
  ss_submit :: "string \<Rightarrow> 't \<Rightarrow> ('w, unit) prog"

definition generateKeypair :: "('w, 't) stellar_sdk \<Rightarrow> ('w, key_pair) prog" where
  "generateKeypair sdk = ss_random sdk"

definition keypairFromSecret :: "('w, 't) stellar_sdk \<Rightarrow> string \<Rightarrow> exn + key_pair" where
  "keypairFromSecret sdk secret = ss_fromSecret sdk secret"

definition loadKeypairFromEnv :: "('w, 't) stellar_sdk \<Rightarrow> process_env \<Rightarrow> string \<Rightarrow> exn + key_pair" where
  "loadKeypairFromEnv sdk penv envVar = (case penv envVar of
      None \<Rightarrow> Inl (JsError (''Missing environment variable: '' @ envVar))
    | Some secret \<Rightarrow> if secret = [] then Inl (JsError (''Missing environment variable: '' @ envVar))
        else keypairFromSecret sdk secret)"

section \<open>Deployers\<close>

text \<open>The options of a transaction; every one is simulated.\<close>

definition tx_options_of :: "stellar_config \<Rightarrow> key_pair \<Rightarrow> tx_options" where
  "tx_options_of config signer =
     \<lparr> tx_publicKey = key_public signer, tx_rpcUrl = sc_rpcUrl config,
       tx_networkPassphrase = sc_networkPassphrase config, tx_allowHttp = sc_allowHttp config, tx_simulate = True \<rparr>"

definition uploadWasm :: "('w, 't) stellar_sdk \<Rightarrow> stellar_config \<Rightarrow> string \<Rightarrow> key_pair \<Rightarrow> ('w, string) prog" where
  "uploadWasm sdk config wasmPath admin =
     bindE (ss_readFile sdk wasmPath) (\<lambda>wasm.
     bindE (ss_buildUpload sdk wasm (tx_options_of config admin)) (\<lambda>tx.
     bindE (ss_sendForBytes sdk tx True) (\<lambda>wasmHash. ret (concat (map hex_byte wasmHash)))))"

definition createContract :: "('w, 't) stellar_sdk \<Rightarrow> stellar_config \<Rightarrow> string \<Rightarrow> key_pair \<Rightarrow> ('w, string) prog" where
  "createContract sdk config wasmHash admin =
     bindE (ss_buildDeploy sdk None wasmHash (tx_options_of config admin)) (\<lambda>tx. ss_sendForContract sdk tx False)"

definition deploy :: "('w, 't) stellar_sdk \<Rightarrow> stellar_config \<Rightarrow> string \<Rightarrow> key_pair \<Rightarrow> ('w, string) prog" where
  "deploy sdk config wasmPath admin =
     bindE (uploadWasm sdk config wasmPath admin) (\<lambda>wasmHash. createContract sdk config wasmHash admin)"

definition buildDelegatedSigner :: "string \<Rightarrow> json" where
  "buildDelegatedSigner publicKey = JObj [(''tag'', JStr ''Delegated''), (''values'', JArr [JStr publicKey])]"

definition deployForRequester :: "('w, 't) stellar_sdk \<Rightarrow> stellar_config \<Rightarrow> string \<Rightarrow> key_pair \<Rightarrow> ('w, string) prog" where
  "deployForRequester sdk config accountWasmHash requester =
     bindE (ss_buildDeploy sdk (Some (JObj [(''signers'', JArr [buildDelegatedSigner (key_public requester)])]))
       accountWasmHash (tx_options_of config requester)) (\<lambda>tx. ss_sendForContract sdk tx True)"

section \<open>The scripts\<close>

definition contractIsActive :: "('w, 't) stellar_sdk \<Rightarrow> stellar_config \<Rightarrow> string \<Rightarrow> ('w, bool) prog" where
  "contractIsActive sdk config contractId =
     catchE (bindE (ss_getContractInstance sdk (sc_rpcUrl config) (sc_allowHttp config) contractId) (\<lambda>_. ret True))
       (\<lambda>_. ret False)"

definition fund :: "('w, 't) stellar_sdk \<Rightarrow> string \<Rightarrow> string \<Rightarrow> ('w, unit) prog" where
  "fund sdk url prefix =
     bindE (ss_fetch sdk url) (\<lambda>(status, body).
     if response_ok status then ret ()
     else bindE (liftE body) (\<lambda>s. throw (JsError (prefix @ '': '' @ int_string status @ '' '' @ s))))"

text \<open>The key a script signs with: from the environment, or a new one on the network \<open>local\<close>, which is funded and kept.\<close>

definition script_key ::
  "('w, 't) stellar_sdk \<Rightarrow> process_env \<Rightarrow> stellar_config \<Rightarrow> string \<Rightarrow> ('w \<times> string option, key_pair) prog" where
  "script_key sdk penv config envVar =
     (if env_set penv envVar then liftE (loadKeypairFromEnv sdk penv envVar)
      else if sc_network config = ''local''
      then bindE (outside (generateKeypair sdk)) (\<lambda>k.
           bindE (outside (fund sdk (sc_horizonUrl config @ ''/friendbot?addr='' @ key_public k) ''Friendbot funding failed'')) (\<lambda>_.
           bindE (upsertEnvVar envVar (key_secret k)) (\<lambda>_. ret k)))
      else throw (JsError (envVar @ '' must be set to deploy on a non-local network.'')))"

text \<open>Whether there is nothing to deploy.\<close>

definition already_deployed ::
  "('w, 't) stellar_sdk \<Rightarrow> process_env \<Rightarrow> stellar_config \<Rightarrow> string \<Rightarrow> ('w \<times> string option, bool) prog" where
  "already_deployed sdk penv config envVar = (case penv envVar of
      None \<Rightarrow> ret False
    | Some existing \<Rightarrow> if existing = [] then ret False else outside (contractIsActive sdk config existing))"

text \<open>The identifier of the contract that was deployed, if one was; \<open>repo\<close> is the directory of the repository.\<close>

definition deploy_registry ::
  "('w, 't) stellar_sdk \<Rightarrow> process_env \<Rightarrow> string \<Rightarrow> ('w \<times> string option, string option) prog" where
  "deploy_registry sdk penv repo =
     (let config = loadStellarConfig penv;
          wasmPath = repo @ ''/contracts/registry/target/wasm32v1-none/release/registry.wasm''
      in bindE (already_deployed sdk penv config ''REGISTRY_CONTRACT_ID'') (\<lambda>active.
         if active then ret None
         else bindE (outside (ss_exists sdk wasmPath)) (\<lambda>there.
              if \<not> there
              then throw (JsError (''Registry WASM not found at '' @ wasmPath @ ''. Run \"npm run contracts:build\" first.''))
              else bindE (script_key sdk penv config ''ADMIN_SECRET'') (\<lambda>admin.
                   bindE (outside (deploy sdk config wasmPath admin)) (\<lambda>contractId.
                   bindE (upsertEnvVar ''REGISTRY_CONTRACT_ID'' contractId) (\<lambda>_. ret (Some contractId)))))))"

definition deploy_smart_account ::
  "boot_ext \<Rightarrow> ('w, 't) stellar_sdk \<Rightarrow> process_env \<Rightarrow> ('w \<times> string option, string option) prog" where
  "deploy_smart_account bx sdk penv =
     (let config = loadStellarConfig penv
      in bindE (already_deployed sdk penv config ''SMART_ACCOUNT_CONTRACT_ID'') (\<lambda>active.
         if active then ret None
         else if \<not> env_set penv ''ACCOUNT_WASM_HASH''
         then throw (JsError (''ACCOUNT_WASM_HASH is not set. This must be the WASM hash of an already-deployed '' @
           ''OpenZeppelin smart account contract (github.com/kalepail/smart-account-kit) '' @ em_dash @
           '' build and upload that contract on this network first, then set the hash here.''))
         else bindE (script_key sdk penv config ''REQUESTER_SECRET'') (\<lambda>requester.
              bindE (outside (deployForRequester sdk config (the (penv ''ACCOUNT_WASM_HASH'')) requester)) (\<lambda>contractId.
              bindE (upsertEnvVar ''SMART_ACCOUNT_CONTRACT_ID'' contractId) (\<lambda>_.
              if env_set penv ''USDC_ISSUER''
              then bindE (liftE (getUsdcSacContractId bx penv config)) (\<lambda>usdcSacContractId. ret (Some contractId))
              else ret (Some contractId))))))"

subsection \<open>The accounts of the test network\<close>

definition TESTNET_HORIZON_URL :: string where
  "TESTNET_HORIZON_URL = ''https://horizon-testnet.stellar.org''"

definition TESTNET_FRIENDBOT_URL :: string where
  "TESTNET_FRIENDBOT_URL = ''https://friendbot.stellar.org''"

definition TESTNET_USDC_ISSUER :: string where
  "TESTNET_USDC_ISSUER = ''GBBD47IF6LWK7P7MDEVSCWR7DPUWV3NY3DTQEVFL4NAT4AQH3ZLLFLA5''"

definition addUsdcTrustline :: "('w, 't) stellar_sdk \<Rightarrow> key_pair \<Rightarrow> ('w, unit) prog" where
  "addUsdcTrustline sdk kp =
     bindE (ss_loadAccount sdk TESTNET_HORIZON_URL (key_public kp)) (\<lambda>account.
     bindE (liftE (ss_trustUsdc sdk account TESTNET_USDC_ISSUER kp)) (\<lambda>tx.
     ss_submit sdk TESTNET_HORIZON_URL tx))"

definition loadOrCreateKeypair ::
  "('w, 't) stellar_sdk \<Rightarrow> process_env \<Rightarrow> string \<Rightarrow> ('w, key_pair \<times> bool) prog" where
  "loadOrCreateKeypair sdk penv envVar =
     (if env_set penv envVar
      then bindE (liftE (ss_fromSecret sdk (the (penv envVar)))) (\<lambda>keypair. ret (keypair, False))
      else bindE (ss_random sdk) (\<lambda>keypair. ret (keypair, True)))"

definition setUpAccount ::
  "('w, 't) stellar_sdk \<Rightarrow> process_env \<Rightarrow> string \<Rightarrow> ('w \<times> string option, key_pair \<times> bool) prog" where
  "setUpAccount sdk penv envVar =
     bindE (outside (loadOrCreateKeypair sdk penv envVar)) (\<lambda>(keypair, isNew).
     bindE (if isNew
       then bindE (outside (fund sdk (TESTNET_FRIENDBOT_URL @ ''?addr='' @ key_public keypair)
              (''Friendbot funding failed for '' @ key_public keypair))) (\<lambda>_.
            upsertEnvVar envVar (key_secret keypair))
       else ret ()) (\<lambda>_.
     bindE (catchE (outside (addUsdcTrustline sdk keypair)) (\<lambda>err. ret ())) (\<lambda>_.
     ret (keypair, isNew))))"

definition testnet_setup :: "('w, 't) stellar_sdk \<Rightarrow> process_env \<Rightarrow> ('w \<times> string option, key_pair \<times> key_pair \<times> key_pair) prog" where
  "testnet_setup sdk penv =
     bindE (setUpAccount sdk penv ''ADMIN_SECRET'') (\<lambda>(admin, _).
     bindE (upsertEnvVar ''MARKETPLACE_WALLET'' (key_public admin)) (\<lambda>_.
     bindE (setUpAccount sdk penv ''REQUESTER_SECRET'') (\<lambda>(requester, _).
     bindE (setUpAccount sdk penv ''EXECUTOR_SECRET'') (\<lambda>(executor, _).
     ret (admin, requester, executor)))))"

section \<open>What the file holds\<close>

definition file_lines :: "string option \<Rightarrow> string list" where
  "file_lines content = (case content of None \<Rightarrow> [] | Some s \<Rightarrow> js_split newline s)"

text \<open>The lines that set a variable, and the others.\<close>

definition sets :: "string \<Rightarrow> string \<Rightarrow> bool" where
  "sets key l \<longleftrightarrow> starts_with (key @ ''='') l"

definition assignments :: "string \<Rightarrow> string option \<Rightarrow> string list" where
  "assignments key content = filter (sets key) (file_lines content)"

definition other_lines :: "string \<Rightarrow> string option \<Rightarrow> string list" where
  "other_lines key content = filter (\<lambda>l. \<not> sets key l \<and> l \<noteq> []) (file_lines content)"

lemma js_split_nonempty [simp]: "js_split c s \<noteq> []"
  by (cases s) (auto split: list.splits)

lemma js_split_append: "js_split c (u @ c # v) = js_split c u @ js_split c v"
  by (induction u) (auto split: list.splits)

lemma starts_with_append [simp]: "starts_with p (p @ s)"
  by (simp add: starts_with_def)

lemma starts_with_Nil: "p \<noteq> [] \<Longrightarrow> \<not> starts_with p []"
  by (simp add: starts_with_def)

lemma starts_with_longer: "starts_with p s \<Longrightarrow> starts_with p (s @ t)"
  by (cases "length p \<le> length s") (auto simp: starts_with_def take_all)

lemma sets_Nil [simp]: "\<not> sets key []"
  by (simp add: sets_def starts_with_Nil)

lemma sets_line [simp]: "sets key (env_line key val)"
  using starts_with_append [of "key @ ''=''" val] by (simp add: sets_def env_line_def)

lemma js_split_hd: "js_split c s = hd (js_split c s) # tl (js_split c s) \<and> (\<exists>t. s = hd (js_split c s) @ t)"
  by (induction s) (auto split: list.splits)

text \<open>The lines a search looks at: all, or those after the first end of line.\<close>

definition searched :: "bool \<Rightarrow> string list \<Rightarrow> string list" where
  "searched start ls = (if start then ls else tl ls)"

lemma searched_Cons: "c \<noteq> newline \<Longrightarrow> tl (js_split newline (c # s)) = tl (js_split newline s)"
  by (cases "js_split newline s") auto

lemma env_match_None:
  assumes "CHR 0x0D \<notin> set s" "env_match start key s = None"
  shows "filter (sets key) (searched start (js_split newline s)) = []"
  using assms
proof (induction s arbitrary: start)
  case Nil
  then show ?case by (simp add: searched_def)
next
  case (Cons c s)
  have later: "env_match (line_end c) key s = None" and here: "start \<Longrightarrow> \<not> starts_with (key @ ''='') (c # s)"
    using Cons.prems(2) by (auto simp: env_match.simps [of _ _ "c # s"] split: if_splits)
  note IH = Cons.IH [OF _ later]
  show ?case
  proof (cases "c = newline")
    case True
    then show ?thesis using IH Cons.prems(1) by (auto simp: line_end_def searched_def)
  next
    case False
    then have rest: "filter (sets key) (tl (js_split newline s)) = []"
      using IH Cons.prems(1) by (auto simp: line_end_def searched_def)
    have "\<not> sets key (hd (js_split newline (c # s)))" if start
      using here [OF that] js_split_hd [of newline "c # s"] starts_with_longer by (metis sets_def)
    moreover have "js_split newline (c # s) = hd (js_split newline (c # s)) # tl (js_split newline s)"
      using js_split_hd [of newline "c # s"] searched_Cons [OF False] by metis
    ultimately have "filter (sets key) (js_split newline (c # s)) = []" if start
      using rest that by (metis filter.simps(2))
    then show ?thesis using rest searched_Cons [OF False] by (simp add: searched_def)
  qed
qed

lemma takeWhile_line: "CHR 0x0D \<notin> set s \<Longrightarrow> takeWhile (\<lambda>c. \<not> line_end c) s = takeWhile (\<lambda>c. c \<noteq> newline) s"
  by (induction s) (auto simp: line_end_def)

lemma dropWhile_line: "CHR 0x0D \<notin> set s \<Longrightarrow> dropWhile (\<lambda>c. \<not> line_end c) s = dropWhile (\<lambda>c. c \<noteq> newline) s"
  by (induction s) (auto simp: line_end_def)

lemma js_split_takeWhile: "js_split c s = takeWhile (\<lambda>x. x \<noteq> c) s # (case dropWhile (\<lambda>x. x \<noteq> c) s of [] \<Rightarrow> [] | _ # t \<Rightarrow> js_split c t)"
  by (induction s) auto

lemma env_match_Some:
  assumes "CHR 0x0D \<notin> set s" "env_match start key s = Some (before, match, after)"
  shows "s = before @ match @ after \<and> (start \<and> before = [] \<or>
      (\<exists>b. before = b @ [newline] \<and> filter (sets key) (searched start (js_split newline b)) = [])) \<and>
    newline \<notin> set match \<and> (after = [] \<or> (\<exists>a. after = newline # a)) \<and> starts_with (key @ ''='') (match @ after)"
  using assms
proof (induction s arbitrary: start before)
  case Nil
  then show ?case by (auto simp: env_match.simps [of _ _ "[]"] split: if_splits)
next
  case (Cons c s)
  show ?case
  proof (cases "start \<and> starts_with (key @ ''='') (c # s)")
    case True
    then have "before = []" "match = takeWhile (\<lambda>c. c \<noteq> newline) (c # s)" "after = dropWhile (\<lambda>c. c \<noteq> newline) (c # s)"
      using Cons.prems takeWhile_line [of "c # s"] dropWhile_line [of "c # s"]
      by (auto simp: env_match.simps [of _ _ "c # s"])
    moreover have "newline \<notin> set (takeWhile (\<lambda>c. c \<noteq> newline) (c # s))" by (auto dest: set_takeWhileD)
    moreover have "dropWhile (\<lambda>c. c \<noteq> newline) (c # s) = [] \<or> (\<exists>a. dropWhile (\<lambda>c. c \<noteq> newline) (c # s) = newline # a)"
      using hd_dropWhile [of "\<lambda>c. c \<noteq> newline" "c # s"] by (cases "dropWhile (\<lambda>c. c \<noteq> newline) (c # s)") auto
    ultimately show ?thesis using True by (simp only: takeWhile_dropWhile_id) simp
  next
    case False
    then obtain b0 where b0: "before = c # b0" "env_match (line_end c) key s = Some (b0, match, after)"
      using Cons.prems(2) by (auto simp: env_match.simps [of _ _ "c # s"])
    note IH = Cons.IH [OF _ b0(2)]
    show ?thesis
    proof (cases "c = newline")
      case True
      have "\<exists>b. newline # b0 = b @ [newline] \<and> filter (sets key) (searched start (js_split newline b)) = []"
        using IH Cons.prems(1) by (auto simp: line_end_def searched_def True intro: exI [of _ "[]"] exI [of _ "newline # _"])
      then show ?thesis using IH Cons.prems(1) b0(1) True by auto
    next
      case nl: False
      obtain b where b: "b0 = b @ [newline]" "filter (sets key) (tl (js_split newline b)) = []"
        using IH Cons.prems(1) nl by (auto simp: line_end_def searched_def)
      have s: "c # s = (c # b) @ newline # match @ after" using IH Cons.prems(1) b(1) by simp
      have "\<not> sets key (hd (js_split newline (c # b)))" if start
      proof
        assume "sets key (hd (js_split newline (c # b)))"
        then have "starts_with (key @ ''='') ((c # b) @ newline # match @ after)"
          using js_split_hd [of newline "c # b"] starts_with_longer by (metis append.assoc sets_def)
        then show False using False that s by simp
      qed
      moreover have "js_split newline (c # b) = hd (js_split newline (c # b)) # tl (js_split newline b)"
        using js_split_hd [of newline "c # b"] searched_Cons [OF nl] by metis
      ultimately have "filter (sets key) (js_split newline (c # b)) = []" if start using b(2) that by (metis filter.simps(2))
      then have "filter (sets key) (searched start (js_split newline (c # b))) = []"
        using b(2) searched_Cons [OF nl] by (simp add: searched_def)
      then have "\<exists>b'. before = b' @ [newline] \<and> filter (sets key) (searched start (js_split newline b')) = []"
        using b0(1) b(1) by (intro exI [of _ "c # b"]) simp
      then show ?thesis using IH Cons.prems(1) b0(1) by simp
    qed
  qed
qed

lemma starts_with_shorter:
  assumes "starts_with p (m @ a)" "newline \<notin> set p" "a = [] \<or> (\<exists>t. a = newline # t)"
  shows "starts_with p m"
proof (cases "length p \<le> length m \<or> a = []")
  case True
  then show ?thesis using assms(1) by (auto simp: starts_with_def)
next
  case False
  then obtain t where "a = newline # t" "p = m @ newline # take (length p - Suc (length m)) t"
    using assms(1,3) by (auto simp: starts_with_def take_Cons')
  then have "newline \<in> set p" by (metis in_set_conv_decomp)
  then show ?thesis using assms(2) by blast
qed

lemma replacement_plain: "CHR ''$'' \<notin> set s \<Longrightarrow> replacement before match after s = s"
  by (induction before match after s rule: replacement.induct) auto

lemma strip_newlines_split: "filter (\<lambda>l. l \<noteq> []) (js_split newline (strip_newlines s)) = filter (\<lambda>l. l \<noteq> []) (js_split newline s)"
proof -
  define n where "n = rev (takeWhile (\<lambda>c. c = newline) (rev s))"
  have "s = strip_newlines s @ n"
    using arg_cong [OF takeWhile_dropWhile_id, of rev "\<lambda>c. c = newline" "rev s"]
    by (simp add: strip_newlines_def n_def del: takeWhile_dropWhile_id)
  note s = this
  have "\<forall>c \<in> set n. c = newline" by (auto simp: n_def dest: set_takeWhileD)
  then have "filter (\<lambda>l. l \<noteq> []) (js_split newline (u @ n)) = filter (\<lambda>l. l \<noteq> []) (js_split newline u)" for u
  proof (induction n arbitrary: u)
    case (Cons c n)
    then have "c = newline" "\<forall>c \<in> set n. c = newline" by simp_all
    moreover have "filter (\<lambda>l. l \<noteq> []) (js_split newline n) = []" using Cons.IH [of "[]"] Cons.prems by simp
    ultimately show ?case by (simp add: js_split_append)
  qed simp
  then show ?thesis using s by metis
qed

text \<open>After an update the file has the new line in the place of the first line that set the variable, or at its end, and every
  other line as before.\<close>

theorem upsert_assignments:
  assumes "newline \<notin> set (env_line key val)" "CHR ''$'' \<notin> set (env_line key val)"
    and "\<And>s. content = Some s \<Longrightarrow> CHR 0x0D \<notin> set s"
  shows "assignments key (Some (upsert_content key val content)) = env_line key val # tl (assignments key content)"
    and "other_lines key (Some (upsert_content key val content)) = other_lines key content"
proof -
  let ?line = "env_line key val"
  have split: "js_split newline (?line @ t) = (case t of [] \<Rightarrow> [?line] | c # t' \<Rightarrow> ?line # js_split newline t')"
    if "t = [] \<or> (\<exists>t'. t = newline # t')" for t
    using assms(1) that by auto
  have both: "assignments key (Some (upsert_content key val content)) = ?line # tl (assignments key content) \<and>
    other_lines key (Some (upsert_content key val content)) = other_lines key content"
  proof (cases content)
    case None
    then show ?thesis using split [of "[newline]"]
      by (simp add: upsert_content_def assignments_def other_lines_def file_lines_def)
  next
    case (Some s)
    note cr = assms(3) [OF Some]
    show ?thesis
    proof (cases "env_match True key s")
      case None
      have none: "filter (sets key) (js_split newline s) = []" using env_match_None [OF cr None] by (simp add: searched_def)
      have stripped: "filter P (js_split newline (strip_newlines s)) = filter P (js_split newline s)" if "\<not> P []" for P
        using arg_cong [OF strip_newlines_split [of s], of "filter P"] that
        by (simp add: conj_commute) (metis (mono_tags, lifting) filter_cong)
      show ?thesis using none Some None split [of "[newline]"]
        by (simp add: upsert_content_def assignments_def other_lines_def file_lines_def js_split_append stripped)
    next
      case m: (Some bma)
      obtain before match after where bma: "bma = (before, match, after)" by (cases bma)
      note found = env_match_Some [OF cr m [unfolded bma]]
      then have old: "sets key match" and after: "after = [] \<or> (\<exists>a. after = newline # a)" and nl: "newline \<notin> set match"
        using starts_with_shorter [of "key @ ''=''" match after] assms(1) by (auto simp: sets_def env_line_def)
      define rest where "rest = (case after of [] \<Rightarrow> [] | _ # t \<Rightarrow> js_split newline t)"
      have rest: "js_split newline (l @ after) = l # rest" if "newline \<notin> set l" for l
        using after that by (auto simp: rest_def)
      obtain pre where pre: "filter (sets key) pre = []" "\<And>t. js_split newline (before @ t) = pre @ js_split newline t"
      proof (cases "before = []")
        case True
        then show ?thesis using that [of "[]"] by simp
      next
        case False
        then obtain b where b: "before = b @ [newline]" "filter (sets key) (js_split newline b) = []"
          using found by (auto simp: searched_def)
        have "js_split newline (before @ t) = js_split newline b @ js_split newline t" for t
          by (simp add: b(1) js_split_append)
        with b(2) show ?thesis by (rule that)
      qed
      moreover have "?line \<noteq> []" "match \<noteq> []" using old sets_Nil by (auto simp: env_line_def)
      moreover have "upsert_content key val content = before @ ?line @ after"
        using Some m bma replacement_plain [OF assms(2)] by (simp add: upsert_content_def)
      moreover have "s = before @ match @ after" using found by blast
      ultimately show ?thesis using Some rest [OF assms(1)] rest [OF nl] old pre
        by (simp add: assignments_def other_lines_def file_lines_def)
    qed
  qed
  from both show "assignments key (Some (upsert_content key val content)) = ?line # tl (assignments key content)" by blast
  from both show "other_lines key (Some (upsert_content key val content)) = other_lines key content" by blast
qed

text \<open>A value with \<open>$&\<close> is not stored as it is: the text of the old line is put in its place.\<close>

lemma dollar_expanded:
  "upsert_content ''K'' ''a$&'' (Some (''K=b'' @ [newline])) = ''K=aK=b'' @ [newline]"
  by code_simp

text \<open>A key that is set twice keeps its second value, the one that counts when the file is read.\<close>

lemma second_setting_stays:
  "assignments ''K'' (Some (upsert_content ''K'' ''new'' (Some (''K=a'' @ newline # ''K=b'')))) = [''K=new'', ''K=b'']"
  by code_simp

section \<open>What a deployment leaves in the file\<close>

lemma outside_content: "outside m (w, f) = (r, (w', f')) \<Longrightarrow> f' = f"
  by (auto simp: outside_def split: prod.splits)

lemma already_deployed_content:
  "already_deployed sdk penv config k (w, f) = (r, (w', f')) \<Longrightarrow> f' = f \<and> (r = Inr True \<longrightarrow> env_set penv k)"
  by (auto simp: already_deployed_def ret_apply env_set_def dest: outside_content split: option.splits if_splits)

text \<open>The key of a script: the file is as before, or a new key of the network \<open>local\<close> was written into it.\<close>

definition key_written :: "process_env \<Rightarrow> string \<Rightarrow> string option \<Rightarrow> string option \<Rightarrow> bool" where
  "key_written penv k f f' \<longleftrightarrow> f' = f \<or> (\<not> env_set penv k \<and> sc_network (loadStellarConfig penv) = ''local'' \<and>
     (\<exists>secret. f' = Some (upsert_content k secret f)))"

lemma script_key_content:
  assumes "script_key sdk penv (loadStellarConfig penv) k (w, f) = (r, (w', f'))"
  shows "key_written penv k f f'"
  using assms
  by (auto simp: script_key_def key_written_def bindE_apply liftE_apply throw_apply ret_apply upsertEnvVar_def modifyE_apply
      dest!: outside_content split: if_splits prod.splits sum.splits)

text \<open>However the script ends, the file holds the new contract exactly when one was deployed, and nothing else changes but a
  key made on the network \<open>local\<close>; with an active contract nothing changes at all.\<close>

theorem deploy_registry_file:
  assumes "deploy_registry sdk penv repo (w, f) = (r, (w', f'))"
  shows "case r of
      Inl e \<Rightarrow> key_written penv ''ADMIN_SECRET'' f f'
    | Inr None \<Rightarrow> f' = f \<and> env_set penv ''REGISTRY_CONTRACT_ID''
    | Inr (Some contractId) \<Rightarrow>
        \<exists>f1. key_written penv ''ADMIN_SECRET'' f f1 \<and> f' = Some (upsert_content ''REGISTRY_CONTRACT_ID'' contractId f1)"
proof -
  have unchanged: "key_written penv ''ADMIN_SECRET'' f f" by (simp add: key_written_def)
  show ?thesis using assms unchanged
    by (auto simp: deploy_registry_def Let_def bindE_apply throw_apply ret_apply upsertEnvVar_def modifyE_apply
        dest!: outside_content already_deployed_content script_key_content split: if_splits prod.splits sum.splits)
qed

theorem deploy_smart_account_file:
  assumes "deploy_smart_account bx sdk penv (w, f) = (Inr r, (w', f'))"
  shows "case r of
      None \<Rightarrow> f' = f \<and> env_set penv ''SMART_ACCOUNT_CONTRACT_ID''
    | Some contractId \<Rightarrow>
        \<exists>f1. key_written penv ''REQUESTER_SECRET'' f f1 \<and> f' = Some (upsert_content ''SMART_ACCOUNT_CONTRACT_ID'' contractId f1)"
  using assms
  by (auto simp: deploy_smart_account_def Let_def bindE_apply throw_apply ret_apply upsertEnvVar_def modifyE_apply liftE_apply
      dest!: outside_content already_deployed_content script_key_content split: if_splits prod.splits sum.splits)

end
