(* ===== verification/Feed.thy ===== *)
theory Feed
  imports App
begin

text \<open>
  The task feed: the ticks of \<open>services/taskFeedService.ts\<close> and the event stream of \<open>app.ts\<close> that
  writes them to every connection, with the requests of the server in between.
\<close>

section \<open>Ticks\<close>

type_synonym tick = "nat \<times> string \<times> string \<times> string"

fun tick_of :: "call \<Rightarrow> tick option" where
  "tick_of (FeedTick sequence taskId timestamp signature) = Some (sequence, taskId, timestamp, signature)"
| "tick_of _ = None"

definition ticks :: "call list \<Rightarrow> tick list" where
  "ticks l = List.map_filter tick_of l"

definition tick_json :: "tick \<Rightarrow> json" where
  "tick_json t = (case t of (sequence, taskId, timestamp, signature) \<Rightarrow> JObj
     [(''sequence'', JNum (of_nat sequence)), (''taskId'', JStr taskId), (''timestamp'', JStr timestamp),
      (''signature'', JStr signature)])"

definition tick_signed :: "ext \<Rightarrow> tick \<Rightarrow> bool" where
  "tick_signed x t \<longleftrightarrow> (case t of (sequence, taskId, timestamp, signature) \<Rightarrow>
     signature = x_sign x (nat_string sequence @ '':'' @ taskId @ '':'' @ timestamp))"

lemma ticks_simps [simp]:
  "ticks [] = []" "ticks (l @ l') = ticks l @ ticks l'"
  "ticks (c # l) = (case tick_of c of None \<Rightarrow> ticks l | Some t \<Rightarrow> t # ticks l)"
  by (simp_all add: ticks_def map_filter_def split: option.split)

section \<open>The event stream\<close>

text \<open>The listeners of the emitter, one for each open connection, and what was written to the connections.\<close>

record emitter =
  em_listeners :: "nat list"
  em_written :: "(nat \<times> string) list"

definition stream_data :: "(rat \<Rightarrow> string) \<Rightarrow> tick \<Rightarrow> string" where
  "stream_data num t = ''data: '' @ json_stringify num (tick_json t) @ [CHR 0x0A, CHR 0x0A]"

definition stream_open :: "nat \<Rightarrow> emitter \<Rightarrow> emitter" where
  "stream_open c e = e\<lparr>em_listeners := em_listeners e @ [c]\<rparr>"

definition stream_close :: "nat \<Rightarrow> emitter \<Rightarrow> emitter" where
  "stream_close c e = e\<lparr>em_listeners := remove1 c (em_listeners e)\<rparr>"

definition stream_emit :: "(rat \<Rightarrow> string) \<Rightarrow> emitter \<Rightarrow> tick \<Rightarrow> emitter" where
  "stream_emit num e t = e\<lparr>em_written := em_written e @ map (\<lambda>c. (c, stream_data num t)) (em_listeners e)\<rparr>"

text \<open>What one connection has received.\<close>

definition received :: "nat \<Rightarrow> emitter \<Rightarrow> string list" where
  "received c e = map snd (filter (\<lambda>x. fst x = c) (em_written e))"

text \<open>A server with its event stream, as long as the connection \<open>c\<close> is not closed: other connections open and close, and
  requests are served, whose ticks are written as they are published.\<close>

inductive stream_run ::
  "'a env_scheme server \<Rightarrow> nat \<Rightarrow> 'a env_scheme \<times> emitter \<Rightarrow> 'a env_scheme \<times> emitter \<Rightarrow> bool" for sv c s where
  idle: "stream_run sv c s s"
| opens: "stream_run sv c s (w, e) \<Longrightarrow> d \<notin> set (em_listeners e) \<Longrightarrow> stream_run sv c s (w, stream_open d e)"
| closes: "stream_run sv c s (w, e) \<Longrightarrow> d \<noteq> c \<Longrightarrow> stream_run sv c s (w, stream_close d e)"
| serves: "stream_run sv c s (w, e) \<Longrightarrow> serve sv rq w = (r, w') \<Longrightarrow>
    stream_run sv c s (w', foldl (stream_emit (x_num_string (w_ext w'))) e (ticks (drop (length (w_log w)) (w_log w'))))"

section \<open>What a computation publishes\<close>

text \<open>Signed ticks with the next numbers, and nothing of the log is taken back.\<close>

definition feeds :: "'a env_scheme \<Rightarrow> 'a env_scheme \<Rightarrow> bool" where
  "feeds w w' \<longleftrightarrow> w_ext w' = w_ext w \<and> w_feed_seq w \<le> w_feed_seq w' \<and> (\<exists>l. w_log w' = w_log w @ l \<and>
     map fst (ticks l) = [Suc (w_feed_seq w)..<Suc (w_feed_seq w')] \<and> list_all (tick_signed (w_ext w)) (ticks l))"

lemma upt_split: "i \<le> j \<Longrightarrow> j \<le> k \<Longrightarrow> [i..<k] = [i..<j] @ [j..<k]"
  by (metis le_Suc_ex upt_add_eq_append)

interpretation feeds: world_order feeds
proof
  fix w w1 w2 w3 :: "'a env_scheme"
  show "feeds w w" by (simp add: feeds_def)
  assume "feeds w1 w2" "feeds w2 w3"
  then obtain l l' where "w_log w2 = w_log w1 @ l" "w_log w3 = w_log w2 @ l'"
    "map fst (ticks l) = [Suc (w_feed_seq w1)..<Suc (w_feed_seq w2)]" "map fst (ticks l') = [Suc (w_feed_seq w2)..<Suc (w_feed_seq w3)]"
    "list_all (tick_signed (w_ext w1)) (ticks l)" "list_all (tick_signed (w_ext w2)) (ticks l')"
    by (auto simp: feeds_def)
  moreover have "w_ext w2 = w_ext w1" "w_ext w3 = w_ext w2" "w_feed_seq w1 \<le> w_feed_seq w2" "w_feed_seq w2 \<le> w_feed_seq w3"
    using \<open>feeds w1 w2\<close> \<open>feeds w2 w3\<close> by (simp_all add: feeds_def)
  ultimately show "feeds w1 w3"
    using upt_split [of "Suc (w_feed_seq w1)" "Suc (w_feed_seq w2)" "Suc (w_feed_seq w3)"]
    by (auto simp: feeds_def intro!: exI [of _ "l @ l'"])
qed

text \<open>A computation that leaves the feed alone.\<close>

definition off_feed :: "'a env_scheme \<Rightarrow> 'a env_scheme \<Rightarrow> bool" where
  "off_feed w w' \<longleftrightarrow> w_ext w' = w_ext w \<and> w_feed_seq w' = w_feed_seq w \<and> (\<exists>l. w_log w' = w_log w @ l \<and> ticks l = [])"

lemma off_feed_feeds: "off_feed w w' \<Longrightarrow> feeds w w'"
  by (auto simp: off_feed_def feeds_def)

lemma off_feed_evolves: "(\<And>w r w'. m w = (r, w') \<Longrightarrow> off_feed w w') \<Longrightarrow> evolves feeds m"
  by (rule evolvesI) (blast intro: off_feed_feeds)

lemma off_feed_truncate: "env.truncate w' = env.truncate w \<Longrightarrow> off_feed w w'"
  by (cases w; cases w') (simp add: off_feed_def env.defs)

lemma feeds_call: "tick_of c = None \<Longrightarrow> evolves feeds (call_ext c f)"
  by (rule off_feed_evolves) (auto simp: call_ext_def off_feed_def)

lemma feeds_now: "evolves feeds date_now"
  by (rule off_feed_evolves) (auto simp: date_now_def off_feed_def)

lemma feeds_uuid: "evolves feeds randomUUID"
  by (rule off_feed_evolves) (auto simp: randomUUID_def off_feed_def)

lemma feeds_random: "evolves feeds math_random"
  by (rule off_feed_evolves) (auto simp: math_random_def off_feed_def)

lemma feeds_if: "evolves R m \<Longrightarrow> evolves R m' \<Longrightarrow> evolves R (if b then m else m')"
  by simp

lemma feeds_publish: "evolves feeds (publishTask t)"
proof (rule evolvesI)
  fix w :: "'a env_scheme" and r w' assume "publishTask t w = (r, w')"
  then show "feeds w w'"
    by (auto simp: publishTask_def bindE_apply modifyE_apply getsE_apply date_now_def call_ext_def Let_def feeds_def tick_signed_def)
qed

lemmas feeds_rules = feeds.evolves_intros feeds_call feeds_now feeds_uuid feeds_random feeds_if feeds_publish

lemma feeds_attempts:
  assumes "evolves feeds fn" "ro_onRetry opts = None"
  shows "evolves feeds (retry_attempts opts (\<lambda>_. fn) left attempt)"
proof (induction left arbitrary: attempt)
  case (Suc left)
  then show ?case unfolding retry_attempts.simps retry_pause_def sleep_def Let_def assms(2) option.case
    by (auto intro!: feeds_rules assms(1))
qed (simp add: assms(1))

lemma feeds_withRetry:
  "evolves feeds fn \<Longrightarrow> ro_onRetry opts = None \<Longrightarrow> evolves feeds (withRetry fn opts)"
  unfolding withRetry_def by (rule feeds_attempts)

lemma feeds_getClient: "evolves feeds (getClient injected)"
proof -
  have "evolves feeds (\<lambda>w. case call_ext TwLoad (\<lambda>x. x_tw_load x) w of
      (settled, w') \<Rightarrow> (settled, w'\<lparr>w_tw_client := Some settled\<rparr>))"
    by (rule off_feed_evolves) (auto simp: call_ext_def off_feed_def)
  then show ?thesis unfolding getClient_def by (auto intro!: feeds_rules split: option.split)
qed

lemma feeds_services:
  "evolves feeds (ep_createEscrow (app_escrow c) executor taskId amount)"
  "evolves feeds (ep_releaseMilestone (app_escrow c) escrowId)"
  "evolves feeds (ep_confiscate (app_escrow c) escrowId amount pct)"
  "evolves feeds (rg_registerExecutor (app_registry c) k uri)" "evolves feeds (rg_isRegistered (app_registry c) k)"
  "evolves feeds (app_charge c k price)"
  by (auto simp: app_escrow_def mock_escrow_def trustless_work_escrow_def tw_createEscrow_def tw_releaseMilestone_def
      tw_confiscate_def app_registry_def mock_registry_def chain_registry_def registry_registerExecutor_def
      registry_isRegistered_def app_charge_def mock_charge_def chargeListingFee_def charge_attempt_def default_retry_def Let_def
      intro!: feeds_rules feeds_getClient feeds_withRetry split: option.split prod.split)

section \<open>Servers\<close>

text \<open>A server whose repositories and services leave the feed alone.\<close>

locale feed_server =
  fixes sv :: "'a env_scheme server"
  assumes task_save: "evolves feeds (tr_save (sv_tasks sv) t)"
    and task_find: "evolves feeds (tr_findById (sv_tasks sv) i)"
    and task_list: "evolves feeds (tr_list (sv_tasks sv))"
    and bid_save: "evolves feeds (br_save (sv_bids sv) b)"
    and bids_find: "evolves feeds (br_findByTaskId (sv_bids sv) i)"
    and result_upsert: "evolves feeds (rr_upsert (sv_results sv) i payload hash)"
    and result_find: "evolves feeds (rr_findByTaskId (sv_results sv) i)"
    and executor_save: "evolves feeds (er_save (sv_executors sv) x)"
    and create: "evolves feeds (ep_createEscrow (sv_escrow sv) executor taskId amount)"
    and release: "evolves feeds (ep_releaseMilestone (sv_escrow sv) escrowId)"
    and confiscate: "evolves feeds (ep_confiscate (sv_escrow sv) escrowId price pct)"
    and register: "evolves feeds (rg_registerExecutor (sv_registry sv) k uri)"
    and registered: "evolves feeds (rg_isRegistered (sv_registry sv) k)"
    and charge: "evolves feeds (sv_charge sv k reserve)"
    and emit: "sv_outbox sv = Some emitter \<Longrightarrow> evolves feeds (emitter ty aty ai j)"
begin

lemma emit_if: "evolves feeds (emit_if (sv_outbox sv) ty aty ai j)" "sv_outbox sv = Some ob \<Longrightarrow> evolves feeds (emit_if (Some ob) ty aty ai j)"
  by (auto simp: emit_if_def intro!: feeds_rules emit split: option.split)

lemmas rules = feeds_rules task_save task_find task_list bid_save bids_find result_upsert result_find executor_save
  create release confiscate register registered charge emit_if

lemma select: "evolves feeds (selectWinner (sv_tasks sv) (sv_bids sv) taskId)"
  unfolding selectWinner_def by (auto intro!: rules simp: Let_def split: option.split)

lemma saves: "evolves feeds (saveAndPublish sv input)"
  unfolding saveAndPublish_def Let_def by (auto intro!: rules)

lemma bids: "evolves feeds (bid_create sv body)"
  unfolding bid_create_def bid_place_def authorizeExecutorPayment_def Let_def
  by (auto intro!: rules select split: option.split sum.split exn.split if_split prod.split)

lemma completes: "evolves feeds (complete_assigned sv t b)"
proof (cases "sv_outbox sv")
  case None
  then show ?thesis unfolding complete_assigned_def Let_def by (auto intro!: rules)
next
  case (Some ob)
  show ?thesis unfolding complete_assigned_def Let_def Some option.case by (auto intro!: rules emit [OF Some])
qed

lemma tasks:
  "evolves feeds (task_create sv body)" "evolves feeds (task_createPaid sv body)" "evolves feeds (task_complete sv i body)"
  "evolves feeds (task_select sv i)" "evolves feeds (task_getById sv i)"
  unfolding task_create_def task_createPaid_def task_complete_def task_select_def task_getById_def Let_def
  by (auto intro!: rules saves select completes split: option.split sum.split exn.split if_split prod.split)

lemma others:
  "evolves feeds (executor_register sv body)" "evolves feeds (result_publish sv i body)" "evolves feeds (result_get sv i)"
  "evolves feeds (timeout_check sv)"
  unfolding executor_register_def save_executor_def result_publish_def result_get_def publish_result_def timeout_check_def
    timeout_runOnce_def timeout_task_def Let_def
  by (auto intro!: rules split: option.split if_split)

lemma serve: "evolves feeds (serve sv rq)"
  unfolding serve_def handled_def by (cases rq) (auto intro!: feeds_rules bids tasks others)

end

lemma feeds_query:
  assumes "\<And>w x w'. stmt w = Inr (x, w') \<Longrightarrow> env.truncate w' = env.truncate w"
  shows "evolves feeds (pg_query stmt)"
proof (rule off_feed_evolves)
  fix w :: "'a pg_world_scheme" and r w' assume "pg_query stmt w = (r, w')"
  then have "env.truncate w' = env.truncate w"
    by (rule pg_query_cases) (use assms in auto)
  then show "off_feed w w'" by (rule off_feed_truncate)
qed

lemma feeds_select: "evolves feeds (pg_select f)"
  unfolding pg_select_def by (rule feeds_query) (auto split: sum.splits)

lemma feeds_pg:
  "evolves feeds (pg_task_save t)" "evolves feeds (pg_task_findById i)" "evolves feeds pg_task_list"
  "evolves feeds (pg_bid_save b)" "evolves feeds (pg_bid_findByTaskId i)"
  "evolves feeds (pg_result_upsert i payload hash)" "evolves feeds (pg_result_findByTaskId i)"
  "evolves feeds (pg_executor_save e)" "evolves feeds (pg_outbox_insert i ty aty ai payload)"
  unfolding pg_task_save_def pg_task_findById_def pg_task_list_def pg_bid_save_def pg_bid_findByTaskId_def
    pg_result_upsert_def pg_result_findByTaskId_def pg_executor_save_def pg_outbox_insert_def
  by (intro feeds_select feeds_query; auto simp: sum_bind_def Let_def split: if_splits sum.splits option.splits)+

lemma feeds_pg_emit: "evolves feeds (pg_emit ty aty ai payload)"
  unfolding pg_emit_def by (intro feeds.evolves_bind feeds_pg feeds_uuid)

interpretation pg_feed: feed_server "pg_server c" for c
  by unfold_locales (auto simp: pg_task_repo_def pg_bid_repo_def pg_result_repo_def pg_executor_repo_def feeds_pg feeds_services feeds_pg_emit)

lemma feeds_modify: "(\<And>w. env.truncate (f w) = env.truncate w) \<Longrightarrow> evolves feeds (modifyE f)"
  by (rule off_feed_evolves) (auto simp: modifyE_apply intro: off_feed_truncate)

interpretation mem_feed: feed_server "mem_server c" for c
  by unfold_locales
    (auto simp: mem_task_repo_def mem_bid_repo_def mem_result_repo_def mem_executor_repo_def mem_task_save_def mem_task_findById_def
      mem_task_list_def mem_bid_save_def mem_bid_findByTaskId_def mem_bid_list_def mem_result_upsert_def mem_result_findByTaskId_def mem_executor_save_def
      feeds_services intro!: feeds_rules feeds_modify)

section \<open>Properties\<close>

lemma received_emit:
  "distinct (em_listeners e) \<Longrightarrow> received c (stream_emit num e t) =
     received c e @ (if c \<in> set (em_listeners e) then [stream_data num t] else [])"
proof -
  have "map snd (filter (\<lambda>x. fst x = c) (map (\<lambda>c. (c, l)) ds)) = (if c \<in> set ds then [l] else [])"
    if "distinct ds" for ds :: "nat list" and l :: string
    using that by (induction ds) auto
  then show "distinct (em_listeners e) \<Longrightarrow> ?thesis" by (simp add: received_def stream_emit_def)
qed

lemma received_all:
  assumes "distinct (em_listeners e)" "c \<in> set (em_listeners e)"
  shows "received c (foldl (stream_emit num) e ts) = received c e @ map (stream_data num) ts \<and>
    em_listeners (foldl (stream_emit num) e ts) = em_listeners e"
  using assms
proof (induction ts arbitrary: e)
  case (Cons t ts)
  have "em_listeners (stream_emit num e t) = em_listeners e" by (simp add: stream_emit_def)
  then show ?case using Cons.IH [of "stream_emit num e t"] Cons.prems received_emit [OF Cons.prems(1)] by simp
qed simp

context feed_server
begin

lemma stream_received:
  assumes "stream_run sv c (w, e) s" "distinct (em_listeners e)" "c \<in> set (em_listeners e)"
  shows "distinct (em_listeners (snd s)) \<and> c \<in> set (em_listeners (snd s)) \<and> feeds w (fst s) \<and>
    received c (snd s) = received c e @ map (stream_data (x_num_string (w_ext w))) (ticks (drop (length (w_log w)) (w_log (fst s))))"
  using assms(1)
proof (induction rule: stream_run.induct)
  case idle
  then show ?case using assms(2,3) by (simp add: feeds.refl)
next
  case (opens w1 e1 d)
  then show ?case by (auto simp: stream_open_def received_def)
next
  case (closes w1 e1 d)
  then show ?case by (auto simp: stream_close_def received_def distinct_remove1)
next
  case (serves w1 e1 rq r w2)
  have step: "feeds w1 w2" by (rule evolvesD [OF serve serves.hyps(2)])
  have feeds: "feeds w w1" "feeds w w2" using serves.IH feeds.trans [OF _ step] by auto
  obtain l l' where logs: "w_log w1 = w_log w @ l" "w_log w2 = w_log w1 @ l'"
    using feeds(1) step by (auto simp: feeds_def)
  have "x_num_string (w_ext w2) = x_num_string (w_ext w)" using feeds(2) by (simp add: feeds_def)
  then show ?case using serves.IH feeds(2) received_all [of e1 c] logs by simp
qed

lemma feed_all:
  assumes "stream_run sv c (w, stream_open c e) (w', e')" "distinct (em_listeners e)" "c \<notin> set (em_listeners e)"
  shows "\<exists>new. received c e' = received c e @ map (stream_data (x_num_string (w_ext w))) new \<and>
    map fst new = [Suc (w_feed_seq w)..<Suc (w_feed_seq w')] \<and> list_all (tick_signed (w_ext w)) new"
proof -
  have "distinct (em_listeners (stream_open c e))" "c \<in> set (em_listeners (stream_open c e))"
    "received c (stream_open c e) = received c e" using assms(2,3) by (simp_all add: stream_open_def received_def)
  then have "feeds w w'" "received c e' = received c e @
      map (stream_data (x_num_string (w_ext w))) (ticks (drop (length (w_log w)) (w_log w')))"
    using stream_received [OF assms(1)] by auto
  then show ?thesis by (auto simp: feeds_def)
qed

end

text \<open>C40. Whoever listens to the feed misses nothing: as long as a connection is open, whatever requests the server answers and
  whatever other connections do, it receives every tick published since it was opened, once and in order: the sequence
  numbers are consecutive, and each tick is signed with the key of the feed.\<close>

theorem feed_complete:
  assumes "stream_run (pg_server config) c (w, stream_open c e) (w', e')" "distinct (em_listeners e)" "c \<notin> set (em_listeners e)"
  shows "\<exists>new. received c e' = received c e @ map (stream_data (x_num_string (w_ext w))) new \<and>
    map fst new = [Suc (w_feed_seq w)..<Suc (w_feed_seq w')] \<and> list_all (tick_signed (w_ext w)) new"
  using assms by (rule pg_feed.feed_all)

text \<open>So it is on the in-memory server.\<close>

lemma feed_complete_mem:
  assumes "stream_run (mem_server config) c (w, stream_open c e) (w', e')" "distinct (em_listeners e)" "c \<notin> set (em_listeners e)"
  shows "\<exists>new. received c e' = received c e @ map (stream_data (x_num_string (w_ext w))) new \<and>
    map fst new = [Suc (w_feed_seq w)..<Suc (w_feed_seq w')] \<and> list_all (tick_signed (w_ext w)) new"
  using assms by (rule mem_feed.feed_all)

text \<open>The witness: a task is created, while a second connection opens and closes.\<close>

definition silent :: emitter where
  "silent = \<lparr> em_listeners = [], em_written = [] \<rparr>"

lemma paid_task_ticks:
  "\<exists>r w'. serve (pg_server sample_config) (CreatePaidTask (Some paid_body)) (sample_pg [] [] (\<lambda>n. None)) = (r, w') \<and> w_feed_seq w' = 1"
proof -
  have price: "parseUsdcDecimalToStroops (formatUsdcStroopsToDecimal 10000000) = Inr 10000000"
    using parse_format_nat [of 10000000] by simp
  show ?thesis using paid_body_valid price
    by (simp add: serve_def handled_def task_createPaid_def sample_config_def pg_server_def saveAndPublish_def publishTask_def
        bindE_apply catchE_apply liftE_apply getsE_apply modifyE_apply ret_apply date_now_def randomUUID_def call_ext_def Let_def
        sample_pg_def emit_if_def pg_emit_def pg_task_save_def pg_outbox_insert_def pg_query_def
        sql_uuid_def sql_bigint_def sql_timestamptz_def sql_jsonb_def sum_bind_def sample_time_def)
qed

theorem feed_complete_witness:
  "\<exists>(w' :: pg_world) e' t. stream_run (pg_server sample_config) 1 (sample_pg [] [] (\<lambda>n. None), stream_open 1 silent) (w', e') \<and>
    received 1 e' = [stream_data (\<lambda>n. ''0'') t] \<and> fst t = 1 \<and> tick_signed sample_ext t"
proof -
  let ?w = "sample_pg [] [] (\<lambda>n. None)" and ?sv = "pg_server sample_config"
  obtain r w' where served: "serve ?sv (CreatePaidTask (Some paid_body)) ?w = (r, w')" "w_feed_seq w' = 1"
    using paid_task_ticks by blast
  have open2: "stream_run ?sv 1 (?w, stream_open 1 silent) (?w, stream_open 2 (stream_open 1 silent))"
    by (rule stream_run.opens [OF stream_run.idle]) (simp add: stream_open_def silent_def)
  obtain e1 where "stream_run ?sv 1 (?w, stream_open 1 silent) (w', e1)"
    using stream_run.serves [OF open2 served(1)] by blast
  then have run: "stream_run ?sv 1 (?w, stream_open 1 silent) (w', stream_close 2 e1)"
    by (rule stream_run.closes) simp
  have "w_feed_seq ?w = 0" "w_ext ?w = sample_ext" "x_num_string sample_ext = (\<lambda>n. ''0'')"
    "received 1 silent = []" "distinct (em_listeners silent)" "1 \<notin> set (em_listeners silent)"
    by (simp_all add: sample_pg_def sample_ext_def silent_def received_def)
  note facts = this
  obtain new where "received 1 (stream_close 2 e1) = received 1 silent @ map (stream_data (x_num_string (w_ext ?w))) new"
    "map fst new = [Suc (w_feed_seq ?w)..<Suc (w_feed_seq w')]" "list_all (tick_signed (w_ext ?w)) new"
    using feed_complete [OF run facts(5,6)] by blast
  then have new: "received 1 (stream_close 2 e1) = map (stream_data (\<lambda>n. ''0'')) new" "map fst new = [1..<2]"
    "list_all (tick_signed sample_ext) new"
    unfolding facts(1-4) served(2) by (simp_all add: numeral_2_eq_2)
  then obtain t where "new = [t]" "fst t = 1" by (auto simp: upt_rec)
  with new run show ?thesis by (intro exI [of _ w'] exI [of _ "stream_close 2 e1"] exI [of _ t]) simp
qed

end
